(* ===== verification/NW_Prelude.thy ===== *)
theory NW_Prelude
  imports Complex_Main "HOL-Library.Multiset" "HOL-Library.Sublist"
begin

text \<open>
  Shared vocabulary of the development: the types that stand for JavaScript's
  primitive values, the parts of the language's standard library the sources
  use (rounding, string and array methods, time-stepped loops over \<open>Date\<close>
  objects), the collections of simplification rules the component theories fill,
  and generic lemmas on lists.

  A JavaScript \<open>number\<close> that carries a physical quantity (an elevation, a
  power in dB, a frequency) is a \<^typ>\<open>real\<close>: rounding of floating-point
  arithmetic is not modelled.  A \<open>Date\<close> is the integer number of
  milliseconds that \<open>getTime()\<close> returns.  A thrown \<open>Error\<close> is the
  \<open>Inl\<close> of a sum, carrying the message.
\<close>

section \<open>Types and rule collections\<close>

type_synonym number = real
type_synonym date = int
type_synonym 'a throwing = "string + 'a"

named_theorems nw_defs \<open>definitions unfolded by the component proofs\<close>
named_theorems nw_inv \<open>preservation of component invariants\<close>

section \<open>Rounding\<close>

definition js_round :: "number \<Rightarrow> int" where
  "js_round x = \<lfloor>x + 1 / 2\<rfloor>"

lemma js_round_of_int [simp]: "js_round (of_int n) = n"
  unfolding js_round_def by linarith

lemma js_round_mono: "x \<le> y \<Longrightarrow> js_round x \<le> js_round y"
  unfolding js_round_def by (rule floor_mono) simp

section \<open>Array access\<close>

text \<open>
  \<open>xs[i]\<close> is \<open>undefined\<close> out of range; the sources guard it with
  \<open>??\<close>, so a read is an option.
\<close>

definition elem_at :: "'a list \<Rightarrow> int \<Rightarrow> 'a option" where
  "elem_at xs i = (if 0 \<le> i \<and> i < int (length xs) then Some (xs ! nat i) else None)"

definition first :: "'a list \<Rightarrow> 'a option" where
  "first xs = (case xs of [] \<Rightarrow> None | x # _ \<Rightarrow> Some x)"

lemma first_simps [simp]: "first [] = None" "first (x # xs) = Some x"
  by (simp_all add: first_def)

lemma first_eq_SomeD: "first xs = Some x \<Longrightarrow> x \<in> set xs"
  by (cases xs) auto

lemma first_eq_None [simp]: "first xs = None \<longleftrightarrow> xs = []"
  by (cases xs) auto

definition or_else :: "'a option \<Rightarrow> 'a \<Rightarrow> 'a" where
  "or_else m d = (case m of None \<Rightarrow> d | Some x \<Rightarrow> x)"

lemma or_else_simps [simp]: "or_else None d = d" "or_else (Some x) d = x"
  by (simp_all add: or_else_def)

lemma elem_at_nat: "elem_at xs (int k) = (if k < length xs then Some (xs ! k) else None)"
  by (simp add: elem_at_def)

lemma elem_at_in_set: "elem_at xs i = Some x \<Longrightarrow> x \<in> set xs"
  by (auto simp: elem_at_def split: if_splits)

section \<open>Loops over a mutable Date\<close>

text \<open>
  The sources share one loop shape:
  \<^verbatim>\<open>
  const current = new Date(start)
  while (current <= end) { ...; current.setSeconds(current.getSeconds() + step) }
  \<close>
  \<open>date_loop\<close> is that loop over a state; \<open>None\<close> is a loop that never
  ends.  \<open>setSeconds\<close> is addition of milliseconds: the station's clock is taken
  to run in a zone of constant offset, such as the UTC of the container images.
\<close>

partial_function (option) date_loop ::
  "int \<Rightarrow> date \<Rightarrow> (date \<Rightarrow> 's \<Rightarrow> 's) \<Rightarrow> date \<Rightarrow> 's \<Rightarrow> 's option" where
  "date_loop step endTime body current s =
     (if current \<le> endTime then date_loop step endTime body (current + step) (body current s)
      else Some s)"

definition setSeconds_add :: "date \<Rightarrow> int \<Rightarrow> date" where
  "setSeconds_add t secs = t + secs * 1000"

text \<open>The instants the loop visits.\<close>

function grid :: "int \<Rightarrow> date \<Rightarrow> date \<Rightarrow> date list" where
  "grid step endTime t = (if 0 < step \<and> t \<le> endTime then t # grid step endTime (t + step) else [])"
  by pat_completeness auto
termination
  by (relation "measure (\<lambda>(step, e, t). nat (e + 1 - t))") auto

declare grid.simps [simp del]

lemma date_loop_grid:
  "0 < step \<Longrightarrow> date_loop step e body t s = Some (fold body (grid step e t) s)"
proof (induction step e t arbitrary: s rule: grid.induct)
  case (1 step e t)
  show ?case
  proof (cases "t \<le> e")
    case True
    with "1.IH" "1.prems" show ?thesis
      by (simp add: date_loop.simps [of step e body t s] grid.simps [of step e t])
  next
    case False
    then show ?thesis
      by (simp add: date_loop.simps [of step e body t s] grid.simps [of step e t])
  qed
qed

lemma grid_member:
  "0 < step \<Longrightarrow> u \<in> set (grid step e t) \<longleftrightarrow> t \<le> u \<and> u \<le> e \<and> step dvd (u - t)"
proof (induction step e t rule: grid.induct)
  case (1 step e t)
  show ?case
  proof (cases "t \<le> e")
    case True
    have dv: "step dvd (u - (t + step)) \<longleftrightarrow> step dvd (u - t)"
      using dvd_add_left_iff [of step step "u - (t + step)"] by simp
    have low: "t + step \<le> u" if "t \<le> u" "u \<noteq> t" "step dvd (u - t)"
      using that zdvd_imp_le [of step "u - t"] by linarith
    have "u \<in> set (grid step e t) \<longleftrightarrow> u = t \<or> u \<in> set (grid step e (t + step))"
      using True "1.prems" by (subst grid.simps) simp
    also have "\<dots> \<longleftrightarrow> u = t \<or> (t + step \<le> u \<and> u \<le> e \<and> step dvd (u - t))"
      using True "1.IH" "1.prems" dv by simp
    also have "\<dots> \<longleftrightarrow> t \<le> u \<and> u \<le> e \<and> step dvd (u - t)"
      using True "1.prems" low by auto
    finally show ?thesis .
  next
    case False
    then show ?thesis by (subst grid.simps) auto
  qed
qed

lemma grid_Cons: "0 < step \<Longrightarrow> t \<le> e \<Longrightarrow> grid step e t = t # grid step e (t + step)"
  by (subst grid.simps) simp

lemma grid_Nil: "e < t \<Longrightarrow> grid step e t = []"
  by (subst grid.simps) simp

lemma grid_sorted: "0 < step \<Longrightarrow> sorted_wrt (<) (grid step e t)"
proof (induction step e t rule: grid.induct)
  case (1 step e t)
  show ?case
  proof (cases "t \<le> e")
    case True
    with 1 show ?thesis by (simp add: grid_Cons grid_member)
  qed (simp add: grid_Nil)
qed

lemma grid_append:
  assumes "0 < step" "m \<in> set (grid step e t)"
  shows "grid step e t = grid step (m - step) t @ grid step e m"
  using assms
proof (induction step e t rule: grid.induct)
  case (1 step e t)
  have mem: "t \<le> m" "m \<le> e" "step dvd (m - t)"
    using "1.prems" grid_member by auto
  show ?case
  proof (cases "m = t")
    case True
    then show ?thesis using "1.prems" by (simp add: grid_Nil)
  next
    case False
    then have le: "t \<le> m - step"
      using mem zdvd_imp_le [of step "m - t"] by linarith
    have "m \<in> set (grid step e (t + step))"
      using "1.prems" False mem by (simp add: grid_Cons)
    then have "grid step e (t + step) = grid step (m - step) (t + step) @ grid step e m"
      using "1.IH" "1.prems" mem by simp
    with "1.prems" mem le show ?thesis by (simp add: grid_Cons)
  qed
qed

text \<open>An invariant indexed by the next instant to visit carries over the whole loop.\<close>

lemma grid_fold_invar:
  assumes "0 < step" "I t s"
    and "\<And>u s. t \<le> u \<Longrightarrow> u \<le> e \<Longrightarrow> step dvd (u - t) \<Longrightarrow> I u s \<Longrightarrow> I (u + step) (body u s)"
  shows "\<exists>u > e. t \<le> u \<and> step dvd (u - t) \<and> I u (fold body (grid step e t) s)"
  using assms
proof (induction step e t arbitrary: s rule: grid.induct)
  case (1 step e t)
  show ?case
  proof (cases "t \<le> e")
    case True
    have I1: "I (t + step) (body t s)"
      using "1.prems" True by auto
    have dv: "step dvd (u - t)" if "step dvd (u - (t + step))" for u
      using that dvd_add_left_iff [of step step "u - (t + step)"] by simp
    have pres: "I (u + step) (body u s)"
      if "t + step \<le> u" "u \<le> e" "step dvd (u - (t + step))" "I u s" for u s
      using that "1.prems" dv by auto
    from "1.IH" [OF _ "1.prems"(1) I1 pres] True "1.prems"(1)
    obtain u where "u > e" "t + step \<le> u" "step dvd (u - (t + step))"
      "I u (fold body (grid step e (t + step)) (body t s))" by blast
    with dv True "1.prems"(1) show ?thesis
      by (intro exI [of _ u]) (auto simp: grid_Cons)
  next
    case False
    then show ?thesis using "1.prems" by (intro exI [of _ t]) (auto simp: grid_Nil)
  qed
qed

section \<open>Stable sorting by a numeric key\<close>

text \<open>
  \<open>Array.prototype.sort\<close> with the comparator \<open>a.key - b.key\<close> is a stable
  sort, which is \<^const>\<open>sort_key\<close>.
\<close>

lemma sort_key_sorted_wrt: "sorted_wrt (\<lambda>a b. f a \<le> f b) (sort_key f xs)"
  using sorted_sort_key [of f xs] by (simp add: sorted_map)

section \<open>Strings\<close>

text \<open>
  The string methods the sources call, on \<^typ>\<open>string\<close>.  White space
  (\<open>\\s\<close> and \<open>trim\<close>) and case are those of ASCII.
\<close>

definition is_ws :: "char \<Rightarrow> bool" where
  "is_ws c \<longleftrightarrow> c = CHR '' '' \<or> c = CHR 0x09 \<or> c = CHR 0x0A \<or> c = CHR 0x0B \<or> c = CHR 0x0C \<or> c = CHR 0x0D"

definition is_digit :: "char \<Rightarrow> bool" where
  "is_digit c \<longleftrightarrow> (48 :: nat) \<le> of_char c \<and> of_char c \<le> (57 :: nat)"

definition digit_value :: "char \<Rightarrow> nat" where
  "digit_value c = of_char c - 48"

definition to_lower_char :: "char \<Rightarrow> char" where
  "to_lower_char c =
     (if (65 :: nat) \<le> of_char c \<and> of_char c \<le> (90 :: nat) then char_of (of_char c + 32 :: nat) else c)"

definition js_toLowerCase :: "string \<Rightarrow> string" where
  "js_toLowerCase s = map to_lower_char s"

definition js_trim :: "string \<Rightarrow> string" where
  "js_trim s = rev (dropWhile is_ws (rev (dropWhile is_ws s)))"

definition js_startsWith :: "string \<Rightarrow> string \<Rightarrow> bool" where
  "js_startsWith s p \<longleftrightarrow> prefix p s"

definition js_endsWith :: "string \<Rightarrow> string \<Rightarrow> bool" where
  "js_endsWith s p \<longleftrightarrow> suffix p s"

definition js_includes :: "string \<Rightarrow> string \<Rightarrow> bool" where
  "js_includes s p \<longleftrightarrow> sublist p s"

definition NL :: char where
  "NL = CHR 0x0A"

fun js_split :: "char \<Rightarrow> string \<Rightarrow> string list" where
  "js_split c [] = [[]]"
| "js_split c (x # xs) =
     (if x = c then [] # js_split c xs
      else (case js_split c xs of [] \<Rightarrow> [[x]] | w # ws \<Rightarrow> (x # w) # ws))"

fun js_join :: "string \<Rightarrow> string list \<Rightarrow> string" where
  "js_join sep [] = []"
| "js_join sep [w] = w"
| "js_join sep (w # ws) = w @ sep @ js_join sep ws"

text \<open>\<open>s.replace(/\\s+/g, r)\<close>\<close>

function js_replace_ws :: "string \<Rightarrow> string \<Rightarrow> string" where
  "js_replace_ws r [] = []"
| "js_replace_ws r (c # cs) =
     (if is_ws c then r @ js_replace_ws r (dropWhile is_ws cs) else c # js_replace_ws r cs)"
  by pat_completeness auto
termination
  by (relation "measure (\<lambda>(r, s). length s)") (auto simp: length_dropWhile_le le_imp_less_Suc)

text \<open>\<open>s.replace(from, to)\<close> with a one-character pattern: the first occurrence only.\<close>

fun js_replace_first :: "char \<Rightarrow> string \<Rightarrow> string \<Rightarrow> string" where
  "js_replace_first c r [] = []"
| "js_replace_first c r (x # xs) = (if x = c then r @ xs else x # js_replace_first c r xs)"

definition parse_digits :: "string \<Rightarrow> nat" where
  "parse_digits ds = foldl (\<lambda>n d. 10 * n + digit_value d) 0 ds"

fun show_nat :: "nat \<Rightarrow> string" where
  "show_nat n = (if n < 10 then [char_of (48 + n)] else show_nat (n div 10) @ [char_of (48 + n mod 10)])"

declare show_nat.simps [simp del]

definition show_int :: "int \<Rightarrow> string" where
  "show_int n = (if n < 0 then ''-'' else []) @ show_nat (nat \<bar>n\<bar>)"

definition js_padStart :: "nat \<Rightarrow> char \<Rightarrow> string \<Rightarrow> string" where
  "js_padStart n c s = replicate (n - length s) c @ s"

lemma js_split_nonempty [simp]: "js_split c s \<noteq> []"
  by (induction s) (auto split: list.splits)

lemma js_split_no_sep: "c \<notin> set s \<Longrightarrow> js_split c s = [s]"
  by (induction s) auto

lemma js_split_append: "c \<notin> set w \<Longrightarrow> js_split c (w @ c # s) = w # js_split c s"
  by (induction w) auto

lemma js_split_join:
  "ws \<noteq> [] \<Longrightarrow> \<forall>w \<in> set ws. c \<notin> set w \<Longrightarrow> js_split c (js_join [c] ws) = ws"
proof (induction "[c]" ws rule: js_join.induct)
  case (2 w)
  then show ?case by (simp add: js_split_no_sep)
next
  case (3 w v vs)
  then show ?case by (simp add: js_split_append)
qed simp

lemma js_join_split: "js_join [c] (js_split c s) = s"
proof (induction s)
  case (Cons x xs)
  then show ?case
    by (cases "js_split c xs"; cases "tl (js_split c xs)") (auto simp: neq_Nil_conv split: list.splits)
qed simp

lemma js_split_parts: "w \<in> set (js_split c s) \<Longrightarrow> c \<notin> set w"
proof (induction s arbitrary: w)
  case (Cons x xs)
  then show ?case by (auto split: if_splits list.splits)
qed simp

lemma js_replace_ws_none: "\<forall>c \<in> set s. \<not> is_ws c \<Longrightarrow> js_replace_ws r s = s"
  by (induction s) auto

lemma is_digit_show: "\<forall>c \<in> set (show_nat n). is_digit c"
proof (induction n rule: show_nat.induct)
  case (1 n)
  show ?case
  proof (cases "n < 10")
    case True
    then show ?thesis by (simp add: show_nat.simps [of n] is_digit_def)
  next
    case False
    with 1 show ?thesis by (auto simp: show_nat.simps [of n] is_digit_def)
  qed
qed

lemma parse_digits_snoc: "parse_digits (ds @ [d]) = 10 * parse_digits ds + digit_value d"
  by (simp add: parse_digits_def)

lemma parse_show_nat: "parse_digits (show_nat n) = n"
proof (induction n rule: show_nat.induct)
  case (1 n)
  show ?case
  proof (cases "n < 10")
    case True
    then show ?thesis by (simp add: show_nat.simps [of n] parse_digits_def digit_value_def)
  next
    case False
    with 1 show ?thesis
      by (simp add: show_nat.simps [of n] parse_digits_snoc digit_value_def)
  qed
qed

lemma show_nat_inj: "show_nat m = show_nat n \<Longrightarrow> m = n"
  by (metis parse_show_nat)

lemma show_int_inj: "show_int m = show_int n \<Longrightarrow> m = n"
proof -
  have d: "show_nat k \<noteq> CHR ''-'' # s" for k s
    using is_digit_show [of k] by (auto simp: is_digit_def)
  show "show_int m = show_int n \<Longrightarrow> m = n"
    using d [of "nat m"] d [of "nat n"] not_sym [OF d [of "nat m"]] not_sym [OF d [of "nat n"]]
    by (auto simp: show_int_def dest!: show_nat_inj split: if_splits)
qed

end
