(* ===== verification/NW_Types.thy ===== *)
theory NW_Types
  imports NW_Prelude
begin

text \<open>
  The shared data types of \<open>src/backend/types.ts\<close> and the constant tables of
  \<open>src/backend/satellites/constants.ts\<close>.  Every interface is a record whose
  fields carry a prefix (HOL has one name space for selectors), every string union a
  datatype, an optional or nullable field an option.
\<close>

section \<open>src/backend/types.ts\<close>

record Coordinates =
  co_latitude :: number
  co_longitude :: number
  co_altitude :: number

datatype SignalType = Sstv | Lrpt

datatype DemodulationType = Fm | Am | Ssb

record SignalConfig =
  sc_type :: SignalType
  sc_bandwidth :: number
  sc_sampleRate :: number
  sc_demodulation :: DemodulationType

record SatelliteInfo =
  sat_name :: string
  sat_noradId :: int
  sat_frequency :: number
  sat_signalType :: SignalType
  sat_signalConfig :: SignalConfig
  sat_enabled :: bool
  sat_eventBased :: "bool option"

record TwoLineElement =
  tle_name :: string
  tle_line1 :: string
  tle_line2 :: string

text \<open>
  The time stamp of a position is a reference to a \<open>Date\<close> object in
  some of the code paths, so its type is a parameter of the record.
\<close>

record 'd SatellitePosition =
  pos_azimuth :: number
  pos_elevation :: number
  pos_rangeSat :: number
  pos_timestamp :: 'd

record SatelliteGeolocation =
  geo_noradId :: int
  geo_name :: string
  geo_latitude :: number
  geo_longitude :: number
  geo_altitude :: number
  geo_signalType :: SignalType

record GroundTrackPoint =
  gp_lat :: number
  gp_lng :: number

record GroundTrack =
  gt_noradId :: int
  gt_name :: string
  gt_signalType :: SignalType
  gt_points :: "GroundTrackPoint list"

record GlobeState =
  gs_satellites :: "SatelliteGeolocation list"
  gs_groundTracks :: "GroundTrack list"
  gs_station :: "number \<times> number"

record SatellitePass =
  pass_satellite :: SatelliteInfo
  pass_aos :: date
  pass_los :: date
  pass_maxElevation :: number
  pass_maxElevationTime :: date
  pass_duration :: number

record 'd DopplerPoint =
  dp_timestamp :: 'd
  dp_frequency :: number
  dp_shift :: number

record 'd DopplerData =
  dd_points :: "'d DopplerPoint list"
  dd_maxShift :: number
  dd_minShift :: number

record 'd PassPrediction =
  pp_pass :: SatellitePass
  pp_positions :: "'d SatellitePosition list"
  pp_doppler :: "'d DopplerData option"

record CaptureResult =
  cr_satellite :: SatelliteInfo
  cr_recordingPath :: string
  cr_imagePaths :: "string list"
  cr_startTime :: date
  cr_endTime :: date
  cr_maxSignalStrength :: number
  cr_success :: bool
  cr_error :: "string option"

datatype LogLevel = Debug | Info | Warn | Error

datatype ServiceMode = Full | SdrRelay | Server

record ReceiverConfig =
  rc_serviceMode :: ServiceMode
  rc_sdrRelay_url :: "string option"
  rc_sdrRelay_port :: number
  rc_sdrRelay_host :: string
  rc_station :: Coordinates
  rc_sdr_gain :: number
  rc_sdr_sampleRate :: number
  rc_sdr_ppmCorrection :: number
  rc_minElevation :: number
  rc_minSignalStrength :: number
  rc_skipSignalCheck :: bool
  rc_recordingsDir :: string
  rc_imagesDir :: string
  rc_tle_updateIntervalHours :: number
  rc_web_port :: number
  rc_web_host :: string
  rc_database_path :: string
  rc_logLevel :: LogLevel
  rc_issSstvEnabled :: bool

datatype SystemStatus = Idle | Waiting | Capturing | Decoding | Scanning

record SystemState =
  st_status :: SystemStatus
  st_currentPass :: "SatellitePass option"
  st_nextPass :: "SatellitePass option"
  st_upcomingPasses :: "SatellitePass list"
  st_captureProgress :: number
  st_captureElapsed :: number
  st_captureTotal :: number
  st_lastUpdate :: date
  st_scanningFrequency :: "number option"
  st_scanningFrequencyName :: "string option"

datatype StateEvent =
    status_change SystemStatus
  | pass_start SatellitePass
  | pass_complete CaptureResult
  | capture_progress number number number
  | passes_updated "SatellitePass list"
  | satellite_positions GlobeState
  | scanning_frequency number string

text \<open>The signal type of a history entry is the text of a database column, which the code
  casts without a check.\<close>

record CaptureHistoryEntry =
  che_id :: int
  che_passId :: string
  che_satelliteName :: string
  che_satelliteNoradId :: int
  che_frequency :: number
  che_signalType :: string
  che_aosTime :: string
  che_losTime :: string
  che_maxElevation :: number
  che_durationSeconds :: int
  che_recordingPath :: "string option"
  che_startTime :: string
  che_endTime :: "string option"
  che_maxSignalStrength :: "number option"
  che_success :: bool
  che_errorMessage :: "string option"
  che_createdAt :: string
  che_imagePaths :: "string list"

record SSTVEvent =
  ev_id :: string
  ev_name :: string
  ev_startTime :: date
  ev_endTime :: date
  ev_modes :: "string list"
  ev_active :: bool

datatype SSTVActivity = SIdle | SCapturing | SScanning

record SSTVStatus =
  ss_enabled :: bool
  ss_manualEnabled :: bool
  ss_groundScanEnabled :: bool
  ss_status :: SSTVActivity
  ss_activeEvent :: "SSTVEvent option"
  ss_upcomingEvents :: "SSTVEvent list"

section \<open>src/backend/satellites/constants.ts\<close>

definition SIGNAL_CONFIGS :: "SignalType \<Rightarrow> SignalConfig" where
  "SIGNAL_CONFIGS t = (case t of
     Sstv \<Rightarrow> \<lparr>sc_type = Sstv, sc_bandwidth = 3000, sc_sampleRate = 48000, sc_demodulation = Fm\<rparr>
   | Lrpt \<Rightarrow> \<lparr>sc_type = Lrpt, sc_bandwidth = 120000, sc_sampleRate = 1024000, sc_demodulation = Fm\<rparr>)"

definition ISS :: SatelliteInfo where
  "ISS = \<lparr>sat_name = ''ISS'', sat_noradId = 25544, sat_frequency = 145800000,
     sat_signalType = Sstv, sat_signalConfig = SIGNAL_CONFIGS Sstv,
     sat_enabled = False, sat_eventBased = Some True\<rparr>"

definition METEOR_M_N2_3 :: SatelliteInfo where
  "METEOR_M_N2_3 = \<lparr>sat_name = ''METEOR-M N2-3'', sat_noradId = 57166, sat_frequency = 137900000,
     sat_signalType = Lrpt, sat_signalConfig = SIGNAL_CONFIGS Lrpt,
     sat_enabled = True, sat_eventBased = None\<rparr>"

definition METEOR_M_N2_4 :: SatelliteInfo where
  "METEOR_M_N2_4 = \<lparr>sat_name = ''METEOR-M N2-4'', sat_noradId = 59051, sat_frequency = 137900000,
     sat_signalType = Lrpt, sat_signalConfig = SIGNAL_CONFIGS Lrpt,
     sat_enabled = True, sat_eventBased = None\<rparr>"

definition SATELLITES :: "SatelliteInfo list" where
  "SATELLITES = [ISS, METEOR_M_N2_3, METEOR_M_N2_4]"

definition WEATHER_SATELLITES :: "SatelliteInfo list" where
  "WEATHER_SATELLITES = filter (\<lambda>s. sat_signalType s = Lrpt) SATELLITES"

record PassConstraints =
  pc_minDurationSeconds :: number
  pc_maxDurationSeconds :: number
  pc_predictionHorizonHours :: number
  pc_captureBufferSeconds :: int

definition PASS_CONSTRAINTS :: PassConstraints where
  "PASS_CONSTRAINTS = \<lparr>pc_minDurationSeconds = 240, pc_maxDurationSeconds = 1200,
     pc_predictionHorizonHours = 24, pc_captureBufferSeconds = 60\<rparr>"

record SignalScan =
  sg_scanBandwidthHz :: nat
  sg_scanDurationSeconds :: nat

definition SIGNAL :: SignalScan where
  "SIGNAL = \<lparr>sg_scanBandwidthHz = 25000, sg_scanDurationSeconds = 5\<rparr>"

text \<open>The continuous capture loop of \<open>run.ts\<close> selects the satellites to track.\<close>

definition is_active_satellite :: "bool \<Rightarrow> SatelliteInfo \<Rightarrow> bool" where
  "is_active_satellite sstvActive sat \<longleftrightarrow>
     sat_enabled sat \<or> (sat_eventBased sat = Some True \<and> sstvActive)"

lemma SATELLITES_distinct: "distinct (map sat_noradId SATELLITES)" "distinct (map sat_name SATELLITES)"
  by (simp_all add: SATELLITES_def ISS_def METEOR_M_N2_3_def METEOR_M_N2_4_def)

lemma SATELLITES_signalConfig:
  "sat \<in> set SATELLITES \<Longrightarrow> sc_type (sat_signalConfig sat) = sat_signalType sat"
  by (auto simp: SATELLITES_def ISS_def METEOR_M_N2_3_def METEOR_M_N2_4_def SIGNAL_CONFIGS_def)

lemma WEATHER_SATELLITES_eq: "WEATHER_SATELLITES = [METEOR_M_N2_3, METEOR_M_N2_4]"
  by (simp add: WEATHER_SATELLITES_def SATELLITES_def ISS_def METEOR_M_N2_3_def METEOR_M_N2_4_def)

end
