(* ===== verification/Tle.thy ===== *)
theory Tle
  imports NW_Types
begin

text \<open>
  \<open>src/backend/satellites/tle.ts\<close>: parsing a CelesTrak response, fetching element
  sets, and the cache on disk.  The network is the parameter \<open>fetch\<close>, the answer
  to each URL; the two cache files are the record \<open>tle_files\<close>, which holds the value
  \<open>JSON.parse\<close> yields for \<open>cache.json\<close>.
\<close>

section \<open>Parsing\<close>

definition CELESTRAK_GP_API :: string where
  "CELESTRAK_GP_API = ''https://celestrak.org/NORAD/elements/gp.php''"

definition tle_lines :: "string \<Rightarrow> string list" where
  "tle_lines text = map js_trim (js_split NL (js_trim text))"

definition parseTleText :: "string \<Rightarrow> string \<Rightarrow> TwoLineElement option" where
  "parseTleText text expectedName =
     (let lns = tle_lines text;
          line0 = elem_at lns 0; line1 = elem_at lns 1; line2 = elem_at lns 2;
          starts = (\<lambda>l p. case l of None \<Rightarrow> False | Some s \<Rightarrow> js_startsWith s p);
          isTwoLineFormat = (length lns = 2 \<and> starts line0 ''1 '' \<and> starts line1 ''2 '');
          isThreeLineFormat = (length lns \<ge> 3 \<and> starts line1 ''1 '' \<and> starts line2 ''2 '')
      in if isTwoLineFormat \<and> or_else line0 [] \<noteq> [] \<and> or_else line1 [] \<noteq> []
         then Some \<lparr>tle_name = expectedName, tle_line1 = or_else line0 [], tle_line2 = or_else line1 []\<rparr>
         else if isThreeLineFormat \<and> or_else line1 [] \<noteq> [] \<and> or_else line2 [] \<noteq> []
         then Some \<lparr>tle_name = or_else line0 expectedName, tle_line1 = or_else line1 [],
                    tle_line2 = or_else line2 []\<rparr>
         else None)"

section \<open>Fetching\<close>

record http_response =
  hr_ok :: bool
  hr_text :: "string option"

type_synonym network = "string \<Rightarrow> http_response option"

definition tle_url :: "SatelliteInfo \<Rightarrow> string" where
  "tle_url sat = CELESTRAK_GP_API @ ''?CATNR='' @ show_nat (nat (sat_noradId sat)) @ ''&FORMAT=TLE''"

definition fetchTle :: "network \<Rightarrow> SatelliteInfo \<Rightarrow> TwoLineElement option" where
  "fetchTle fetch sat =
     (case fetch (tle_url sat) of
        None \<Rightarrow> None
      | Some response \<Rightarrow>
          (if hr_ok response
           then (case hr_text response of
                   None \<Rightarrow> None
                 | Some text \<Rightarrow> parseTleText text (sat_name sat))
           else None))"

definition fetchAllTles :: "network \<Rightarrow> SatelliteInfo list \<Rightarrow> TwoLineElement list" where
  "fetchAllTles fetch satellites = List.map_filter (fetchTle fetch) satellites"

section \<open>The cache\<close>

record TleCache =
  tc_fetchedAt :: date
  tc_satellites :: "TwoLineElement list"

record tle_files =
  tf_cache :: "TleCache option"
  tf_weather :: "string option"
  tf_cache_writable :: bool
  tf_weather_writable :: bool

definition loadCachedTles :: "date \<Rightarrow> number \<Rightarrow> tle_files \<Rightarrow> TwoLineElement list option" where
  "loadCachedTles now maxAgeHours files =
     (case tf_cache files of
        None \<Rightarrow> None
      | Some cache \<Rightarrow>
          (let ageHours = of_int (now - tc_fetchedAt cache) / (1000 * 60 * 60);
               isExpired = ageHours > maxAgeHours
           in if isExpired then None else Some (tc_satellites cache)))"

definition tle_text :: "TwoLineElement \<Rightarrow> string" where
  "tle_text t = tle_name t @ [NL] @ tle_line1 t @ [NL] @ tle_line2 t"

definition saveTlesToCache :: "date \<Rightarrow> TwoLineElement list \<Rightarrow> tle_files \<Rightarrow> unit throwing \<times> tle_files" where
  "saveTlesToCache now tles files =
     (if \<not> tf_cache_writable files then (Inl ''cache.json'', files)
      else let files = files\<lparr>tf_cache := Some \<lparr>tc_fetchedAt = now, tc_satellites = tles\<rparr>\<rparr>
           in if \<not> tf_weather_writable files then (Inl ''weather.txt'', files)
              else (Inr (), files\<lparr>tf_weather := Some (js_join [NL, NL] (map tle_text tles))\<rparr>))"

definition getTles ::
  "network \<Rightarrow> date \<Rightarrow> SatelliteInfo list \<Rightarrow> number \<Rightarrow> tle_files \<Rightarrow> TwoLineElement list throwing \<times> tle_files"
where
  "getTles fetch now satellites maxAgeHours files =
     (let cached = loadCachedTles now maxAgeHours files;
          cacheIsValid = (case cached of None \<Rightarrow> False | Some c \<Rightarrow> length c = length satellites);
          fresh = (if cacheIsValid then [] else fetchAllTles fetch satellites);
          hasFresh = (length fresh > 0)
      in case (if hasFresh then saveTlesToCache now fresh files else (Inr (), files)) of
           (Inl e, files) \<Rightarrow> (Inl e, files)
         | (Inr _, files) \<Rightarrow>
             (let result = (if cacheIsValid then cached else if hasFresh then Some fresh else cached)
              in case result of
                   None \<Rightarrow> (Inl ''Failed to obtain TLE data'', files)
                 | Some r \<Rightarrow> (Inr r, files)))"

section \<open>Parsing what was printed\<close>

definition trimmed :: "string \<Rightarrow> bool" where
  "trimmed s \<longleftrightarrow> s = [] \<or> \<not> is_ws (hd s) \<and> \<not> is_ws (last s)"

lemma js_trim_trimmed: "trimmed s \<Longrightarrow> js_trim s = s"
proof (cases s rule: rev_cases)
  case (snoc ys y)
  assume "trimmed s"
  with snoc have "\<not> is_ws (hd s)" "\<not> is_ws y" by (auto simp: trimmed_def)
  with snoc show ?thesis
    by (cases ys) (simp_all add: js_trim_def)
qed (simp add: js_trim_def)

definition well_formed_tle :: "TwoLineElement \<Rightarrow> bool" where
  "well_formed_tle t \<longleftrightarrow>
     tle_name t \<noteq> [] \<and> trimmed (tle_name t) \<and> trimmed (tle_line1 t) \<and> trimmed (tle_line2 t) \<and>
     NL \<notin> set (tle_name t) \<and> NL \<notin> set (tle_line1 t) \<and> NL \<notin> set (tle_line2 t) \<and>
     js_startsWith (tle_line1 t) ''1 '' \<and> js_startsWith (tle_line2 t) ''2 ''"

lemma tle_lines_text:
  assumes "well_formed_tle t"
  shows "tle_lines (tle_text t) = [tle_name t, tle_line1 t, tle_line2 t]"
proof -
  have ne: "tle_line2 t \<noteq> []" using assms by (auto simp: well_formed_tle_def js_startsWith_def)
  have "trimmed (tle_text t)"
    using assms ne by (auto simp: trimmed_def well_formed_tle_def tle_text_def)
  then have "js_split NL (js_trim (tle_text t)) = [tle_name t, tle_line1 t, tle_line2 t]"
    using assms by (simp add: js_trim_trimmed tle_text_def well_formed_tle_def js_split_append js_split_no_sep)
  then show ?thesis
    using assms by (simp add: tle_lines_def well_formed_tle_def js_trim_trimmed)
qed

text \<open>C35: Parsing the three-line text of a well-formed element set gives it back, whatever name
  was expected.\<close>

theorem parse_tle_text_roundtrip:
  assumes "well_formed_tle t"
  shows "parseTleText (tle_text t) expectedName = Some t"
  using tle_lines_text [OF assms] assms
  by (auto simp: parseTleText_def Let_def elem_at_def well_formed_tle_def js_startsWith_def)

theorem parse_tle_text_roundtrip_witness:
  "parseTleText (tle_text \<lparr>tle_name = ''ISS (ZARYA)'', tle_line1 = ''1 25544U'', tle_line2 = ''2 25544''\<rparr>) ''ISS'' =
    Some \<lparr>tle_name = ''ISS (ZARYA)'', tle_line1 = ''1 25544U'', tle_line2 = ''2 25544''\<rparr>"
  by (rule parse_tle_text_roundtrip)
     (simp add: well_formed_tle_def trimmed_def is_ws_def NL_def js_startsWith_def)

section \<open>Obtaining element sets\<close>

lemma getTles_hit:
  assumes "loadCachedTles now h files = Some c" "length c = length sats"
  shows "getTles fetch now sats h files = (Inr c, files)"
  using assms by (simp add: getTles_def Let_def)

lemma getTles_fresh:
  assumes "\<And>c. loadCachedTles now h files = Some c \<Longrightarrow> length c \<noteq> length sats"
    and "fetchAllTles fetch sats \<noteq> []" "tf_cache_writable files" "tf_weather_writable files"
  shows "getTles fetch now sats h files =
    (Inr (fetchAllTles fetch sats),
     files\<lparr>tf_cache := Some \<lparr>tc_fetchedAt = now, tc_satellites = fetchAllTles fetch sats\<rparr>,
           tf_weather := Some (js_join [NL, NL] (map tle_text (fetchAllTles fetch sats)))\<rparr>)"
  using assms by (auto simp: getTles_def saveTlesToCache_def Let_def split: option.splits)

text \<open>What was fetched is what the cache gives back: when every satellite's elements were
  fetched and written, a later request for as many satellites within the maximum age
  returns the same element sets without asking the network and leaves the files alone.\<close>

theorem getTles_cache_roundtrip:
  assumes "\<And>c. loadCachedTles now h files = Some c \<Longrightarrow> length c \<noteq> length sats"
    and "\<forall>sat \<in> set sats. fetchTle fetch sat \<noteq> None" "sats \<noteq> []"
    and "tf_cache_writable files" "tf_weather_writable files"
    and "now \<le> later" "of_int (later - now) / (1000 * 60 * 60) \<le> h"
    and "getTles fetch now sats h files = (r, files')"
  shows "r = Inr (map (the \<circ> fetchTle fetch) sats) \<and>
    getTles net' later sats h files' = (r, files')"
proof -
  have all: "fetchAllTles fetch sats = map (the \<circ> fetchTle fetch) sats"
    using assms(2) by (induction sats) (auto simp: fetchAllTles_def List.map_filter_simps)
  then have ne: "fetchAllTles fetch sats \<noteq> []" using assms(3) by simp
  have run: "r = Inr (fetchAllTles fetch sats)"
    "files' = files\<lparr>tf_cache := Some \<lparr>tc_fetchedAt = now, tc_satellites = fetchAllTles fetch sats\<rparr>,
       tf_weather := Some (js_join [NL, NL] (map tle_text (fetchAllTles fetch sats)))\<rparr>"
    using getTles_fresh [OF assms(1) ne assms(4,5)] assms(8) by auto
  have "loadCachedTles later h files' = Some (fetchAllTles fetch sats)"
    using run assms(7) by (simp add: loadCachedTles_def)
  then show ?thesis
    using getTles_hit [of later h files' "fetchAllTles fetch sats" sats net'] run all by simp
qed

definition demo_net :: network where
  "demo_net url = Some \<lparr>hr_ok = True, hr_text = Some (''SAT'' @ [NL] @ ''1 57166U'' @ [NL] @ ''2 57166'')\<rparr>"

definition no_files :: tle_files where
  "no_files = \<lparr>tf_cache = None, tf_weather = None, tf_cache_writable = True, tf_weather_writable = True\<rparr>"

lemma demo_fetch: "fetchTle demo_net sat = Some \<lparr>tle_name = ''SAT'', tle_line1 = ''1 57166U'', tle_line2 = ''2 57166''\<rparr>"
  by (simp add: fetchTle_def demo_net_def parseTleText_def tle_lines_def js_trim_def js_startsWith_def
      is_ws_def NL_def elem_at_def Let_def)

theorem getTles_cache_roundtrip_witness:
  "let (r, files') = getTles demo_net 0 WEATHER_SATELLITES 24 no_files in
   r = Inr (map (the \<circ> fetchTle demo_net) WEATHER_SATELLITES) \<and>
   getTles (\<lambda>_. None) 3600000 WEATHER_SATELLITES 24 files' = (r, files')"
  using getTles_cache_roundtrip [of 0 24 no_files WEATHER_SATELLITES demo_net 3600000 _ _ "\<lambda>_. None"]
  by (auto simp: demo_fetch WEATHER_SATELLITES_eq no_files_def loadCachedTles_def split: prod.splits)

text \<open>An expired cache is no fallback: when the cache is older than allowed and no element set
  can be fetched, \<open>getTles\<close> throws, although the old element sets are on disk.\<close>

theorem expired_cache_not_used:
  assumes "tf_cache files = Some cache" "of_int (now - tc_fetchedAt cache) / (1000 * 60 * 60) > h"
    and "\<forall>sat \<in> set sats. fetchTle fetch sat = None"
  shows "getTles fetch now sats h files = (Inl ''Failed to obtain TLE data'', files)"
proof -
  have "fetchAllTles fetch sats = []"
    using assms(3) by (induction sats) (auto simp: fetchAllTles_def List.map_filter_simps)
  then show ?thesis
    using assms(1,2) by (simp add: getTles_def loadCachedTles_def Let_def)
qed

theorem expired_cache_not_used_witness:
  "getTles (\<lambda>_. None) 90000000 WEATHER_SATELLITES 24
     (no_files\<lparr>tf_cache := Some \<lparr>tc_fetchedAt = 0, tc_satellites = [\<lparr>tle_name = ''A'', tle_line1 = ''1 1'', tle_line2 = ''2 1''\<rparr>]\<rparr>\<rparr>) =
   (Inl ''Failed to obtain TLE data'',
    no_files\<lparr>tf_cache := Some \<lparr>tc_fetchedAt = 0, tc_satellites = [\<lparr>tle_name = ''A'', tle_line1 = ''1 1'', tle_line2 = ''2 1''\<rparr>]\<rparr>\<rparr>)"
  by (rule expired_cache_not_used) (auto simp: no_files_def fetchTle_def)

end
