(* ===== verification/Orbit.thy ===== *)
theory Orbit
  imports NW_Types
begin

text \<open>
  \<open>src/backend/prediction/orbit.ts\<close> and \<open>ground-track.ts\<close>: look angles,
  the coarse search for passes over the horizon, the refinement of their limits and the
  ground track.  The package \<open>satellite.js\<close> is the parameter \<open>lib\<close>, a record
  of the functions the code calls; \<open>None\<close> stands for a throw.
\<close>

section \<open>The satellite.js parameter and look angles\<close>

record GeodeticLocation =
  gl_longitude :: number
  gl_latitude :: number
  gl_height :: number

record LookAngles =
  la_azimuth :: number
  la_elevation :: number
  la_rangeSat :: number

record ('satrec, 'eci, 'ecf) satellite_js =
  twoline2satrec :: "string \<Rightarrow> string \<Rightarrow> 'satrec option"
  propagate :: "'satrec \<Rightarrow> date \<Rightarrow> 'eci option option"
  gstime :: "date \<Rightarrow> number"
  eciToEcf :: "'eci \<Rightarrow> number \<Rightarrow> 'ecf"
  ecfToLookAngles :: "GeodeticLocation \<Rightarrow> 'ecf \<Rightarrow> LookAngles"
  eciToGeodetic :: "'eci \<Rightarrow> number \<Rightarrow> GeodeticLocation"
  degreesLat :: "number \<Rightarrow> number option"
  degreesLong :: "number \<Rightarrow> number option"

definition DEG_TO_RAD :: number where
  "DEG_TO_RAD = pi / 180"

definition RAD_TO_DEG :: number where
  "RAD_TO_DEG = 180 / pi"

definition createObserver :: "Coordinates \<Rightarrow> GeodeticLocation" where
  "createObserver coords =
     \<lparr>gl_longitude = co_longitude coords * DEG_TO_RAD,
      gl_latitude = co_latitude coords * DEG_TO_RAD,
      gl_height = co_altitude coords / 1000\<rparr>"

text \<open>
  The \<open>Date\<close> argument is given twice: its value, read by \<open>satellite.js\<close>, and
  the object itself, which is stored in the result.
\<close>

definition computeLookAngles ::
  "('satrec, 'eci, 'ecf) satellite_js \<Rightarrow> 'eci \<Rightarrow> GeodeticLocation \<Rightarrow> date \<Rightarrow> 'd \<Rightarrow> 'd SatellitePosition"
where
  "computeLookAngles lib positionEci observer time timeObj =
     (let gmst = gstime lib time;
          positionEcf = eciToEcf lib positionEci gmst;
          lookAngles = ecfToLookAngles lib observer positionEcf
      in \<lparr>pos_azimuth = la_azimuth lookAngles * RAD_TO_DEG,
          pos_elevation = la_elevation lookAngles * RAD_TO_DEG,
          pos_rangeSat = la_rangeSat lookAngles,
          pos_timestamp = timeObj\<rparr>)"

definition getSatellitePosition ::
  "('satrec, 'eci, 'ecf) satellite_js \<Rightarrow> TwoLineElement \<Rightarrow> GeodeticLocation \<Rightarrow> date \<Rightarrow> 'd
     \<Rightarrow> 'd SatellitePosition option"
where
  "getSatellitePosition lib tle observer time timeObj =
     (case twoline2satrec lib (tle_line1 tle) (tle_line2 tle) of
        None \<Rightarrow> None
      | Some satrec \<Rightarrow>
          (case propagate lib satrec time of
             None \<Rightarrow> None
           | Some None \<Rightarrow> None
           | Some (Some position) \<Rightarrow> Some (computeLookAngles lib position observer time timeObj)))"

definition getSatelliteGeolocation ::
  "('satrec, 'eci, 'ecf) satellite_js \<Rightarrow> TwoLineElement \<Rightarrow> SatelliteInfo \<Rightarrow> date
     \<Rightarrow> SatelliteGeolocation option"
where
  "getSatelliteGeolocation lib tle info time =
     (case twoline2satrec lib (tle_line1 tle) (tle_line2 tle) of
        None \<Rightarrow> None
      | Some satrec \<Rightarrow>
          (case propagate lib satrec time of
             None \<Rightarrow> None
           | Some None \<Rightarrow> None
           | Some (Some position) \<Rightarrow>
               (let gmst = gstime lib time;
                    geodetic = eciToGeodetic lib position gmst
                in case (degreesLat lib (gl_latitude geodetic), degreesLong lib (gl_longitude geodetic)) of
                     (Some lat, Some long) \<Rightarrow>
                       Some \<lparr>geo_noradId = sat_noradId info, geo_name = sat_name info,
                             geo_latitude = lat, geo_longitude = long,
                             geo_altitude = gl_height geodetic,
                             geo_signalType = sat_signalType info\<rparr>
                   | _ \<Rightarrow> None)))"

section \<open>The coarse search for passes\<close>

type_synonym look = "date \<Rightarrow> date SatellitePosition option"

definition look_from ::
  "('satrec, 'eci, 'ecf) satellite_js \<Rightarrow> TwoLineElement \<Rightarrow> GeodeticLocation \<Rightarrow> look" where
  "look_from lib tle observer time = getSatellitePosition lib tle observer time time"

record find_state =
  fp_passes :: "SatellitePass list"
  fp_inPass :: bool
  fp_passStart :: "date option"
  fp_maxElev :: number
  fp_maxElevTime :: "date option"

definition find_init :: find_state where
  "find_init = \<lparr>fp_passes = [], fp_inPass = False, fp_passStart = None, fp_maxElev = 0,
     fp_maxElevTime = None\<rparr>"

definition find_close :: "SatelliteInfo \<Rightarrow> date \<Rightarrow> date \<Rightarrow> date \<Rightarrow> find_state \<Rightarrow> find_state" where
  "find_close info passStart maxElevTime current s =
     (let duration = of_int (current - passStart) / 1000;
          s = (if duration \<ge> 240 \<and> duration \<le> 1200
               then s\<lparr>fp_passes := fp_passes s @
                        [\<lparr>pass_satellite = info, pass_aos = passStart, pass_los = current,
                          pass_maxElevation = fp_maxElev s,
                          pass_maxElevationTime = maxElevTime, pass_duration = duration\<rparr>]\<rparr>
               else s)
      in s\<lparr>fp_inPass := False, fp_passStart := None, fp_maxElev := 0, fp_maxElevTime := None\<rparr>)"

definition find_body :: "look \<Rightarrow> SatelliteInfo \<Rightarrow> number \<Rightarrow> date \<Rightarrow> find_state \<Rightarrow> find_state" where
  "find_body look info minElevation current s =
     (case look current of
        None \<Rightarrow> s
      | Some position \<Rightarrow>
          (let elevation = pos_elevation position in
           if elevation > minElevation \<and> \<not> fp_inPass s
           then s\<lparr>fp_inPass := True, fp_passStart := Some current, fp_maxElev := elevation,
                  fp_maxElevTime := Some current\<rparr>
           else if elevation > minElevation \<and> fp_inPass s
           then (if elevation > fp_maxElev s
                 then s\<lparr>fp_maxElev := elevation, fp_maxElevTime := Some current\<rparr>
                 else s)
           else (case (fp_passStart s, fp_maxElevTime s) of
                   (Some passStart, Some maxElevTime) \<Rightarrow>
                     if elevation \<le> minElevation \<and> fp_inPass s
                     then find_close info passStart maxElevTime current s
                     else s
                 | _ \<Rightarrow> s)))"

definition findPasses ::
  "('satrec, 'eci, 'ecf) satellite_js \<Rightarrow> TwoLineElement \<Rightarrow> SatelliteInfo \<Rightarrow> GeodeticLocation
     \<Rightarrow> date \<Rightarrow> date \<Rightarrow> number \<Rightarrow> int \<Rightarrow> SatellitePass list option"
where
  "findPasses lib tle info observer startTime endTime minElevation stepSeconds =
     map_option fp_passes
       (date_loop (stepSeconds * 1000) endTime
          (find_body (look_from lib tle observer) info minElevation) startTime find_init)"

section \<open>Refinement of the pass limits\<close>

fun refine_loop :: "nat \<Rightarrow> look \<Rightarrow> number \<Rightarrow> int \<Rightarrow> date \<Rightarrow> date \<Rightarrow> date" where
  "refine_loop 0 look minElevation searchDirection approximate current = approximate"
| "refine_loop (Suc n) look minElevation searchDirection approximate current =
     (case look current of
        None \<Rightarrow> approximate
      | Some position \<Rightarrow>
          (let isAboveHorizon = pos_elevation position > minElevation in
           if searchDirection = -1 \<and> \<not> isAboveHorizon then setSeconds_add current 1
           else if searchDirection = 1 \<and> \<not> isAboveHorizon then setSeconds_add current (-1)
           else refine_loop n look minElevation searchDirection approximate
                  (setSeconds_add current searchDirection)))"

definition refineTime :: "look \<Rightarrow> number \<Rightarrow> date \<Rightarrow> int \<Rightarrow> date" where
  "refineTime look minElevation approximate searchDirection =
     refine_loop 120 look minElevation searchDirection approximate
       (setSeconds_add approximate (searchDirection * 60))"

definition max_body :: "look \<Rightarrow> date \<Rightarrow> number \<times> date \<Rightarrow> number \<times> date" where
  "max_body look checkTime = (\<lambda>(maxElev, maxElevTime).
     (case look checkTime of
        None \<Rightarrow> (maxElev, maxElevTime)
      | Some position \<Rightarrow>
          if pos_elevation position > maxElev then (pos_elevation position, checkTime)
          else (maxElev, maxElevTime)))"

definition refinePassTiming ::
  "('satrec, 'eci, 'ecf) satellite_js \<Rightarrow> TwoLineElement \<Rightarrow> SatellitePass \<Rightarrow> GeodeticLocation
     \<Rightarrow> number \<Rightarrow> SatellitePass option"
where
  "refinePassTiming lib tle pass observer minElevation =
     (let look = look_from lib tle observer;
          refinedAos = refineTime look minElevation (pass_aos pass) (-1);
          refinedLos = refineTime look minElevation (pass_los pass) 1
      in map_option (\<lambda>(maxElev, maxElevTime).
           pass\<lparr>pass_aos := refinedAos, pass_los := refinedLos, pass_maxElevation := maxElev,
                pass_maxElevationTime := maxElevTime,
                pass_duration := of_int (refinedLos - refinedAos) / 1000\<rparr>)
           (date_loop (10 * 1000) refinedLos (max_body look) refinedAos
              (0, pass_maxElevationTime pass)))"

section \<open>Ground track\<close>

definition track_body ::
  "('satrec, 'eci, 'ecf) satellite_js \<Rightarrow> 'satrec \<Rightarrow> date \<Rightarrow> GroundTrackPoint list \<Rightarrow> GroundTrackPoint list"
where
  "track_body lib satrec current points =
     (case propagate lib satrec current of
        None \<Rightarrow> points
      | Some None \<Rightarrow> points
      | Some (Some position) \<Rightarrow>
          (let gmst = gstime lib current;
               geodetic = eciToGeodetic lib position gmst
           in case (degreesLat lib (gl_latitude geodetic), degreesLong lib (gl_longitude geodetic)) of
                (Some lat, Some lng) \<Rightarrow> points @ [\<lparr>gp_lat = lat, gp_lng = lng\<rparr>]
              | _ \<Rightarrow> points))"

text \<open>\<open>Inl\<close>: \<open>twoline2satrec\<close> throws outside the \<open>try\<close>.\<close>

definition computeGroundTrack ::
  "('satrec, 'eci, 'ecf) satellite_js \<Rightarrow> TwoLineElement \<Rightarrow> SatelliteInfo \<Rightarrow> date \<Rightarrow> int \<Rightarrow> int
     \<Rightarrow> GroundTrack throwing option"
where
  "computeGroundTrack lib tle info startTime durationMinutes stepSeconds =
     (case twoline2satrec lib (tle_line1 tle) (tle_line2 tle) of
        None \<Rightarrow> Some (Inl ''twoline2satrec'')
      | Some satrec \<Rightarrow>
          (let endTime = startTime + durationMinutes * 60 * 1000
           in map_option (\<lambda>points.
                Inr \<lparr>gt_noradId = sat_noradId info, gt_name = sat_name info,
                     gt_signalType = sat_signalType info, gt_points = points\<rparr>)
                (date_loop (stepSeconds * 1000) endTime (track_body lib satrec) startTime [])))"

section \<open>Properties of the coarse search\<close>

definition above :: "look \<Rightarrow> number \<Rightarrow> date \<Rightarrow> bool" where
  "above look minElevation t =
     (case look t of None \<Rightarrow> False | Some p \<Rightarrow> pos_elevation p > minElevation)"

definition below :: "look \<Rightarrow> number \<Rightarrow> date \<Rightarrow> bool" where
  "below look minElevation t =
     (case look t of None \<Rightarrow> False | Some p \<Rightarrow> pos_elevation p \<le> minElevation)"

text \<open>
  Every sample of the search grid in \<open>[a, b)\<close> lies above the horizon and at most
  at elevation \<open>M\<close>.
\<close>

definition samples_within :: "look \<Rightarrow> number \<Rightarrow> date \<Rightarrow> int \<Rightarrow> date \<Rightarrow> date \<Rightarrow> number \<Rightarrow> bool" where
  "samples_within look minElevation startTime step a b M \<longleftrightarrow>
     (\<forall>t q. a \<le> t \<and> t < b \<and> step dvd (t - startTime) \<and> look t = Some q \<longrightarrow>
        minElevation < pos_elevation q \<and> pos_elevation q \<le> M)"

text \<open>What a reported pass promises, relative to the sampling grid of the search.\<close>

definition pass_ok :: "look \<Rightarrow> SatelliteInfo \<Rightarrow> number \<Rightarrow> date \<Rightarrow> date \<Rightarrow> int \<Rightarrow> SatellitePass \<Rightarrow> bool" where
  "pass_ok look info minElevation startTime endTime step p \<longleftrightarrow>
     pass_satellite p = info \<and>
     startTime \<le> pass_aos p \<and> pass_los p \<le> endTime \<and>
     pass_aos p \<le> pass_maxElevationTime p \<and> pass_maxElevationTime p < pass_los p \<and>
     pass_duration p = of_int (pass_los p - pass_aos p) / 1000 \<and>
     240 \<le> pass_duration p \<and> pass_duration p \<le> 1200 \<and>
     above look minElevation (pass_aos p) \<and> below look minElevation (pass_los p) \<and>
     (pass_aos p = startTime \<or> \<not> above look minElevation (pass_aos p - step)) \<and>
     map_option pos_elevation (look (pass_maxElevationTime p)) = Some (pass_maxElevation p) \<and>
     minElevation < pass_maxElevation p \<and>
     samples_within look minElevation startTime step (pass_aos p) (pass_los p) (pass_maxElevation p)"

definition open_pass ::
  "look \<Rightarrow> number \<Rightarrow> date \<Rightarrow> int \<Rightarrow> date \<Rightarrow> date \<Rightarrow> date \<Rightarrow> number \<Rightarrow> bool" where
  "open_pass look minElevation startTime step u ps mt me \<longleftrightarrow>
     startTime \<le> ps \<and> ps \<le> mt \<and> mt < u \<and> above look minElevation ps \<and>
     (ps = startTime \<or> \<not> above look minElevation (ps - step)) \<and>
     map_option pos_elevation (look mt) = Some me \<and> minElevation < me \<and>
     samples_within look minElevation startTime step ps u me"

definition find_inv ::
  "look \<Rightarrow> SatelliteInfo \<Rightarrow> number \<Rightarrow> date \<Rightarrow> date \<Rightarrow> int \<Rightarrow> date \<Rightarrow> find_state \<Rightarrow> bool" where
  "find_inv look info minElevation startTime endTime step u s \<longleftrightarrow>
     (\<forall>p \<in> set (fp_passes s). pass_ok look info minElevation startTime endTime step p \<and> pass_los p < u) \<and>
     sorted_wrt (\<lambda>p q. pass_los p < pass_aos q) (fp_passes s) \<and>
     (case (fp_passStart s, fp_maxElevTime s) of
        (Some ps, Some mt) \<Rightarrow> fp_inPass s \<and>
          open_pass look minElevation startTime step u ps mt (fp_maxElev s) \<and>
          (\<forall>p \<in> set (fp_passes s). pass_los p < ps)
      | (None, None) \<Rightarrow> \<not> fp_inPass s \<and> (u = startTime \<or> \<not> above look minElevation (u - step))
      | _ \<Rightarrow> False)"

lemma find_inv_init: "find_inv look info m st e step st find_init"
  by (simp add: find_inv_def find_init_def)

lemma grid_gap:
  fixes u t step :: int
  assumes "0 < step" "step dvd (u - st)" "step dvd (t - st)" "t < u + step" "\<not> t < u"
  shows "t = u"
proof -
  have "step dvd (t - u)"
    using dvd_diff [OF assms(3,2)] by simp
  then show ?thesis
    using assms zdvd_imp_le [of step "t - u"] by (cases "t = u") auto
qed

lemma samples_within_extend:
  assumes "samples_within look m st step a u M" "0 < step" "step dvd (u - st)" "M \<le> M'"
    and "\<And>q. look u = Some q \<Longrightarrow> m < pos_elevation q \<and> pos_elevation q \<le> M'"
  shows "samples_within look m st step a (u + step) M'"
  unfolding samples_within_def
proof (intro allI impI)
  fix t q assume t: "a \<le> t \<and> t < u + step \<and> step dvd (t - st) \<and> look t = Some q"
  show "m < pos_elevation q \<and> pos_elevation q \<le> M'"
  proof (cases "t < u")
    case True
    with t assms(1) have "m < pos_elevation q \<and> pos_elevation q \<le> M"
      unfolding samples_within_def by blast
    with assms(4) show ?thesis by simp
  next
    case False
    with t assms(2,3) have "t = u" using grid_gap by blast
    with t assms(5) show ?thesis by simp
  qed
qed

lemma samples_within_start:
  assumes "0 < step" "step dvd (u - st)" "look u = Some q" "m < pos_elevation q"
  shows "samples_within look m st step u (u + step) (pos_elevation q)"
proof (rule samples_within_extend)
  show "samples_within look m st step u u (pos_elevation q)"
    by (auto simp: samples_within_def)
qed (use assms in auto)

lemma find_inv_step:
  assumes inv: "find_inv look info m st e step u s"
    and u: "st \<le> u" "u \<le> e" "step dvd (u - st)" "0 < step"
  shows "find_inv look info m st e step (u + step) (find_body look info m u s)"
proof (cases "look u")
  case None
  have "find_inv look info m st e step (u + step) s"
    using inv u(4) samples_within_extend [OF _ u(4,3)] None
    unfolding find_inv_def open_pass_def above_def
    by (force split: option.splits)
  then show ?thesis using None by (simp add: find_body_def)
next
  case (Some pos)
  show ?thesis
  proof (cases "fp_inPass s")
    case False
    with inv have none: "fp_passStart s = None" "fp_maxElevTime s = None"
      by (auto simp: find_inv_def split: option.splits)
    show ?thesis
      using inv Some False none u samples_within_start [of step u st look pos m]
      by (auto simp: find_inv_def find_body_def Let_def open_pass_def above_def)
  next
    case True
    with inv obtain ps mt where ps: "fp_passStart s = Some ps" "fp_maxElevTime s = Some mt"
        and op: "open_pass look m st step u ps mt (fp_maxElev s)"
        and los: "\<forall>p \<in> set (fp_passes s). pass_los p < ps"
      by (auto simp: find_inv_def split: option.splits)
    show ?thesis
    proof (cases "pos_elevation pos > m")
      case above: True
      define me where "me = max (fp_maxElev s) (pos_elevation pos)"
      define mt' where "mt' = (if pos_elevation pos > fp_maxElev s then u else mt)"
      have "samples_within look m st step ps (u + step) me"
        by (rule samples_within_extend [of _ _ _ _ _ _ "fp_maxElev s"])
           (use op above Some u in \<open>auto simp: open_pass_def me_def\<close>)
      then have "open_pass look m st step (u + step) ps mt' me"
        using op Some u by (auto simp: open_pass_def me_def mt'_def)
      then show ?thesis
        using inv True Some above ps los u
        by (auto simp: find_inv_def find_body_def Let_def me_def mt'_def max_def)
    next
      case below: False
      let ?dur = "of_int (u - ps) / 1000 :: real"
      let ?p = "\<lparr>pass_satellite = info, pass_aos = ps, pass_los = u, pass_maxElevation = fp_maxElev s,
          pass_maxElevationTime = mt, pass_duration = ?dur\<rparr>"
      have "pass_ok look info m st e step ?p" if "240 \<le> ?dur" "?dur \<le> 1200"
        using that op below Some u by (auto simp: pass_ok_def open_pass_def below_def)
      then show ?thesis
        using inv True Some below ps los u
        by (auto simp: find_inv_def find_body_def find_close_def Let_def sorted_wrt_append above_def)
    qed
  qed
qed

lemma find_fold_inv:
  assumes "0 < step" "e' \<le> e"
  shows "\<exists>u > e'. find_inv look info m st e step u
    (fold (find_body look info m) (grid step e' st) find_init)"
proof -
  have "\<exists>u > e'. st \<le> u \<and> step dvd (u - st) \<and>
      find_inv look info m st e step u (fold (find_body look info m) (grid step e' st) find_init)"
    by (rule grid_fold_invar) (use assms in \<open>auto intro: find_inv_init find_inv_step\<close>)
  then show ?thesis by blast
qed

text \<open>The whole search, for a positive step.\<close>

lemma findPasses_fold:
  assumes "0 < stepSeconds"
  shows "findPasses lib tle info obs st e m stepSeconds =
    Some (fp_passes (fold (find_body (look_from lib tle obs) info m)
      (grid (stepSeconds * 1000) e st) find_init))"
  using assms by (simp add: findPasses_def date_loop_grid)

lemma findPasses_ok:
  assumes "0 < stepSeconds" "findPasses lib tle info obs st e m stepSeconds = Some ps"
  shows "(\<forall>p \<in> set ps. pass_ok (look_from lib tle obs) info m st e (stepSeconds * 1000) p) \<and>
    sorted_wrt (\<lambda>p q. pass_los p < pass_aos q) ps"
  using find_fold_inv [of "stepSeconds * 1000" e e "look_from lib tle obs" info m st] assms
  by (auto simp: findPasses_fold find_inv_def)

section \<open>Completeness of the search\<close>

lemma find_body_passes_mono: "set (fp_passes s) \<subseteq> set (fp_passes (find_body look info m t s))"
  by (auto simp: find_body_def find_close_def Let_def split: option.splits)

lemma find_fold_passes_mono: "set (fp_passes s) \<subseteq> set (fp_passes (fold (find_body look info m) ts s))"
proof (induction ts arbitrary: s)
  case (Cons t ts)
  then show ?case using find_body_passes_mono [of s look info m t] by force
qed simp

lemma find_body_below:
  assumes "below look m t" "find_inv look info m st e step u s"
  shows "\<not> fp_inPass (find_body look info m t s)"
  using assms
  by (auto simp: below_def find_inv_def find_body_def find_close_def Let_def split: option.splits)

lemma find_fold_above:
  assumes "\<forall>t \<in> set ts. above look m t" "fp_inPass s" "fp_passStart s = Some a" "fp_maxElevTime s \<noteq> None"
  shows "let s' = fold (find_body look info m) ts s in
    fp_inPass s' \<and> fp_passStart s' = Some a \<and> fp_maxElevTime s' \<noteq> None"
  using assms
proof (induction ts arbitrary: s)
  case (Cons t ts)
  let ?s = "find_body look info m t s"
  have "fp_inPass ?s \<and> fp_passStart ?s = Some a \<and> fp_maxElevTime ?s \<noteq> None"
    using Cons.prems by (auto simp: find_body_def above_def Let_def split: option.splits)
  with Cons show ?case by simp
qed simp

lemma find_run_reported:
  assumes "\<not> fp_inPass s" "above look m a" "\<forall>t \<in> set ts. above look m t" "below look m l"
    and "240 \<le> of_int (l - a) / (1000 :: real)" "of_int (l - a) / (1000 :: real) \<le> 1200"
  shows "\<exists>p \<in> set (fp_passes (fold (find_body look info m) (a # ts @ [l]) s)).
    pass_aos p = a \<and> pass_los p = l"
proof -
  let ?s1 = "find_body look info m a s"
  have s1: "fp_inPass ?s1" "fp_passStart ?s1 = Some a" "fp_maxElevTime ?s1 \<noteq> None"
    using assms(1,2) by (auto simp: find_body_def above_def Let_def split: option.splits)
  let ?s2 = "fold (find_body look info m) ts ?s1"
  obtain mt where "fp_inPass ?s2" "fp_passStart ?s2 = Some a" "fp_maxElevTime ?s2 = Some mt"
    using find_fold_above [OF assms(3) s1, of info] by (auto simp: Let_def)
  then show ?thesis
    using assms(4-6) by (auto simp: find_body_def find_close_def below_def Let_def split: option.splits)
qed

lemma findPasses_complete_fold:
  assumes step: "0 < step" and grid: "st \<le> a" "a < l" "l \<le> e" "step dvd (a - st)" "step dvd (l - st)"
    and rise: "a = st \<or> below look m (a - step)"
    and run: "\<And>t. a \<le> t \<Longrightarrow> t < l \<Longrightarrow> step dvd (t - st) \<Longrightarrow> above look m t"
    and set: "below look m l"
    and dur: "240 \<le> of_int (l - a) / (1000 :: real)" "of_int (l - a) / (1000 :: real) \<le> 1200"
  shows "\<exists>p \<in> set (fp_passes (fold (find_body look info m) (grid step e st) find_init)).
    pass_aos p = a \<and> pass_los p = l"
proof -
  let ?f = "fold (find_body look info m)"
  have dvd_la: "step dvd (l - a)"
    using dvd_diff [OF grid(5,4)] by simp
  have al: "a \<le> l - step"
    using zdvd_imp_le [OF dvd_la] grid(2) by simp
  have split1: "grid step e st = grid step (a - step) st @ grid step e a"
    by (rule grid_append) (use step grid in \<open>auto simp: grid_member\<close>)
  have split2: "grid step e a = grid step (l - step) a @ grid step e l"
    by (rule grid_append) (use step grid dvd_la in \<open>auto simp: grid_member\<close>)
  define ts where "ts = grid step (l - step) (a + step)"
  have decomp: "grid step e st = grid step (a - step) st @ (a # ts @ [l]) @ grid step e (l + step)"
    using split1 split2 al step grid by (simp add: grid_Cons ts_def)
  have ts: "\<forall>t \<in> set ts. above look m t"
  proof
    fix t assume "t \<in> set ts"
    then have t: "a + step \<le> t" "t \<le> l - step" "step dvd (t - (a + step))"
      using step by (auto simp: ts_def grid_member)
    have "step dvd ((t - (a + step)) + (a - st) + step)"
      using t(3) grid(4) by (simp only: dvd_add dvd_refl)
    then have "step dvd (t - st)" by (simp add: algebra_simps)
    then show "above look m t" using t step run by simp
  qed
  have "\<not> fp_inPass (?f (grid step (a - step) st) find_init)"
  proof (cases "a = st")
    case True
    then show ?thesis using step by (simp add: grid_Nil find_init_def)
  next
    case False
    then have le: "st \<le> a - step"
      using zdvd_imp_le [OF grid(4)] grid(1) by simp
    have "step dvd (a - st) - step" using grid(4) by (rule dvd_diff) simp
    then have mem: "a - step \<in> set (grid step (a - step) st)"
      using le step by (simp add: grid_member algebra_simps)
    have "grid step (a - step) (a - step) = [a - step]"
      using step by (simp add: grid_Cons grid_Nil)
    then have split0: "grid step (a - step) st = grid step (a - step - step) st @ [a - step]"
      using grid_append [OF step mem] by simp
    obtain u where "find_inv look info m st e step u (?f (grid step (a - step - step) st) find_init)"
      using find_fold_inv [OF step, of "a - step - step" e look info m st] step grid by auto
    then show ?thesis
      using rise False by (simp add: split0 find_body_below)
  qed
  moreover have "above look m a"
    using run [of a] grid by simp
  ultimately have "\<exists>p \<in> set (fp_passes (?f (a # ts @ [l]) (?f (grid step (a - step) st) find_init))).
      pass_aos p = a \<and> pass_los p = l"
    using find_run_reported ts set dur by blast
  then show ?thesis
    using find_fold_passes_mono unfolding decomp fold_append comp_apply by blast
qed

section \<open>Properties of the refinement\<close>

lemma refine_loop_back:
  "refine_loop n look m (-1) approx current \<in> {approx} \<union> {current - (int n - 1) * 1000 + 1000 .. current + 1000}"
proof (induction n arbitrary: current)
  case (Suc n)
  then show ?case
    using Suc.IH [of "current - 1000"]
    by (auto simp: setSeconds_add_def Let_def algebra_simps split: option.splits)
qed simp

lemma refine_loop_forth:
  "refine_loop n look m 1 approx current \<in> {approx} \<union> {current - 1000 .. current + (int n - 1) * 1000 - 1000}"
proof (induction n arbitrary: current)
  case (Suc n)
  then show ?case
    using Suc.IH [of "current + 1000"]
    by (auto simp: setSeconds_add_def Let_def algebra_simps split: option.splits)
qed simp

lemma refineTime_back:
  "refineTime look m t (-1) \<le> t" "t - 178000 \<le> refineTime look m t (-1)"
  using refine_loop_back [of 120 look m t "t - 60000"]
  by (auto simp: refineTime_def setSeconds_add_def)

lemma refineTime_forth:
  "t \<le> refineTime look m t 1" "refineTime look m t 1 \<le> t + 178000"
  using refine_loop_forth [of 120 look m t "t + 60000"]
  by (auto simp: refineTime_def setSeconds_add_def)

lemma refineTime_back_below:
  "below look m (t - 60000) \<Longrightarrow> refineTime look m t (-1) = t - 59000"
  unfolding refineTime_def
  by (subst refine_loop.simps(2) [of 119, simplified])
     (auto simp: below_def setSeconds_add_def Let_def split: option.splits)

lemma refineTime_forth_below:
  "below look m (t + 60000) \<Longrightarrow> refineTime look m t 1 = t + 59000"
  unfolding refineTime_def
  by (subst refine_loop.simps(2) [of 119, simplified])
     (auto simp: below_def setSeconds_add_def Let_def split: option.splits)

lemma refinePassTiming_returns:
  "\<exists>q. refinePassTiming lib tle p obs m = Some q \<and>
     pass_satellite q = pass_satellite p \<and>
     pass_aos q = refineTime (look_from lib tle obs) m (pass_aos p) (-1) \<and>
     pass_los q = refineTime (look_from lib tle obs) m (pass_los p) 1 \<and>
     pass_duration q = of_int (pass_los q - pass_aos q) / 1000"
  by (simp add: refinePassTiming_def date_loop_grid Let_def split: prod.splits)

section \<open>A stub orbit for the witnesses\<close>

text \<open>
  An instance of the \<open>satellite.js\<close> parameter: a satellite at 45 degrees from
  minute 10 until minute 21 and at 5 degrees otherwise.
\<close>

definition demo_elevation :: "date \<Rightarrow> number" where
  "demo_elevation t = (if 600000 \<le> t \<and> t < 1260000 then 45 else 5)"

definition demo_lib :: "(unit, number, number) satellite_js" where
  "demo_lib = \<lparr>twoline2satrec = (\<lambda>_ _. Some ()), propagate = (\<lambda>_ t. Some (Some (demo_elevation t))),
     gstime = (\<lambda>_. 0), eciToEcf = (\<lambda>x _. x),
     ecfToLookAngles = (\<lambda>_ x. \<lparr>la_azimuth = 0, la_elevation = x * DEG_TO_RAD, la_rangeSat = 1000 - x\<rparr>),
     eciToGeodetic = (\<lambda>_ _. \<lparr>gl_longitude = 0, gl_latitude = 0, gl_height = 800\<rparr>),
     degreesLat = Some, degreesLong = Some\<rparr>"

definition demo_tle :: TwoLineElement where
  "demo_tle = \<lparr>tle_name = ''METEOR-M2 3'', tle_line1 = ''1 57166U'', tle_line2 = ''2 57166''\<rparr>"

definition demo_tle4 :: TwoLineElement where
  "demo_tle4 = \<lparr>tle_name = ''METEOR-M2 4'', tle_line1 = ''1 59051U'', tle_line2 = ''2 59051''\<rparr>"

definition demo_station :: Coordinates where
  "demo_station = \<lparr>co_latitude = 51, co_longitude = 0, co_altitude = 10\<rparr>"

lemma demo_look:
  "look_from demo_lib tle obs t = Some \<lparr>pos_azimuth = 0, pos_elevation = demo_elevation t,
     pos_rangeSat = 1000 - demo_elevation t, pos_timestamp = t\<rparr>"
  by (simp add: look_from_def getSatellitePosition_def computeLookAngles_def demo_lib_def Let_def
      DEG_TO_RAD_def RAD_TO_DEG_def)

lemma demo_above: "above (look_from demo_lib tle obs) 20 t \<longleftrightarrow> 600000 \<le> t \<and> t < 1260000"
  by (simp add: above_def demo_look demo_elevation_def)

lemma demo_below: "below (look_from demo_lib tle obs) 20 t \<longleftrightarrow> \<not> (600000 \<le> t \<and> t < 1260000)"
  by (simp add: below_def demo_look demo_elevation_def)

section \<open>Properties of the search\<close>

text \<open>C15: The coarse search returns for every positive step; each pass it reports is inside
  the search window, starts at a sample above the horizon that no sample above the
  horizon precedes, ends at a sample at or below it, lasts between 240 and 1200 seconds,
  carries the largest elevation sampled in between, and the passes follow one another in
  time without overlap.\<close>

theorem findPasses_sound:
  assumes "0 < stepSeconds"
  shows "\<exists>ps. findPasses lib tle info obs st e m stepSeconds = Some ps \<and>
    (\<forall>p \<in> set ps. pass_ok (look_from lib tle obs) info m st e (stepSeconds * 1000) p) \<and>
    sorted_wrt (\<lambda>p q. pass_los p < pass_aos q) ps"
  using findPasses_ok [OF assms] findPasses_fold [OF assms] by blast

theorem findPasses_sound_witness:
  "\<exists>ps. findPasses demo_lib demo_tle METEOR_M_N2_3 (createObserver demo_station) 0 1500000 20 60 = Some ps \<and>
    (\<forall>p \<in> set ps. pass_ok (look_from demo_lib demo_tle (createObserver demo_station)) METEOR_M_N2_3 20 0 1500000 60000 p) \<and>
    sorted_wrt (\<lambda>p q. pass_los p < pass_aos q) ps"
  using findPasses_sound [of 60 demo_lib demo_tle METEOR_M_N2_3 "createObserver demo_station" 0 1500000 20]
  by simp

text \<open>C14: The coarse search misses nothing: a run of samples above the horizon from
  \<open>a\<close> up to \<open>l\<close> that begins the window or follows a sample below, ends below at
  \<open>l\<close> and lasts between 240 and 1200 seconds is reported with exactly these limits.\<close>

theorem findPasses_complete:
  assumes "0 < stepSeconds" "st \<le> a" "a < l" "l \<le> e"
    and "stepSeconds * 1000 dvd (a - st)" "stepSeconds * 1000 dvd (l - st)"
    and "a = st \<or> below (look_from lib tle obs) m (a - stepSeconds * 1000)"
    and "\<And>t. a \<le> t \<Longrightarrow> t < l \<Longrightarrow> stepSeconds * 1000 dvd (t - st) \<Longrightarrow> above (look_from lib tle obs) m t"
    and "below (look_from lib tle obs) m l"
    and "240 \<le> of_int (l - a) / (1000 :: real)" "of_int (l - a) / (1000 :: real) \<le> 1200"
  shows "\<exists>ps p. findPasses lib tle info obs st e m stepSeconds = Some ps \<and> p \<in> set ps \<and>
    pass_aos p = a \<and> pass_los p = l"
  using findPasses_complete_fold [of "stepSeconds * 1000" st a l e "look_from lib tle obs" m info] assms
  by (auto simp: findPasses_fold)

theorem findPasses_complete_witness:
  "\<exists>ps p. findPasses demo_lib demo_tle METEOR_M_N2_3 (createObserver demo_station) 0 1500000 20 60 = Some ps \<and>
    p \<in> set ps \<and> pass_aos p = 600000 \<and> pass_los p = 1260000"
  by (rule findPasses_complete) (simp_all add: demo_above demo_below)

text \<open>What the refinement does to a pass of the coarse search: when the sample one
  minute before its start is known and the satellite is down one minute after its end, the
  start moves 59 seconds before the first sample above the horizon and the end 59
  seconds after the first sample below it, whatever the true crossings are, so the
  pass is reported 118 seconds longer than the coarse search found it.\<close>

theorem refine_moves_59_seconds:
  assumes "findPasses lib tle info obs st e m 60 = Some ps" "p \<in> set ps"
    and "pass_aos p \<noteq> st" "look_from lib tle obs (pass_aos p - 60000) \<noteq> None"
    and "below (look_from lib tle obs) m (pass_los p + 60000)"
  shows "\<exists>q. refinePassTiming lib tle p obs m = Some q \<and> pass_aos q = pass_aos p - 59000 \<and>
    pass_los q = pass_los p + 59000 \<and> pass_duration q = pass_duration p + 118"
proof -
  have ok: "pass_ok (look_from lib tle obs) info m st e 60000 p"
    using findPasses_ok [OF _ assms(1)] assms(2) by simp
  then have "below (look_from lib tle obs) m (pass_aos p - 60000)"
    using assms(3,4) by (auto simp: pass_ok_def above_def below_def)
  then show ?thesis
    using refinePassTiming_returns [of lib tle p obs m] ok
      refineTime_back_below [of "look_from lib tle obs"] refineTime_forth_below [OF assms(5)]
    by (auto simp: pass_ok_def field_simps)
qed

lemma demo_pass:
  "findPasses demo_lib demo_tle METEOR_M_N2_3 obs 0 1500000 20 60 =
    Some [\<lparr>pass_satellite = METEOR_M_N2_3, pass_aos = 600000, pass_los = 1260000,
      pass_maxElevation = 45, pass_maxElevationTime = 600000, pass_duration = 660\<rparr>]"
  by (simp add: findPasses_def date_loop.simps find_body_def find_close_def demo_look demo_elevation_def
      find_init_def Let_def)

theorem refine_moves_59_seconds_witness:
  "\<exists>q. refinePassTiming demo_lib demo_tle
      \<lparr>pass_satellite = METEOR_M_N2_3, pass_aos = 600000, pass_los = 1260000,
       pass_maxElevation = 45, pass_maxElevationTime = 600000, pass_duration = 660\<rparr>
      (createObserver demo_station) 20 = Some q \<and> pass_aos q = 541000 \<and> pass_los q = 1319000 \<and>
    pass_duration q = 778"
  using refine_moves_59_seconds [OF demo_pass, of _ "createObserver demo_station"]
  by (simp add: demo_look demo_below)

end
