(* ===== verification/State_Manager.thy ===== *)
theory State_Manager
  imports NW_Types
begin

text \<open>
  The \<open>StateManager\<close> class of \<open>src/backend/state/state-manager.ts\<close>: the
  system state shown by the dashboard, one definition per method.  A method is given
  the instant \<open>new Date()\<close> returns and the state, and yields the new state and
  the event it emits; \<open>sm_exec\<close> runs a call, \<open>sm_run\<close> a sequence of
  calls with the events collected in order.
\<close>

section \<open>State and operations\<close>

definition initialState :: "date \<Rightarrow> SystemState" where
  "initialState now = \<lparr>st_status = Idle, st_currentPass = None, st_nextPass = None,
     st_upcomingPasses = [], st_captureProgress = 0, st_captureElapsed = 0,
     st_captureTotal = 0, st_lastUpdate = now, st_scanningFrequency = None,
     st_scanningFrequencyName = None\<rparr>"

definition setStatus :: "date \<Rightarrow> SystemStatus \<Rightarrow> SystemState \<Rightarrow> SystemState \<times> StateEvent" where
  "setStatus now status s =
     (let s = s\<lparr>st_status := status, st_lastUpdate := now\<rparr>;
          s = (if status \<noteq> Scanning
               then s\<lparr>st_scanningFrequency := None, st_scanningFrequencyName := None\<rparr>
               else s)
      in (s, status_change status))"

definition setScanningFrequency ::
  "date \<Rightarrow> number \<Rightarrow> string \<Rightarrow> SystemState \<Rightarrow> SystemState \<times> StateEvent" where
  "setScanningFrequency now frequency name s =
     (s\<lparr>st_scanningFrequency := Some frequency, st_scanningFrequencyName := Some name,
        st_lastUpdate := now\<rparr>,
      scanning_frequency frequency name)"

definition startPass :: "date \<Rightarrow> SatellitePass \<Rightarrow> SystemState \<Rightarrow> SystemState \<times> StateEvent" where
  "startPass now pass s =
     (s\<lparr>st_currentPass := Some pass, st_status := Capturing, st_captureProgress := 0,
        st_captureElapsed := 0, st_captureTotal := of_int \<lceil>pass_duration pass\<rceil>,
        st_lastUpdate := now\<rparr>,
      pass_start pass)"

definition updateProgress ::
  "date \<Rightarrow> number \<Rightarrow> number \<Rightarrow> number \<Rightarrow> SystemState \<Rightarrow> SystemState \<times> StateEvent" where
  "updateProgress now progress elapsed tot s =
     (s\<lparr>st_captureProgress := progress, st_captureElapsed := elapsed,
        st_captureTotal := tot, st_lastUpdate := now\<rparr>,
      capture_progress progress elapsed tot)"

definition is_completed_pass :: "CaptureResult \<Rightarrow> SatellitePass \<Rightarrow> bool" where
  "is_completed_pass result p \<longleftrightarrow>
     sat_noradId (pass_satellite p) = sat_noradId (cr_satellite result) \<and>
     pass_aos p = cr_startTime result"

definition completePass :: "date \<Rightarrow> CaptureResult \<Rightarrow> SystemState \<Rightarrow> SystemState \<times> StateEvent" where
  "completePass now result s =
     (let s = s\<lparr>st_currentPass := None, st_status := Idle, st_captureProgress := 0,
                st_captureElapsed := 0, st_captureTotal := 0, st_lastUpdate := now\<rparr>;
          s = s\<lparr>st_upcomingPasses :=
                  filter (\<lambda>p. \<not> is_completed_pass result p) (st_upcomingPasses s)\<rparr>;
          s = s\<lparr>st_nextPass := first (st_upcomingPasses s)\<rparr>
      in (s, pass_complete result))"

definition updatePasses :: "date \<Rightarrow> SatellitePass list \<Rightarrow> SystemState \<Rightarrow> SystemState \<times> StateEvent" where
  "updatePasses now passes s =
     (s\<lparr>st_upcomingPasses := passes, st_nextPass := first passes, st_lastUpdate := now\<rparr>,
      passes_updated passes)"

definition emitGlobeState :: "GlobeState \<Rightarrow> SystemState \<Rightarrow> SystemState \<times> StateEvent" where
  "emitGlobeState globe s = (s, satellite_positions globe)"

datatype sm_call =
    SetStatus SystemStatus
  | SetScanningFrequency number string
  | StartPass SatellitePass
  | UpdateProgress number number number
  | CompletePass CaptureResult
  | UpdatePasses "SatellitePass list"
  | EmitGlobeState GlobeState

fun sm_exec :: "date \<Rightarrow> sm_call \<Rightarrow> SystemState \<Rightarrow> SystemState \<times> StateEvent" where
  "sm_exec now (SetStatus st) s = setStatus now st s"
| "sm_exec now (SetScanningFrequency f n) s = setScanningFrequency now f n s"
| "sm_exec now (StartPass p) s = startPass now p s"
| "sm_exec now (UpdateProgress p e t) s = updateProgress now p e t s"
| "sm_exec now (CompletePass r) s = completePass now r s"
| "sm_exec now (UpdatePasses ps) s = updatePasses now ps s"
| "sm_exec now (EmitGlobeState g) s = emitGlobeState g s"

fun sm_run :: "(date \<times> sm_call) list \<Rightarrow> SystemState \<Rightarrow> SystemState \<times> StateEvent list" where
  "sm_run [] s = (s, [])"
| "sm_run ((now, c) # cs) s =
     (let (s1, e) = sm_exec now c s; (s2, es) = sm_run cs s1 in (s2, e # es))"

lemmas sm_defs [nw_defs] =
  setStatus_def setScanningFrequency_def startPass_def updateProgress_def completePass_def
  updatePasses_def emitGlobeState_def Let_def

section \<open>Invariant: the next pass is the head of the queue\<close>

definition next_is_head :: "SystemState \<Rightarrow> bool" where
  "next_is_head s \<longleftrightarrow> st_nextPass s = first (st_upcomingPasses s)"

lemma next_is_head_init [nw_inv]: "next_is_head (initialState now)"
  by (simp add: next_is_head_def initialState_def)

lemma next_is_head_exec [nw_inv]: "next_is_head s \<Longrightarrow> next_is_head (fst (sm_exec now c s))"
  by (cases c) (auto simp: next_is_head_def sm_defs)

lemma sm_run_append:
  "sm_run (cs @ ds) s = (let (s1, es) = sm_run cs s; (s2, fs) = sm_run ds s1 in (s2, es @ fs))"
  by (induction cs s rule: sm_run.induct) (auto split: prod.splits)

lemma next_is_head_run [nw_inv]: "next_is_head s \<Longrightarrow> next_is_head (fst (sm_run cs s))"
proof (induction cs s rule: sm_run.induct)
  case (2 now c cs s)
  then show ?case using next_is_head_exec [of s now c] by (auto split: prod.splits)
qed simp

end
