(* ===== verification/Globe_Service.thy ===== *)
theory Globe_Service
  imports Tle Orbit State_Manager
begin

text \<open>
  \<open>src/middleware/web/globe-service.ts\<close>: the positions and ground tracks the dashboard's
  globe shows, with the module's variables as the state.  \<open>getTles\<close> is awaited in
  \<open>startGlobeService\<close>; its result is an argument.
\<close>

section \<open>State and operations\<close>

record globe_service =
  gv_tles :: "TwoLineElement list"
  gv_tracks :: "GroundTrack list"
  gv_station :: "Coordinates option"
  gv_positionInterval :: bool
  gv_groundTrackInterval :: bool

definition gv_initial :: globe_service where
  "gv_initial = \<lparr>gv_tles = [], gv_tracks = [], gv_station = None, gv_positionInterval = False,
     gv_groundTrackInterval = False\<rparr>"

definition GROUND_TRACK_DURATION_MINUTES :: int where
  "GROUND_TRACK_DURATION_MINUTES = 90"

definition GROUND_TRACK_STEP_SECONDS :: int where
  "GROUND_TRACK_STEP_SECONDS = 30"

definition updateTles :: "TwoLineElement list throwing \<Rightarrow> globe_service \<Rightarrow> globe_service" where
  "updateTles result g = (case result of Inl err \<Rightarrow> g | Inr tles \<Rightarrow> g\<lparr>gv_tles := tles\<rparr>)"

definition tle_of :: "TwoLineElement list \<Rightarrow> SatelliteInfo \<Rightarrow> TwoLineElement option" where
  "tle_of tles satellite = find (\<lambda>t. tle_name t = sat_name satellite) tles"

definition position_of ::
  "('satrec, 'eci, 'ecf) satellite_js \<Rightarrow> TwoLineElement list \<Rightarrow> date \<Rightarrow> SatelliteInfo \<Rightarrow> SatelliteGeolocation option" where
  "position_of lib tles now satellite =
     (case tle_of tles satellite of None \<Rightarrow> None | Some tle \<Rightarrow> getSatelliteGeolocation lib tle satellite now)"

definition computeCurrentPositions ::
  "('satrec, 'eci, 'ecf) satellite_js \<Rightarrow> date \<Rightarrow> globe_service \<Rightarrow> SatelliteGeolocation list" where
  "computeCurrentPositions lib now g = List.map_filter (position_of lib (gv_tles g) now) SATELLITES"

text \<open>The loop of \<open>updateGroundTracks\<close>; an exception leaves the tracks pushed before it.\<close>

fun track_loop ::
  "('satrec, 'eci, 'ecf) satellite_js \<Rightarrow> date \<Rightarrow> SatelliteInfo list \<Rightarrow> globe_service \<Rightarrow> (unit throwing \<times> globe_service) option" where
  "track_loop lib now [] g = Some (Inr (), g)"
| "track_loop lib now (satellite # satellites) g =
     (case tle_of (gv_tles g) satellite of
        None \<Rightarrow> track_loop lib now satellites g
      | Some tle \<Rightarrow>
          (case computeGroundTrack lib tle satellite now GROUND_TRACK_DURATION_MINUTES GROUND_TRACK_STEP_SECONDS of
             None \<Rightarrow> None
           | Some (Inl err) \<Rightarrow> Some (Inl err, g)
           | Some (Inr track) \<Rightarrow> track_loop lib now satellites (g\<lparr>gv_tracks := gv_tracks g @ [track]\<rparr>)))"

definition updateGroundTracks ::
  "('satrec, 'eci, 'ecf) satellite_js \<Rightarrow> date \<Rightarrow> globe_service \<Rightarrow> (unit throwing \<times> globe_service) option" where
  "updateGroundTracks lib now g = track_loop lib now SATELLITES (g\<lparr>gv_tracks := []\<rparr>)"

definition getGlobeState ::
  "('satrec, 'eci, 'ecf) satellite_js \<Rightarrow> date \<Rightarrow> globe_service \<Rightarrow> GlobeState option" where
  "getGlobeState lib now g =
     (case gv_station g of
        None \<Rightarrow> None
      | Some stationCoords \<Rightarrow>
          Some \<lparr>gs_satellites = computeCurrentPositions lib now g, gs_groundTracks = gv_tracks g,
                gs_station = (co_latitude stationCoords, co_longitude stationCoords)\<rparr>)"

definition broadcastGlobeState ::
  "('satrec, 'eci, 'ecf) satellite_js \<Rightarrow> date \<Rightarrow> globe_service \<Rightarrow> SystemState \<Rightarrow> StateEvent option \<times> SystemState" where
  "broadcastGlobeState lib now g s =
     (case gv_station g of
        None \<Rightarrow> (None, s)
      | Some stationCoords \<Rightarrow>
          (let satellites = computeCurrentPositions lib now g;
               globe = \<lparr>gs_satellites = satellites, gs_groundTracks = gv_tracks g,
                        gs_station = (co_latitude stationCoords, co_longitude stationCoords)\<rparr>;
               (s, ev) = emitGlobeState globe s
           in (Some ev, s)))"

text \<open>
  \<open>tles\<close> is what \<open>getTles\<close> yields at \<open>now\<close>, when its \<open>await\<close> is over.
\<close>

definition startGlobeService ::
  "('satrec, 'eci, 'ecf) satellite_js \<Rightarrow> date \<Rightarrow> TwoLineElement list throwing \<Rightarrow> Coordinates \<Rightarrow> globe_service \<Rightarrow> SystemState
     \<Rightarrow> (unit throwing \<times> StateEvent option \<times> globe_service \<times> SystemState) option" where
  "startGlobeService lib now tles station g s =
     (let g = updateTles tles (g\<lparr>gv_station := Some station\<rparr>)
      in case updateGroundTracks lib now g of
           None \<Rightarrow> None
         | Some (Inl err, g) \<Rightarrow> Some (Inl err, None, g, s)
         | Some (Inr _, g) \<Rightarrow>
             (let g = g\<lparr>gv_positionInterval := True, gv_groundTrackInterval := True\<rparr>;
                  (ev, s) = broadcastGlobeState lib now g s
              in Some (Inr (), ev, g, s)))"

definition stopGlobeService :: "globe_service \<Rightarrow> globe_service" where
  "stopGlobeService g = g\<lparr>gv_positionInterval := False, gv_groundTrackInterval := False\<rparr>"

section \<open>The globe\<close>

text \<open>Every position belongs to a satellite of the catalogue, in its order and at most once.\<close>

lemma map_filter_subseq:
  assumes "\<And>x y. f x = Some y \<Longrightarrow> g y = h x"
  shows "subseq (map g (List.map_filter f xs)) (map h xs)"
proof (induction xs)
  case (Cons x xs)
  then show ?case using assms [of x] by (cases "f x") (auto simp: List.map_filter_simps intro: list_emb_Cons)
qed (simp add: List.map_filter_simps)

lemma geolocation_norad: "getSatelliteGeolocation lib tle sat now = Some p \<Longrightarrow> geo_noradId p = sat_noradId sat"
  by (auto simp: getSatelliteGeolocation_def Let_def split: option.splits prod.splits)

lemma positions_subseq: "subseq (map geo_noradId (computeCurrentPositions lib now g)) (map sat_noradId SATELLITES)"
  unfolding computeCurrentPositions_def
  by (rule map_filter_subseq) (auto simp: position_of_def split: option.splits dest: geolocation_norad)

lemma track_loop_returns: "\<exists>r g'. track_loop lib now sats g = Some (r, g') \<and> gv_tles g' = gv_tles g \<and> gv_station g' = gv_station g \<and>
    (r = Inr () \<longrightarrow> (\<exists>ts. gv_tracks g' = gv_tracks g @ ts \<and> subseq (map gt_noradId ts) (map sat_noradId sats)))"
proof (induction lib now sats g rule: track_loop.induct)
  case (2 lib now sat sats g)
  show ?case
  proof (cases "tle_of (gv_tles g) sat")
    case None
    with 2 show ?thesis by (auto 4 4)
  next
    case (Some tle)
    obtain t where t: "computeGroundTrack lib tle sat now GROUND_TRACK_DURATION_MINUTES GROUND_TRACK_STEP_SECONDS = Some t"
      by (cases "twoline2satrec lib (tle_line1 tle) (tle_line2 tle)")
        (auto simp: computeGroundTrack_def Let_def GROUND_TRACK_STEP_SECONDS_def date_loop_grid)
    show ?thesis
    proof (cases t)
      case (Inl e)
      with t Some show ?thesis by simp
    next
      case (Inr track)
      have n: "gt_noradId track = sat_noradId sat"
        using t Inr by (auto simp: computeGroundTrack_def Let_def split: option.splits)
      obtain r g' where r: "track_loop lib now sats (g\<lparr>gv_tracks := gv_tracks g @ [track]\<rparr>) = Some (r, g')"
        "gv_tles g' = gv_tles g" "gv_station g' = gv_station g"
        "r = Inr () \<longrightarrow> (\<exists>ts. gv_tracks g' = gv_tracks g @ track # ts \<and> subseq (map gt_noradId ts) (map sat_noradId sats))"
        using "2.IH"(2) [OF Some t Inr] by auto
      have "\<exists>ts'. gv_tracks g' = gv_tracks g @ ts' \<and> subseq (map gt_noradId ts') (map sat_noradId (sat # sats))" if "r = Inr ()"
      proof -
        obtain ts where "gv_tracks g' = gv_tracks g @ track # ts" "subseq (map gt_noradId ts) (map sat_noradId sats)" using r(4) \<open>r = Inr ()\<close> by blast
        then show ?thesis using n by (intro exI [of _ "track # ts"]) simp
      qed
      with r t Some Inr show ?thesis by auto
    qed
  qed
qed simp

end
