(* ===== verification/Interfaces.thy ===== *)
theory Interfaces
  imports NW_Prelude
begin

text \<open>
  The interfaces several components share, as locales: a keyed store (the contract of
  JavaScript's \<open>Map\<close>, on which the band gain store, the decoder registry and the
  relay's session table rely) and a system of handlers with an invariant (the event loop
  runs handlers one after another).  The insertion-ordered association list that models
  \<open>Map\<close> is defined here and interprets the first.
\<close>

section \<open>Keyed stores\<close>

locale keyed_store =
  fixes empty :: "'s"
    and get :: "'s \<Rightarrow> 'k \<Rightarrow> 'v option"
    and put :: "'k \<Rightarrow> 'v \<Rightarrow> 's \<Rightarrow> 's"
    and del :: "'k \<Rightarrow> 's \<Rightarrow> 's"
  assumes get_empty: "get empty k = None"
    and get_put: "get (put k v s) j = (if j = k then Some v else get s j)"
    and get_del: "get (del k s) j = (if j = k then None else get s j)"
begin

lemma get_put_same: "get (put k v s) k = Some v"
  by (simp add: get_put)

lemma get_put_other: "j \<noteq> k \<Longrightarrow> get (put k v s) j = get s j"
  by (simp add: get_put)

text \<open>After a sequence of writes a key holds the value written last.\<close>

lemma get_puts:
  "get (fold (\<lambda>(k, v). put k v) kvs s) j = (case map_of (rev kvs) j of None \<Rightarrow> get s j | Some v \<Rightarrow> Some v)"
proof (induction kvs arbitrary: s)
  case (Cons kv kvs)
  then show ?case
    by (cases kv) (auto simp: get_put map_add_def split: option.splits)
qed simp

lemma get_puts_dom: "get (fold (\<lambda>(k, v). put k v) kvs empty) j \<noteq> None \<longleftrightarrow> j \<in> fst ` set kvs"
  by (auto simp: get_puts get_empty map_of_eq_None_iff split: option.splits)
     (metis image_eqI map_of_SomeD option.exhaust fst_conv set_rev)

end

section \<open>Map as an insertion-ordered association list\<close>

type_synonym ('k, 'v) jsmap = "('k \<times> 'v) list"

definition map_get :: "('k, 'v) jsmap \<Rightarrow> 'k \<Rightarrow> 'v option" where
  "map_get m k = map_of m k"

fun map_set :: "'k \<Rightarrow> 'v \<Rightarrow> ('k, 'v) jsmap \<Rightarrow> ('k, 'v) jsmap" where
  "map_set k v [] = [(k, v)]"
| "map_set k v ((j, w) # m) = (if j = k then (k, v) # m else (j, w) # map_set k v m)"

definition map_delete :: "'k \<Rightarrow> ('k, 'v) jsmap \<Rightarrow> ('k, 'v) jsmap" where
  "map_delete k m = filter (\<lambda>(j, _). j \<noteq> k) m"

definition map_values :: "('k, 'v) jsmap \<Rightarrow> 'v list" where
  "map_values m = map snd m"

definition map_has :: "('k, 'v) jsmap \<Rightarrow> 'k \<Rightarrow> bool" where
  "map_has m k \<longleftrightarrow> map_get m k \<noteq> None"

lemma map_get_Nil [simp]: "map_get [] k = None"
  by (simp add: map_get_def)

lemma map_get_set: "map_get (map_set k v m) j = (if j = k then Some v else map_get m j)"
  by (induction k v m rule: map_set.induct) (auto simp: map_get_def)

lemma map_get_delete: "map_get (map_delete k m) j = (if j = k then None else map_get m j)"
  by (induction m) (auto simp: map_get_def map_delete_def)

interpretation js_map: keyed_store "[] :: ('k, 'v) jsmap" map_get map_set map_delete
  by unfold_locales (simp_all add: map_get_set map_get_delete)

lemma map_set_keys: "fst ` set (map_set k v m) = insert k (fst ` set m)"
  by (induction k v m rule: map_set.induct) auto

lemma map_set_distinct: "distinct (map fst m) \<Longrightarrow> distinct (map fst (map_set k v m))"
proof (induction k v m rule: map_set.induct)
  case (2 k v j w m)
  have "fst ` set (map_set k v m) = insert k (fst ` set m)"
    by (rule map_set_keys)
  with 2 show ?case by auto
qed simp

lemma map_delete_distinct: "distinct (map fst m) \<Longrightarrow> distinct (map fst (map_delete k m))"
  by (simp add: map_delete_def distinct_map_filter)

lemma map_set_set: "map_set k v (map_set k w m) = map_set k v m"
  by (induction k w m rule: map_set.induct) auto

section \<open>Sets in insertion order\<close>

text \<open>\<open>Set.add\<close> keeps the place of an element that is present.\<close>

definition set_add :: "'a \<Rightarrow> 'a list \<Rightarrow> 'a list" where
  "set_add x xs = (if x \<in> set xs then xs else xs @ [x])"

definition set_delete :: "'a \<Rightarrow> 'a list \<Rightarrow> 'a list" where
  "set_delete x xs = filter (\<lambda>y. y \<noteq> x) xs"

lemma set_ops_distinct [simp]: "distinct xs \<Longrightarrow> distinct (set_add x xs)" "distinct xs \<Longrightarrow> distinct (set_delete x xs)"
  by (simp_all add: set_add_def set_delete_def)

lemma set_ops_set [simp]: "set (set_add x xs) = insert x (set xs)" "set (set_delete x xs) = set xs - {x}"
  by (auto simp: set_add_def set_delete_def)

section \<open>HTTP\<close>

datatype http_method = GET | POST | DELETE | OPTIONS | OTHER_METHOD

section \<open>Handlers and invariants\<close>

text \<open>
  A component that reacts to events: \<open>step e s\<close> is the state after the handler
  of \<open>e\<close> ran in \<open>s\<close>; \<open>allowed\<close> are the events its clients
  may send.
\<close>

locale handler_system =
  fixes start :: "'s \<Rightarrow> bool"
    and allowed :: "'e \<Rightarrow> bool"
    and step :: "'e \<Rightarrow> 's \<Rightarrow> 's"
    and inv :: "'s \<Rightarrow> bool"
  assumes start_inv: "start s \<Longrightarrow> inv s"
    and step_inv: "inv s \<Longrightarrow> allowed e \<Longrightarrow> inv (step e s)"
begin

lemma run_inv: "inv s \<Longrightarrow> list_all allowed es \<Longrightarrow> inv (fold step es s)"
  by (induction es arbitrary: s) (auto simp: step_inv)

lemma reachable_inv: "start s \<Longrightarrow> list_all allowed es \<Longrightarrow> inv (fold step es s)"
  by (simp add: start_inv run_inv)

end

section \<open>Records cut from a stream of chunks\<close>

text \<open>
  Data arrive in chunks whose boundaries mean nothing.  A handler appends a chunk to its
  buffer and cuts the complete records off the front; \<open>cut\<close> yields these and what is
  left.  Its law makes the records found independent of the boundaries.
\<close>

locale stream_splitter =
  fixes cut :: "'a list \<Rightarrow> 'o list \<times> 'a list"
  assumes cut_Nil: "cut [] = ([], [])"
    and cut_append: "cut xs = (os, rest) \<Longrightarrow> cut (xs @ ys) = (os @ fst (cut (rest @ ys)), snd (cut (rest @ ys)))"
begin

lemma feed_from:
  "cut xs = (os, rest) \<Longrightarrow>
   fold (\<lambda>chunk (os, buf). (os @ fst (cut (buf @ chunk)), snd (cut (buf @ chunk)))) chunks (os, rest) =
   cut (xs @ concat chunks)"
proof (induction chunks arbitrary: xs os rest)
  case (Cons chunk chunks)
  have "cut (xs @ chunk) = (os @ fst (cut (rest @ chunk)), snd (cut (rest @ chunk)))"
    using Cons.prems by (rule cut_append)
  from Cons.IH [OF this] show ?case by simp
qed simp

lemma feed_chunks:
  "fold (\<lambda>chunk (os, buf). (os @ fst (cut (buf @ chunk)), snd (cut (buf @ chunk)))) chunks ([], []) =
   cut (concat chunks)"
  using feed_from [OF cut_Nil] by simp

end

section \<open>Repeated signal checks\<close>

text \<open>
  The contract \<open>ISignalChecker\<close> of \<open>src/backend/capture/sdr-interfaces.ts\<close>:
  \<open>once now\<close> is one check, which may never answer; \<open>verify n now\<close> makes
  \<open>n\<close> of them with a pause in between and accepts when at least half are positive.
\<close>

fun attempt_loop :: "(date \<Rightarrow> (bool \<times> date) option) \<Rightarrow> (date \<Rightarrow> date) \<Rightarrow> nat \<Rightarrow> date \<Rightarrow> (bool list \<times> date) option" where
  "attempt_loop once pause 0 now = Some ([], now)"
| "attempt_loop once pause (Suc k) now =
     (case once now of
        None \<Rightarrow> None
      | Some (b, t) \<Rightarrow>
          (case attempt_loop once pause k (if k > 0 then pause t else t) of
             None \<Rightarrow> None
           | Some (bs, t') \<Rightarrow> Some (b # bs, t')))"

lemma attempt_loop_length: "attempt_loop once pause n now = Some (bs, t) \<Longrightarrow> length bs = n"
  by (induction once pause n now arbitrary: bs t rule: attempt_loop.induct) (auto split: option.splits prod.splits)

lemma attempt_loop_answers:
  "\<forall>t. once t \<noteq> None \<Longrightarrow> attempt_loop once pause n now \<noteq> None"
proof (induction once pause n now rule: attempt_loop.induct)
  case (2 once pause k now)
  obtain b t where o: "once now = Some (b, t)" using "2.prems" by fastforce
  have "attempt_loop once pause k (if 0 < k then pause t else t) \<noteq> None"
    using "2.IH" [OF o refl] "2.prems" by blast
  with o show ?case by (auto split: option.splits if_splits)
qed simp

lemma attempt_loop_results:
  "attempt_loop once pause n now = Some (bs, t) \<Longrightarrow> b \<in> set bs \<Longrightarrow> \<exists>u v. once u = Some (b, v)"
  by (induction once pause n now arbitrary: bs t rule: attempt_loop.induct)
     (auto split: option.splits prod.splits; blast)+

locale signal_checker =
  fixes once :: "date \<Rightarrow> (bool \<times> date) option"
    and pause :: "date \<Rightarrow> date"
    and verify :: "nat \<Rightarrow> date \<Rightarrow> (bool \<times> date) option"
  assumes verify_majority:
    "verify n now =
       map_option (\<lambda>(bs, t). (int (length (filter (\<lambda>b. b) bs)) \<ge> \<lceil>real n / 2\<rceil>, t)) (attempt_loop once pause n now)"
begin

lemma verify_answers: "\<forall>t. once t \<noteq> None \<Longrightarrow> verify n now \<noteq> None"
  using attempt_loop_answers [of once pause n now] by (simp add: verify_majority)

lemma verify_iff:
  assumes "attempt_loop once pause n now = Some (bs, t)"
  shows "verify n now = Some (length (filter (\<lambda>b. \<not> b) bs) \<le> length (filter (\<lambda>b. b) bs), t)"
proof -
  have "length (filter (\<lambda>b. b) bs) + length (filter (\<lambda>b. \<not> b) bs) = n"
    using sum_length_filter_compl [of "\<lambda>b. b" bs] attempt_loop_length [OF assms] by simp
  then have "int (length (filter (\<lambda>b. b) bs)) \<ge> \<lceil>real n / 2\<rceil> \<longleftrightarrow>
      length (filter (\<lambda>b. \<not> b) bs) \<le> length (filter (\<lambda>b. b) bs)"
    by (auto simp: ceiling_le_iff)
  then show ?thesis using assms by (simp add: verify_majority)
qed

lemma verify_needs_a_positive_check:
  assumes "verify n now = Some (True, t)" "0 < n"
  shows "\<exists>u v. once u = Some (True, v)"
proof -
  obtain bs where bs: "attempt_loop once pause n now = Some (bs, t)"
    using assms(1) by (auto simp: verify_majority)
  have "length (filter (\<lambda>b. \<not> b) bs) \<le> length (filter (\<lambda>b. b) bs)"
    using verify_iff [OF bs] assms(1) by simp
  moreover have "length (filter (\<lambda>b. b) bs) + length (filter (\<lambda>b. \<not> b) bs) = n"
    using sum_length_filter_compl [of "\<lambda>b. b" bs] attempt_loop_length [OF bs] by simp
  ultimately have "filter (\<lambda>b. b) bs \<noteq> []" using assms(2) by auto
  then have "True \<in> set bs" by (auto simp: filter_empty_conv)
  then show ?thesis using attempt_loop_results [OF bs] by blast
qed

end

end
