(* ===== verification/Auto_Gain.thy ===== *)
theory Auto_Gain
  imports Interfaces
begin

text \<open>
  \<open>src/middleware/web/auto-gain.ts\<close>: classification of a frequency into a band, the
  store of gains per band, and the automatic gain calibration.
\<close>

section \<open>Frequency bands\<close>

datatype FrequencyBand = Noaa | TwoM | UnknownBand

definition BAND_RANGES :: "(FrequencyBand \<times> number \<times> number) list" where
  "BAND_RANGES = [(Noaa, 136000000, 138000000), (TwoM, 144000000, 146000000)]"

fun classify_in :: "(FrequencyBand \<times> number \<times> number) list \<Rightarrow> number \<Rightarrow> FrequencyBand" where
  "classify_in [] frequencyHz = UnknownBand"
| "classify_in ((band, lo, hi) # ranges) frequencyHz =
     (if frequencyHz \<ge> lo \<and> frequencyHz \<le> hi then band else classify_in ranges frequencyHz)"

definition classifyBand :: "number \<Rightarrow> FrequencyBand" where
  "classifyBand frequencyHz = classify_in BAND_RANGES frequencyHz"

lemma classifyBand_cases:
  "classifyBand f =
     (if 136000000 \<le> f \<and> f \<le> 138000000 then Noaa
      else if 144000000 \<le> f \<and> f \<le> 146000000 then TwoM else UnknownBand)"
  by (simp add: classifyBand_def BAND_RANGES_def)

section \<open>Band gain store\<close>

record BandGainState =
  bg_band :: FrequencyBand
  bg_gain :: number
  bg_calibrated :: bool

type_synonym band_gain_store = "(FrequencyBand, BandGainState) jsmap"

definition bgs_get :: "band_gain_store \<Rightarrow> FrequencyBand \<Rightarrow> BandGainState option" where
  "bgs_get store band = map_get store band"

definition bgs_set :: "FrequencyBand \<Rightarrow> number \<Rightarrow> bool \<Rightarrow> band_gain_store \<Rightarrow> band_gain_store" where
  "bgs_set band gain calibrated store =
     map_set band \<lparr>bg_band = band, bg_gain = gain, bg_calibrated = calibrated\<rparr> store"

record BandLookup =
  bl_band :: FrequencyBand
  bl_gain :: number
  bl_needsCalibration :: bool

definition bgs_getForFrequency :: "number \<Rightarrow> number \<Rightarrow> band_gain_store \<Rightarrow> BandLookup" where
  "bgs_getForFrequency frequencyHz defaultGain store =
     (let band = classifyBand frequencyHz in
      case map_get store band of
        Some stored \<Rightarrow> \<lparr>bl_band = band, bl_gain = bg_gain stored, bl_needsCalibration = False\<rparr>
      | None \<Rightarrow> \<lparr>bl_band = band, bl_gain = defaultGain, bl_needsCalibration = True\<rparr>)"

definition bgs_clear :: "FrequencyBand \<Rightarrow> band_gain_store \<Rightarrow> band_gain_store" where
  "bgs_clear band store = map_delete band store"

definition bgs_clearAll :: "band_gain_store \<Rightarrow> band_gain_store" where
  "bgs_clearAll store = []"

definition bgs_getAll :: "band_gain_store \<Rightarrow> BandGainState list" where
  "bgs_getAll store = map_values store"

text \<open>The store keeps the contract of a keyed store, a value being a gain and its flag.\<close>

definition bgs_entry :: "band_gain_store \<Rightarrow> FrequencyBand \<Rightarrow> (number \<times> bool) option" where
  "bgs_entry store band = map_option (\<lambda>b. (bg_gain b, bg_calibrated b)) (bgs_get store band)"

interpretation bgs: keyed_store "[] :: band_gain_store" bgs_entry
  "\<lambda>band gc. bgs_set band (fst gc) (snd gc)" bgs_clear
  by unfold_locales
     (simp_all add: bgs_entry_def bgs_get_def bgs_set_def bgs_clear_def map_get_set map_get_delete)

lemma bgs_getForFrequency_entry:
  "bgs_getForFrequency f d store =
     (case bgs_entry store (classifyBand f) of
        Some (g, c) \<Rightarrow> \<lparr>bl_band = classifyBand f, bl_gain = g, bl_needsCalibration = False\<rparr>
      | None \<Rightarrow> \<lparr>bl_band = classifyBand f, bl_gain = d, bl_needsCalibration = True\<rparr>)"
  by (simp add: bgs_getForFrequency_def bgs_entry_def bgs_get_def Let_def split: option.splits)

section \<open>Automatic gain calibration\<close>

record AutoGainConfig =
  ac_targetMin :: number
  ac_targetMax :: number
  ac_samplesNeeded :: nat
  ac_step :: number
  ac_minGain :: number
  ac_maxGain :: number

record AutoGainState =
  ag_enabled :: bool
  ag_currentGain :: number
  ag_samples :: "number list"

datatype GainAdjustResult =
    GWaiting
  | GInRange number
  | GAdjusted number number
  | GLimitReached number

definition DEFAULT_CONFIG :: AutoGainConfig where
  "DEFAULT_CONFIG = \<lparr>ac_targetMin = -80, ac_targetMax = -55, ac_samplesNeeded = 10, ac_step = 5,
     ac_minGain = 0, ac_maxGain = 50\<rparr>"

record PartialAutoGainConfig =
  pa_targetMin :: "number option"
  pa_targetMax :: "number option"
  pa_samplesNeeded :: "nat option"
  pa_step :: "number option"
  pa_minGain :: "number option"
  pa_maxGain :: "number option"

definition fullConfig :: "PartialAutoGainConfig \<Rightarrow> AutoGainConfig" where
  "fullConfig config =
     \<lparr>ac_targetMin = or_else (pa_targetMin config) (ac_targetMin DEFAULT_CONFIG),
      ac_targetMax = or_else (pa_targetMax config) (ac_targetMax DEFAULT_CONFIG),
      ac_samplesNeeded = or_else (pa_samplesNeeded config) (ac_samplesNeeded DEFAULT_CONFIG),
      ac_step = or_else (pa_step config) (ac_step DEFAULT_CONFIG),
      ac_minGain = or_else (pa_minGain config) (ac_minGain DEFAULT_CONFIG),
      ac_maxGain = or_else (pa_maxGain config) (ac_maxGain DEFAULT_CONFIG)\<rparr>"

definition createAutoGain :: "number \<Rightarrow> AutoGainState" where
  "createAutoGain initialGain = \<lparr>ag_enabled = True, ag_currentGain = initialGain, ag_samples = []\<rparr>"

definition bins_median :: "number list \<Rightarrow> number" where
  "bins_median bins = or_else (elem_at (sort bins) \<lfloor>of_nat (length bins) / (2 :: real)\<rfloor>) (-100)"

definition ag_adjust :: "AutoGainConfig \<Rightarrow> number \<Rightarrow> AutoGainState \<Rightarrow> GainAdjustResult \<times> AutoGainState" where
  "ag_adjust cfg avgMedian s =
     (if avgMedian > ac_targetMax cfg \<or> avgMedian < ac_targetMin cfg then
        (let newGain =
               (if avgMedian > ac_targetMax cfg
                then max (ac_minGain cfg) (ag_currentGain s - ac_step cfg)
                else min (ac_maxGain cfg) (ag_currentGain s + ac_step cfg))
         in if newGain \<noteq> ag_currentGain s
            then (GAdjusted (ag_currentGain s) newGain, s\<lparr>ag_currentGain := newGain\<rparr>)
            else (GLimitReached (ag_currentGain s), s\<lparr>ag_enabled := False\<rparr>))
      else (GInRange (ag_currentGain s), s\<lparr>ag_enabled := False\<rparr>))"

definition ag_feed :: "AutoGainConfig \<Rightarrow> number list \<Rightarrow> AutoGainState \<Rightarrow> GainAdjustResult \<times> AutoGainState" where
  "ag_feed cfg bins s =
     (if \<not> ag_enabled s then (GWaiting, s)
      else
        let s = s\<lparr>ag_samples := ag_samples s @ [bins_median bins]\<rparr> in
        if length (ag_samples s) < ac_samplesNeeded cfg then (GWaiting, s)
        else
          let avgMedian = sum_list (ag_samples s) / of_nat (length (ag_samples s));
              s = s\<lparr>ag_samples := []\<rparr>
          in ag_adjust cfg avgMedian s)"

definition ag_reset :: "AutoGainState \<Rightarrow> AutoGainState" where
  "ag_reset s = s\<lparr>ag_samples := [], ag_enabled := True\<rparr>"

definition ag_enable :: "AutoGainState \<Rightarrow> AutoGainState" where
  "ag_enable s = s\<lparr>ag_enabled := True, ag_samples := []\<rparr>"

definition ag_disable :: "AutoGainState \<Rightarrow> AutoGainState" where
  "ag_disable s = s\<lparr>ag_enabled := False, ag_samples := []\<rparr>"

definition ag_setGain :: "number \<Rightarrow> AutoGainState \<Rightarrow> AutoGainState" where
  "ag_setGain gain s = s\<lparr>ag_currentGain := gain, ag_enabled := False, ag_samples := []\<rparr>"

datatype ag_call = Feed "number list" | Reset | Enable | Disable | SetGain number

fun ag_exec :: "AutoGainConfig \<Rightarrow> ag_call \<Rightarrow> AutoGainState \<Rightarrow> AutoGainState" where
  "ag_exec cfg (Feed bins) s = snd (ag_feed cfg bins s)"
| "ag_exec cfg Reset s = ag_reset s"
| "ag_exec cfg Enable s = ag_enable s"
| "ag_exec cfg Disable s = ag_disable s"
| "ag_exec cfg (SetGain g) s = ag_setGain g s"

section \<open>The gain stays within its limits\<close>

definition ag_bounded :: "AutoGainConfig \<Rightarrow> AutoGainState \<Rightarrow> bool" where
  "ag_bounded cfg s \<longleftrightarrow>
     ac_minGain cfg \<le> ag_currentGain s \<and> ag_currentGain s \<le> ac_maxGain cfg \<and>
     (ag_samples s = [] \<or> length (ag_samples s) < ac_samplesNeeded cfg)"

fun ag_allowed :: "AutoGainConfig \<Rightarrow> ag_call \<Rightarrow> bool" where
  "ag_allowed cfg (SetGain g) \<longleftrightarrow> ac_minGain cfg \<le> g \<and> g \<le> ac_maxGain cfg"
| "ag_allowed cfg _ \<longleftrightarrow> 0 \<le> ac_step cfg"

definition ag_start :: "AutoGainConfig \<Rightarrow> AutoGainState \<Rightarrow> bool" where
  "ag_start cfg s \<longleftrightarrow> (\<exists>g. s = createAutoGain g \<and> ac_minGain cfg \<le> g \<and> g \<le> ac_maxGain cfg)"

lemma ag_adjust_bounded:
  "ag_bounded cfg s \<Longrightarrow> 0 \<le> ac_step cfg \<Longrightarrow> ag_bounded cfg (snd (ag_adjust cfg avg s))"
  by (auto simp: ag_bounded_def ag_adjust_def Let_def)

lemma ag_exec_bounded: "ag_bounded cfg s \<Longrightarrow> ag_allowed cfg c \<Longrightarrow> ag_bounded cfg (ag_exec cfg c s)"
proof (cases c)
  case (Feed bins)
  assume "ag_bounded cfg s" "ag_allowed cfg c"
  moreover from this have "ag_bounded cfg (s\<lparr>ag_samples := []\<rparr>)" by (simp add: ag_bounded_def)
  ultimately show ?thesis
    using Feed ag_adjust_bounded [of cfg "s\<lparr>ag_samples := []\<rparr>"]
    by (auto simp: ag_feed_def Let_def ag_bounded_def)
qed (auto simp: ag_bounded_def ag_reset_def ag_enable_def ag_disable_def ag_setGain_def)

interpretation ag_sys: handler_system "ag_start cfg" "ag_allowed cfg" "ag_exec cfg" "ag_bounded cfg" for cfg
proof unfold_locales
  show "ag_bounded cfg s" if "ag_start cfg s" for s
    using that by (auto simp: ag_start_def ag_bounded_def createAutoGain_def)
qed (rule ag_exec_bounded)

section \<open>Calibration comes to an end\<close>

text \<open>
  A receiver whose spectrum at gain \<open>g\<close> is \<open>spectrum g\<close>: every frame is fed
  with the gain in force, and the noise floor is the median of the spectrum.
\<close>

definition ag_frame :: "AutoGainConfig \<Rightarrow> (number \<Rightarrow> number list) \<Rightarrow> AutoGainState \<Rightarrow> AutoGainState" where
  "ag_frame cfg spectrum s = snd (ag_feed cfg (spectrum (ag_currentGain s)) s)"

definition ag_round :: "AutoGainConfig \<Rightarrow> (number \<Rightarrow> number) \<Rightarrow> AutoGainState \<Rightarrow> AutoGainState" where
  "ag_round cfg noise s = (if ag_enabled s then snd (ag_adjust cfg (noise (ag_currentGain s)) s) else s)"

lemma ag_frame_disabled: "\<not> ag_enabled s \<Longrightarrow> (ag_frame cfg spectrum ^^ n) s = s"
  by (induction n) (simp_all add: ag_frame_def ag_feed_def)

lemma ag_frames_partial:
  assumes "ag_enabled s" "ag_samples s = []" "k < ac_samplesNeeded cfg"
  shows "(ag_frame cfg spectrum ^^ k) s =
    s\<lparr>ag_samples := replicate k (bins_median (spectrum (ag_currentGain s)))\<rparr>"
  using assms(3)
proof (induction k)
  case 0
  then show ?case using assms by simp
next
  case (Suc k)
  then show ?case
    using assms by (simp add: ag_frame_def ag_feed_def replicate_append_same)
qed

lemma ag_frames_round:
  assumes "ag_samples s = []" "0 < ac_samplesNeeded cfg"
  shows "(ag_frame cfg spectrum ^^ ac_samplesNeeded cfg) s = ag_round cfg (\<lambda>g. bins_median (spectrum g)) s"
proof (cases "ag_enabled s")
  case True
  obtain k where k: "ac_samplesNeeded cfg = Suc k"
    using assms(2) gr0_implies_Suc by blast
  let ?m = "bins_median (spectrum (ag_currentGain s))"
  have avg: "(of_nat k * ?m + ?m) / (1 + of_nat k) = ?m"
    by (simp add: field_simps)
  have s: "s\<lparr>ag_samples := []\<rparr> = s" using assms(1) by (cases s) simp
  have "(ag_frame cfg spectrum ^^ Suc k) s = ag_frame cfg spectrum (s\<lparr>ag_samples := replicate k ?m\<rparr>)"
    using ag_frames_partial [OF True assms(1), of k cfg spectrum] k by simp
  also have "\<dots> = snd (ag_adjust cfg ?m s)"
    using True k s avg by (simp add: ag_frame_def ag_feed_def Let_def sum_list_replicate)
  finally show ?thesis using True k by (simp add: ag_round_def)
next
  case False
  then show ?thesis by (simp add: ag_frame_disabled ag_round_def)
qed

lemma ag_round_samples: "ag_samples (ag_round cfg noise s) = ag_samples s"
  by (simp add: ag_round_def ag_adjust_def Let_def)

lemma ag_frames_rounds:
  assumes "ag_samples s = []" "0 < ac_samplesNeeded cfg"
  shows "(ag_frame cfg spectrum ^^ (j * ac_samplesNeeded cfg)) s =
    (ag_round cfg (\<lambda>g. bins_median (spectrum g)) ^^ j) s"
  using assms(1)
proof (induction j arbitrary: s)
  case (Suc j)
  have "(ag_frame cfg spectrum ^^ (Suc j * ac_samplesNeeded cfg)) s =
      (ag_frame cfg spectrum ^^ (j * ac_samplesNeeded cfg)) ((ag_frame cfg spectrum ^^ ac_samplesNeeded cfg) s)"
    using funpow_add [of "j * ac_samplesNeeded cfg" "ac_samplesNeeded cfg" "ag_frame cfg spectrum"]
    by (simp only: mult_Suc add.commute comp_apply)
  also have "\<dots> = (ag_round cfg (\<lambda>g. bins_median (spectrum g)) ^^ j) (ag_round cfg (\<lambda>g. bins_median (spectrum g)) s)"
    using Suc ag_frames_round [OF _ assms(2)] ag_round_samples by simp
  finally show ?case by (simp add: funpow_swap1)
qed simp

text \<open>Where calibration may stop.\<close>

definition ag_settled :: "AutoGainConfig \<Rightarrow> (number \<Rightarrow> number) \<Rightarrow> AutoGainState \<Rightarrow> bool" where
  "ag_settled cfg noise s \<longleftrightarrow> \<not> ag_enabled s \<and>
     (let g = ag_currentGain s in
      ac_targetMin cfg \<le> noise g \<and> noise g \<le> ac_targetMax cfg \<or>
      g = ac_minGain cfg \<and> noise g > ac_targetMax cfg \<or>
      g = ac_maxGain cfg \<and> noise g < ac_targetMin cfg)"

lemma ag_settled_stays: "ag_settled cfg noise s \<Longrightarrow> (ag_round cfg noise ^^ n) s = s"
  by (induction n) (simp_all add: ag_settled_def ag_round_def)

text \<open>One step of gain changes the noise floor by no more than the width of the target range.\<close>

definition smooth_noise :: "AutoGainConfig \<Rightarrow> (number \<Rightarrow> number) \<Rightarrow> bool" where
  "smooth_noise cfg noise \<longleftrightarrow>
     (\<forall>g g'. g' \<le> g \<and> g \<le> g' + ac_step cfg \<longrightarrow> \<bar>noise g - noise g'\<bar> \<le> ac_targetMax cfg - ac_targetMin cfg)"

lemma ag_descends:
  assumes "smooth_noise cfg noise" "0 < ac_step cfg"
    and "ag_enabled s" "ac_minGain cfg \<le> ag_currentGain s"
    and "ag_currentGain s - ac_minGain cfg \<le> ac_step cfg * of_nat k"
    and "ac_targetMin cfg \<le> noise (ag_currentGain s)"
  shows "ag_settled cfg noise ((ag_round cfg noise ^^ Suc k) s)"
  using assms(3-)
proof (induction k arbitrary: s)
  case 0
  then have "ag_currentGain s = ac_minGain cfg" by simp
  then show ?case
    using 0 assms(2) by (auto simp: ag_round_def ag_adjust_def ag_settled_def Let_def)
next
  case (Suc k)
  show ?case
  proof (cases "noise (ag_currentGain s) > ac_targetMax cfg \<and> ag_currentGain s \<noteq> ac_minGain cfg")
    case True
    let ?g = "max (ac_minGain cfg) (ag_currentGain s - ac_step cfg)"
    let ?s = "s\<lparr>ag_currentGain := ?g\<rparr>"
    have round: "ag_round cfg noise s = ?s"
      using True Suc.prems assms(2) by (auto simp: ag_round_def ag_adjust_def Let_def max_def)
    have "\<bar>noise (ag_currentGain s) - noise ?g\<bar> \<le> ac_targetMax cfg - ac_targetMin cfg"
      using assms(1,2) Suc.prems by (auto simp: smooth_noise_def max_def)
    then have "ac_targetMin cfg \<le> noise ?g" using True by linarith
    moreover have "?g - ac_minGain cfg \<le> ac_step cfg * of_nat k"
      using Suc.prems(3) assms(2) by (auto simp: max_def algebra_simps)
    ultimately have "ag_settled cfg noise ((ag_round cfg noise ^^ Suc k) ?s)"
      using Suc.IH [of ?s] Suc.prems by simp
    then show ?thesis using round by (simp only: funpow_Suc_right [of "Suc k"] comp_apply)
  next
    case False
    have "ag_settled cfg noise (ag_round cfg noise s)"
      using False Suc.prems assms(2) by (auto simp: ag_round_def ag_adjust_def ag_settled_def Let_def max_def)
    then show ?thesis
      using ag_settled_stays [of cfg noise "ag_round cfg noise s" "Suc k"]
      by (simp only: funpow_Suc_right [of "Suc k"] comp_apply)
  qed
qed

lemma ag_ascends:
  assumes "smooth_noise cfg noise" "0 < ac_step cfg"
    and "ag_enabled s" "ag_currentGain s \<le> ac_maxGain cfg"
    and "ac_maxGain cfg - ag_currentGain s \<le> ac_step cfg * of_nat k"
    and "noise (ag_currentGain s) \<le> ac_targetMax cfg"
  shows "ag_settled cfg noise ((ag_round cfg noise ^^ Suc k) s)"
  using assms(3-)
proof (induction k arbitrary: s)
  case 0
  then have "ag_currentGain s = ac_maxGain cfg" by simp
  then show ?case
    using 0 assms(2) by (auto simp: ag_round_def ag_adjust_def ag_settled_def Let_def)
next
  case (Suc k)
  show ?case
  proof (cases "noise (ag_currentGain s) < ac_targetMin cfg \<and> ag_currentGain s \<noteq> ac_maxGain cfg")
    case True
    let ?g = "min (ac_maxGain cfg) (ag_currentGain s + ac_step cfg)"
    let ?s = "s\<lparr>ag_currentGain := ?g\<rparr>"
    have round: "ag_round cfg noise s = ?s"
      using True Suc.prems assms(2) by (auto simp: ag_round_def ag_adjust_def Let_def min_def)
    have "\<bar>noise ?g - noise (ag_currentGain s)\<bar> \<le> ac_targetMax cfg - ac_targetMin cfg"
      using assms(1,2) Suc.prems by (auto simp: smooth_noise_def min_def)
    then have "noise ?g \<le> ac_targetMax cfg" using True by linarith
    moreover have "ac_maxGain cfg - ?g \<le> ac_step cfg * of_nat k"
      using Suc.prems(3) assms(2) by (auto simp: min_def algebra_simps)
    ultimately have "ag_settled cfg noise ((ag_round cfg noise ^^ Suc k) ?s)"
      using Suc.IH [of ?s] Suc.prems by simp
    then show ?thesis using round by (simp only: funpow_Suc_right [of "Suc k"] comp_apply)
  next
    case False
    have "ag_settled cfg noise (ag_round cfg noise s)"
      using False Suc.prems assms(2) by (auto simp: ag_round_def ag_adjust_def ag_settled_def Let_def min_def)
    then show ?thesis
      using ag_settled_stays [of cfg noise "ag_round cfg noise s" "Suc k"]
      by (simp only: funpow_Suc_right [of "Suc k"] comp_apply)
  qed
qed

lemma ag_rounds_settle:
  assumes "smooth_noise cfg noise" "0 < ac_step cfg" "ac_targetMin cfg \<le> ac_targetMax cfg"
    and "ag_enabled s" "ac_minGain cfg \<le> ag_currentGain s" "ag_currentGain s \<le> ac_maxGain cfg"
    and "ac_maxGain cfg - ac_minGain cfg \<le> ac_step cfg * of_nat k"
  shows "ag_settled cfg noise ((ag_round cfg noise ^^ Suc k) s)"
proof (cases "ac_targetMin cfg \<le> noise (ag_currentGain s)")
  case True
  show ?thesis by (rule ag_descends) (use assms True in auto)
next
  case False
  show ?thesis by (rule ag_ascends) (use assms False in auto)
qed



text \<open>Whatever sequence of frames, resets, enables, disables and admissible manual settings
  the calibration receives, the gain stays between its limits and no more samples are held than
  one round needs.\<close>

theorem gain_stays_within_limits:
  assumes "ac_minGain cfg \<le> g" "g \<le> ac_maxGain cfg" "list_all (ag_allowed cfg) calls"
  shows "ag_bounded cfg (fold (ag_exec cfg) calls (createAutoGain g))"
  using ag_sys.reachable_inv [of cfg "createAutoGain g" calls] assms by (auto simp: ag_start_def)

theorem gain_stays_within_limits_witness:
  "ag_bounded DEFAULT_CONFIG (fold (ag_exec DEFAULT_CONFIG)
     [Enable, Feed [-30, -20], SetGain 49, Reset, Feed [-90], Disable] (createAutoGain 20))"
  by (rule gain_stays_within_limits) (simp_all add: DEFAULT_CONFIG_def)

section \<open>The noise-floor estimate\<close>

lemma length_filter_sort: "length (filter P (sort xs)) = length (filter P xs)"
  by (metis mset_filter mset_sort size_mset)

lemma sorted_nth_counts:
  assumes "sorted xs" "k < length xs"
  shows "k + 1 \<le> length (filter (\<lambda>x. x \<le> xs ! k) xs)"
    and "length xs - k \<le> length (filter (\<lambda>x. xs ! k \<le> x) xs)"
proof -
  have le: "xs ! i \<le> xs ! k" if "i < Suc k" for i
    using assms that by (simp add: sorted_nth_mono)
  have ge: "xs ! k \<le> xs ! i" if "k \<le> i" "i < length xs" for i
    using assms that by (simp add: sorted_nth_mono)
  have "filter (\<lambda>x. x \<le> xs ! k) (take (Suc k) xs) = take (Suc k) xs"
    using assms(2) le by (auto simp: in_set_conv_nth intro!: filter_True)
  then have "Suc k \<le> length (filter (\<lambda>x. x \<le> xs ! k) (take (Suc k) xs @ drop (Suc k) xs))"
    using assms(2) by (simp del: append_take_drop_id)
  then show "k + 1 \<le> length (filter (\<lambda>x. x \<le> xs ! k) xs)" by simp
  have "filter (\<lambda>x. xs ! k \<le> x) (drop k xs) = drop k xs"
    using ge by (auto simp: in_set_conv_nth intro!: filter_True)
  then have "length xs - k \<le> length (filter (\<lambda>x. xs ! k \<le> x) (take k xs @ drop k xs))"
    by (simp del: append_take_drop_id)
  then show "length xs - k \<le> length (filter (\<lambda>x. xs ! k \<le> x) xs)" by simp
qed

text \<open>The noise-floor estimate of a frame is a median of its bins: one of them, with at
  least half of the bins at or below it and at least half at or above it; an empty frame
  counts as -100 dB.\<close>

theorem bins_median_is_median:
  "if bins = [] then bins_median bins = -100
   else bins_median bins \<in> set bins \<and>
     length bins \<le> 2 * length (filter (\<lambda>b. b \<le> bins_median bins) bins) \<and>
     length bins \<le> 2 * length (filter (\<lambda>b. bins_median bins \<le> b) bins)"
proof (cases "bins = []")
  case True
  then show ?thesis by (simp add: bins_median_def elem_at_def)
next
  case False
  let ?k = "length bins div 2"
  have k: "?k < length (sort bins)" using False by simp
  have "\<lfloor>of_nat (length bins) / (2 :: real)\<rfloor> = int ?k"
    by linarith
  then have m: "bins_median bins = sort bins ! ?k"
    using k by (simp add: bins_median_def elem_at_def)
  have "sort bins ! ?k \<in> set bins"
    using nth_mem [OF k] by simp
  then show ?thesis
    using False m sorted_nth_counts [OF sorted_sort k] by (auto simp: length_filter_sort)
qed

end
