(* ===== verification/Fft_Spectrum.thy ===== *)
theory Fft_Spectrum
  imports Interfaces "HOL-Library.Word"
begin

text \<open>
  The signal path of \<open>src/backend/capture/fft-stream.ts\<close>: from the bytes
  \<open>rtl_sdr\<close> prints to the spectrum shown in the dashboard.  A byte is an \<open>8 word\<close>;
  the rounding of \<open>Float32Array\<close> is not modelled.  The package \<open>fft.js\<close> is the
  parameter \<open>fft_lib\<close>: whether its constructor accepts a size, and its transform.
\<close>

section \<open>Data\<close>

type_synonym byte = "8 word"

record FFTData =
  fd_timestamp :: date
  fd_centerFreq :: number
  fd_bins :: "number list"
  fd_minPower :: number
  fd_maxPower :: number

record FFTStreamConfig =
  fc_frequency :: number
  fc_bandwidth :: number
  fc_fftSize :: nat
  fc_gain :: number
  fc_updateRate :: number

record NotchFilter =
  nf_frequency :: number
  nf_width :: number
  nf_enabled :: bool

record fft_lib =
  fft_accepts :: "nat \<Rightarrow> bool"
  fft_transform :: "nat \<Rightarrow> number list \<Rightarrow> number list"

definition AVERAGING_FRAMES :: number where
  "AVERAGING_FRAMES = 8"

definition SAMPLE_RATE :: number where
  "SAMPLE_RATE = 250000"

section \<open>Samples and power\<close>

definition iq_value :: "byte list \<Rightarrow> nat \<Rightarrow> number" where
  "iq_value buffer k =
     ((case elem_at buffer (int k) of None \<Rightarrow> 127 | Some b \<Rightarrow> real (unat b)) - 127.5) / 127.5"

text \<open>The loop bound \<open>buffer.length / 2\<close> is not rounded, so an odd last byte starts a sample.\<close>

definition convertIQToComplex :: "byte list \<Rightarrow> nat \<Rightarrow> number list" where
  "convertIQToComplex buffer fftSize =
     (let samplesToProcess = min ((length buffer + 1) div 2) fftSize
      in fold (\<lambda>i cd. cd[i * 2 := iq_value buffer (i * 2), i * 2 + 1 := iq_value buffer (i * 2 + 1)])
           [0..<samplesToProcess] (replicate (fftSize * 2) 0))"

definition bin_power :: "number \<Rightarrow> number" where
  "bin_power magSquared = (if magSquared > 1 / 10 ^ 15 then 10 * log 10 magSquared else - 120)"

definition spectrum_bin :: "number list \<Rightarrow> nat \<Rightarrow> nat \<Rightarrow> number" where
  "spectrum_bin fftOutput fftSize i =
     (let re = or_else (elem_at fftOutput (int (i * 2))) 0;
          im = or_else (elem_at fftOutput (int (i * 2 + 1))) 0
      in bin_power ((re * re + im * im) / (real fftSize * real fftSize)))"

definition reorder_halves :: "number list \<Rightarrow> nat \<Rightarrow> number list" where
  "reorder_halves spectrum fftSize =
     (let halfSize = fftSize div 2
      in fold (\<lambda>i r. r[i := or_else (elem_at spectrum (int (i + halfSize))) (- 120),
                       i + halfSize := or_else (elem_at spectrum (int i)) (- 120)])
           [0..<halfSize] (replicate fftSize 0))"

text \<open>\<open>fftSize\<close> is even here: the constructor of \<open>fft.js\<close> refuses sizes that are no
  power of two.\<close>

definition computePowerSpectrum :: "number list \<Rightarrow> nat \<Rightarrow> number list" where
  "computePowerSpectrum fftOutput fftSize =
     reorder_halves (map (spectrum_bin fftOutput fftSize) [0..<fftSize]) fftSize"

definition hamming :: "nat \<Rightarrow> nat \<Rightarrow> number" where
  "hamming fftSize i = 54 / 100 - 46 / 100 * cos (2 * pi * real i / (real fftSize - 1))"

definition apply_window :: "nat \<Rightarrow> number list \<Rightarrow> number list" where
  "apply_window fftSize cd =
     fold (\<lambda>i cd. let w = hamming fftSize i
                  in cd[i * 2 := or_else (elem_at cd (int (i * 2))) 0 * w,
                        i * 2 + 1 := or_else (elem_at cd (int (i * 2 + 1))) 0 * w])
       [0..<fftSize] cd"

section \<open>Notch filters\<close>

definition in_notch :: "NotchFilter \<Rightarrow> number \<Rightarrow> bool" where
  "in_notch f binFreq \<longleftrightarrow>
     binFreq \<ge> nf_frequency f - nf_width f \<and> binFreq \<le> nf_frequency f + nf_width f"

definition notch_value :: "FFTData \<Rightarrow> number \<Rightarrow> number \<Rightarrow> NotchFilter \<Rightarrow> number" where
  "notch_value data startFreq binWidth f =
     (let notchStart = nf_frequency f - nf_width f; notchEnd = nf_frequency f + nf_width f;
          n = int (length (fd_bins data));
          leftIdx = max 0 (\<lfloor>(notchStart - startFreq) / binWidth\<rfloor> - 2);
          rightIdx = min (n - 1) (\<lceil>(notchEnd - startFreq) / binWidth\<rceil> + 2);
          leftVal = or_else (elem_at (fd_bins data) leftIdx) (or_else (elem_at (fd_bins data) 0) (- 100));
          rightVal = or_else (elem_at (fd_bins data) rightIdx) (or_else (elem_at (fd_bins data) (n - 1)) (- 100))
      in (leftVal + rightVal) / 2)"

definition notch_bins :: "FFTData \<Rightarrow> number \<Rightarrow> number \<Rightarrow> NotchFilter \<Rightarrow> number list \<Rightarrow> number list" where
  "notch_bins data startFreq binWidth f filteredBins =
     map (\<lambda>i. if in_notch f (startFreq + real i * binWidth) then notch_value data startFreq binWidth f
              else filteredBins ! i) [0..<length filteredBins]"

fun min_power :: "number list \<Rightarrow> number option" where
  "min_power [] = None"
| "min_power (p # ps) = Some (fold min ps p)"

fun max_power :: "number list \<Rightarrow> number option" where
  "max_power [] = None"
| "max_power (p # ps) = Some (fold max ps p)"

definition applyNotchFilters :: "NotchFilter list \<Rightarrow> FFTData \<Rightarrow> number \<Rightarrow> number \<Rightarrow> FFTData" where
  "applyNotchFilters notchFilters data startFreq binWidth =
     (if notchFilters = [] then data
      else let enabledFilters = filter nf_enabled notchFilters;
               filteredBins = fold (notch_bins data startFreq binWidth) enabledFilters (fd_bins data)
           in data\<lparr>fd_bins := filteredBins, fd_minPower := or_else (min_power filteredBins) (- 100),
                   fd_maxPower := or_else (max_power filteredBins) (- 50)\<rparr>)"

definition near :: "number \<Rightarrow> NotchFilter \<Rightarrow> bool" where
  "near frequency f \<longleftrightarrow> \<bar>nf_frequency f - frequency\<bar> < 1000"

text \<open>\<open>find\<close> returns a reference, so the found entry is changed in place.\<close>

fun update_first :: "('a \<Rightarrow> bool) \<Rightarrow> ('a \<Rightarrow> 'a) \<Rightarrow> 'a list \<Rightarrow> 'a list" where
  "update_first P g [] = []"
| "update_first P g (x # xs) = (if P x then g x # xs else x # update_first P g xs)"

fun remove_first :: "('a \<Rightarrow> bool) \<Rightarrow> 'a list \<Rightarrow> 'a list" where
  "remove_first P [] = []"
| "remove_first P (x # xs) = (if P x then xs else x # remove_first P xs)"

definition addNotchFilter :: "number \<Rightarrow> number \<Rightarrow> NotchFilter list \<Rightarrow> NotchFilter list" where
  "addNotchFilter frequency width fs =
     (if list_ex (near frequency) fs
      then update_first (near frequency) (\<lambda>f. f\<lparr>nf_width := width, nf_enabled := True\<rparr>) fs
      else fs @ [\<lparr>nf_frequency = frequency, nf_width = width, nf_enabled = True\<rparr>])"

definition removeNotchFilter :: "number \<Rightarrow> NotchFilter list \<Rightarrow> bool \<times> NotchFilter list" where
  "removeNotchFilter frequency fs =
     (if list_ex (near frequency) fs then (True, remove_first (near frequency) fs) else (False, fs))"

definition setNotchFilterEnabled :: "number \<Rightarrow> bool \<Rightarrow> NotchFilter list \<Rightarrow> bool \<times> NotchFilter list" where
  "setNotchFilterEnabled frequency enabled fs =
     (if list_ex (near frequency) fs
      then (True, update_first (near frequency) (\<lambda>f. f\<lparr>nf_enabled := enabled\<rparr>) fs)
      else (False, fs))"

definition clearNotchFilters :: "NotchFilter list \<Rightarrow> NotchFilter list" where
  "clearNotchFilters fs = []"

section \<open>The data listener\<close>

text \<open>
  The variables of one stream's closure, and the module variables it shares with the rest:
  the processor (its size), the callback (by number), the averaging buffer and count, the last
  frame.  The frames given to callbacks are collected.
\<close>

record fft_local =
  fl_config :: FFTStreamConfig
  fl_buffer :: "byte list"
  fl_lastUpdate :: date

record fft_shared =
  fsh_processor :: "nat option"
  fsh_callback :: "nat option"
  fsh_average :: "number list option"
  fsh_count :: nat
  fsh_latest :: "FFTData option"
  fsh_notches :: "NotchFilter list"
  fsh_emitted :: "(nat \<times> FFTData) list"

definition frame_bytes :: "FFTStreamConfig \<Rightarrow> nat" where
  "frame_bytes c = fc_fftSize c * 2"

definition update_due :: "FFTStreamConfig \<Rightarrow> date \<Rightarrow> date \<Rightarrow> bool" where
  "update_due c lastUpdate now \<longleftrightarrow>
     fc_updateRate c \<noteq> 0 \<and> real_of_int (now - lastUpdate) \<ge> 1000 / fc_updateRate c"

definition moving_average :: "number list \<Rightarrow> number list \<Rightarrow> nat \<Rightarrow> number list" where
  "moving_average avg spectrum fftSize =
     (let alpha = 1 / AVERAGING_FRAMES
      in map (\<lambda>i. or_else (elem_at avg (int i)) (- 120) * (1 - alpha) +
                  or_else (elem_at spectrum (int i)) (- 120) * alpha) [0..<fftSize])"

definition frame_spectrum :: "fft_lib \<Rightarrow> nat \<Rightarrow> nat \<Rightarrow> byte list \<Rightarrow> number list" where
  "frame_spectrum lib procSize fftSize frame =
     computePowerSpectrum (fft_transform lib procSize (apply_window fftSize (convertIQToComplex frame fftSize))) fftSize"

definition accumulate :: "nat \<Rightarrow> number list \<Rightarrow> fft_shared \<Rightarrow> fft_shared" where
  "accumulate fftSize spectrum s =
     (let s = (case fsh_average s of
                 Some avg \<Rightarrow> if length avg \<noteq> fftSize
                             then s\<lparr>fsh_average := Some (replicate fftSize 0), fsh_count := 0\<rparr> else s
               | None \<Rightarrow> s\<lparr>fsh_average := Some (replicate fftSize 0), fsh_count := 0\<rparr>);
          avg = or_else (fsh_average s) [];
          avg = (if fsh_count s = 0 then map (\<lambda>i. or_else (elem_at spectrum (int i)) (- 120)) [0..<fftSize]
                 else moving_average avg spectrum fftSize)
      in s\<lparr>fsh_average := Some avg, fsh_count := fsh_count s + 1\<rparr>)"

definition emit_frame :: "FFTStreamConfig \<Rightarrow> date \<Rightarrow> fft_shared \<Rightarrow> fft_shared" where
  "emit_frame c now s =
     (let fftSize = fc_fftSize c;
          averaged = map (\<lambda>i. or_else (elem_at (or_else (fsh_average s) []) (int i)) (- 120)) [0..<fftSize];
          binWidth = SAMPLE_RATE / real fftSize;
          startFreq = fc_frequency c - SAMPLE_RATE / 2;
          data = \<lparr>fd_timestamp = now, fd_centerFreq = fc_frequency c, fd_bins = averaged,
                  fd_minPower = or_else (min_power averaged) 0, fd_maxPower = or_else (max_power averaged) 0\<rparr>;
          data = (if fsh_notches s \<noteq> [] then applyNotchFilters (fsh_notches s) data startFreq binWidth else data)
      in s\<lparr>fsh_latest := Some data,
           fsh_emitted := fsh_emitted s @ (case fsh_callback s of None \<Rightarrow> [] | Some cb \<Rightarrow> [(cb, data)])\<rparr>)"

text \<open>
  One turn of the \<open>while\<close> loop when an update is due, for the processor's size
  \<open>procSize\<close>; the caller drops the frame's bytes in either case.
\<close>

definition process_frame :: "fft_lib \<Rightarrow> nat \<Rightarrow> FFTStreamConfig \<Rightarrow> date \<Rightarrow> byte list \<Rightarrow> fft_shared \<Rightarrow> fft_shared" where
  "process_frame lib procSize c now frame s =
     (let s = accumulate (fc_fftSize c) (frame_spectrum lib procSize (fc_fftSize c) frame) s
      in if fsh_count s < 2 then s else emit_frame c now s)"

text \<open>
  The loop reads the clock once a turn: \<open>clock k\<close> is what the turn \<open>k\<close> sees.  It
  leaves the listener when there is no processor.  A size of 0, which the constructor of
  \<open>fft.js\<close> refuses, would not end.
\<close>

function frame_loop ::
  "fft_lib \<Rightarrow> (nat \<Rightarrow> date) \<Rightarrow> nat \<Rightarrow> fft_local \<Rightarrow> fft_shared \<Rightarrow> bool \<times> fft_local \<times> fft_shared" where
  "frame_loop lib clock k l s =
     (let bpf = frame_bytes (fl_config l) in
      if 0 < bpf \<and> bpf \<le> length (fl_buffer l) then
        (if update_due (fl_config l) (fl_lastUpdate l) (clock k) then
           (case fsh_processor s of
              None \<Rightarrow> (False, l, s)
            | Some procSize \<Rightarrow>
                frame_loop lib clock (k + 1)
                  (l\<lparr>fl_lastUpdate := clock k, fl_buffer := drop bpf (fl_buffer l)\<rparr>)
                  (process_frame lib procSize (fl_config l) (clock k) (take bpf (fl_buffer l)) s))
         else frame_loop lib clock (k + 1) (l\<lparr>fl_buffer := drop bpf (fl_buffer l)\<rparr>) s)
      else (True, l, s))"
  by pat_completeness auto
termination
  by (relation "measure (\<lambda>(lib, clock, k, l, s). length (fl_buffer l))") (auto simp: Let_def)

declare frame_loop.simps [simp del]

definition on_data :: "fft_lib \<Rightarrow> (nat \<Rightarrow> date) \<Rightarrow> byte list \<Rightarrow> fft_local \<times> fft_shared \<Rightarrow> fft_local \<times> fft_shared" where
  "on_data lib clock data ls =
     (case ls of (l, s) \<Rightarrow>
       (case frame_loop lib clock 0 (l\<lparr>fl_buffer := fl_buffer l @ data\<rparr>) s of
          (False, l, s) \<Rightarrow> (l, s)
        | (True, l, s) \<Rightarrow>
            (let bpf = frame_bytes (fl_config l)
             in (if length (fl_buffer l) > bpf * 10
                 then l\<lparr>fl_buffer := drop (length (fl_buffer l) - bpf) (fl_buffer l)\<rparr> else l, s))))"

section \<open>Samples\<close>

lemma fold_update_length [simp]: "length (fold (\<lambda>i r. r[f i := a i, g i := b i]) is xs) = length xs"
  by (induction "is" arbitrary: xs) auto

lemma fold_pair_update:
  assumes "n \<le> m"
  shows "fold (\<lambda>i cd. cd[i * 2 := a i, i * 2 + 1 := b i]) [0..<n] (replicate (m * 2) (0 :: number)) =
    map (\<lambda>k. if k < n * 2 then (if even k then a (k div 2) else b (k div 2)) else 0) [0..<m * 2]"
  using assms
proof (induction n)
  case 0
  then show ?case by (simp add: map_replicate_const)
next
  case (Suc n)
  then show ?case
    by (intro nth_equalityI) (auto simp: nth_list_update less_Suc_eq elim!: oddE)
qed

lemma iq_value_nth: "k < length buffer \<Longrightarrow> iq_value buffer k = (real (unat (buffer ! k)) - 127.5) / 127.5"
  unfolding iq_value_def elem_at_nat by simp

lemma convertIQToComplex_eq:
  assumes "length buffer = fftSize * 2"
  shows "convertIQToComplex buffer fftSize = map (\<lambda>b. (real (unat b) - 127.5) / 127.5) buffer"
proof -
  have n: "min ((length buffer + 1) div 2) fftSize = fftSize" using assms by simp
  show ?thesis
    unfolding convertIQToComplex_def Let_def n fold_pair_update [OF order_refl]
    using assms by (intro nth_equalityI) (auto simp: iq_value_nth mult.commute elim!: evenE oddE)
qed

lemma byte_range: "0 \<le> real (unat (b :: byte))" "real (unat (b :: byte)) \<le> 255"
proof -
  have "unat b \<le> 255" using unsigned_less [of b, where 'a = nat] by simp
  then have "real (unat b) \<le> real 255" by (rule of_nat_mono)
  then show "real (unat b) \<le> 255" by (simp only: of_nat_numeral)
qed (rule of_nat_0_le_iff)

text \<open>A full frame of raw samples becomes one number per byte, in order, each the byte
  mapped linearly onto the interval from -1 (byte 0) to 1 (byte 255), and different bytes
  become different numbers.\<close>

theorem convertIQToComplex_spec:
  assumes "length buffer = fftSize * 2"
  shows "length (convertIQToComplex buffer fftSize) = fftSize * 2 \<and>
    (\<forall>x \<in> set (convertIQToComplex buffer fftSize). - 1 \<le> x \<and> x \<le> 1) \<and>
    map (\<lambda>x. x * 127.5 + 127.5) (convertIQToComplex buffer fftSize) = map (\<lambda>b. real (unat b)) buffer"
  using byte_range assms by (auto simp: convertIQToComplex_eq field_simps)

theorem convertIQToComplex_spec_witness:
  "length (convertIQToComplex [0, 255, 127, 128] 2) = 4 \<and>
   map (\<lambda>x. x * 127.5 + 127.5) (convertIQToComplex [0, 255, 127, 128] 2) = map (\<lambda>b. real (unat b)) [0, 255, 127, 128 :: byte]"
  using convertIQToComplex_spec [of "[0, 255, 127, 128]" 2] by (simp del: of_nat_unat)

section \<open>Spectrum\<close>

lemma fold_halves:
  assumes "n \<le> h"
  shows "fold (\<lambda>i r. r[i := a i, i + h := b i]) [0..<n] (replicate (h * 2) (0 :: number)) =
    map (\<lambda>k. if k < n then a k else if h \<le> k \<and> k < h + n then b (k - h) else 0) [0..<h * 2]"
  using assms
proof (induction n)
  case 0
  then show ?case by (auto simp: map_replicate_const intro!: nth_equalityI)
next
  case (Suc n)
  then show ?case
    by (intro nth_equalityI) (auto simp: nth_list_update less_Suc_eq)
qed

lemma half_double: "h * 2 div 2 = (h :: nat)"
  by simp

lemma reorder_halves_rotate:
  assumes "even n" "length xs = n"
  shows "reorder_halves xs n = rotate (n div 2) xs"
proof -
  obtain h where h: "n = h * 2" using assms(1) by (metis evenE mult.commute)
  show ?thesis
    unfolding reorder_halves_def Let_def h half_double
      fold_halves [OF order_refl]
    using assms(2) h
    by (intro nth_equalityI) (auto simp: nth_rotate elem_at_nat mod_if add.commute simp del: of_nat_add simp flip: of_nat_diff)
qed

lemma log10_inv_power: "log 10 (1 / 10 ^ k) = - real k"
  by (simp add: log_divide log_nat_power)

lemma bin_power_ge: "- 150 < bin_power m"
proof (cases "m > 1 / 10 ^ 15")
  case True
  have "log 10 (1 / 10 ^ 15) < log 10 m" using True by (intro log_less) auto
  moreover have "log 10 (1 / 10 ^ 15) = - 15"
    using log10_inv_power [of 15] by simp
  ultimately show ?thesis using True by (simp add: bin_power_def)
qed (simp add: bin_power_def)

text \<open>For an even size the power spectrum has one bin per frequency, holds the power of
  every output of the transform with the two halves exchanged, so that the lowest frequency
  comes first, and no bin is at or below -150 dB.\<close>

theorem computePowerSpectrum_spec:
  assumes "even n"
  shows "length (computePowerSpectrum out n) = n \<and>
    computePowerSpectrum out n = rotate (n div 2) (map (spectrum_bin out n) [0..<n]) \<and>
    (\<forall>p \<in> set (computePowerSpectrum out n). - 150 < p)"
proof -
  have "computePowerSpectrum out n = rotate (n div 2) (map (spectrum_bin out n) [0..<n])"
    using assms by (simp add: computePowerSpectrum_def reorder_halves_rotate)
  then show ?thesis by (auto simp: spectrum_bin_def Let_def bin_power_ge)
qed

theorem computePowerSpectrum_spec_witness:
  "computePowerSpectrum [0, 0, 0, 0, 0, 0, 0, 0] 4 = rotate 2 (map (spectrum_bin [0, 0, 0, 0, 0, 0, 0, 0] 4) [0..<4])"
  using computePowerSpectrum_spec [of 4 "[0, 0, 0, 0, 0, 0, 0, 0]"] by simp

text \<open>The floor of the spectrum is misplaced: silence is shown as -120 dB although weak
  signals are shown down to -150 dB, so a stronger bin can be displayed below a weaker one.\<close>

theorem spectrum_floor_not_monotone:
  "\<exists>weak strong. 0 \<le> weak \<and> weak < strong \<and> bin_power strong < bin_power weak"
proof -
  have "log 10 (1 / 10 ^ 14 :: real) = - 14"
    using log10_inv_power [of 14] by simp
  then have "bin_power (1 / 10 ^ 14) = - 140"
    by (simp add: bin_power_def)
  then have "bin_power (1 / 10 ^ 14) < bin_power 0" by (simp add: bin_power_def)
  then show ?thesis by (intro exI [of _ 0] exI [of _ "1 / 10 ^ 14"]) simp
qed

section \<open>Notches\<close>

lemma min_power_Min: "xs \<noteq> [] \<Longrightarrow> min_power xs = Some (Min (set xs))"
  by (cases xs) (simp, simp only: min_power.simps Min.set_eq_fold)

lemma max_power_Max: "xs \<noteq> [] \<Longrightarrow> max_power xs = Some (Max (set xs))"
  by (cases xs) (simp, simp only: max_power.simps Max.set_eq_fold)

lemma notch_bins_length [simp]: "length (notch_bins d sf bw f bs) = length bs"
  by (simp add: notch_bins_def)

lemma notch_value_between:
  assumes "fd_bins d \<noteq> []" "\<forall>x \<in> set (fd_bins d). lo \<le> x \<and> x \<le> hi"
  shows "lo \<le> notch_value d sf bw f \<and> notch_value d sf bw f \<le> hi"
proof -
  have pick: "lo \<le> or_else (elem_at (fd_bins d) i) (or_else (elem_at (fd_bins d) j) (- 100)) \<and>
      or_else (elem_at (fd_bins d) i) (or_else (elem_at (fd_bins d) j) (- 100)) \<le> hi"
    if "elem_at (fd_bins d) j \<noteq> None" for i j
    using assms(2) that by (cases "elem_at (fd_bins d) i") (auto dest: elem_at_in_set)
  have ends: "elem_at (fd_bins d) 0 \<noteq> None" "elem_at (fd_bins d) (int (length (fd_bins d)) - 1) \<noteq> None"
    using assms(1) by (simp_all add: elem_at_def Suc_le_eq)
  show ?thesis
    using pick [OF ends(1), of "max 0 (\<lfloor>(nf_frequency f - nf_width f - sf) / bw\<rfloor> - 2)"]
      pick [OF ends(2), of "min (int (length (fd_bins d)) - 1) (\<lceil>(nf_frequency f + nf_width f - sf) / bw\<rceil> + 2)"]
    unfolding notch_value_def Let_def by argo
qed

lemma fold_notch_length [simp]: "length (fold (notch_bins d sf bw) fs bs) = length bs"
  by (induction fs arbitrary: bs) auto

lemma fold_notch_between:
  assumes "fd_bins d \<noteq> []" "\<forall>x \<in> set (fd_bins d). lo \<le> x \<and> x \<le> hi" "\<forall>x \<in> set bs. lo \<le> x \<and> x \<le> hi"
  shows "\<forall>x \<in> set (fold (notch_bins d sf bw) fs bs). lo \<le> x \<and> x \<le> hi"
  using assms(3)
proof (induction fs arbitrary: bs)
  case (Cons f fs)
  have "\<forall>x \<in> set (notch_bins d sf bw f bs). lo \<le> x \<and> x \<le> hi"
    using notch_value_between [OF assms(1,2), of sf bw f] Cons.prems by (auto simp: notch_bins_def)
  then show ?case using Cons.IH by simp
qed simp

lemma fold_notch_outside:
  "i < length bs \<Longrightarrow> \<forall>f \<in> set fs. \<not> in_notch f (sf + real i * bw) \<Longrightarrow>
   fold (notch_bins d sf bw) fs bs ! i = bs ! i"
  by (induction fs arbitrary: bs) (auto simp: notch_bins_def)

text \<open>Notch filters keep the number of bins and every bin outside the enabled notches, and
  they never extend the range: the new extremes are those of the filtered bins and lie
  between the old ones.\<close>

theorem applyNotchFilters_spec:
  assumes "fd_bins d \<noteq> []" "fs \<noteq> []"
  shows "let out = applyNotchFilters fs d sf bw in
    length (fd_bins out) = length (fd_bins d) \<and>
    (\<forall>i < length (fd_bins d). (\<forall>f \<in> set fs. nf_enabled f \<longrightarrow> \<not> in_notch f (sf + real i * bw)) \<longrightarrow>
       fd_bins out ! i = fd_bins d ! i) \<and>
    fd_minPower out = Min (set (fd_bins out)) \<and> fd_maxPower out = Max (set (fd_bins out)) \<and>
    Min (set (fd_bins d)) \<le> fd_minPower out \<and> fd_maxPower out \<le> Max (set (fd_bins d))"
proof -
  define bs where "bs = fold (notch_bins d sf bw) (filter nf_enabled fs) (fd_bins d)"
  have len: "length bs = length (fd_bins d)" by (simp add: bs_def)
  then have ne: "bs \<noteq> []" using assms(1) by auto
  have range: "\<forall>x \<in> set bs. Min (set (fd_bins d)) \<le> x \<and> x \<le> Max (set (fd_bins d))"
    unfolding bs_def by (rule fold_notch_between [OF assms(1)]) simp_all
  have out: "applyNotchFilters fs d sf bw = d\<lparr>fd_bins := bs, fd_minPower := Min (set bs), fd_maxPower := Max (set bs)\<rparr>"
    using assms(2) ne by (simp add: applyNotchFilters_def Let_def min_power_Min max_power_Max flip: bs_def)
  have keep: "bs ! i = fd_bins d ! i"
    if "i < length (fd_bins d)" "\<forall>f \<in> set fs. nf_enabled f \<longrightarrow> \<not> in_notch f (sf + real i * bw)" for i
    unfolding bs_def using that by (intro fold_notch_outside) auto
  show ?thesis
    unfolding out Let_def using range ne by (simp add: len keep)
qed

theorem applyNotchFilters_spec_witness:
  "let d = \<lparr>fd_timestamp = 0, fd_centerFreq = 2, fd_bins = [- 50, - 10, - 48, - 52], fd_minPower = - 52, fd_maxPower = - 10\<rparr>;
       out = applyNotchFilters [\<lparr>nf_frequency = 1, nf_width = 1 / 2, nf_enabled = True\<rparr>] d 0 1 in
   fd_bins out ! 3 = - 52 \<and> fd_maxPower out \<le> - 10"
  using applyNotchFilters_spec [of "\<lparr>fd_timestamp = 0, fd_centerFreq = 2, fd_bins = [- 50, - 10, - 48, - 52],
      fd_minPower = - 52, fd_maxPower = - 10\<rparr>" "[\<lparr>nf_frequency = 1, nf_width = 1 / 2, nf_enabled = True\<rparr>]" 0 1]
  by (auto simp: Let_def in_notch_def)

lemma update_first_map:
  "map g (update_first P h xs) = map g xs" if "\<And>x. g (h x) = g x"
  using that by (induction xs) auto

lemma remove_first_sub: "set (remove_first P xs) \<subseteq> set xs"
  by (induction xs) auto

text \<open>Filters stay at least 1 kHz apart, so each is addressed by its frequency.\<close>

definition notches_apart :: "NotchFilter list \<Rightarrow> bool" where
  "notches_apart fs \<longleftrightarrow> sorted_wrt (\<lambda>f g. \<bar>nf_frequency f - nf_frequency g\<bar> \<ge> 1000) fs"

lemma notches_apart_map: "notches_apart fs \<longleftrightarrow> sorted_wrt (\<lambda>a b. \<bar>a - b\<bar> \<ge> 1000) (map nf_frequency fs)"
  by (simp add: notches_apart_def sorted_wrt_map)

lemma addNotchFilter_apart:
  assumes "notches_apart fs"
  shows "notches_apart (addNotchFilter frequency width fs)"
proof (cases "list_ex (near frequency) fs")
  case True
  then show ?thesis
    using assms by (simp add: addNotchFilter_def notches_apart_map update_first_map)
next
  case False
  then show ?thesis
    using assms by (auto simp: addNotchFilter_def notches_apart_def sorted_wrt_append list_ex_iff near_def not_less)
qed

lemma remove_first_sorted: "sorted_wrt R xs \<Longrightarrow> sorted_wrt R (remove_first P xs)"
  using remove_first_sub [of P] by (induction xs) auto

lemma removeNotchFilter_apart: "notches_apart fs \<Longrightarrow> notches_apart (snd (removeNotchFilter frequency fs))"
  by (simp add: removeNotchFilter_def notches_apart_def remove_first_sorted)

lemma setNotchFilterEnabled_apart:
  "notches_apart fs \<Longrightarrow> notches_apart (snd (setNotchFilterEnabled frequency b fs))"
  by (simp add: setNotchFilterEnabled_def notches_apart_map update_first_map)

datatype notch_call = AddNotch number number | RemoveNotch number | EnableNotch number bool | ClearNotches

fun notch_exec :: "notch_call \<Rightarrow> NotchFilter list \<Rightarrow> NotchFilter list" where
  "notch_exec (AddNotch f w) fs = addNotchFilter f w fs"
| "notch_exec (RemoveNotch f) fs = snd (removeNotchFilter f fs)"
| "notch_exec (EnableNotch f b) fs = snd (setNotchFilterEnabled f b fs)"
| "notch_exec ClearNotches fs = clearNotchFilters fs"

interpretation notch_sys: handler_system "\<lambda>fs. fs = []" "\<lambda>_. True" notch_exec notches_apart
proof
  show "notches_apart (notch_exec e fs)" if "notches_apart fs" for e fs
    using that by (cases e)
      (simp_all add: addNotchFilter_apart removeNotchFilter_apart setNotchFilterEnabled_apart
        clearNotchFilters_def notches_apart_def [of "[]"])
qed (simp add: notches_apart_def)

section \<open>Averaging\<close>

definition in_range :: "number \<Rightarrow> number \<Rightarrow> number list \<Rightarrow> bool" where
  "in_range lo hi xs \<longleftrightarrow> (\<forall>x \<in> set xs. lo \<le> x \<and> x \<le> hi)"

lemma in_range_nth: "in_range lo hi xs \<Longrightarrow> i < length xs \<Longrightarrow> lo \<le> xs ! i \<and> xs ! i \<le> hi"
  by (simp add: in_range_def)

lemma moving_average_nth:
  assumes "length avg = n" "length sp = n" "i < n"
  shows "moving_average avg sp n ! i = avg ! i * (7 / 8) + sp ! i / 8"
  using assms by (simp add: moving_average_def AVERAGING_FRAMES_def Let_def elem_at_nat)

lemma moving_average_within:
  assumes "in_range lo hi avg" "in_range lo hi sp" "length avg = n" "length sp = n"
  shows "in_range lo hi (moving_average avg sp n)"
proof -
  have "lo \<le> moving_average avg sp n ! i \<and> moving_average avg sp n ! i \<le> hi" if "i < n" for i
    using in_range_nth [OF assms(1), of i] in_range_nth [OF assms(2), of i] that assms(3,4)
    by (simp add: moving_average_nth field_simps)
  moreover have "length (moving_average avg sp n) = n" by (simp add: moving_average_def Let_def)
  ultimately show ?thesis unfolding in_range_def by (metis in_set_conv_nth)
qed

lemma copy_spectrum: "length sp = n \<Longrightarrow> map (\<lambda>i. or_else (elem_at sp (int i)) d) [0..<n] = sp"
  by (auto simp: elem_at_nat intro!: nth_equalityI)

lemma accumulate_within:
  assumes "in_range lo hi sp" "length sp = n"
    "\<And>avg. fsh_average s = Some avg \<Longrightarrow> length avg = n \<Longrightarrow> fsh_count s \<noteq> 0 \<Longrightarrow> in_range lo hi avg"
  shows "\<exists>avg. fsh_average (accumulate n sp s) = Some avg \<and> length avg = n \<and> in_range lo hi avg \<and>
    0 < fsh_count (accumulate n sp s)"
  using assms
  by (auto simp: accumulate_def Let_def copy_spectrum moving_average_within split: option.splits)
     (simp_all add: moving_average_def Let_def)

text \<open>The displayed average never leaves the range of the spectra it averages: after any
  non-empty sequence of spectra of the stream's size, started from a cleared average, every
  averaged bin lies between any bounds all their bins respect, and there is one per bin.\<close>

theorem average_within_spectra:
  assumes "spectra \<noteq> []" "fsh_average s = None" "\<forall>sp \<in> set spectra. length sp = n \<and> in_range lo hi sp"
  shows "\<exists>avg. fsh_average (fold (accumulate n) spectra s) = Some avg \<and> length avg = n \<and> in_range lo hi avg"
proof -
  have "\<exists>avg. fsh_average (fold (accumulate n) spectra s) = Some avg \<and> length avg = n \<and> in_range lo hi avg"
    if "\<exists>avg. fsh_average s = Some avg \<and> length avg = n \<and> in_range lo hi avg"
      "\<forall>sp \<in> set spectra. length sp = n \<and> in_range lo hi sp" for spectra s
    using that
  proof (induction spectra arbitrary: s)
    case (Cons sp spectra)
    have "\<exists>avg. fsh_average (accumulate n sp s) = Some avg \<and> length avg = n \<and> in_range lo hi avg"
      using accumulate_within [of lo hi sp n s] Cons.prems by auto
    then show ?case using Cons by simp
  qed simp
  moreover obtain sp rest where "spectra = sp # rest" using assms(1) by (cases spectra) auto
  moreover have "\<exists>avg. fsh_average (accumulate n sp s) = Some avg \<and> length avg = n \<and> in_range lo hi avg"
    using accumulate_within [of lo hi sp n s] assms(2,3) \<open>spectra = sp # rest\<close> by auto
  ultimately show ?thesis using assms(3) by simp
qed

definition cleared :: fft_shared where
  "cleared = \<lparr>fsh_processor = Some 2, fsh_callback = Some 0, fsh_average = None, fsh_count = 0, fsh_latest = None,
     fsh_notches = [], fsh_emitted = []\<rparr>"

theorem average_within_spectra_witness:
  "\<exists>avg. fsh_average (fold (accumulate 2) [[- 50, - 40], [- 60, - 45]] cleared) = Some avg \<and> in_range (- 60) (- 40) avg"
  using average_within_spectra [of "[[- 50, - 40], [- 60, - 45]]" cleared 2 "- 60" "- 40"]
  by (auto simp: cleared_def in_range_def)

section \<open>Frames\<close>

function cut_frames :: "nat \<Rightarrow> 'a list \<Rightarrow> 'a list list \<times> 'a list" where
  "cut_frames n xs =
     (if 0 < n \<and> n \<le> length xs then (take n xs # fst (cut_frames n (drop n xs)), snd (cut_frames n (drop n xs)))
      else ([], xs))"
  by pat_completeness auto
termination
  by (relation "measure (\<lambda>(n, xs). length xs)") auto

declare cut_frames.simps [simp del]

interpretation frames: stream_splitter "cut_frames n" for n
proof
  show "cut_frames n (xs @ ys) = (os @ fst (cut_frames n (rest @ ys)), snd (cut_frames n (rest @ ys)))"
    if "cut_frames n xs = (os, rest)" for xs ys :: "'a list" and os rest
    using that
  proof (induction n xs arbitrary: os rest rule: cut_frames.induct)
    case (1 n xs)
    show ?case
    proof (cases "0 < n \<and> n \<le> length xs")
      case True
      obtain os' where os': "cut_frames n (drop n xs) = (os', rest)" "os = take n xs # os'"
        using "1.prems" True by (auto simp: cut_frames.simps [of n xs] prod_eq_iff)
      have "cut_frames n (xs @ ys) = (take n xs # fst (cut_frames n (drop n xs @ ys)), snd (cut_frames n (drop n xs @ ys)))"
        using True by (subst cut_frames.simps) simp
      then show ?thesis using "1.IH" [OF True os'(1)] os'(2) by simp
    next
      case False
      then have "os = []" "rest = xs" using "1.prems" by (auto simp: cut_frames.simps [of n xs])
      then show ?thesis by simp
    qed
  qed
  show "cut_frames n [] = ([], [])" by (subst cut_frames.simps) auto
qed

lemma cut_frames_rest: "0 < n \<Longrightarrow> length (snd (cut_frames n xs)) < n"
proof (induction n xs rule: cut_frames.induct)
  case (1 n xs)
  then show ?case by (cases "n \<le> length xs"; subst cut_frames.simps) auto
qed

lemma cut_frames_count: "0 < n \<Longrightarrow> length (fst (cut_frames n xs)) = length xs div n"
proof (induction n xs rule: cut_frames.induct)
  case (1 n xs)
  then show ?case
    by (cases "n \<le> length xs"; subst cut_frames.simps) (auto simp: le_div_geq)
qed

lemma cut_frames_drop: "0 < n \<Longrightarrow> snd (cut_frames n xs) = drop (length xs div n * n) xs"
proof (induction n xs rule: cut_frames.induct)
  case (1 n xs)
  then show ?case
    by (cases "n \<le> length xs"; subst cut_frames.simps) (auto simp: le_div_geq add.commute)
qed

lemma cut_frames_concat: "concat (fst (cut_frames n xs)) @ snd (cut_frames n xs) = xs"
proof (induction n xs rule: cut_frames.induct)
  case (1 n xs)
  then show ?case by (subst (1 2) cut_frames.simps) auto
qed

lemma process_frame_keeps [simp]:
  "fsh_processor (process_frame lib p c now fr s) = fsh_processor s"
  "fsh_callback (process_frame lib p c now fr s) = fsh_callback s"
  by (simp_all add: process_frame_def accumulate_def emit_frame_def Let_def split: option.splits)

lemma process_frame_emits: "length (fsh_emitted (process_frame lib p c now fr s)) \<le> Suc (length (fsh_emitted s))"
  by (simp add: process_frame_def accumulate_def emit_frame_def Let_def split: option.splits)

lemma frame_loop_cut:
  assumes "fsh_processor s \<noteq> None" "0 < frame_bytes (fl_config l)"
  shows "\<exists>l' s'. frame_loop lib clock k l s = (True, l', s') \<and> fl_config l' = fl_config l \<and>
    fl_buffer l' = snd (cut_frames (frame_bytes (fl_config l)) (fl_buffer l)) \<and> fsh_processor s' = fsh_processor s \<and>
    length (fsh_emitted s') \<le> length (fsh_emitted s) + length (fst (cut_frames (frame_bytes (fl_config l)) (fl_buffer l)))"
  using assms
proof (induction lib clock k l s rule: frame_loop.induct)
  case (1 lib clock k l s)
  let ?n = "frame_bytes (fl_config l)"
  show ?case
  proof (cases "?n \<le> length (fl_buffer l)")
    case False
    then show ?thesis by (simp add: frame_loop.simps [of lib clock k l s] cut_frames.simps [of ?n "fl_buffer l"])
  next
    case long: True
    obtain p where p: "fsh_processor s = Some p" using "1.prems" by blast
    let ?s = "process_frame lib p (fl_config l) (clock k) (take ?n (fl_buffer l)) s"
    have em: "length (fsh_emitted ?s) \<le> Suc (length (fsh_emitted s))" by (rule process_frame_emits)
    show ?thesis
    proof (cases "update_due (fl_config l) (fl_lastUpdate l) (clock k)")
      case True
      show ?thesis
        using "1.IH"(1) [OF refl _ True p] "1.prems" long True p em
        by (auto simp: frame_loop.simps [of lib clock k l s] cut_frames.simps [of ?n "fl_buffer l"])
    next
      case False
      show ?thesis
        using "1.IH"(2) [OF refl _ False] "1.prems" long False
        by (auto simp: frame_loop.simps [of lib clock k l s] cut_frames.simps [of ?n "fl_buffer l"])
    qed
  qed
qed

lemma on_data_cut:
  assumes "fsh_processor s \<noteq> None" "0 < frame_bytes (fl_config l)"
  shows "\<exists>l' s'. on_data lib clock data (l, s) = (l', s') \<and> fl_config l' = fl_config l \<and>
    fl_buffer l' = snd (cut_frames (frame_bytes (fl_config l)) (fl_buffer l @ data)) \<and> fsh_processor s' = fsh_processor s \<and>
    length (fsh_emitted s') \<le> length (fsh_emitted s) + length (fst (cut_frames (frame_bytes (fl_config l)) (fl_buffer l @ data)))"
  using frame_loop_cut [of s "l\<lparr>fl_buffer := fl_buffer l @ data\<rparr>" lib clock 0] assms
    cut_frames_rest [of "frame_bytes (fl_config l)" "fl_buffer l @ data"]
  by (auto simp: on_data_def Let_def)

lemma on_data_run:
  assumes "fold (\<lambda>(clock, data). on_data lib clock data) chunks (l, s) = (l', s')" "fsh_processor s \<noteq> None"
    "n = frame_bytes (fl_config l)" "0 < n" "fl_buffer l = snd (cut_frames n pre)"
  shows "fl_buffer l' = snd (cut_frames n (pre @ concat (map snd chunks))) \<and>
      length (fsh_emitted s') + length (fst (cut_frames n pre)) \<le>
      length (fsh_emitted s) + length (fst (cut_frames n (pre @ concat (map snd chunks))))"
  using assms
proof (induction chunks arbitrary: l s pre)
  case (Cons c chunks)
  obtain clock data where c: "c = (clock, data)" by (cases c)
  obtain l1 s1 where step: "on_data lib clock data (l, s) = (l1, s1)" "fl_config l1 = fl_config l"
    "fl_buffer l1 = snd (cut_frames n (fl_buffer l @ data))" "fsh_processor s1 = fsh_processor s"
    "length (fsh_emitted s1) \<le> length (fsh_emitted s) + length (fst (cut_frames n (fl_buffer l @ data)))"
    using on_data_cut [of s l lib clock data, folded Cons.prems(3)] Cons.prems(2,4) by blast
  have app: "cut_frames n (pre @ data) = (fst (cut_frames n pre) @ fst (cut_frames n (fl_buffer l @ data)),
      snd (cut_frames n (fl_buffer l @ data)))"
    using frames.cut_append [of n pre] Cons.prems(5) by (metis prod.collapse)
  have "fl_buffer l' = snd (cut_frames n ((pre @ data) @ concat (map snd chunks))) \<and>
    length (fsh_emitted s') + length (fst (cut_frames n (pre @ data))) \<le>
    length (fsh_emitted s1) + length (fst (cut_frames n ((pre @ data) @ concat (map snd chunks))))"
    using Cons.prems step app c by (intro Cons.IH) auto
  then show ?case using app step(5) c by simp
qed simp

text \<open>C20: The listener never loses its place in the sample stream: however the bytes arrive in
  chunks and whatever the clock says, what stays buffered is the incomplete last frame of all
  bytes received so far, shorter than a frame, and at most one spectrum is emitted per frame.\<close>

theorem listener_keeps_frame_alignment:
  assumes "fold (\<lambda>(clock, data). on_data lib clock data) chunks (l, s) = (l', s')"
    and "fsh_processor s \<noteq> None" "0 < fc_fftSize (fl_config l)" "fl_buffer l = []"
  shows "let received = concat (map snd chunks); n = frame_bytes (fl_config l) in
    fl_buffer l' = drop (length received div n * n) received \<and> length (fl_buffer l') < n \<and>
    length (fsh_emitted s') \<le> length (fsh_emitted s) + length received div n"
proof -
  let ?n = "frame_bytes (fl_config l)" and ?rx = "concat (map snd chunks)"
  have n: "0 < ?n" using assms(3) by (simp add: frame_bytes_def)
  have "fl_buffer l' = snd (cut_frames ?n ?rx)" "length (fsh_emitted s') \<le> length (fsh_emitted s) + length (fst (cut_frames ?n ?rx))"
    using on_data_run [OF assms(1,2) refl n, of "[]"] assms(4) by (simp_all add: frames.cut_Nil)
  then show ?thesis
    using cut_frames_rest [OF n, of ?rx] n by (simp add: Let_def cut_frames_drop cut_frames_count)
qed

definition demo_config :: FFTStreamConfig where
  "demo_config = \<lparr>fc_frequency = 137900000, fc_bandwidth = 200000, fc_fftSize = 2, fc_gain = 40, fc_updateRate = 30\<rparr>"

definition demo_local :: fft_local where
  "demo_local = \<lparr>fl_config = demo_config, fl_buffer = [], fl_lastUpdate = 0\<rparr>"

definition demo_fft :: fft_lib where
  "demo_fft = \<lparr>fft_accepts = \<lambda>n. n = 2, fft_transform = \<lambda>n xs. xs\<rparr>"

theorem listener_keeps_frame_alignment_witness:
  "length (fl_buffer (fst (fold (\<lambda>(clock, data). on_data demo_fft clock data)
      [(\<lambda>k. 100, [1, 2, 3]), (\<lambda>k. 200, [4, 5, 6])] (demo_local, cleared)))) < 4"
  using listener_keeps_frame_alignment [of demo_fft "[(\<lambda>k. 100, [1, 2, 3]), (\<lambda>k. 200, [4, 5, 6])]" demo_local cleared
      "fst (fold (\<lambda>(clock, data). on_data demo_fft clock data)
        [(\<lambda>k. 100, [1, 2, 3]), (\<lambda>k. 200, [4, 5, 6])] (demo_local, cleared))"
      "snd (fold (\<lambda>(clock, data). on_data demo_fft clock data)
        [(\<lambda>k. 100, [1, 2, 3]), (\<lambda>k. 200, [4, 5, 6])] (demo_local, cleared))"]
  by (simp add: Let_def cleared_def demo_local_def demo_config_def frame_bytes_def)

end
