(* ===== verification/Fft_Stream.thy ===== *)
theory Fft_Stream
  imports Fft_Spectrum
begin

text \<open>
  The life cycle of the FFT stream of \<open>src/backend/capture/fft-stream.ts\<close>: starting,
  stopping and retuning \<open>rtl_sdr\<close>, with the module's variables as the state.  An
  asynchronous function that waits is a suspended task; the event loop runs one handler at a
  time: a call, the continuation of a task, or an event of a child process.
\<close>

section \<open>State\<close>

definition MIN_RESTART_DELAY_MS :: int where
  "MIN_RESTART_DELAY_MS = 4000"

datatype signal_name = SIGTERM | SIGKILL

record sdr_proc =
  spr_local :: fft_local
  spr_killed :: bool
  spr_exited :: bool
  spr_signals :: "signal_name list"

text \<open>
  The suspended functions: a stop waiting for its process (which resolves when the process
  ends or at the due time), a start waiting for such a stop, and a start sleeping.  A start is
  known by its callback.
\<close>

datatype fs_task =
    StopWait nat date
  | StartStopWait FFTStreamConfig nat nat date
  | StartSleep FFTStreamConfig nat date

datatype start_result = Returned bool | Threw string

record fft_stream =
  fs_shared :: fft_shared
  fs_proc :: "nat option"
  fs_procs :: "sdr_proc list"
  fs_config :: "FFTStreamConfig option"
  fs_running :: bool
  fs_starting :: bool
  fs_lastStop :: date
  fs_lastError :: "string option"
  fs_tasks :: "fs_task list"
  fs_timers :: "nat list"
  fs_results :: "(nat \<times> start_result) list"

definition fs_initial :: fft_stream where
  "fs_initial = \<lparr>fs_shared = \<lparr>fsh_processor = None, fsh_callback = None, fsh_average = None, fsh_count = 0,
       fsh_latest = None, fsh_notches = [], fsh_emitted = []\<rparr>,
     fs_proc = None, fs_procs = [], fs_config = None, fs_running = False, fs_starting = False,
     fs_lastStop = 0, fs_lastError = None, fs_tasks = [], fs_timers = [], fs_results = []\<rparr>"

definition return_start :: "nat \<Rightarrow> start_result \<Rightarrow> fft_stream \<Rightarrow> fft_stream" where
  "return_start cb r s = s\<lparr>fs_results := fs_results s @ [(cb, r)]\<rparr>"

definition upd_proc :: "nat \<Rightarrow> (sdr_proc \<Rightarrow> sdr_proc) \<Rightarrow> fft_stream \<Rightarrow> fft_stream" where
  "upd_proc pid f s =
     (if pid < length (fs_procs s) then s\<lparr>fs_procs := (fs_procs s)[pid := f (fs_procs s ! pid)]\<rparr> else s)"

text \<open>\<open>ChildProcess.kill\<close> sets \<open>killed\<close> when the signal could be sent.\<close>

definition proc_kill :: "signal_name \<Rightarrow> sdr_proc \<Rightarrow> sdr_proc" where
  "proc_kill sg p = (if spr_exited p then p else p\<lparr>spr_killed := True, spr_signals := spr_signals p @ [sg]\<rparr>)"

definition proc_killed :: "fft_stream \<Rightarrow> nat \<Rightarrow> bool" where
  "proc_killed s pid \<longleftrightarrow> pid < length (fs_procs s) \<and> spr_killed (fs_procs s ! pid)"

section \<open>Stopping\<close>

definition stop_tail :: "fft_stream \<Rightarrow> fft_stream" where
  "stop_tail s =
     s\<lparr>fs_shared := (fs_shared s)\<lparr>fsh_callback := None, fsh_processor := None, fsh_average := None,
                                   fsh_count := 0, fsh_latest := None\<rparr>,
       fs_config := None, fs_running := False, fs_lastError := None\<rparr>"

text \<open>
  The part of \<open>stopFFTStream\<close> up to its \<open>await\<close>: the process it waits for with the
  time-out of two seconds, or nothing to wait for.
\<close>

definition stop_begin :: "date \<Rightarrow> fft_stream \<Rightarrow> (nat \<times> date) option \<times> fft_stream" where
  "stop_begin now s =
     (case fs_proc s of
        Some pid \<Rightarrow>
          (if \<not> proc_killed s pid
           then (Some (pid, now + 2000),
                 (upd_proc pid (proc_kill SIGTERM) (s\<lparr>fs_proc := None\<rparr>))\<lparr>fs_timers := pid # fs_timers s\<rparr>)
           else (None, s))
      | None \<Rightarrow> (None, s))"

definition stop_resumed :: "date \<Rightarrow> fft_stream \<Rightarrow> fft_stream" where
  "stop_resumed now s = stop_tail (s\<lparr>fs_lastStop := now\<rparr>)"

definition stopFFTStream :: "date \<Rightarrow> fft_stream \<Rightarrow> fft_stream" where
  "stopFFTStream now s =
     (case stop_begin now s of
        (None, s) \<Rightarrow> stop_tail s
      | (Some (pid, due), s) \<Rightarrow> s\<lparr>fs_tasks := fs_tasks s @ [StopWait pid due]\<rparr>)"

section \<open>Starting\<close>

text \<open>
  From the construction of the processor on.  The constructor stands before the \<open>try\<close>;
  \<open>spawn_ok\<close> is whether \<open>spawn\<close> returns.
\<close>

definition start_spawn :: "fft_lib \<Rightarrow> bool \<Rightarrow> date \<Rightarrow> FFTStreamConfig \<Rightarrow> nat \<Rightarrow> fft_stream \<Rightarrow> fft_stream" where
  "start_spawn lib spawn_ok now config cb s =
     (if \<not> fft_accepts lib (fc_fftSize config)
      then return_start cb (Threw ''FFT size must be a power of two and bigger than 1'') s
      else let s = s\<lparr>fs_shared := (fs_shared s)\<lparr>fsh_processor := Some (fc_fftSize config)\<rparr>\<rparr>
           in if \<not> spawn_ok
              then return_start cb (Returned False) (s\<lparr>fs_running := False, fs_starting := False\<rparr>)
              else let pid = length (fs_procs s);
                       proc = \<lparr>spr_local = \<lparr>fl_config = config, fl_buffer = [], fl_lastUpdate = now\<rparr>,
                               spr_killed = False, spr_exited = False, spr_signals = []\<rparr>
                   in return_start cb (Returned True)
                        (s\<lparr>fs_procs := fs_procs s @ [proc], fs_proc := Some pid,
                           fs_shared := (fs_shared s)\<lparr>fsh_callback := Some cb\<rparr>,
                           fs_config := Some config, fs_running := True, fs_starting := False,
                           fs_lastError := None\<rparr>))"

definition start_delay :: "fft_lib \<Rightarrow> bool \<Rightarrow> date \<Rightarrow> FFTStreamConfig \<Rightarrow> nat \<Rightarrow> fft_stream \<Rightarrow> fft_stream" where
  "start_delay lib spawn_ok now config cb s =
     (let timeSinceStop = now - fs_lastStop s
      in if timeSinceStop < MIN_RESTART_DELAY_MS \<and> fs_lastStop s > 0
         then let waitTime = MIN_RESTART_DELAY_MS - timeSinceStop
              in s\<lparr>fs_tasks := fs_tasks s @ [StartSleep config cb (now + waitTime)]\<rparr>
         else start_spawn lib spawn_ok now config cb s)"

definition startFFTStream :: "fft_lib \<Rightarrow> bool \<Rightarrow> date \<Rightarrow> FFTStreamConfig \<Rightarrow> nat \<Rightarrow> fft_stream \<Rightarrow> fft_stream" where
  "startFFTStream lib spawn_ok now config cb s =
     (if fs_starting s then return_start cb (Returned False) s
      else if fs_running s \<and> map_option fc_frequency (fs_config s) = Some (fc_frequency config)
      then return_start cb (Returned True) (s\<lparr>fs_shared := (fs_shared s)\<lparr>fsh_callback := Some cb\<rparr>\<rparr>)
      else let s = s\<lparr>fs_starting := True\<rparr>
           in if fs_running s
              then (case stop_begin now s of
                      (None, s) \<Rightarrow> start_delay lib spawn_ok now config cb (stop_tail s)
                    | (Some (pid, due), s) \<Rightarrow> s\<lparr>fs_tasks := fs_tasks s @ [StartStopWait config cb pid due]\<rparr>)
              else start_delay lib spawn_ok now config cb s)"

definition updateFFTFrequency :: "fft_lib \<Rightarrow> bool \<Rightarrow> date \<Rightarrow> number \<Rightarrow> fft_stream \<Rightarrow> bool option \<times> fft_stream" where
  "updateFFTFrequency lib spawn_ok now frequency s =
     (case (fs_config s, fsh_callback (fs_shared s)) of
        (Some config, Some cb) \<Rightarrow> (None, startFFTStream lib spawn_ok now (config\<lparr>fc_frequency := frequency\<rparr>) cb s)
      | _ \<Rightarrow> (Some False, s))"

section \<open>Continuations and process events\<close>

definition proc_ended :: "fft_stream \<Rightarrow> nat \<Rightarrow> bool" where
  "proc_ended s pid \<longleftrightarrow> pid < length (fs_procs s) \<and> spr_exited (fs_procs s ! pid)"

definition drop_task :: "nat \<Rightarrow> fft_stream \<Rightarrow> fft_stream" where
  "drop_task k s = s\<lparr>fs_tasks := take k (fs_tasks s) @ drop (k + 1) (fs_tasks s)\<rparr>"

definition resume :: "fft_lib \<Rightarrow> bool \<Rightarrow> date \<Rightarrow> nat \<Rightarrow> fft_stream \<Rightarrow> fft_stream" where
  "resume lib spawn_ok now k s =
     (case elem_at (fs_tasks s) (int k) of
        None \<Rightarrow> s
      | Some (StopWait pid due) \<Rightarrow>
          (if proc_ended s pid \<or> now \<ge> due then stop_resumed now (drop_task k s) else s)
      | Some (StartStopWait config cb pid due) \<Rightarrow>
          (if proc_ended s pid \<or> now \<ge> due
           then start_delay lib spawn_ok now config cb (stop_resumed now (drop_task k s)) else s)
      | Some (StartSleep config cb due) \<Rightarrow>
          (if now \<ge> due then start_spawn lib spawn_ok now config cb (drop_task k s) else s))"

definition kill_timer :: "nat \<Rightarrow> fft_stream \<Rightarrow> fft_stream" where
  "kill_timer pid s =
     (if pid \<in> set (fs_timers s)
      then let s = s\<lparr>fs_timers := remove1 pid (fs_timers s)\<rparr>
           in if \<not> proc_killed s pid then upd_proc pid (proc_kill SIGKILL) s else s
      else s)"

definition stdout_data :: "fft_lib \<Rightarrow> nat \<Rightarrow> (nat \<Rightarrow> date) \<Rightarrow> byte list \<Rightarrow> fft_stream \<Rightarrow> fft_stream" where
  "stdout_data lib pid clock data s =
     (if pid < length (fs_procs s)
      then let (l, sh) = on_data lib clock data (spr_local (fs_procs s ! pid), fs_shared s)
           in upd_proc pid (\<lambda>p. p\<lparr>spr_local := l\<rparr>) (s\<lparr>fs_shared := sh\<rparr>)
      else s)"

definition stderr_data :: "string \<Rightarrow> fft_stream \<Rightarrow> fft_stream" where
  "stderr_data text s =
     (let msg = js_trim text
      in if js_includes msg ''No supported'' then s\<lparr>fs_lastError := Some ''No SDR hardware detected''\<rparr>
         else if js_includes msg ''error'' \<or> js_includes msg ''failed'' \<or> js_includes msg ''usb_''
         then s\<lparr>fs_lastError := Some msg\<rparr>
         else s)"

definition proc_error :: "string \<Rightarrow> fft_stream \<Rightarrow> fft_stream" where
  "proc_error msg s = s\<lparr>fs_lastError := Some msg, fs_running := False, fs_starting := False\<rparr>"

definition exit_message :: "int \<Rightarrow> string" where
  "exit_message code = ''SDR process exited with code '' @
     show_int code"

definition proc_close :: "date \<Rightarrow> nat \<Rightarrow> int option \<Rightarrow> fft_stream \<Rightarrow> fft_stream" where
  "proc_close now pid code s =
     (let s = upd_proc pid (spr_exited_update (\<lambda>_. True)) s;
          s = (case code of
                 Some c \<Rightarrow> if c \<noteq> 0 \<and> fs_lastError s \<notin> {None, Some []} then s else
                           if c \<noteq> 0 then s\<lparr>fs_lastError := Some (exit_message c)\<rparr> else s
               | None \<Rightarrow> s)
      in s\<lparr>fs_running := False, fs_starting := False, fs_proc := None, fs_lastStop := now\<rparr>)"

section \<open>Queries and events\<close>

definition isFFTStreamRunning :: "fft_stream \<Rightarrow> bool" where
  "isFFTStreamRunning s \<longleftrightarrow>
     fs_running s \<and> (case fs_proc s of None \<Rightarrow> False | Some pid \<Rightarrow> \<not> proc_killed s pid)"

definition getFFTStreamConfig :: "fft_stream \<Rightarrow> FFTStreamConfig option" where
  "getFFTStreamConfig s = fs_config s"

definition getLatestFFTData :: "fft_stream \<Rightarrow> FFTData option" where
  "getLatestFFTData s = fsh_latest (fs_shared s)"

definition getFFTStreamError :: "fft_stream \<Rightarrow> string option" where
  "getFFTStreamError s = fs_lastError s"

datatype fs_event =
    CallStart FFTStreamConfig nat
  | CallStop
  | CallUpdateFrequency number
  | CallNotch notch_call
  | Resume nat
  | KillTimer nat
  | StdoutData nat "nat \<Rightarrow> date" "byte list"
  | StderrData string
  | ProcError string
  | ProcExit nat
  | ProcClose nat "int option"

fun fs_step :: "fft_lib \<Rightarrow> date \<times> bool \<times> fs_event \<Rightarrow> fft_stream \<Rightarrow> fft_stream" where
  "fs_step lib (now, ok, CallStart config cb) s = startFFTStream lib ok now config cb s"
| "fs_step lib (now, ok, CallStop) s = stopFFTStream now s"
| "fs_step lib (now, ok, CallUpdateFrequency f) s = snd (updateFFTFrequency lib ok now f s)"
| "fs_step lib (now, ok, CallNotch c) s =
     s\<lparr>fs_shared := (fs_shared s)\<lparr>fsh_notches := notch_exec c (fsh_notches (fs_shared s))\<rparr>\<rparr>"
| "fs_step lib (now, ok, Resume k) s = resume lib ok now k s"
| "fs_step lib (now, ok, KillTimer pid) s = kill_timer pid s"
| "fs_step lib (now, ok, StdoutData pid clock data) s = stdout_data lib pid clock data s"
| "fs_step lib (now, ok, StderrData text) s = stderr_data text s"
| "fs_step lib (now, ok, ProcError msg) s = proc_error msg s"
| "fs_step lib (now, ok, ProcExit pid) s = upd_proc pid (spr_exited_update (\<lambda>_. True)) s"
| "fs_step lib (now, ok, ProcClose pid code) s = proc_close now pid code s"

section \<open>Invariant\<close>

text \<open>
  A running stream has a configuration, a callback and a processor; the current process was
  never sent a signal; a process under the watch of a kill timer was sent one or has ended;
  \<open>SIGKILL\<close> was never sent.
\<close>

definition running_inv :: "fft_stream \<Rightarrow> bool" where
  "running_inv s \<longleftrightarrow>
     (fs_running s \<longrightarrow> fs_config s \<noteq> None \<and> fsh_callback (fs_shared s) \<noteq> None \<and> fsh_processor (fs_shared s) \<noteq> None)"

definition procs_inv :: "fft_stream \<Rightarrow> bool" where
  "procs_inv s \<longleftrightarrow>
     (\<forall>pid. fs_proc s = Some pid \<longrightarrow> pid < length (fs_procs s) \<and> \<not> spr_killed (fs_procs s ! pid)) \<and>
     (\<forall>pid \<in> set (fs_timers s). pid < length (fs_procs s) \<and> (spr_killed (fs_procs s ! pid) \<or> spr_exited (fs_procs s ! pid))) \<and>
     (\<forall>i < length (fs_procs s). SIGKILL \<notin> set (spr_signals (fs_procs s ! i)))"

lemma upd_proc_simps [simp]:
  "fs_shared (upd_proc pid f s) = fs_shared s" "fs_proc (upd_proc pid f s) = fs_proc s"
  "fs_config (upd_proc pid f s) = fs_config s" "fs_running (upd_proc pid f s) = fs_running s"
  "fs_starting (upd_proc pid f s) = fs_starting s" "fs_lastStop (upd_proc pid f s) = fs_lastStop s"
  "fs_tasks (upd_proc pid f s) = fs_tasks s" "fs_timers (upd_proc pid f s) = fs_timers s"
  "fs_results (upd_proc pid f s) = fs_results s" "fs_lastError (upd_proc pid f s) = fs_lastError s"
  "length (fs_procs (upd_proc pid f s)) = length (fs_procs s)"
  by (simp_all add: upd_proc_def)

lemma upd_proc_nth:
  "i < length (fs_procs s) \<Longrightarrow>
   fs_procs (upd_proc pid f s) ! i = (if i = pid then f (fs_procs s ! i) else fs_procs s ! i)"
  by (simp add: upd_proc_def nth_list_update)

text \<open>A change of a process that respects its flags respects the invariant.\<close>

lemma procs_inv_upd:
  assumes "procs_inv s"
    and "\<And>p. spr_killed p \<Longrightarrow> spr_killed (f p)" "\<And>p. spr_exited p \<Longrightarrow> spr_exited (f p)"
    and "\<And>p. spr_signals (f p) = spr_signals p"
    and "\<And>p. \<not> spr_killed p \<Longrightarrow> \<not> spr_killed (f p)"
  shows "procs_inv (upd_proc pid f s)"
  using assms(1) unfolding procs_inv_def
  by (auto simp: upd_proc_nth assms(2-5))

lemma procs_inv_frame:
  assumes "procs_inv s" "fs_proc s' = fs_proc s \<or> fs_proc s' = None" "fs_procs s' = fs_procs s"
    "set (fs_timers s') \<subseteq> set (fs_timers s)"
  shows "procs_inv s'"
  using assms unfolding procs_inv_def by auto

lemma running_inv_stopped: "\<not> fs_running s \<Longrightarrow> running_inv s"
  by (simp add: running_inv_def)

lemma stop_tail_simps [simp]:
  "fs_proc (stop_tail s) = fs_proc s" "fs_procs (stop_tail s) = fs_procs s" "fs_timers (stop_tail s) = fs_timers s"
  "fs_running (stop_tail s) = False" "fs_starting (stop_tail s) = fs_starting s"
  "fs_lastStop (stop_tail s) = fs_lastStop s" "fs_tasks (stop_tail s) = fs_tasks s"
  "fs_results (stop_tail s) = fs_results s" "fs_config (stop_tail s) = None"
  by (simp_all add: stop_tail_def)

lemma stop_begin_procs_inv:
  assumes "procs_inv s" "stop_begin now s = (r, s')"
  shows "procs_inv s'"
proof (cases "fs_proc s")
  case None
  then show ?thesis using assms by (simp add: stop_begin_def)
next
  case (Some pid)
  then have pid: "pid < length (fs_procs s)" "\<not> spr_killed (fs_procs s ! pid)"
    using assms(1) by (auto simp: procs_inv_def)
  then have s': "s' = (upd_proc pid (proc_kill SIGTERM) (s\<lparr>fs_proc := None\<rparr>))\<lparr>fs_timers := pid # fs_timers s\<rparr>"
    using assms(2) Some by (simp add: stop_begin_def proc_killed_def)
  show ?thesis
    using assms(1) pid unfolding s' procs_inv_def
    by (auto simp: upd_proc_nth proc_kill_def)
qed

lemma stop_begin_running_inv:
  "running_inv s \<Longrightarrow> stop_begin now s = (r, s') \<Longrightarrow> running_inv s'"
  by (auto simp: stop_begin_def running_inv_def split: option.splits if_splits)

lemma start_spawn_inv:
  assumes "procs_inv s" "running_inv s"
  shows "procs_inv (start_spawn lib ok now c cb s) \<and> running_inv (start_spawn lib ok now c cb s)"
  using assms
  by (auto simp: start_spawn_def return_start_def procs_inv_def running_inv_def Let_def nth_append less_Suc_eq)

lemma start_delay_inv:
  assumes "procs_inv s" "running_inv s"
  shows "procs_inv (start_delay lib ok now c cb s) \<and> running_inv (start_delay lib ok now c cb s)"
  using assms start_spawn_inv [OF assms]
  by (auto simp: start_delay_def Let_def procs_inv_def running_inv_def)

lemma stop_tail_inv:
  assumes "procs_inv s"
  shows "procs_inv (stop_tail s) \<and> running_inv (stop_tail s)"
  using procs_inv_frame [OF assms, of "stop_tail s"] by (simp add: running_inv_stopped)

definition fs_inv :: "fft_stream \<Rightarrow> bool" where
  "fs_inv s \<longleftrightarrow> procs_inv s \<and> running_inv s"

lemma fs_inv_initial: "fs_inv fs_initial"
  by (simp add: fs_inv_def procs_inv_def running_inv_def fs_initial_def)

lemma procs_inv_tasks [simp]: "procs_inv (s\<lparr>fs_tasks := ts\<rparr>) = procs_inv s"
  "procs_inv (s\<lparr>fs_starting := b\<rparr>) = procs_inv s" "procs_inv (s\<lparr>fs_lastStop := t\<rparr>) = procs_inv s"
  "procs_inv (s\<lparr>fs_shared := sh\<rparr>) = procs_inv s" "procs_inv (s\<lparr>fs_lastError := e\<rparr>) = procs_inv s"
  "procs_inv (s\<lparr>fs_running := b\<rparr>) = procs_inv s"
  by (simp_all add: procs_inv_def)

lemma running_inv_tasks [simp]: "running_inv (s\<lparr>fs_tasks := ts\<rparr>) = running_inv s"
  "running_inv (s\<lparr>fs_starting := b\<rparr>) = running_inv s" "running_inv (s\<lparr>fs_lastStop := t\<rparr>) = running_inv s"
  "running_inv (s\<lparr>fs_lastError := e\<rparr>) = running_inv s" "running_inv (upd_proc pid f s) = running_inv s"
  by (simp_all add: running_inv_def)

lemma stop_inv: "fs_inv s \<Longrightarrow> fs_inv (stopFFTStream now s)"
  using stop_begin_procs_inv [of s now] stop_begin_running_inv [of s now]
  by (auto simp: stopFFTStream_def fs_inv_def stop_tail_inv split: prod.splits option.splits)

lemma return_start_inv [simp]:
  "procs_inv (return_start cb r s) = procs_inv s" "running_inv (return_start cb r s) = running_inv s"
  by (simp_all add: return_start_def procs_inv_def running_inv_def)

lemma start_inv: "fs_inv s \<Longrightarrow> fs_inv (startFFTStream lib ok now c cb s)"
proof -
  assume i: "fs_inv s"
  obtain r s1 where sb: "stop_begin now (s\<lparr>fs_starting := True\<rparr>) = (r, s1)" by fastforce
  have st: "procs_inv (s\<lparr>fs_starting := True\<rparr>)" "running_inv (s\<lparr>fs_starting := True\<rparr>)"
    using i by (simp_all add: fs_inv_def)
  have s1: "procs_inv s1" "running_inv s1"
    using stop_begin_procs_inv [OF st(1) sb] stop_begin_running_inv [OF st(2) sb] by simp_all
  have same: "running_inv (s\<lparr>fs_shared := (fs_shared s)\<lparr>fsh_callback := Some cb\<rparr>\<rparr>)"
    using i by (simp add: fs_inv_def running_inv_def)
  show ?thesis
    using i s1 same sb start_delay_inv [OF st] start_delay_inv [of "stop_tail s1"] stop_tail_inv [OF s1(1)]
    by (auto simp: startFFTStream_def fs_inv_def Let_def split: option.splits)
qed

lemma resume_inv: "fs_inv s \<Longrightarrow> fs_inv (resume lib ok now k s)"
proof -
  assume i: "fs_inv s"
  have d: "procs_inv (drop_task k s)" "running_inv (drop_task k s)"
    using i by (simp_all add: fs_inv_def drop_task_def)
  have t: "procs_inv (stop_resumed now (drop_task k s)) \<and> running_inv (stop_resumed now (drop_task k s))"
    unfolding stop_resumed_def by (rule stop_tail_inv) (simp add: d)
  show ?thesis
    using i t start_delay_inv [of "stop_resumed now (drop_task k s)" lib ok now] start_spawn_inv [OF d, of lib ok now]
    by (auto simp: resume_def fs_inv_def split: option.splits fs_task.splits)
qed

lemma kill_timer_inv: "fs_inv s \<Longrightarrow> fs_inv (kill_timer pid s)"
proof -
  assume i: "fs_inv s"
  let ?s = "s\<lparr>fs_timers := remove1 pid (fs_timers s)\<rparr>"
  have "procs_inv ?s"
    using i procs_inv_frame [of s ?s] by (simp add: fs_inv_def set_remove1_subset)
  moreover have "upd_proc pid (proc_kill SIGKILL) ?s = ?s" if "pid \<in> set (fs_timers s)" "\<not> proc_killed ?s pid"
  proof -
    have "pid < length (fs_procs s)" "spr_exited (fs_procs s ! pid)"
      using i that by (auto simp: fs_inv_def procs_inv_def proc_killed_def)
    then show ?thesis by (simp add: upd_proc_def proc_kill_def)
  qed
  moreover have "running_inv ?s" using i by (simp add: fs_inv_def running_inv_def)
  ultimately show ?thesis using i by (simp add: kill_timer_def Let_def fs_inv_def)
qed

lemma frame_loop_keeps:
  assumes "frame_loop lib clock k l s = (b, l', s')"
  shows "fsh_processor s' = fsh_processor s \<and> fsh_callback s' = fsh_callback s"
  using assms
proof (induction lib clock k l s rule: frame_loop.induct)
  case (1 lib clock k l s)
  show ?case
    using "1.prems" "1.IH"
    by (subst (asm) frame_loop.simps) (auto simp: Let_def split: if_splits option.splits)
qed

lemma on_data_keeps:
  "on_data lib clock data (l, s) = (l', s') \<Longrightarrow> fsh_processor s' = fsh_processor s \<and> fsh_callback s' = fsh_callback s"
  by (auto simp: on_data_def Let_def split: prod.splits bool.splits if_splits dest!: frame_loop_keeps)

lemma stdout_inv:
  assumes "fs_inv s"
  shows "fs_inv (stdout_data lib pid clock data s)"
proof -
  obtain l sh where od: "on_data lib clock data (spr_local (fs_procs s ! pid), fs_shared s) = (l, sh)" by fastforce
  have "running_inv (s\<lparr>fs_shared := sh\<rparr>)"
    using assms on_data_keeps [OF od] by (simp add: fs_inv_def running_inv_def)
  moreover have "procs_inv (upd_proc pid (\<lambda>p. p\<lparr>spr_local := l\<rparr>) (s\<lparr>fs_shared := sh\<rparr>))"
    using assms by (intro procs_inv_upd) (simp_all add: fs_inv_def)
  ultimately show ?thesis using assms od by (simp add: stdout_data_def fs_inv_def)
qed

lemma proc_exit_inv: "fs_inv s \<Longrightarrow> fs_inv (upd_proc pid (spr_exited_update (\<lambda>_. True)) s)"
  using procs_inv_upd [of s "spr_exited_update (\<lambda>_. True)" pid] by (simp add: fs_inv_def)

lemma proc_close_inv:
  assumes "fs_inv s"
  shows "fs_inv (proc_close now pid code s)"
proof -
  have "procs_inv (upd_proc pid (spr_exited_update (\<lambda>_. True)) s)"
    using proc_exit_inv [OF assms] by (simp add: fs_inv_def)
  then show ?thesis
    unfolding fs_inv_def proc_close_def Let_def
    by (auto simp: running_inv_stopped split: option.splits intro: procs_inv_frame)
qed

lemma stderr_inv: "fs_inv s \<Longrightarrow> fs_inv (stderr_data text s)"
  by (simp add: stderr_data_def Let_def fs_inv_def)

lemma proc_error_inv: "fs_inv s \<Longrightarrow> fs_inv (proc_error msg s)"
  by (simp add: proc_error_def fs_inv_def running_inv_stopped)

interpretation fs_sys: handler_system "\<lambda>s. s = fs_initial" "\<lambda>_. True" "fs_step lib" fs_inv for lib
proof
  show "fs_inv (fs_step lib e s)" if i: "fs_inv s" for e s
  proof (cases "(lib, e, s)" rule: fs_step.cases)
    case (3 lib' now ok f s')
    then show ?thesis using i start_inv by (auto simp: updateFFTFrequency_def split: option.splits)
  next
    case (4 lib' now ok c s')
    then show ?thesis using i by (auto simp: fs_inv_def running_inv_def)
  qed (use i in \<open>simp_all add: start_inv stop_inv resume_inv kill_timer_inv stdout_inv proc_exit_inv proc_close_inv
      stderr_inv proc_error_inv\<close>)
qed (simp add: fs_inv_initial)

text \<open>C11: In every state the event loop can reach, whatever the order of calls, continuations and
  process events, a running stream has a configuration, a callback and a processor, the current
  process has not been sent a signal, and no process is ever sent \<open>SIGKILL\<close>: the fallback
  for a process that ignores \<open>SIGTERM\<close> never acts.\<close>

theorem fft_stream_invariant:
  "let s = fold (fs_step lib) events fs_initial in
   (fs_running s \<longrightarrow> fs_config s \<noteq> None \<and> fsh_callback (fs_shared s) \<noteq> None \<and> fsh_processor (fs_shared s) \<noteq> None) \<and>
   (\<forall>pid. fs_proc s = Some pid \<longrightarrow> pid < length (fs_procs s) \<and> \<not> spr_killed (fs_procs s ! pid)) \<and>
   (\<forall>i < length (fs_procs s). SIGKILL \<notin> set (spr_signals (fs_procs s ! i)))"
proof -
  have "fs_inv (fold (fs_step lib) events fs_initial)"
    by (rule fs_sys.reachable_inv) (simp_all add: list_all_iff)
  then show ?thesis by (simp add: Let_def fs_inv_def procs_inv_def running_inv_def)
qed

theorem fft_stream_invariant_witness:
  "let s = fold (fs_step demo_fft) [(0, True, CallStart demo_config 1)] fs_initial in
   fs_running s \<and> fs_config s \<noteq> None \<and> fsh_callback (fs_shared s) \<noteq> None"
  using fft_stream_invariant [of demo_fft "[(0, True, CallStart demo_config 1)]"]
  by (simp add: Let_def startFFTStream_def start_delay_def start_spawn_def return_start_def fs_initial_def
      demo_fft_def demo_config_def)

section \<open>Starting and stopping in sequence\<close>

lemmas fs_defs = startFFTStream_def stopFFTStream_def start_delay_def start_spawn_def return_start_def
  stop_begin_def stop_tail_def stop_resumed_def resume_def proc_close_def upd_proc_def proc_kill_def
  proc_killed_def proc_ended_def drop_task_def isFFTStreamRunning_def MIN_RESTART_DELAY_MS_def Let_def

lemma elem_at_0 [simp]: "elem_at xs 0 = first xs"
  by (cases xs) (simp_all add: elem_at_def)

text \<open>A start that is called within four seconds of the last stop, on a stream that is neither
  running nor starting, spawns nothing before those four seconds are over, keeps sleeping when
  it is woken early, and then spawns exactly one process, runs at the requested frequency and
  returns true.\<close>

theorem start_waits_for_device:
  assumes "\<not> fs_running s" "\<not> fs_starting s" "fs_tasks s = []" "fft_accepts lib (fc_fftSize c)"
    and "0 < fs_lastStop s" "t < fs_lastStop s + MIN_RESTART_DELAY_MS"
    and "early < fs_lastStop s + MIN_RESTART_DELAY_MS" "fs_lastStop s + MIN_RESTART_DELAY_MS \<le> late"
  shows "let s1 = startFFTStream lib True t c cb s; s2 = resume lib True late 0 s1 in
    fs_procs s1 = fs_procs s \<and> fs_results s1 = fs_results s \<and> resume lib True early 0 s1 = s1 \<and>
    length (fs_procs s2) = length (fs_procs s) + 1 \<and> isFFTStreamRunning s2 \<and>
    fs_config s2 = Some c \<and> fs_results s2 = fs_results s @ [(cb, Returned True)]"
  using assms by (simp add: fs_defs)

theorem start_waits_for_device_witness:
  "let s = fs_initial\<lparr>fs_lastStop := 1000\<rparr>; s1 = startFFTStream demo_fft True 2000 demo_config 1 s;
       s2 = resume demo_fft True 5000 0 s1 in
   fs_procs s1 = [] \<and> length (fs_procs s2) = 1 \<and> isFFTStreamRunning s2"
  using start_waits_for_device [of "fs_initial\<lparr>fs_lastStop := 1000\<rparr>" demo_fft demo_config 2000 4999 5000 1]
  by (simp add: fs_initial_def demo_fft_def demo_config_def MIN_RESTART_DELAY_MS_def Let_def)

text \<open>Stopping a running stream sends its process \<open>SIGTERM\<close>, keeps waiting while the
  process lives and the two seconds last, and then leaves a stream that is not running, with no
  process, configuration, callback, processor, average or last frame.\<close>

theorem stop_terminates_stream:
  assumes "fs_inv s" "isFFTStreamRunning s" "fs_proc s = Some pid" "fs_tasks s = []"
    and "\<not> spr_exited (fs_procs s ! pid)" "early < t + 2000" "t + 2000 \<le> late"
  shows "let s1 = stopFFTStream t s; s2 = resume lib ok late 0 s1 in
    SIGTERM \<in> set (spr_signals (fs_procs s1 ! pid)) \<and> resume lib ok early 0 s1 = s1 \<and>
    \<not> isFFTStreamRunning s2 \<and> fs_proc s2 = None \<and> fs_config s2 = None \<and> fs_lastStop s2 = late \<and>
    fsh_callback (fs_shared s2) = None \<and> fsh_processor (fs_shared s2) = None \<and>
    fsh_average (fs_shared s2) = None \<and> getLatestFFTData s2 = None"
proof -
  have "pid < length (fs_procs s)" "\<not> spr_killed (fs_procs s ! pid)"
    using assms(1,3) by (auto simp: fs_inv_def procs_inv_def)
  then show ?thesis using assms by (simp add: fs_defs getLatestFFTData_def)
qed

definition demo_running :: fft_stream where
  "demo_running = startFFTStream demo_fft True 0 demo_config 1 fs_initial"

lemma demo_running_inv: "fs_inv demo_running"
  unfolding demo_running_def by (rule start_inv) (rule fs_inv_initial)

theorem stop_terminates_stream_witness:
  "let s2 = resume demo_fft True 3000 0 (stopFFTStream 1000 demo_running) in
   \<not> isFFTStreamRunning s2 \<and> fs_proc s2 = None \<and> fs_lastStop s2 = 3000"
  using stop_terminates_stream [OF demo_running_inv, of 0 0 1000 3000 demo_fft True]
  by (simp add: demo_running_def fs_defs fs_initial_def demo_fft_def demo_config_def)

section \<open>Races\<close>

text \<open>The flag meant to prevent two starts at a time does not survive a restart: retuning a
  running stream ends the old process, whose \<open>close\<close> handler clears the flag while the
  restart still sleeps, so a third start is let in and two processes run on the one device, the
  first of which nothing refers to any more.\<close>

theorem restart_guard_defeated:
  assumes "fft_accepts lib (fc_fftSize c1)" "fft_accepts lib (fc_fftSize c2)" "fft_accepts lib (fc_fftSize c3)"
    and "fc_frequency c1 \<noteq> fc_frequency c2" "0 < t"
  shows "let s = fold (fs_step lib)
      [(t, True, CallStart c1 1), (t + 10, True, CallStart c2 2), (t + 20, True, ProcClose 0 None),
       (t + 20, True, Resume 0), (t + 500, True, CallStart c3 3), (t + 4020, True, Resume 0),
       (t + 4020, True, Resume 0)] fs_initial in
    length (fs_procs s) = 3 \<and> fs_proc s = Some 2 \<and>
    (\<forall>pid \<in> {1, 2}. \<not> spr_killed (fs_procs s ! pid) \<and> \<not> spr_exited (fs_procs s ! pid)) \<and>
    fs_results s = [(1, Returned True), (2, Returned True), (3, Returned True)]"
  using assms by (simp add: fs_defs fs_initial_def)

theorem restart_guard_defeated_witness:
  "let c2 = demo_config\<lparr>fc_frequency := 145500000\<rparr>;
       s = fold (fs_step demo_fft)
      [(1, True, CallStart demo_config 1), (1 + 10, True, CallStart c2 2), (1 + 20, True, ProcClose 0 None),
       (1 + 20, True, Resume 0), (1 + 500, True, CallStart demo_config 3), (1 + 4020, True, Resume 0),
       (1 + 4020, True, Resume 0)] fs_initial in
    length (fs_procs s) = 3 \<and> \<not> spr_killed (fs_procs s ! 1) \<and> \<not> spr_killed (fs_procs s ! 2)"
  using restart_guard_defeated [of demo_fft demo_config "demo_config\<lparr>fc_frequency := 145500000\<rparr>" demo_config 1]
  by (simp add: demo_fft_def demo_config_def Let_def)

text \<open>A stop that is called while a start sleeps is lost: the stream reports that it is not
  running, the stop returns with nothing to do, and the sleeping start then takes the device
  and runs.\<close>

theorem stop_during_start_is_lost:
  assumes "fft_accepts lib (fc_fftSize c)" "\<not> fs_running s" "\<not> fs_starting s" "fs_tasks s = []" "fs_proc s = None"
    and "0 < fs_lastStop s" "t < fs_lastStop s + MIN_RESTART_DELAY_MS" "fs_lastStop s + MIN_RESTART_DELAY_MS \<le> late"
  shows "let s1 = startFFTStream lib True t c cb s; s2 = stopFFTStream u s1; s3 = resume lib True late 0 s2 in
    \<not> isFFTStreamRunning s1 \<and> fs_tasks s2 = fs_tasks s1 \<and> isFFTStreamRunning s3 \<and>
    fs_config s3 = Some c \<and> fsh_callback (fs_shared s3) = Some cb"
  using assms by (simp add: fs_defs)

theorem stop_during_start_is_lost_witness:
  "let s1 = startFFTStream demo_fft True 2000 demo_config 1 (fs_initial\<lparr>fs_lastStop := 1000\<rparr>);
       s3 = resume demo_fft True 5000 0 (stopFFTStream 2500 s1) in
   \<not> isFFTStreamRunning s1 \<and> isFFTStreamRunning s3"
  using stop_during_start_is_lost [of demo_fft demo_config "fs_initial\<lparr>fs_lastStop := 1000\<rparr>" 2000 5000 1 2500]
  by (simp add: fs_initial_def demo_fft_def demo_config_def MIN_RESTART_DELAY_MS_def Let_def)

text \<open>A size the FFT package refuses disables the stream for good: the start throws with the
  flag left set, and every later start, of any size, returns false without spawning a process.\<close>

theorem bad_fft_size_blocks_stream:
  assumes "\<not> fft_accepts lib (fc_fftSize bad)" "\<not> fs_running s" "\<not> fs_starting s" "fs_lastStop s = 0"
  shows "let s1 = startFFTStream lib True t bad cb s;
             s2 = fold (\<lambda>(t, c, cb). startFFTStream lib True t c cb) calls s1 in
    (\<exists>e. fs_results s1 = fs_results s @ [(cb, Threw e)]) \<and>
    fs_results s2 = fs_results s1 @ map (\<lambda>(t, c, cb). (cb, Returned False)) calls \<and>
    fs_procs s2 = fs_procs s \<and> \<not> isFFTStreamRunning s2"
proof -
  let ?s1 = "startFFTStream lib True t bad cb s"
  have s1: "fs_starting ?s1" "\<not> fs_running ?s1" "fs_procs ?s1 = fs_procs s" "\<exists>e. fs_results ?s1 = fs_results s @ [(cb, Threw e)]"
    using assms by (simp_all add: fs_defs)
  have "fs_results (fold (\<lambda>(t, c, cb). startFFTStream lib True t c cb) calls u) =
      fs_results u @ map (\<lambda>(t, c, cb). (cb, Returned False)) calls \<and>
      fs_procs (fold (\<lambda>(t, c, cb). startFFTStream lib True t c cb) calls u) = fs_procs u \<and>
      \<not> fs_running (fold (\<lambda>(t, c, cb). startFFTStream lib True t c cb) calls u)"
    if "fs_starting u" "\<not> fs_running u" for u
    using that by (induction calls arbitrary: u) (auto simp: startFFTStream_def return_start_def)
  from this [of ?s1] s1 show ?thesis by (simp add: Let_def isFFTStreamRunning_def)
qed

theorem bad_fft_size_blocks_stream_witness:
  "let s2 = fold (\<lambda>(t, c, cb). startFFTStream demo_fft True t c cb) [(100, demo_config, 2)]
      (startFFTStream demo_fft True 0 (demo_config\<lparr>fc_fftSize := 1000\<rparr>) 1 fs_initial) in
   \<not> isFFTStreamRunning s2 \<and> fs_procs s2 = []"
  using bad_fft_size_blocks_stream [of demo_fft "demo_config\<lparr>fc_fftSize := 1000\<rparr>" fs_initial 0 1 "[(100, demo_config, 2)]"]
  by (simp add: fs_initial_def demo_fft_def Let_def)

end
