(* ===== verification/Iso_Time.thy ===== *)
theory Iso_Time
  imports NW_Prelude
begin

text \<open>
  \<open>Date.prototype.toISOString\<close> and SQLite's \<open>datetime('now')\<close>: the
  proleptic Gregorian calendar of the days since 1970, and the proof that the printed
  form determines the instant.  Recording names, pass identifiers and database rows are
  built from it.
\<close>

section \<open>The civil calendar\<close>

text \<open>
  Days are counted from 1 March of the year 0, in eras of 400 years, centuries, groups of
  four years, years and the months from March.
\<close>

record civil =
  cv_year :: int
  cv_month :: int
  cv_day :: int

definition civil_of_days :: "int \<Rightarrow> civil" where
  "civil_of_days days =
     (let z = days + 719468;
          era = z div 146097; doe = z mod 146097;
          c = min 3 (doe div 36524); r = doe - c * 36524;
          q = r div 1461; s = r mod 1461;
          a = min 3 (s div 365); doy = s - a * 365;
          mp = (5 * doy + 2) div 153;
          d = doy - (153 * mp + 2) div 5 + 1;
          m = (if mp < 10 then mp + 3 else mp - 9);
          y = era * 400 + c * 100 + q * 4 + a
      in \<lparr>cv_year = (if m \<le> 2 then y + 1 else y), cv_month = m, cv_day = d\<rparr>)"

definition days_of_civil :: "civil \<Rightarrow> int" where
  "days_of_civil v =
     (let y = (if cv_month v \<le> 2 then cv_year v - 1 else cv_year v);
          mp = (if cv_month v \<le> 2 then cv_month v + 9 else cv_month v - 3);
          era = y div 400; yoe = y mod 400;
          doy = (153 * mp + 2) div 5 + cv_day v - 1
      in era * 146097 + yoe * 365 + yoe div 4 - yoe div 100 + doy - 719468)"

lemma century_split:
  assumes "0 \<le> doe" "doe < (146097 :: int)"
  defines "c \<equiv> min 3 (doe div 36524)"
  shows "0 \<le> c" "c \<le> 3" "0 \<le> doe - c * 36524" "doe - c * 36524 \<le> 36524"
  using assms by (auto simp: min_def)

lemma quad_split:
  assumes "0 \<le> r" "r \<le> (36524 :: int)"
  shows "0 \<le> r div 1461" "r div 1461 \<le> 24" "0 \<le> r mod 1461" "r mod 1461 \<le> 1460"
  using assms by auto

lemma year_split:
  assumes "0 \<le> s" "s \<le> (1460 :: int)"
  defines "a \<equiv> min 3 (s div 365)"
  shows "0 \<le> a" "a \<le> 3" "0 \<le> s - a * 365" "s - a * 365 \<le> 365"
  using assms by (auto simp: min_def)

lemma month_split:
  assumes "0 \<le> doy" "doy \<le> (365 :: int)"
  defines "mp \<equiv> (5 * doy + 2) div 153"
  shows "0 \<le> mp" "mp \<le> 11" "1 \<le> doy - (153 * mp + 2) div 5 + 1" "doy - (153 * mp + 2) div 5 + 1 \<le> 31"
proof -
  show "0 \<le> mp" "mp \<le> 11" using assms by auto
  have "153 * mp \<le> 5 * doy + 2" "5 * doy + 2 < 153 * mp + 153"
    unfolding mp_def by linarith+
  then show "1 \<le> doy - (153 * mp + 2) div 5 + 1" "doy - (153 * mp + 2) div 5 + 1 \<le> 31"
    by linarith+
qed

lemma year_of_era:
  assumes "0 \<le> c" "c \<le> 3" "0 \<le> q" "q \<le> 24" "0 \<le> a" "a \<le> (3 :: int)"
  shows "(era * 400 + c * 100 + q * 4 + a) div 400 = era"
    "(era * 400 + c * 100 + q * 4 + a) mod 400 = c * 100 + q * 4 + a"
    "(c * 100 + q * 4 + a) div 4 = c * 25 + q"
    "(c * 100 + q * 4 + a) div 100 = c"
proof -
  have b: "0 \<le> c * 100 + q * 4 + a" "c * 100 + q * 4 + a < 400" using assms by auto
  have e: "era * 400 + c * 100 + q * 4 + a = (c * 100 + q * 4 + a) + 400 * era" by simp
  show "(era * 400 + c * 100 + q * 4 + a) div 400 = era"
    unfolding e div_mult_self2 using b by simp
  show "(era * 400 + c * 100 + q * 4 + a) mod 400 = c * 100 + q * 4 + a"
    unfolding e mod_mult_self2 using b by simp
  show "(c * 100 + q * 4 + a) div 4 = c * 25 + q" "(c * 100 + q * 4 + a) div 100 = c"
    using assms by linarith+
qed

lemma civil_parts:
  obtains era c q a doy mp d where
    "days = era * 146097 + c * 36524 + q * 1461 + a * 365 + doy - 719468"
    "0 \<le> c" "c \<le> 3" "0 \<le> q" "q \<le> 24" "0 \<le> a" "a \<le> 3" "0 \<le> mp" "mp \<le> 11"
    "doy = (153 * mp + 2) div 5 + d - 1" "1 \<le> d" "d \<le> 31"
    "civil_of_days days = \<lparr>cv_year = era * 400 + c * 100 + q * 4 + a + (if mp < 10 then 0 else 1),
       cv_month = (if mp < 10 then mp + 3 else mp - 9), cv_day = d\<rparr>"
proof -
  define z where "z = days + 719468"
  define doe where "doe = z mod 146097"
  define c where "c = min 3 (doe div 36524)"
  define r where "r = doe - c * 36524"
  define s where "s = r mod 1461"
  define a where "a = min 3 (s div 365)"
  define doy where "doy = s - a * 365"
  define mp where "mp = (5 * doy + 2) div 153"
  define d where "d = doy - (153 * mp + 2) div 5 + 1"
  have doe: "0 \<le> doe" "doe < 146097" by (simp_all add: doe_def)
  note cs = century_split [OF doe, folded c_def, folded r_def]
  note qs = quad_split [OF cs(3,4), folded s_def]
  note ys = year_split [OF qs(3,4), folded a_def, folded doy_def]
  note ms = month_split [OF ys(3,4), folded mp_def, folded d_def]
  have "r = r div 1461 * 1461 + s" by (simp add: s_def)
  moreover have "z = z div 146097 * 146097 + doe" by (simp add: doe_def)
  ultimately have "days = z div 146097 * 146097 + c * 36524 + (r div 1461) * 1461 + a * 365 + doy - 719468"
    by (simp add: z_def r_def doy_def)
  moreover have "civil_of_days days = \<lparr>cv_year = z div 146097 * 400 + c * 100 + (r div 1461) * 4 + a + (if mp < 10 then 0 else 1),
       cv_month = (if mp < 10 then mp + 3 else mp - 9), cv_day = d\<rparr>"
    unfolding civil_of_days_def Let_def z_def [symmetric] doe_def [symmetric] c_def [symmetric]
      r_def [symmetric] s_def [symmetric] a_def [symmetric] doy_def [symmetric] mp_def [symmetric]
      d_def [symmetric]
    using ms(1,2) by auto
  moreover have "doy = (153 * mp + 2) div 5 + d - 1" by (simp add: d_def)
  ultimately show thesis using that cs(1,2) qs(1,2) ys(1,2) ms by blast
qed

lemma days_of_civil_of_days: "days_of_civil (civil_of_days days) = days"
proof -
  obtain era c q a doy mp d where p:
    "days = era * 146097 + c * 36524 + q * 1461 + a * 365 + doy - 719468"
    "0 \<le> c" "c \<le> 3" "0 \<le> q" "q \<le> 24" "0 \<le> a" "a \<le> 3" "0 \<le> mp" "mp \<le> 11"
    "doy = (153 * mp + 2) div 5 + d - 1" "1 \<le> d" "d \<le> 31"
    "civil_of_days days = \<lparr>cv_year = era * 400 + c * 100 + q * 4 + a + (if mp < 10 then 0 else 1),
       cv_month = (if mp < 10 then mp + 3 else mp - 9), cv_day = d\<rparr>"
    by (rule civil_parts [of days])
  note y = year_of_era [OF p(2-7)]
  have "days_of_civil (civil_of_days days) = era * 146097 + c * 36524 + q * 1461 + a * 365 + doy - 719468"
    unfolding p(13) p(10) using p(8,9) by (auto simp: days_of_civil_def Let_def y)
  then show ?thesis by (simp add: p(1))
qed

lemma civil_ranges:
  "1 \<le> cv_month (civil_of_days days)" "cv_month (civil_of_days days) \<le> 12"
  "1 \<le> cv_day (civil_of_days days)" "cv_day (civil_of_days days) \<le> 31"
  by (rule civil_parts [of days]; auto)+

section \<open>Printing\<close>

text \<open>
  A year from 0 to 9999 is printed with four digits, any other with a sign and six.
\<close>

definition pad :: "nat \<Rightarrow> int \<Rightarrow> string" where
  "pad w n = js_padStart w (CHR ''0'') (show_nat (nat n))"

definition show_year :: "int \<Rightarrow> string" where
  "show_year y =
     (if 0 \<le> y \<and> y \<le> 9999 then pad 4 y
      else if y < 0 then ''-'' @ pad 6 (- y) else ''+'' @ pad 6 y)"

definition day_ms :: int where
  "day_ms = 86400000"

definition date_fields :: "date \<Rightarrow> int \<times> int \<times> int \<times> int \<times> int \<times> int \<times> int" where
  "date_fields t =
     (let v = civil_of_days (t div day_ms); r = t mod day_ms
      in (cv_year v, cv_month v, cv_day v, r div 3600000, r div 60000 mod 60, r div 1000 mod 60, r mod 1000))"

definition js_toISOString :: "date \<Rightarrow> string" where
  "js_toISOString t =
     (let (y, mo, d, h, mi, s, ms) = date_fields t
      in show_year y @ ''-'' @ pad 2 mo @ ''-'' @ pad 2 d @ ''T'' @ pad 2 h @ '':'' @ pad 2 mi @ '':'' @
         pad 2 s @ ''.'' @ pad 3 ms @ ''Z'')"

definition sqlite_datetime :: "date \<Rightarrow> string" where
  "sqlite_datetime t =
     (let (y, mo, d, h, mi, s, ms) = date_fields t
      in pad 4 y @ ''-'' @ pad 2 mo @ ''-'' @ pad 2 d @ '' '' @ pad 2 h @ '':'' @ pad 2 mi @ '':'' @ pad 2 s)"

definition four_digit_year :: "date \<Rightarrow> bool" where
  "four_digit_year t \<longleftrightarrow> 0 \<le> cv_year (civil_of_days (t div day_ms)) \<and> cv_year (civil_of_days (t div day_ms)) \<le> 9999"

lemma show_nat_length: "n < 10 ^ w \<Longrightarrow> 0 < w \<Longrightarrow> length (show_nat n) \<le> w"
proof (induction n arbitrary: w rule: show_nat.induct)
  case (1 n)
  show ?case
  proof (cases "n < 10")
    case True
    then show ?thesis using "1.prems" by (simp add: show_nat.simps [of n])
  next
    case False
    then obtain v where w: "w = Suc v" "0 < v"
      using "1.prems" by (cases w; cases "w - 1") auto
    then have "n div 10 < 10 ^ v" using "1.prems" by auto
    then have "length (show_nat (n div 10)) \<le> v" using "1.IH" False w by blast
    then show ?thesis using False w by (simp add: show_nat.simps [of n])
  qed
qed

lemma pad_length: "0 \<le> n \<Longrightarrow> n < 10 ^ w \<Longrightarrow> 0 < w \<Longrightarrow> length (pad w n) = w"
  using show_nat_length [of "nat n" w] by (simp add: pad_def js_padStart_def nat_less_iff)

lemma parse_zeros: "parse_digits (replicate k (CHR ''0'') @ ds) = parse_digits ds"
  by (induction k) (simp_all add: parse_digits_def digit_value_def)

lemma parse_pad: "parse_digits (pad w n) = nat n"
  by (simp add: pad_def js_padStart_def parse_zeros parse_show_nat)

lemma pad_eq_iff: "0 \<le> m \<Longrightarrow> 0 \<le> n \<Longrightarrow> pad w m = pad w n \<longleftrightarrow> m = n"
  by (metis parse_pad nat_0_le)

lemma pad_digits: "c \<in> set (pad w n) \<Longrightarrow> is_digit c"
  using is_digit_show by (auto simp: pad_def js_padStart_def is_digit_def)

lemma ms_of_day:
  "t mod day_ms div 1000 = t div 1000 mod 86400" "t mod day_ms mod 1000 = t mod 1000"
  "t div day_ms = t div 1000 div 86400"
proof -
  have m: "t mod day_ms = 1000 * (t div 1000 mod 86400) + t mod 1000"
    unfolding day_ms_def using zmod_zmult2_eq [of 86400 t 1000] by simp
  show "t mod day_ms div 1000 = t div 1000 mod 86400" "t mod day_ms mod 1000 = t mod 1000"
    unfolding m by simp_all
  show "t div day_ms = t div 1000 div 86400"
    unfolding day_ms_def using zdiv_zmult2_eq [of 86400 t 1000] by simp
qed

text \<open>All fields but the last are functions of the second of the day.\<close>

lemma date_fields_eq:
  "date_fields t =
     (let v = civil_of_days (t div 1000 div 86400); w = t div 1000 mod 86400
      in (cv_year v, cv_month v, cv_day v, w div 3600, w div 60 mod 60, w mod 60, t mod 1000))"
proof -
  have "r div 3600000 = r div 1000 div 3600" "r div 60000 = r div 1000 div 60" for r :: int
    using zdiv_zmult2_eq [of 3600 r 1000] zdiv_zmult2_eq [of 60 r 1000] by simp_all
  then show ?thesis
    by (simp add: date_fields_def Let_def ms_of_day)
qed

lemma date_fields_ranges:
  assumes "date_fields t = (y, mo, d, h, mi, s, ms)"
  shows "1 \<le> mo" "mo \<le> 12" "1 \<le> d" "d \<le> 31" "0 \<le> h" "h < 24" "0 \<le> mi" "mi < 60" "0 \<le> s" "s < 60"
    "0 \<le> ms" "ms < 1000"
proof -
  have "0 \<le> w div 3600 \<and> w div 3600 < 24" if "0 \<le> w" "w < 86400" for w :: int
    using that by auto
  from this [of "t div 1000 mod 86400"]
  have h: "0 \<le> t div 1000 mod 86400 div 3600" "t div 1000 mod 86400 div 3600 < 24" by simp_all
  have e: "mo = cv_month (civil_of_days (t div 1000 div 86400))" "d = cv_day (civil_of_days (t div 1000 div 86400))"
    "h = t div 1000 mod 86400 div 3600" "mi = t div 1000 mod 86400 div 60 mod 60"
    "s = t div 1000 mod 86400 mod 60" "ms = t mod 1000"
    using assms unfolding date_fields_eq Let_def prod.inject by blast+
  show "1 \<le> mo" "mo \<le> 12" "1 \<le> d" "d \<le> 31" "0 \<le> h" "h < 24" "0 \<le> mi" "mi < 60" "0 \<le> s" "s < 60"
    "0 \<le> ms" "ms < 1000"
    unfolding e
    by (rule h civil_ranges pos_mod_sign [OF zero_less_numeral] pos_mod_bound [OF zero_less_numeral])+
qed

text \<open>The fields down to the second determine the second, and conversely.\<close>

lemma seconds_of_day: "(w :: int) = w div 3600 * 3600 + (w div 60 mod 60) * 60 + w mod 60"
proof -
  have "w div 3600 = w div 60 div 60" using zdiv_zmult2_eq [of 60 w 60] by simp
  then show ?thesis
    using mult_div_mod_eq [of 60 "w div 60"] mult_div_mod_eq [of 60 w] by linarith
qed

lemma date_fields_second:
  assumes "date_fields t = (y, mo, d, h, mi, s, ms)" "date_fields u = (y, mo, d, h, mi, s, ms')"
  shows "t div 1000 = u div 1000"
proof -
  have "civil_of_days (t div 1000 div 86400) = civil_of_days (u div 1000 div 86400)"
    using assms by (simp add: date_fields_eq Let_def)
  then have day: "t div 1000 div 86400 = u div 1000 div 86400"
    by (metis days_of_civil_of_days)
  have "t div 1000 mod 86400 = u div 1000 mod 86400"
    using assms seconds_of_day [of "t div 1000 mod 86400"] seconds_of_day [of "u div 1000 mod 86400"]
    unfolding date_fields_eq Let_def prod.inject by metis
  with day show ?thesis by (metis div_mult_mod_eq)
qed

lemma date_fields_of_second:
  assumes "t div 1000 = u div 1000"
    "date_fields t = (y, mo, d, h, mi, s, ms)" "date_fields u = (y', mo', d', h', mi', s', ms')"
  shows "(y, mo, d, h, mi, s) = (y', mo', d', h', mi', s')"
  using assms unfolding date_fields_eq Let_def by auto

section \<open>Time stamps in names\<close>

text \<open>\<open>toISOString().replace(/[:.]/g, '-').slice(0, 19)\<close>\<close>

definition dash_punct :: "string \<Rightarrow> string" where
  "dash_punct s = map (\<lambda>c. if c = CHR '':'' \<or> c = CHR ''.'' then CHR ''-'' else c) s"

definition iso_stamp :: "date \<Rightarrow> string" where
  "iso_stamp t = take 19 (dash_punct (js_toISOString t))"

lemma dash_punct_append [simp]: "dash_punct (s @ t) = dash_punct s @ dash_punct t"
  by (simp add: dash_punct_def)

lemma dash_punct_Cons [simp]:
  "dash_punct [] = []"
  "dash_punct (c # s) = (if c = CHR '':'' \<or> c = CHR ''.'' then CHR ''-'' else c) # dash_punct s"
  by (simp_all add: dash_punct_def)

lemma dash_punct_pad [simp]: "dash_punct (pad w n) = pad w n"
proof -
  have "c \<noteq> CHR '':'' \<and> c \<noteq> CHR ''.''" if "c \<in> set (pad w n)" for c
    using pad_digits [OF that] by (auto simp: is_digit_def)
  then show ?thesis by (simp add: dash_punct_def map_idI)
qed

lemma iso_stamp_eq:
  assumes "four_digit_year t" "date_fields t = (y, mo, d, h, mi, s, ms)"
  shows "iso_stamp t = pad 4 y @ ''-'' @ pad 2 mo @ ''-'' @ pad 2 d @ ''T'' @ pad 2 h @ ''-'' @ pad 2 mi @ ''-'' @ pad 2 s"
proof -
  note r = date_fields_ranges [OF assms(2)]
  have y: "0 \<le> y" "y \<le> 9999"
    using assms by (auto simp: four_digit_year_def date_fields_def Let_def)
  have len: "length (pad 4 y) = 4" "length (pad 2 mo) = 2" "length (pad 2 d) = 2" "length (pad 2 h) = 2"
    "length (pad 2 mi) = 2" "length (pad 2 s) = 2"
    using y r by (auto intro!: pad_length)
  have "dash_punct (js_toISOString t) =
      (pad 4 y @ ''-'' @ pad 2 mo @ ''-'' @ pad 2 d @ ''T'' @ pad 2 h @ ''-'' @ pad 2 mi @ ''-'' @ pad 2 s) @
      ''-'' @ pad 3 ms @ ''Z''"
    using assms(2) y by (simp add: js_toISOString_def show_year_def)
  then show ?thesis
    unfolding iso_stamp_def by (simp add: len)
qed

lemma iso_stamp_eq_iff:
  assumes "four_digit_year t" "four_digit_year u"
  shows "iso_stamp t = iso_stamp u \<longleftrightarrow> t div 1000 = u div 1000"
proof -
  obtain y mo d h mi s ms where t: "date_fields t = (y, mo, d, h, mi, s, ms)"
    by (metis prod_cases7)
  obtain y' mo' d' h' mi' s' ms' where u: "date_fields u = (y', mo', d', h', mi', s', ms')"
    by (metis prod_cases7)
  note rt = date_fields_ranges [OF t] and ru = date_fields_ranges [OF u]
  have y: "0 \<le> y" "y \<le> 9999" "0 \<le> y'" "y' \<le> 9999"
    using assms t u by (auto simp: four_digit_year_def date_fields_def Let_def)
  have len: "length (pad 4 y) = 4" "length (pad 4 y') = 4"
    using y by (auto intro!: pad_length)
  have len2: "length (pad 2 v) = 2" if "0 \<le> v" "v < 60" for v
    using that by (auto intro!: pad_length)
  have "iso_stamp t = iso_stamp u \<longleftrightarrow>
    pad 4 y = pad 4 y' \<and> pad 2 mo = pad 2 mo' \<and> pad 2 d = pad 2 d' \<and> pad 2 h = pad 2 h' \<and>
    pad 2 mi = pad 2 mi' \<and> pad 2 s = pad 2 s'"
    unfolding iso_stamp_eq [OF assms(1) t] iso_stamp_eq [OF assms(2) u] using rt ru len len2 by simp
  also have "\<dots> \<longleftrightarrow> (y, mo, d, h, mi, s) = (y', mo', d', h', mi', s')"
    using y rt ru by (simp add: pad_eq_iff)
  also have "\<dots> \<longleftrightarrow> t div 1000 = u div 1000"
  proof
    assume "(y, mo, d, h, mi, s) = (y', mo', d', h', mi', s')"
    then have "date_fields u = (y, mo, d, h, mi, s, ms')" using u by blast
    then show "t div 1000 = u div 1000" by (rule date_fields_second [OF t])
  qed (rule date_fields_of_second [OF _ t u])
  finally show ?thesis .
qed

end
