(* ===== verification/Shell.thy ===== *)
theory Shell
  imports NW_Types Iso_Time Interfaces
begin

text \<open>
  \<open>src/backend/utils/shell.ts\<close>, \<open>fs.ts\<close> and \<open>node-compat.ts\<close>: child
  processes, file names and \<open>sleep\<close>, with the functions of \<open>node:path\<close> the
  sources call.

  The operating system is the record \<open>os\<close>: what a command started at an instant
  prints, how it ends and how long it takes, which files exist, which directories can be
  made, and by how much a timer is late.  Code between two \<open>await\<close>s takes no time.
\<close>

section \<open>Commands\<close>

text \<open>
  An argument is a template string; a number interpolated into it stays a number, since the
  programs that are started read it back.
\<close>

datatype tpart = T string | N number

type_synonym arg = "tpart list"

abbreviation lit :: "string \<Rightarrow> arg" where
  "lit s \<equiv> [T s]"

abbreviation num :: "number \<Rightarrow> arg" where
  "num n \<equiv> [N n]"

record CommandResult =
  cmd_stdout :: string
  cmd_stderr :: string
  cmd_exitCode :: int

text \<open>
  The events of a child process: data on one of its streams, a failure to start, and its end
  with an exit code, which is null when a signal ended it.
\<close>

datatype proc_event = Stdout string | Stderr string | ErrorEvent string | Close "int option"

record os =
  os_spawn :: "date \<Rightarrow> string \<Rightarrow> arg list \<Rightarrow> proc_event list \<times> nat"
  os_exists :: "date \<Rightarrow> string \<Rightarrow> bool"
  os_mkdir :: "date \<Rightarrow> string \<Rightarrow> bool"
  os_late :: "date \<Rightarrow> nat"
  os_cwd :: string

fun collect :: "string \<Rightarrow> proc_event list \<Rightarrow> string \<Rightarrow> string \<Rightarrow> CommandResult throwing option" where
  "collect command [] out err = None"
| "collect command (Stdout d # es) out err = collect command es (out @ d) err"
| "collect command (Stderr d # es) out err = collect command es out (err @ d)"
| "collect command (ErrorEvent m # es) out err = Some (Inl (''Failed to start '' @ command @ '': '' @ m))"
| "collect command (Close code # es) out err =
     Some (Inr \<lparr>cmd_stdout = out, cmd_stderr = err, cmd_exitCode = or_else code 0\<rparr>)"

text \<open>
  The promise \<open>runCommand\<close> returns settles at the first \<open>error\<close> or
  \<open>close\<close> event; with neither it stays pending, which is \<open>None\<close>.
\<close>

definition runCommand :: "os \<Rightarrow> date \<Rightarrow> string \<Rightarrow> arg list \<Rightarrow> (CommandResult throwing \<times> date) option" where
  "runCommand sys now command args =
     (let (events, took) = os_spawn sys now command args
      in case collect command events [] [] of
           None \<Rightarrow> None
         | Some r \<Rightarrow> Some (r, now + int took))"

fun settles :: "proc_event list \<Rightarrow> bool" where
  "settles [] = False"
| "settles (ErrorEvent m # es) = True"
| "settles (Close c # es) = True"
| "settles (_ # es) = settles es"

text \<open>Node's promise: every child process ends with a \<open>close\<close> or an \<open>error\<close> event.\<close>

definition os_settles :: "os \<Rightarrow> bool" where
  "os_settles sys \<longleftrightarrow> (\<forall>t c a. settles (fst (os_spawn sys t c a)))"

lemma collect_settles: "settles es \<Longrightarrow> collect c es out err \<noteq> None"
  by (induction c es out err rule: collect.induct) auto

lemma runCommand_settles: "os_settles sys \<Longrightarrow> runCommand sys now c a \<noteq> None"
  using collect_settles [of "fst (os_spawn sys now c a)" c "[]" "[]"]
  by (auto simp: runCommand_def os_settles_def split: option.splits prod.splits)

lemma runCommand_time: "runCommand sys now c a = Some (r, later) \<Longrightarrow> now \<le> later"
  by (auto simp: runCommand_def split: option.splits prod.splits)

fun stdout_of :: "proc_event list \<Rightarrow> string" where
  "stdout_of (Stdout d # es) = d @ stdout_of es"
| "stdout_of (Stderr d # es) = stdout_of es"
| "stdout_of _ = []"

lemma collect_stdout:
  "collect c es out err = Some (Inr r) \<Longrightarrow> cmd_stdout r = out @ stdout_of es"
  by (induction c es out err rule: collect.induct) auto

section \<open>Long-running processes\<close>

text \<open>
  \<open>spawnProcess\<close>: output is collected from the start; \<open>wait\<close> resolves at the next
  \<open>close\<close> event.  \<open>killed\<close> is Node's flag that a signal was sent.
\<close>

record RunningProcess =
  rp_stdout :: string
  rp_stderr :: string
  rp_killed :: bool
  rp_signals :: nat
  rp_pending :: nat
  rp_resolved :: "CommandResult list"

definition spawnProcess :: RunningProcess where
  "spawnProcess = \<lparr>rp_stdout = [], rp_stderr = [], rp_killed = False, rp_signals = 0, rp_pending = 0,
     rp_resolved = []\<rparr>"

definition rp_kill :: "RunningProcess \<Rightarrow> RunningProcess" where
  "rp_kill p = (if \<not> rp_killed p then p\<lparr>rp_killed := True, rp_signals := rp_signals p + 1\<rparr> else p)"

definition rp_wait :: "RunningProcess \<Rightarrow> RunningProcess" where
  "rp_wait p = p\<lparr>rp_pending := rp_pending p + 1\<rparr>"

fun rp_event :: "proc_event \<Rightarrow> RunningProcess \<Rightarrow> RunningProcess" where
  "rp_event (Stdout d) p = p\<lparr>rp_stdout := rp_stdout p @ d\<rparr>"
| "rp_event (Stderr d) p = p\<lparr>rp_stderr := rp_stderr p @ d\<rparr>"
| "rp_event (ErrorEvent m) p = p"
| "rp_event (Close code) p =
     p\<lparr>rp_resolved := rp_resolved p @
         replicate (rp_pending p) \<lparr>cmd_stdout = rp_stdout p, cmd_stderr = rp_stderr p, cmd_exitCode = or_else code 0\<rparr>,
       rp_pending := 0\<rparr>"

section \<open>Dependencies\<close>

definition commandExists :: "os \<Rightarrow> date \<Rightarrow> string \<Rightarrow> (bool \<times> date) option" where
  "commandExists sys now command =
     (case runCommand sys now ''which'' [lit command] of
        None \<Rightarrow> None
      | Some (Inl _, now) \<Rightarrow> Some (False, now)
      | Some (Inr result, now) \<Rightarrow> Some (cmd_exitCode result = 0, now))"

fun check_commands ::
  "os \<Rightarrow> date \<Rightarrow> string list \<Rightarrow> (string, bool) jsmap \<Rightarrow> ((string, bool) jsmap \<times> date) option" where
  "check_commands sys now [] results = Some (results, now)"
| "check_commands sys now (cmd # cmds) results =
     (case commandExists sys now cmd of
        None \<Rightarrow> None
      | Some (found, now) \<Rightarrow> check_commands sys now cmds (map_set cmd found results))"

definition checkDependencies :: "os \<Rightarrow> date \<Rightarrow> string list \<Rightarrow> ((string, bool) jsmap \<times> date) option" where
  "checkDependencies sys now commands = check_commands sys now commands []"

lemma check_commands_keys:
  "check_commands sys now cmds m = Some (m', later) \<Longrightarrow> fst ` set m' = fst ` set m \<union> set cmds"
  by (induction sys now cmds m rule: check_commands.induct)
     (auto simp: map_set_keys split: option.splits prod.splits)

lemma checkDependencies_keys:
  "checkDependencies sys now cmds = Some (m, later) \<Longrightarrow> fst ` set m = set cmds"
  using check_commands_keys [of sys now cmds "[]" m later] by (simp add: checkDependencies_def)

section \<open>Time\<close>

definition js_sleep :: "os \<Rightarrow> nat \<Rightarrow> date \<Rightarrow> date" where
  "js_sleep sys ms now = now + int ms + int (os_late sys now)"

lemma js_sleep_ge: "now + int ms \<le> js_sleep sys ms now"
  by (simp add: js_sleep_def)

section \<open>Paths\<close>

text \<open>\<open>path.join\<close>, \<open>path.dirname\<close> and \<open>path.basename\<close> on POSIX.\<close>

fun normalize_segs :: "bool \<Rightarrow> string list \<Rightarrow> string list \<Rightarrow> string list" where
  "normalize_segs isAbs acc [] = rev acc"
| "normalize_segs isAbs acc (s # segs) =
     (if s = [] \<or> s = ''.'' then normalize_segs isAbs acc segs
      else if s = ''..'' then
        (case acc of
           [] \<Rightarrow> normalize_segs isAbs (if isAbs then [] else [s]) segs
         | a # as \<Rightarrow> normalize_segs isAbs (if a = ''..'' then s # acc else as) segs)
      else normalize_segs isAbs (s # acc) segs)"

definition path_normalize :: "string \<Rightarrow> string" where
  "path_normalize p =
     (let isAbs = js_startsWith p ''/''; trailing = js_endsWith p ''/'';
          body = js_join ''/'' (normalize_segs isAbs [] (js_split (CHR ''/'') p))
      in if p = [] then ''.''
         else if body = [] then (if isAbs then ''/'' else if trailing then ''./'' else ''.'')
         else (if isAbs then ''/'' else []) @ body @ (if trailing then ''/'' else []))"

definition path_join :: "string list \<Rightarrow> string" where
  "path_join ps =
     (let qs = filter (\<lambda>p. p \<noteq> []) ps in if qs = [] then ''.'' else path_normalize (js_join ''/'' qs))"

definition js_dirname :: "string \<Rightarrow> string" where
  "js_dirname path =
     (let slash = (\<lambda>c. c = CHR ''/'');
          hasRoot = (path \<noteq> [] \<and> hd path = CHR ''/'');
          r = dropWhile (\<lambda>c. \<not> slash c) (dropWhile slash (rev path))
      in if length r \<le> 1 then (if hasRoot then ''/'' else ''.'')
         else if hasRoot \<and> length r = 2 then ''//''
         else rev (tl r))"

definition js_basename :: "string \<Rightarrow> string \<Rightarrow> string" where
  "js_basename path ext =
     (let slash = (\<lambda>c. c = CHR ''/'');
          base = rev (takeWhile (\<lambda>c. \<not> slash c) (dropWhile slash (rev path)))
      in if path = ext then []
         else if js_endsWith base ext \<and> base \<noteq> ext then take (length base - length ext) base
         else base)"

section \<open>File names\<close>

definition generateFilename :: "date \<Rightarrow> string \<Rightarrow> string \<Rightarrow> string" where
  "generateFilename now satellite extension =
     (let timestamp = iso_stamp now; safeName = js_replace_ws ''-'' satellite
      in safeName @ ''_'' @ timestamp @ ''.'' @ extension)"

lemma iso_stamp_length: "four_digit_year t \<Longrightarrow> length (iso_stamp t) = 19"
proof -
  assume y: "four_digit_year t"
  obtain y' mo d h mi s ms where t: "date_fields t = (y', mo, d, h, mi, s, ms)" by (metis prod_cases7)
  note r = date_fields_ranges [OF t]
  have "0 \<le> y'" "y' \<le> 9999"
    using y t by (auto simp: four_digit_year_def date_fields_def Let_def)
  then have "length (pad 4 y') = 4" by (auto intro!: pad_length)
  moreover have "length (pad 2 v) = 2" if "0 \<le> v" "v < 60" for v
    using that by (auto intro!: pad_length)
  ultimately show ?thesis using r by (simp add: iso_stamp_eq [OF y t])
qed

text \<open>The names of two recordings of one satellite differ unless they start in the same second.\<close>

lemma generateFilename_eq_iff:
  assumes "four_digit_year t" "four_digit_year u"
  shows "generateFilename t s x = generateFilename u s x \<longleftrightarrow> t div 1000 = u div 1000"
  using iso_stamp_eq_iff [OF assms] iso_stamp_length [OF assms(1)] iso_stamp_length [OF assms(2)]
  by (simp add: generateFilename_def Let_def)

end
