(* ===== verification/Capture_Database.thy ===== *)
theory Capture_Database
  imports Shell "HOL-Library.List_Lexorder" "HOL-Library.Char_ord"
begin

text \<open>
  \<open>src/backend/db/database.ts\<close>: the capture history.  A database is its two tables as
  lists of rows in insertion order, with SQLite's auto-increment counters and the columns of
  the table \<open>captures\<close>; a violated constraint throws.  What SQL leaves open, the order of
  rows with the same \<open>created_at\<close> and of the values under \<open>GROUP_CONCAT\<close>, is
  a parameter.
\<close>

section \<open>Tables\<close>

record capture_row =
  cap_id :: int
  cap_pass_id :: string
  cap_satellite_name :: string
  cap_satellite_norad_id :: int
  cap_frequency :: number
  cap_signal_type :: string
  cap_aos_time :: string
  cap_los_time :: string
  cap_max_elevation :: number
  cap_duration_seconds :: int
  cap_recording_path :: "string option"
  cap_start_time :: string
  cap_end_time :: "string option"
  cap_max_signal_strength :: "number option"
  cap_success :: int
  cap_error_message :: "string option"
  cap_created_at :: string

record image_row =
  img_id :: int
  img_capture_id :: int
  img_image_type :: string
  img_file_path :: string
  img_created_at :: string

record db =
  db_columns :: "string list option"
  db_captures :: "capture_row list"
  db_has_images :: bool
  db_images :: "image_row list"
  db_capture_seq :: int
  db_image_seq :: int

definition empty_db :: db where
  "empty_db = \<lparr>db_columns = None, db_captures = [], db_has_images = False, db_images = [],
     db_capture_seq = 0, db_image_seq = 0\<rparr>"

definition capture_columns :: "string list" where
  "capture_columns = [''id'', ''pass_id'', ''satellite_name'', ''satellite_norad_id'', ''frequency'',
     ''signal_type'', ''aos_time'', ''los_time'', ''max_elevation'', ''duration_seconds'',
     ''recording_path'', ''start_time'', ''end_time'', ''max_signal_strength'', ''success'',
     ''error_message'', ''created_at'']"

definition create_captures :: "db \<Rightarrow> db" where
  "create_captures d =
     (case db_columns d of None \<Rightarrow> d\<lparr>db_columns := Some capture_columns\<rparr> | Some _ \<Rightarrow> d)"

definition migrateIfNeeded :: "db \<Rightarrow> db" where
  "migrateIfNeeded d =
     (let columns = or_else (db_columns d) [];
          hasSignalType = list_ex (\<lambda>c. c = ''signal_type'') columns
      in if \<not> hasSignalType
         then d\<lparr>db_columns := Some (columns @ [''signal_type'']),
                db_captures := map (cap_signal_type_update (\<lambda>_. ''lrpt'')) (db_captures d)\<rparr>
         else d)"

text \<open>The indexes have no effect on what queries return.\<close>

definition initialize :: "db \<Rightarrow> db" where
  "initialize d = (migrateIfNeeded (create_captures d))\<lparr>db_has_images := True\<rparr>"

section \<open>Writing\<close>

definition signal_type_name :: "SignalType \<Rightarrow> string" where
  "signal_type_name t = (case t of Sstv \<Rightarrow> ''sstv'' | Lrpt \<Rightarrow> ''lrpt'')"

definition generatePassId :: "SatellitePass \<Rightarrow> string" where
  "generatePassId pass =
     (let timestamp = iso_stamp (pass_aos pass);
          safeName = js_replace_ws ''-'' (sat_name (pass_satellite pass))
      in safeName @ ''_'' @ timestamp)"

text \<open>\<open>x || null\<close> on strings\<close>

definition nonempty_or_null :: "string option \<Rightarrow> string option" where
  "nonempty_or_null x = (case x of None \<Rightarrow> None | Some s \<Rightarrow> if s = [] then None else Some s)"

definition capture_row_of :: "date \<Rightarrow> int \<Rightarrow> CaptureResult \<Rightarrow> SatellitePass \<Rightarrow> capture_row" where
  "capture_row_of now newId result pass =
     \<lparr>cap_id = newId, cap_pass_id = generatePassId pass,
      cap_satellite_name = sat_name (cr_satellite result),
      cap_satellite_norad_id = sat_noradId (cr_satellite result),
      cap_frequency = sat_frequency (cr_satellite result),
      cap_signal_type = signal_type_name (sat_signalType (cr_satellite result)),
      cap_aos_time = js_toISOString (pass_aos pass), cap_los_time = js_toISOString (pass_los pass),
      cap_max_elevation = pass_maxElevation pass, cap_duration_seconds = \<lceil>pass_duration pass\<rceil>,
      cap_recording_path = nonempty_or_null (Some (cr_recordingPath result)),
      cap_start_time = js_toISOString (cr_startTime result),
      cap_end_time = Some (js_toISOString (cr_endTime result)),
      cap_max_signal_strength = Some (cr_maxSignalStrength result),
      cap_success = (if cr_success result then 1 else 0),
      cap_error_message = nonempty_or_null (cr_error result),
      cap_created_at = sqlite_datetime now\<rparr>"

definition saveCapture :: "date \<Rightarrow> CaptureResult \<Rightarrow> SatellitePass \<Rightarrow> db \<Rightarrow> int throwing \<times> db" where
  "saveCapture now result pass d =
     (if list_ex (\<lambda>r. cap_pass_id r = generatePassId pass) (db_captures d)
      then (Inl ''UNIQUE constraint failed: captures.pass_id'', d)
      else let newId = db_capture_seq d + 1
           in (Inr newId,
               d\<lparr>db_captures := db_captures d @ [capture_row_of now newId result pass],
                 db_capture_seq := newId\<rparr>))"

definition image_type_of :: "string \<Rightarrow> string" where
  "image_type_of path =
     (if js_includes path ''-chA'' then ''channelA''
      else if js_includes path ''-chB'' then ''channelB'' else ''composite'')"

text \<open>
  Each image is a statement of its own, so the rows before a failing one stay.  Foreign keys
  are enforced.
\<close>

fun saveImages :: "date \<Rightarrow> int \<Rightarrow> string list \<Rightarrow> db \<Rightarrow> unit throwing \<times> db" where
  "saveImages now captureId [] d = (Inr (), d)"
| "saveImages now captureId (path # paths) d =
     (if list_ex (\<lambda>r. cap_id r = captureId) (db_captures d)
      then let newId = db_image_seq d + 1
           in saveImages now captureId paths
                (d\<lparr>db_images := db_images d @
                     [\<lparr>img_id = newId, img_capture_id = captureId, img_image_type = image_type_of path,
                       img_file_path = path, img_created_at = sqlite_datetime now\<rparr>],
                   db_image_seq := newId\<rparr>)
      else (Inl ''FOREIGN KEY constraint failed'', d))"

section \<open>Reading\<close>

record sqlite =
  sq_order :: "capture_row list \<Rightarrow> capture_row list"
  sq_group :: "image_row list \<Rightarrow> image_row list"

text \<open>\<open>LIMIT l OFFSET o\<close>: a negative limit is no limit, a negative offset is 0.\<close>

definition sql_limit :: "int \<Rightarrow> int \<Rightarrow> 'a list \<Rightarrow> 'a list" where
  "sql_limit l ofs xs =
     (let ys = drop (nat ofs) xs in if l < 0 then ys else take (nat l) ys)"

definition image_paths_of :: "sqlite \<Rightarrow> db \<Rightarrow> capture_row \<Rightarrow> string option" where
  "image_paths_of sql d c =
     (let imgs = filter (\<lambda>i. img_capture_id i = cap_id c) (db_images d)
      in if imgs = [] then None else Some (js_join '','' (map img_file_path (sq_group sql imgs))))"

definition history_entry :: "sqlite \<Rightarrow> db \<Rightarrow> capture_row \<Rightarrow> CaptureHistoryEntry" where
  "history_entry sql d row =
     \<lparr>che_id = cap_id row, che_passId = cap_pass_id row,
      che_satelliteName = cap_satellite_name row, che_satelliteNoradId = cap_satellite_norad_id row,
      che_frequency = cap_frequency row,
      che_signalType = (if cap_signal_type row = [] then ''lrpt'' else cap_signal_type row),
      che_aosTime = cap_aos_time row, che_losTime = cap_los_time row,
      che_maxElevation = cap_max_elevation row, che_durationSeconds = cap_duration_seconds row,
      che_recordingPath = cap_recording_path row, che_startTime = cap_start_time row,
      che_endTime = cap_end_time row, che_maxSignalStrength = cap_max_signal_strength row,
      che_success = (cap_success row = 1), che_errorMessage = cap_error_message row,
      che_createdAt = cap_created_at row,
      che_imagePaths = (case nonempty_or_null (image_paths_of sql d row) of
                          None \<Rightarrow> [] | Some s \<Rightarrow> js_split (CHR '','') s)\<rparr>"

definition getRecentCaptures :: "sqlite \<Rightarrow> int \<Rightarrow> int \<Rightarrow> db \<Rightarrow> CaptureHistoryEntry list" where
  "getRecentCaptures sql limit offset d =
     map (history_entry sql d) (sql_limit limit offset (sq_order sql (db_captures d)))"

record capture_summary =
  cs_total :: nat
  cs_successful :: nat
  cs_failed :: nat

definition getCaptureSummary :: "db \<Rightarrow> capture_summary" where
  "getCaptureSummary d =
     (let sum_case = (\<lambda>v. if db_captures d = [] then None
                          else Some (sum_list (map (\<lambda>r. if cap_success r = v then 1 else 0) (db_captures d))))
      in \<lparr>cs_total = length (db_captures d), cs_successful = or_else (sum_case 1) 0,
          cs_failed = or_else (sum_case 0) 0\<rparr>)"

section \<open>The singleton\<close>

text \<open>
  The directories and database files on disk, and the module's
  \<open>databaseInstance\<close> as the path of the file it has open.
\<close>

record db_module =
  dm_dirs :: "string \<Rightarrow> bool"
  dm_files :: "(string, db) jsmap"
  dm_instance :: "string option"

definition newCaptureDatabase :: "string \<Rightarrow> db_module \<Rightarrow> unit throwing \<times> db_module" where
  "newCaptureDatabase dbPath m =
     (let dir = js_dirname dbPath
      in if \<not> dm_dirs m dir then (Inl (''Database directory does not exist: '' @ dir), m)
         else (Inr (), m\<lparr>dm_files := map_set dbPath (initialize (or_else (map_get (dm_files m) dbPath) empty_db))
                                        (dm_files m)\<rparr>))"

definition initializeDatabase :: "(string \<Rightarrow> bool) \<Rightarrow> string \<Rightarrow> db_module \<Rightarrow> string throwing \<times> db_module" where
  "initializeDatabase mkdir_ok dbPath m =
     (case dm_instance m of
        Some p \<Rightarrow> (Inr p, m)
      | None \<Rightarrow>
          (let dir = js_dirname dbPath
           in if \<not> mkdir_ok dir then (Inl ''mkdir'', m)
              else (case newCaptureDatabase dbPath (m\<lparr>dm_dirs := (dm_dirs m)(dir := True)\<rparr>) of
                      (Inl e, m) \<Rightarrow> (Inl e, m)
                    | (Inr _, m) \<Rightarrow> (Inr dbPath, m\<lparr>dm_instance := Some dbPath\<rparr>))))"

definition getDatabase :: "db_module \<Rightarrow> db throwing" where
  "getDatabase m =
     (case dm_instance m of
        None \<Rightarrow> Inl ''Database not initialized. Call initializeDatabase() first.''
      | Some p \<Rightarrow> Inr (or_else (map_get (dm_files m) p) empty_db))"

definition closeDatabase :: "db_module \<Rightarrow> db_module" where
  "closeDatabase m = (if dm_instance m \<noteq> None then m\<lparr>dm_instance := None\<rparr> else m)"

section \<open>Consistency of the tables\<close>

definition db_inv :: "db \<Rightarrow> bool" where
  "db_inv d \<longleftrightarrow>
     distinct (map cap_pass_id (db_captures d)) \<and> distinct (map cap_id (db_captures d)) \<and>
     (\<forall>r \<in> set (db_captures d). cap_id r \<le> db_capture_seq d \<and> cap_success r \<in> {0, 1}) \<and>
     distinct (map img_id (db_images d)) \<and>
     (\<forall>i \<in> set (db_images d). img_id i \<le> db_image_seq d \<and> img_capture_id i \<in> cap_id ` set (db_captures d))"

lemma db_inv_empty: "db_inv empty_db"
  by (simp add: db_inv_def empty_db_def)

lemma db_inv_initialize: "db_inv d \<Longrightarrow> db_inv (initialize d)"
  by (auto simp: db_inv_def initialize_def migrateIfNeeded_def create_captures_def Let_def comp_def
      image_image split: option.splits)

lemma saveCapture_cases:
  obtains (unique) "list_ex (\<lambda>r. cap_pass_id r = generatePassId pass) (db_captures d)"
      "saveCapture now result pass d = (Inl ''UNIQUE constraint failed: captures.pass_id'', d)"
  | (insert) "\<not> list_ex (\<lambda>r. cap_pass_id r = generatePassId pass) (db_captures d)"
      "saveCapture now result pass d =
         (Inr (db_capture_seq d + 1),
          d\<lparr>db_captures := db_captures d @ [capture_row_of now (db_capture_seq d + 1) result pass],
            db_capture_seq := db_capture_seq d + 1\<rparr>)"
  by (cases "list_ex (\<lambda>r. cap_pass_id r = generatePassId pass) (db_captures d)")
     (auto simp: saveCapture_def Let_def)

lemma capture_row_of_simps [simp]:
  "cap_id (capture_row_of now i result pass) = i"
  "cap_pass_id (capture_row_of now i result pass) = generatePassId pass"
  "cap_success (capture_row_of now i result pass) = (if cr_success result then 1 else 0)"
  by (simp_all add: capture_row_of_def)

lemma db_inv_saveCapture: "db_inv d \<Longrightarrow> db_inv (snd (saveCapture now result pass d))"
  by (rule saveCapture_cases [of pass d now result]) (force simp: db_inv_def list_ex_iff)+

lemma db_inv_saveImages: "db_inv d \<Longrightarrow> db_inv (snd (saveImages now captureId paths d))"
proof (induction now captureId paths d rule: saveImages.induct)
  case (2 now captureId path paths d)
  show ?case
  proof (cases "list_ex (\<lambda>r. cap_id r = captureId) (db_captures d)")
    case True
    then have "captureId \<in> cap_id ` set (db_captures d)" by (auto simp: list_ex_iff)
    with "2.prems" have "db_inv (d\<lparr>db_images := db_images d @
        [\<lparr>img_id = db_image_seq d + 1, img_capture_id = captureId, img_image_type = image_type_of path,
          img_file_path = path, img_created_at = sqlite_datetime now\<rparr>],
        db_image_seq := db_image_seq d + 1\<rparr>)"
      by (force simp: db_inv_def)
    with "2.IH" True show ?thesis by (simp add: Let_def)
  next
    case False
    then show ?thesis using "2.prems" by simp
  qed
qed simp

text \<open>The calls that change a database, in any order; opening it again runs \<open>initialize\<close>.\<close>

datatype db_call =
    SaveCapture date CaptureResult SatellitePass
  | SaveImages date int "string list"
  | Reopen

fun db_exec :: "db_call \<Rightarrow> db \<Rightarrow> db" where
  "db_exec (SaveCapture now result pass) d = snd (saveCapture now result pass d)"
| "db_exec (SaveImages now captureId paths) d = snd (saveImages now captureId paths d)"
| "db_exec Reopen d = initialize d"

interpretation db_sys: handler_system "\<lambda>d. d = empty_db" "\<lambda>_. True" db_exec db_inv
proof
  show "db_inv (db_exec e d)" if "db_inv d" for e d
    using that by (cases e) (simp_all add: db_inv_saveCapture db_inv_saveImages db_inv_initialize)
qed (simp add: db_inv_empty)

lemma sum_list_indicator: "sum_list (map (\<lambda>r. if P r then 1 else 0 :: nat) xs) = length (filter P xs)"
  by (induction xs) auto

lemma summary_filter:
  "getCaptureSummary d =
     \<lparr>cs_total = length (db_captures d),
      cs_successful = length (filter (\<lambda>r. cap_success r = 1) (db_captures d)),
      cs_failed = length (filter (\<lambda>r. cap_success r = 0) (db_captures d))\<rparr>"
  by (cases "db_captures d = []") (simp_all add: getCaptureSummary_def Let_def sum_list_indicator)

lemma summary_total:
  assumes "db_inv d"
  shows "cs_total (getCaptureSummary d) = cs_successful (getCaptureSummary d) + cs_failed (getCaptureSummary d)"
proof -
  have "filter (\<lambda>r. cap_success r = 0) (db_captures d) = filter (\<lambda>r. \<not> cap_success r = 1) (db_captures d)"
    using assms by (intro filter_cong) (auto simp: db_inv_def)
  then show ?thesis
    using sum_length_filter_compl [of "\<lambda>r. cap_success r = 1" "db_captures d"] by (simp add: summary_filter)
qed

text \<open>C18: Whatever sequence of saves and re-openings a database has been through, pass
  identifiers and row identifiers are unique, every image belongs to a stored capture, and the
  summary's total is the sum of its successful and failed captures.\<close>

theorem capture_database_consistent:
  "let d = fold db_exec calls empty_db in
     distinct (map cap_pass_id (db_captures d)) \<and> distinct (map cap_id (db_captures d)) \<and>
     img_capture_id ` set (db_images d) \<subseteq> cap_id ` set (db_captures d) \<and>
     cs_total (getCaptureSummary d) = cs_successful (getCaptureSummary d) + cs_failed (getCaptureSummary d)"
proof -
  have "db_inv (fold db_exec calls empty_db)"
    by (rule db_sys.reachable_inv) (simp_all add: list_all_iff)
  then show ?thesis
    using summary_total by (auto simp: Let_def db_inv_def)
qed

section \<open>Pass identifiers\<close>

lemma generatePassId_eq_iff:
  assumes "four_digit_year (pass_aos p)" "four_digit_year (pass_aos q)"
  shows "generatePassId p = generatePassId q \<longleftrightarrow>
    js_replace_ws ''-'' (sat_name (pass_satellite p)) = js_replace_ws ''-'' (sat_name (pass_satellite q)) \<and>
    pass_aos p div 1000 = pass_aos q div 1000"
  using iso_stamp_eq_iff [OF assms] iso_stamp_length [OF assms(1)] iso_stamp_length [OF assms(2)]
  by (auto simp: generatePassId_def Let_def)

text \<open>Once a capture is stored, a second one for a pass not stored before is refused exactly
  when the two satellites' names agree up to white space and the passes rise in the same
  second; it is then lost with the database unchanged.\<close>

theorem saveCapture_refused_iff:
  assumes "saveCapture t1 r1 p d = (Inr i, d')"
    and "\<not> list_ex (\<lambda>r. cap_pass_id r = generatePassId q) (db_captures d)"
    and "four_digit_year (pass_aos p)" "four_digit_year (pass_aos q)"
  shows "saveCapture t2 r2 q d' = (Inl ''UNIQUE constraint failed: captures.pass_id'', d') \<longleftrightarrow>
    js_replace_ws ''-'' (sat_name (pass_satellite p)) = js_replace_ws ''-'' (sat_name (pass_satellite q)) \<and>
    pass_aos p div 1000 = pass_aos q div 1000"
proof -
  have "db_captures d' = db_captures d @ [capture_row_of t1 (db_capture_seq d + 1) r1 p]"
    using assms(1) by (auto simp: saveCapture_def Let_def split: if_splits)
  then have "list_ex (\<lambda>r. cap_pass_id r = generatePassId q) (db_captures d') \<longleftrightarrow> generatePassId p = generatePassId q"
    using assms(2) by simp
  then show ?thesis
    using generatePassId_eq_iff [OF assms(3,4)] by (simp add: saveCapture_def Let_def)
qed

definition demo_pass :: "date \<Rightarrow> SatellitePass" where
  "demo_pass t = \<lparr>pass_satellite = METEOR_M_N2_3, pass_aos = t, pass_los = t + 600000, pass_maxElevation = 45,
     pass_maxElevationTime = t + 300000, pass_duration = 600\<rparr>"

definition demo_result :: "date \<Rightarrow> CaptureResult" where
  "demo_result t = \<lparr>cr_satellite = METEOR_M_N2_3, cr_recordingPath = ''rec.wav'', cr_imagePaths = [''a.png''],
     cr_startTime = t, cr_endTime = t + 600000, cr_maxSignalStrength = - 10, cr_success = True, cr_error = None\<rparr>"

theorem saveCapture_refused_iff_witness:
  "let d = snd (saveCapture 0 (demo_result 500) (demo_pass 500) empty_db) in
   saveCapture 9 (demo_result 900) (demo_pass 900) d = (Inl ''UNIQUE constraint failed: captures.pass_id'', d)"
proof -
  have y: "four_digit_year 500" "four_digit_year 900"
    by code_simp+
  have "saveCapture 0 (demo_result 500) (demo_pass 500) empty_db =
      (Inr 1, snd (saveCapture 0 (demo_result 500) (demo_pass 500) empty_db))"
    by (simp add: saveCapture_def empty_db_def)
  from saveCapture_refused_iff [OF this, of "demo_pass 900" 9 "demo_result 900"] y
  show ?thesis by (simp add: demo_pass_def empty_db_def Let_def)
qed

section \<open>Reading back\<close>

text \<open>
  What SQL promises: the ordered rows are the rows, newest first by the text of
  \<open>created_at\<close>; the concatenated values are those of the group.
\<close>

definition sqlite_ok :: "sqlite \<Rightarrow> bool" where
  "sqlite_ok sql \<longleftrightarrow>
     (\<forall>rows. mset (sq_order sql rows) = mset rows \<and>
             sorted_wrt (\<lambda>a b. cap_created_at b \<le> cap_created_at a) (sq_order sql rows)) \<and>
     (\<forall>imgs. mset (sq_group sql imgs) = mset imgs)"

definition stable_sqlite :: sqlite where
  "stable_sqlite = \<lparr>sq_order = \<lambda>rows. rev (sort_key cap_created_at rows), sq_group = \<lambda>imgs. imgs\<rparr>"

lemma stable_sqlite_ok: "sqlite_ok stable_sqlite"
  using sort_key_sorted_wrt [of cap_created_at]
  by (auto simp: sqlite_ok_def stable_sqlite_def sorted_wrt_rev)

lemma sql_limit_all: "int (length xs) \<le> l \<Longrightarrow> sql_limit l 0 xs = xs"
  by (auto simp: sql_limit_def Let_def)

lemma sql_pages:
  assumes "0 < l"
  shows "concat (map (\<lambda>k. sql_limit (int l) (int (k * l)) xs) [0..<n]) = take (n * l) xs"
proof (induction n)
  case (Suc n)
  have "sql_limit (int l) (int (n * l)) xs = take l (drop (n * l) xs)"
    by (simp add: sql_limit_def Let_def nat_int del: of_nat_mult)
  moreover have "take (Suc n * l) xs = take (n * l) xs @ take l (drop (n * l) xs)"
    by (simp add: add.commute flip: take_add)
  ultimately show ?case using Suc by simp
qed simp

text \<open>Paging through the history with a fixed page size shows every stored capture exactly
  once, newest first, with no gap or repetition at page boundaries.\<close>

theorem capture_history_paging:
  assumes "sqlite_ok sql" "db_inv d" "0 < l" "length (db_captures d) \<le> n * l"
  shows "let hist = concat (map (\<lambda>k. getRecentCaptures sql (int l) (int (k * l)) d) [0..<n]) in
    mset (map che_passId hist) = mset (map cap_pass_id (db_captures d)) \<and>
    distinct (map che_id hist) \<and> sorted_wrt (\<lambda>a b. che_createdAt b \<le> che_createdAt a) hist"
proof -
  define hist where "hist = concat (map (\<lambda>k. getRecentCaptures sql (int l) (int (k * l)) d) [0..<n])"
  let ?rows = "sq_order sql (db_captures d)"
  have m: "mset ?rows = mset (db_captures d)" using assms(1) by (simp add: sqlite_ok_def)
  then have len: "length ?rows = length (db_captures d)" by (rule mset_eq_length)
  have "hist = map (history_entry sql d) (concat (map (\<lambda>k. sql_limit (int l) (int (k * l)) ?rows) [0..<n]))"
    by (simp add: hist_def getRecentCaptures_def map_concat comp_def)
  also have "\<dots> = map (history_entry sql d) ?rows"
    using assms(3,4) len by (subst sql_pages) simp_all
  finally have h: "hist = map (history_entry sql d) ?rows" .
  have "map che_passId hist = map cap_pass_id ?rows" "map che_id hist = map cap_id ?rows"
    by (simp_all add: h history_entry_def)
  moreover have "distinct (map cap_id ?rows)"
    using assms(2) m by (metis db_inv_def mset_map mset_eq_imp_distinct_iff)
  moreover have "sorted_wrt (\<lambda>a b. che_createdAt b \<le> che_createdAt a) hist"
    using assms(1) by (simp add: h sorted_wrt_map history_entry_def sqlite_ok_def)
  ultimately show ?thesis using m unfolding Let_def hist_def [symmetric] by (metis mset_map)
qed

definition demo_db :: db where
  "demo_db = fold db_exec [Reopen, SaveCapture 0 (demo_result 500) (demo_pass 500),
     SaveCapture 0 (demo_result 5000) (demo_pass 5000)] empty_db"

lemma demo_db_inv: "db_inv demo_db"
  unfolding demo_db_def by (rule db_sys.reachable_inv) simp_all

theorem capture_history_paging_witness:
  "distinct (map che_id (concat (map (\<lambda>k. getRecentCaptures stable_sqlite (int 1) (int (k * 1)) demo_db)
     [0..<length (db_captures demo_db)])))"
  using capture_history_paging [OF stable_sqlite_ok demo_db_inv, of 1 "length (db_captures demo_db)"]
  by (simp add: Let_def)

lemma saveImages_appends:
  assumes "captureId \<in> cap_id ` set (db_captures d)" "saveImages now captureId paths d = (r, d')"
  shows "r = Inr () \<and> db_captures d' = db_captures d \<and>
    (\<exists>new. db_images d' = db_images d @ new \<and> map img_file_path new = paths \<and> (\<forall>i \<in> set new. img_capture_id i = captureId))"
  using assms
proof (induction now captureId paths d rule: saveImages.induct)
  case (2 now captureId path paths d)
  have ex: "list_ex (\<lambda>r. cap_id r = captureId) (db_captures d)"
    using "2.prems"(1) by (auto simp: list_ex_iff)
  define row where "row = \<lparr>img_id = db_image_seq d + 1, img_capture_id = captureId, img_image_type = image_type_of path,
          img_file_path = path, img_created_at = sqlite_datetime now\<rparr>"
  define d1 where "d1 = d\<lparr>db_images := db_images d @ [row], db_image_seq := db_image_seq d + 1\<rparr>"
  have "saveImages now captureId paths d1 = (r, d')"
    using "2.prems"(2) ex by (simp add: d1_def row_def Let_def)
  with "2.IH" [OF ex refl] "2.prems"(1)
  have "r = Inr () \<and> db_captures d' = db_captures d1 \<and>
    (\<exists>new. db_images d' = db_images d1 @ new \<and> map img_file_path new = paths \<and> (\<forall>i \<in> set new. img_capture_id i = captureId))"
    by (simp add: d1_def row_def)
  then obtain new where new: "r = Inr ()" "db_captures d' = db_captures d"
    "db_images d' = db_images d @ row # new" "map img_file_path new = paths" "\<forall>i \<in> set new. img_capture_id i = captureId"
    by (auto simp: d1_def)
  then show ?case
    by (auto intro!: exI [of _ "row # new"] simp: row_def)
qed simp

text \<open>The image paths of an entry are those of its rows.\<close>

lemma history_images:
  assumes "sqlite_ok sql" "map img_file_path (filter (\<lambda>k. img_capture_id k = cap_id row) (db_images d)) = paths"
    and "\<forall>p \<in> set paths. p \<noteq> [] \<and> CHR '','' \<notin> set p"
  shows "mset (che_imagePaths (history_entry sql d row)) = mset paths"
proof -
  let ?new = "filter (\<lambda>k. img_capture_id k = cap_id row) (db_images d)"
  show ?thesis
  proof (cases "?new = []")
    case True
    then show ?thesis using assms(2) by (simp add: history_entry_def image_paths_of_def nonempty_or_null_def)
  next
    case False
    let ?ps = "map img_file_path (sq_group sql ?new)"
    have ms: "mset (sq_group sql ?new) = mset ?new" using assms(1) by (simp add: sqlite_ok_def)
    then have m: "mset ?ps = mset paths" using assms(2) by (metis mset_map)
    then have st: "set ?ps = set paths" by (rule mset_eq_setD)
    have ne: "?ps \<noteq> []" using False ms by (metis map_is_Nil_conv mset_zero_iff)
    then have "js_split (CHR '','') (js_join '','' ?ps) = ?ps"
      using assms(3) st by (intro js_split_join) auto
    moreover have "js_join '','' ?ps \<noteq> []"
      using ne assms(3) st by (cases ?ps; cases "tl ?ps") auto
    ultimately show ?thesis
      using False m by (simp add: history_entry_def image_paths_of_def nonempty_or_null_def Let_def)
  qed
qed

text \<open>A capture that was saved with its images is read back with its pass identifier,
  satellite, times, outcome and exactly those image paths, provided no path is empty or holds
  a comma.\<close>

lemma saved_capture_shown:
  assumes "sqlite_ok sql" "db_inv d"
    and "saveCapture now result pass d = (Inr i, d1)" "saveImages now i paths d1 = (r, d2)"
    and "\<forall>p \<in> set paths. p \<noteq> [] \<and> CHR '','' \<notin> set p" "int (length (db_captures d2)) \<le> limit"
  shows "r = Inr () \<and> (\<exists>e \<in> set (getRecentCaptures sql limit 0 d2).
    che_id e = i \<and> che_passId e = generatePassId pass \<and>
    che_satelliteName e = sat_name (cr_satellite result) \<and>
    che_aosTime e = js_toISOString (pass_aos pass) \<and> che_startTime e = js_toISOString (cr_startTime result) \<and>
    che_success e = cr_success result \<and> che_errorMessage e = nonempty_or_null (cr_error result) \<and>
    mset (che_imagePaths e) = mset paths)"
proof -
  let ?row = "capture_row_of now i result pass"
  have d1: "db_captures d1 = db_captures d @ [?row]" "db_images d1 = db_images d" "i = db_capture_seq d + 1"
    using assms(3) by (auto simp: saveCapture_def Let_def split: if_splits)
  have "i \<in> cap_id ` set (db_captures d1)" by (simp add: d1(1))
  from saveImages_appends [OF this assms(4)] obtain new where
    new: "r = Inr ()" "db_captures d2 = db_captures d1" "db_images d2 = db_images d1 @ new"
      "map img_file_path new = paths" "\<forall>k \<in> set new. img_capture_id k = i" by blast
  have "\<forall>k \<in> set (db_images d). img_capture_id k \<noteq> i"
    using assms(2) d1(3) by (force simp: db_inv_def)
  then have imgs: "filter (\<lambda>k. img_capture_id k = i) (db_images d2) = new"
    using new d1(2) by (simp add: filter_id_conv)
  have "cap_id ?row = i" by (simp add: capture_row_of_def)
  then have paths: "mset (che_imagePaths (history_entry sql d2 ?row)) = mset paths"
    using history_images [OF assms(1), of ?row d2 paths] imgs new(4) assms(5) by simp
  have ord: "mset (sq_order sql (db_captures d2)) = mset (db_captures d2)"
    using assms(1) by (simp add: sqlite_ok_def)
  then have "?row \<in> set (sq_order sql (db_captures d2))"
    using new(2) d1(1) by (metis in_set_conv_decomp append_Nil2 mset_eq_setD)
  moreover have "length (sq_order sql (db_captures d2)) = length (db_captures d2)"
    using ord by (rule mset_eq_length)
  ultimately have "history_entry sql d2 ?row \<in> set (getRecentCaptures sql limit 0 d2)"
    using assms(6) by (simp add: getRecentCaptures_def sql_limit_all)
  then show ?thesis
    using new(1) paths by (intro conjI bexI [of _ "history_entry sql d2 ?row"]) (auto simp: history_entry_def capture_row_of_def)
qed

end
