(* ===== verification/Sstv_Events.thy ===== *)
theory Sstv_Events
  imports NW_Types Interfaces
begin

text \<open>
  \<open>src/backend/satellites/events.ts\<close>: the module-level variables of the SSTV event
  calendar and its switches, and the two flags of \<open>src/backend/capture/sstv-scanner.ts\<close>
  that the ground-scan switch reaches.
\<close>

section \<open>State and operations\<close>

record ScannerFlags =
  sf_isScanning :: bool
  sf_shouldStop :: bool

definition stopSstvScanner :: "ScannerFlags \<Rightarrow> ScannerFlags" where
  "stopSstvScanner f = f\<lparr>sf_shouldStop := True\<rparr>"

definition isSstvScannerRunning :: "ScannerFlags \<Rightarrow> bool" where
  "isSstvScannerRunning f = sf_isScanning f"

record SstvModule =
  sm_activeEvents :: "SSTVEvent list"
  sm_manualSstvEnabled :: bool
  sm_groundSstvScanEnabled :: bool
  sm_scanner :: ScannerFlags

definition sstv_init :: "string option \<Rightarrow> SstvModule" where
  "sstv_init GROUND_SSTV_SCAN_ENABLED =
     \<lparr>sm_activeEvents = [], sm_manualSstvEnabled = False,
      sm_groundSstvScanEnabled = (GROUND_SSTV_SCAN_ENABLED = Some ''true''),
      sm_scanner = \<lparr>sf_isScanning = False, sf_shouldStop = False\<rparr>\<rparr>"

definition setManualSstvEnabled :: "bool \<Rightarrow> SstvModule \<Rightarrow> SstvModule" where
  "setManualSstvEnabled enabled s = s\<lparr>sm_manualSstvEnabled := enabled\<rparr>"

definition isManualSstvEnabled :: "SstvModule \<Rightarrow> bool" where
  "isManualSstvEnabled s = sm_manualSstvEnabled s"

definition setGroundSstvScanEnabled :: "bool \<Rightarrow> SstvModule \<Rightarrow> SstvModule" where
  "setGroundSstvScanEnabled enabled s =
     (let s = s\<lparr>sm_groundSstvScanEnabled := enabled\<rparr> in
      if \<not> enabled then s\<lparr>sm_scanner := stopSstvScanner (sm_scanner s)\<rparr> else s)"

definition isGroundSstvScanEnabled :: "SstvModule \<Rightarrow> bool" where
  "isGroundSstvScanEnabled s = sm_groundSstvScanEnabled s"

definition addEvent :: "SSTVEvent \<Rightarrow> SstvModule \<Rightarrow> SstvModule" where
  "addEvent event s =
     s\<lparr>sm_activeEvents := sort_key ev_startTime (sm_activeEvents s @ [event])\<rparr>"

definition removeEvent :: "string \<Rightarrow> SstvModule \<Rightarrow> SstvModule" where
  "removeEvent eventId s =
     s\<lparr>sm_activeEvents := filter (\<lambda>e. ev_id e \<noteq> eventId) (sm_activeEvents s)\<rparr>"

definition clearEvents :: "SstvModule \<Rightarrow> SstvModule" where
  "clearEvents s = s\<lparr>sm_activeEvents := []\<rparr>"

definition event_on_air :: "date \<Rightarrow> SSTVEvent \<Rightarrow> bool" where
  "event_on_air now e \<longleftrightarrow> ev_active e \<and> now \<ge> ev_startTime e \<and> now \<le> ev_endTime e"

definition getActiveEvent :: "date \<Rightarrow> SstvModule \<Rightarrow> SSTVEvent option" where
  "getActiveEvent now s = find (event_on_air now) (sm_activeEvents s)"

definition getUpcomingEvents :: "date \<Rightarrow> nat \<Rightarrow> SstvModule \<Rightarrow> SSTVEvent list" where
  "getUpcomingEvents now limit s = take limit (filter (\<lambda>e. ev_endTime e > now) (sm_activeEvents s))"

definition isSstvActive :: "date \<Rightarrow> SstvModule \<Rightarrow> bool" where
  "isSstvActive now s \<longleftrightarrow> sm_manualSstvEnabled s \<or> getActiveEvent now s \<noteq> None"

definition getSstvStatus :: "date \<Rightarrow> SstvModule \<Rightarrow> SSTVStatus" where
  "getSstvStatus now s =
     \<lparr>ss_enabled = isSstvActive now s, ss_manualEnabled = sm_manualSstvEnabled s,
      ss_groundScanEnabled = sm_groundSstvScanEnabled s, ss_status = SIdle,
      ss_activeEvent = getActiveEvent now s, ss_upcomingEvents = getUpcomingEvents now 10 s\<rparr>"

datatype sstv_call =
    SetManual bool | SetGround bool | AddEvent SSTVEvent | RemoveEvent string | ClearEvents

fun sstv_exec :: "sstv_call \<Rightarrow> SstvModule \<Rightarrow> SstvModule" where
  "sstv_exec (SetManual b) s = setManualSstvEnabled b s"
| "sstv_exec (SetGround b) s = setGroundSstvScanEnabled b s"
| "sstv_exec (AddEvent e) s = addEvent e s"
| "sstv_exec (RemoveEvent i) s = removeEvent i s"
| "sstv_exec ClearEvents s = clearEvents s"

section \<open>The calendar is kept in order\<close>

definition calendar_ok :: "SstvModule \<Rightarrow> bool" where
  "calendar_ok s \<longleftrightarrow> sorted (map ev_startTime (sm_activeEvents s)) \<and>
     (\<not> sm_groundSstvScanEnabled s \<longrightarrow> sf_isScanning (sm_scanner s) \<longrightarrow> sf_shouldStop (sm_scanner s))"

lemmas sstv_defs [nw_defs] =
  setManualSstvEnabled_def setGroundSstvScanEnabled_def addEvent_def removeEvent_def clearEvents_def
  stopSstvScanner_def Let_def

lemma sstv_exec_ok: "calendar_ok s \<Longrightarrow> calendar_ok (sstv_exec c s)"
  by (cases c) (auto simp: calendar_ok_def sstv_defs sorted_filter)

interpretation calendar: handler_system "\<lambda>s. \<exists>env. s = sstv_init env" "\<lambda>_. True" sstv_exec calendar_ok
proof unfold_locales
  show "calendar_ok s" if "\<exists>env. s = sstv_init env" for s
    using that by (auto simp: calendar_ok_def sstv_init_def)
qed (rule sstv_exec_ok)

lemma find_sorted_first:
  assumes "sorted (map f xs)" "find P xs = Some x"
  shows "x \<in> set xs \<and> P x \<and> (\<forall>y \<in> set xs. P y \<longrightarrow> f x \<le> f y)"
  using assms
proof (induction xs)
  case (Cons y ys)
  then show ?case by (auto split: if_splits dest: find_Some_iff [THEN iffD1])
qed simp

lemma calendar_run: "calendar_ok (fold sstv_exec calls (sstv_init env))"
  by (rule calendar.reachable_inv) (auto simp: list_all_iff)

text \<open>After any sequence of calls, SSTV capture is active exactly when the manual switch is
  on or an active event covers the instant; the event reported is the one of these that
  started first; and the upcoming events are at most ten, all unfinished, in order of
  their start.\<close>

theorem sstv_calendar_correct:
  "let s = fold sstv_exec calls (sstv_init env);
       upcoming = ss_upcomingEvents (getSstvStatus now s)
   in (isSstvActive now s \<longleftrightarrow> isManualSstvEnabled s \<or> (\<exists>e \<in> set (sm_activeEvents s). event_on_air now e)) \<and>
      (\<forall>e. getActiveEvent now s = Some e \<longrightarrow> e \<in> set (sm_activeEvents s) \<and> event_on_air now e \<and>
         (\<forall>d \<in> set (sm_activeEvents s). event_on_air now d \<longrightarrow> ev_startTime e \<le> ev_startTime d)) \<and>
      length upcoming \<le> 10 \<and> sorted (map ev_startTime upcoming) \<and>
      (\<forall>e \<in> set upcoming. now < ev_endTime e)"
proof -
  let ?s = "fold sstv_exec calls (sstv_init env)"
  have so: "sorted (map ev_startTime (sm_activeEvents ?s))"
    using calendar_run [of calls env] by (simp add: calendar_ok_def)
  have up: "sorted (map ev_startTime (getUpcomingEvents now 10 ?s))"
    using so by (simp add: getUpcomingEvents_def sorted_filter flip: take_map)
  show ?thesis
    using find_sorted_first [OF so, of "event_on_air now"] up
    by (auto simp: Let_def isSstvActive_def getActiveEvent_def isManualSstvEnabled_def getSstvStatus_def
        getUpcomingEvents_def find_None_iff dest: in_set_takeD)
qed

theorem sstv_calendar_correct_witness:
  "let e = \<lparr>ev_id = ''a'', ev_name = ''ARISS'', ev_startTime = 10, ev_endTime = 20, ev_modes = [''PD120''], ev_active = True\<rparr>;
       s = fold sstv_exec [AddEvent e] (sstv_init None)
   in isSstvActive 15 s \<and> getActiveEvent 15 s = Some e"
proof -
  let ?e = "\<lparr>ev_id = ''a'', ev_name = ''ARISS'', ev_startTime = 10, ev_endTime = 20, ev_modes = [''PD120''], ev_active = True\<rparr>"
  show ?thesis
    using sstv_calendar_correct [of "[AddEvent ?e]" None 15]
    by (auto simp: Let_def addEvent_def sstv_init_def event_on_air_def isManualSstvEnabled_def getActiveEvent_def)
qed

end
