(* ===== verification/Web_Server.thy ===== *)
theory Web_Server
  imports Globe_Service Auto_Gain Fft_Stream Capture_Database Sstv_Events
begin

text \<open>
  \<open>src/middleware/web/server.ts\<close>: the dashboard's server.  Its module variables and the
  modules it drives (FFT stream, state manager, SSTV switches) are the state; one event at a
  time runs.  A timer is the data its callback needs with the time it is due; a continuation
  whose moment the code does not fix (the end of a stop or start it awaits) is an event that
  may come at any time.
\<close>

section \<open>Data\<close>

text \<open>The fields the handlers read of a parsed body, each at the type it is cast to.\<close>

record web_body =
  bd_enabled :: "bool option"
  bd_auto :: "bool option"
  bd_frequency :: "number option"
  bd_bandwidth :: "number option"
  bd_gain :: "number option"
  bd_fftSize :: "nat option"
  bd_updateRate :: "number option"
  bd_width :: "number option"

record web_request =
  wq_method :: http_method
  wq_path :: string
  wq_limit :: "int option"
  wq_offset :: "int option"
  wq_body :: "web_body option"

record web_capture =
  wc_entry :: CaptureHistoryEntry
  wc_satellite :: string
  wc_timestamp :: string

record web_config =
  wg_station :: Coordinates
  wg_gain :: number
  wg_band :: FrequencyBand
  wg_bandGains :: "BandGainState list"
  wg_ppmCorrection :: number
  wg_sampleRate :: number
  wg_minElevation :: number
  wg_minSignalStrength :: number
  wg_skipSignalCheck :: bool

datatype web_payload =
    P_state SystemState | P_passes "SatellitePass list" | P_captures "web_capture list" | P_summary capture_summary
  | P_sstv SSTVStatus | P_globe "GlobeState option" | P_version "string option" | P_config web_config
  | P_fft_status bool "FFTStreamConfig option" nat | P_fft bool bool | P_gain number bool "FrequencyBand option"
  | P_filter_list "NotchFilter list" | P_filters bool "NotchFilter list" | P_text string | P_file string string

datatype web_message =
    M_init SystemState "GlobeState option" bool "FFTStreamConfig option" "NotchFilter list" "string option"
  | M_event StateEvent | M_sstv_status SSTVStatus | M_fft_data FFTData | M_fft_history "FFTData list"
  | M_fft_error string | M_fft_subscribed bool "FFTStreamConfig option" "string option" | M_fft_unsubscribed
  | M_gain_updated number

datatype client_message =
    C_fft_subscribe "number option" | C_fft_unsubscribe | C_fft_set_frequency "number option"
  | C_fft_set_gain "number option" | C_other

datatype web_output = HttpReply nat nat web_payload | WsSend nat web_message

datatype web_task = StartReply nat | StopReply nat

record web =
  wb_clients :: "nat list"
  wb_subscribers :: "nat list"
  wb_gain :: number
  wb_band :: FrequencyBand
  wb_store :: band_gain_store
  wb_auto :: AutoGainState
  wb_autoConfig :: AutoGainConfig
  wb_pendingStart :: "(number \<times> date) option"
  wb_pendingStop :: "date option"
  wb_errorChecks :: nat
  wb_history :: "FFTData list"
  wb_deferred :: "StateEvent list"
  wb_tasks :: "web_task list"
  wb_fft :: fft_stream
  wb_state :: SystemState
  wb_sstv :: SstvModule
  wb_db :: db_module
  wb_out :: "web_output list"

text \<open>
  What surrounds the server: the package \<open>fft.js\<close>, which sockets take a message, the
  globe, the environment variables, the files, and the database engine.
\<close>

record web_env =
  we_lib :: fft_lib
  we_open :: "date \<Rightarrow> nat \<Rightarrow> bool"
  we_globe :: "date \<Rightarrow> GlobeState option"
  we_SDR_GAIN :: "number option"
  we_num :: "string \<Rightarrow> number option"
  we_skipSignalCheck :: bool
  we_read :: "string \<Rightarrow> string option throwing"
  we_staticDir :: string
  we_imagesDir :: string
  we_version :: "string option"
  we_sql :: sqlite

text \<open>\<open>x || d\<close> on a number\<close>

definition or_num :: "number option \<Rightarrow> number \<Rightarrow> number" where
  "or_num x d = (case x of None \<Rightarrow> d | Some v \<Rightarrow> if v = 0 then d else v)"

definition defaultGain :: "web_env \<Rightarrow> number" where
  "defaultGain we = or_num (we_SDR_GAIN we) 20"

definition BAND_GAIN_TARGETS :: "FrequencyBand \<Rightarrow> number \<times> number" where
  "BAND_GAIN_TARGETS band = (case band of Noaa \<Rightarrow> (- 80, - 55) | TwoM \<Rightarrow> (- 55, - 35) | UnknownBand \<Rightarrow> (- 75, - 50))"

definition FFT_START_DEBOUNCE_MS :: int where
  "FFT_START_DEBOUNCE_MS = 500"

definition FFT_HISTORY_MAX :: nat where
  "FFT_HISTORY_MAX = 150"

definition web_autoConfig :: AutoGainConfig where
  "web_autoConfig = fullConfig \<lparr>pa_targetMin = Some (- 80), pa_targetMax = Some (- 55), pa_samplesNeeded = Some 10,
     pa_step = Some 5, pa_minGain = Some 0, pa_maxGain = Some 49\<rparr>"

text \<open>The module after \<open>startWebServer\<close>, with the default notch filter.\<close>

definition web_initial :: "web_env \<Rightarrow> date \<Rightarrow> SstvModule \<Rightarrow> db_module \<Rightarrow> web" where
  "web_initial we now sstv d =
     \<lparr>wb_clients = [], wb_subscribers = [], wb_gain = defaultGain we, wb_band = Noaa, wb_store = [],
      wb_auto = (let a = createAutoGain (defaultGain we) in if we_SDR_GAIN we \<noteq> None then ag_disable a else a),
      wb_autoConfig = web_autoConfig, wb_pendingStart = None, wb_pendingStop = None, wb_errorChecks = 0,
      wb_history = [], wb_deferred = [], wb_tasks = [],
      wb_fft = fs_initial\<lparr>fs_shared := (fs_shared fs_initial)\<lparr>fsh_notches := addNotchFilter 144420000 10000 []\<rparr>\<rparr>,
      wb_state = initialState now, wb_sstv = sstv, wb_db = d, wb_out = []\<rparr>"

definition wemit :: "web_output \<Rightarrow> web \<Rightarrow> web" where
  "wemit x s = s\<lparr>wb_out := wb_out s @ [x]\<rparr>"

definition jsonResponseNode :: "nat \<Rightarrow> web_payload \<Rightarrow> web \<Rightarrow> web" where
  "jsonResponseNode rid data s = wemit (HttpReply rid 200 data) s"

definition textResponse :: "nat \<Rightarrow> nat \<Rightarrow> string \<Rightarrow> web \<Rightarrow> web" where
  "textResponse rid status txt s = wemit (HttpReply rid status (P_text txt)) s"

section \<open>Broadcasts\<close>

definition to_clients :: "(nat \<Rightarrow> bool) \<Rightarrow> web_message \<Rightarrow> web \<Rightarrow> web" where
  "to_clients takes m s =
     fold (\<lambda>ws s. if takes ws then wemit (WsSend ws m) s else s\<lparr>wb_clients := set_delete ws (wb_clients s)\<rparr>)
       (wb_clients s) s"

definition to_subscribers :: "(nat \<Rightarrow> bool) \<Rightarrow> web_message \<Rightarrow> web \<Rightarrow> web" where
  "to_subscribers takes m s =
     fold (\<lambda>ws s. if takes ws then wemit (WsSend ws m) s else s\<lparr>wb_subscribers := set_delete ws (wb_subscribers s)\<rparr>)
       (wb_subscribers s) s"

definition broadcastSstvStatus :: "web_env \<Rightarrow> date \<Rightarrow> web \<Rightarrow> web" where
  "broadcastSstvStatus we now s = to_clients (we_open we now) (M_sstv_status (getSstvStatus now (wb_sstv s))) s"

definition broadcastFFTError :: "web_env \<Rightarrow> date \<Rightarrow> string \<Rightarrow> web \<Rightarrow> web" where
  "broadcastFFTError we now err s = to_subscribers (we_open we now) (M_fft_error err) s"

text \<open>
  A new request replaces the timer of the one before.  A fired timer stays in the variable until
  its callback ends; clearing it then has no effect, so only a timer that is still to fire is
  kept here.
\<close>

definition debouncedFFTStart :: "date \<Rightarrow> number \<Rightarrow> web \<Rightarrow> web" where
  "debouncedFFTStart now frequency s = s\<lparr>wb_pendingStart := Some (frequency, now + FFT_START_DEBOUNCE_MS)\<rparr>"

text \<open>The callback of the timer, up to and including the call of \<open>startFFTStream\<close>.\<close>

definition configure_gain :: "web_env \<Rightarrow> number \<Rightarrow> web \<Rightarrow> web" where
  "configure_gain we frequency s =
     (let l = bgs_getForFrequency frequency (defaultGain we) (wb_store s);
          s = s\<lparr>wb_band := bl_band l, wb_gain := bl_gain l\<rparr>
      in if bl_needsCalibration l \<and> we_SDR_GAIN we = None
         then let targets = BAND_GAIN_TARGETS (bl_band l)
              in s\<lparr>wb_autoConfig := (wb_autoConfig s)\<lparr>ac_targetMin := fst targets, ac_targetMax := snd targets\<rparr>,
                   wb_auto := ag_enable ((wb_auto s)\<lparr>ag_currentGain := bl_gain l\<rparr>)\<rparr>
         else s\<lparr>wb_auto := ag_disable (wb_auto s)\<rparr>)"

definition start_fires :: "web_env \<Rightarrow> bool \<Rightarrow> date \<Rightarrow> web \<Rightarrow> web" where
  "start_fires we ok now s =
     (case wb_pendingStart s of
        None \<Rightarrow> s
      | Some (frequency, due) \<Rightarrow>
          (if now < due then s
           else let s = s\<lparr>wb_pendingStart := None, wb_history := []\<rparr>;
                    s = configure_gain we frequency s;
                    config = \<lparr>fc_frequency = frequency, fc_bandwidth = 200000, fc_fftSize = 2048, fc_gain = wb_gain s,
                              fc_updateRate = 30\<rparr>
                in s\<lparr>wb_fft := startFFTStream (we_lib we) ok now config 0 (wb_fft s),
                     wb_errorChecks := wb_errorChecks s + 1\<rparr>))"

text \<open>The check a second and a half after the start has returned.\<close>

definition error_check :: "web_env \<Rightarrow> date \<Rightarrow> web \<Rightarrow> web" where
  "error_check we now s =
     (if wb_errorChecks s = 0 then s
      else let s = s\<lparr>wb_errorChecks := wb_errorChecks s - 1\<rparr>
           in case getFFTStreamError (wb_fft s) of
                None \<Rightarrow> s
              | Some err \<Rightarrow> if err = [] then s else broadcastFFTError we now err s)"

definition stream_frequency :: "web \<Rightarrow> number" where
  "stream_frequency s = or_num (map_option fc_frequency (getFFTStreamConfig (wb_fft s))) 137500000"

definition push_history :: "FFTData \<Rightarrow> FFTData list \<Rightarrow> FFTData list" where
  "push_history data h = (let h = h @ [data] in if length h > FFT_HISTORY_MAX then tl h else h)"

definition feed_auto_gain :: "date \<Rightarrow> FFTData \<Rightarrow> web \<Rightarrow> web" where
  "feed_auto_gain now data s =
     (if \<not> ag_enabled (wb_auto s) then s
      else case ag_feed (wb_autoConfig s) (fd_bins data) (wb_auto s) of
             (GWaiting, a) \<Rightarrow> s\<lparr>wb_auto := a\<rparr>
           | (GAdjusted old newGain, a) \<Rightarrow>
               debouncedFFTStart now (stream_frequency s)
                 (s\<lparr>wb_auto := a, wb_gain := newGain, wb_store := bgs_set (wb_band s) newGain False (wb_store s)\<rparr>)
           | (GInRange gain, a) \<Rightarrow>
               s\<lparr>wb_auto := a, wb_store := bgs_set (wb_band s) gain True (wb_store s), wb_gain := gain\<rparr>
           | (GLimitReached gain, a) \<Rightarrow>
               s\<lparr>wb_auto := a, wb_store := bgs_set (wb_band s) gain True (wb_store s), wb_gain := gain\<rparr>)"

definition web_broadcastFFTData :: "web_env \<Rightarrow> date \<Rightarrow> FFTData \<Rightarrow> web \<Rightarrow> web" where
  "web_broadcastFFTData we now data s =
     (let s = s\<lparr>wb_history := push_history data (wb_history s)\<rparr>
      in if wb_subscribers s = [] then s
         else to_subscribers (we_open we now) (M_fft_data data) (feed_auto_gain now data s))"

section \<open>Files\<close>

text \<open>
  \<open>path.resolve(dir, file)\<close> for an absolute \<open>dir\<close>: an absolute \<open>file\<close> stands
  for itself.
\<close>

definition path_resolve :: "string \<Rightarrow> string \<Rightarrow> string" where
  "path_resolve dir file =
     (let p = (if js_startsWith file ''/'' then file else dir @ ''/'' @ file)
      in ''/'' @ js_join ''/'' (normalize_segs True [] (js_split (CHR ''/'') p)))"

text \<open>\<open>Inl\<close>: the file exists and cannot be read.\<close>

definition serve_file :: "web_env \<Rightarrow> nat \<Rightarrow> string \<Rightarrow> string \<Rightarrow> web \<Rightarrow> web" where
  "serve_file we rid filePath contentType s =
     (case we_read we filePath of
        Inr (Some content) \<Rightarrow> wemit (HttpReply rid 200 (P_file contentType content)) s
      | Inr None \<Rightarrow> textResponse rid 404 ''Not Found'' s
      | Inl err \<Rightarrow> textResponse rid 500 ''Internal Server Error'' s)"

definition serveStaticNode :: "web_env \<Rightarrow> nat \<Rightarrow> string \<Rightarrow> string \<Rightarrow> web \<Rightarrow> web" where
  "serveStaticNode we rid filename contentType s = serve_file we rid (path_resolve (we_staticDir we) filename) contentType s"

definition serveImageNode :: "web_env \<Rightarrow> nat \<Rightarrow> string \<Rightarrow> web \<Rightarrow> web" where
  "serveImageNode we rid filename s =
     (if js_includes filename ''..'' then textResponse rid 403 ''Forbidden'' s
      else serve_file we rid (path_resolve (we_imagesDir we) filename) ''image/png'' s)"

definition getContentType :: "string \<Rightarrow> string" where
  "getContentType filename =
     (let ext = js_toLowerCase (last (js_split (CHR ''.'') filename))
      in case map_of [(''js'', ''application/javascript''), (''mjs'', ''application/javascript''), (''css'', ''text/css''),
                      (''html'', ''text/html''), (''json'', ''application/json''), (''svg'', ''image/svg+xml''),
                      (''png'', ''image/png''), (''jpg'', ''image/jpeg''), (''jpeg'', ''image/jpeg''), (''gif'', ''image/gif''),
                      (''ico'', ''image/x-icon''), (''woff'', ''font/woff''), (''woff2'', ''font/woff2''), (''ttf'', ''font/ttf''),
                      (''eot'', ''application/vnd.ms-fontobject'')] ext of
           None \<Rightarrow> ''application/octet-stream'' | Some t \<Rightarrow> t)"

section \<open>Requests\<close>

definition read_body :: "web_body option \<Rightarrow> nat \<Rightarrow> (web_body \<Rightarrow> web \<Rightarrow> web) \<Rightarrow> web \<Rightarrow> web" where
  "read_body body rid k s = (case body of None \<Rightarrow> textResponse rid 400 ''Bad Request'' s | Some b \<Rightarrow> k b s)"

definition or_int :: "int option \<Rightarrow> int \<Rightarrow> int" where
  "or_int x d = (case x of None \<Rightarrow> d | Some v \<Rightarrow> if v = 0 then d else v)"

definition api_captures :: "web_env \<Rightarrow> nat \<Rightarrow> web_request \<Rightarrow> web \<Rightarrow> web" where
  "api_captures we rid rq s =
     (case getDatabase (wb_db s) of
        Inl err \<Rightarrow> jsonResponseNode rid (P_captures []) s
      | Inr d \<Rightarrow>
          jsonResponseNode rid
            (P_captures (map (\<lambda>c. \<lparr>wc_entry = c, wc_satellite = che_satelliteName c, wc_timestamp = che_startTime c\<rparr>)
               (getRecentCaptures (we_sql we) (or_int (wq_limit rq) 50) (or_int (wq_offset rq) 0) d))) s)"

definition api_summary :: "nat \<Rightarrow> web \<Rightarrow> web" where
  "api_summary rid s =
     jsonResponseNode rid (P_summary (case getDatabase (wb_db s) of
        Inl err \<Rightarrow> \<lparr>cs_total = 0, cs_successful = 0, cs_failed = 0\<rparr> | Inr d \<Rightarrow> getCaptureSummary d)) s"

definition api_sstv_status :: "date \<Rightarrow> nat \<Rightarrow> web \<Rightarrow> web" where
  "api_sstv_status now rid s =
     (let sstv = getSstvStatus now (wb_sstv s); systemStatus = st_status (wb_state s);
          sstv = (if systemStatus = Scanning then sstv\<lparr>ss_status := SScanning\<rparr>
                  else if systemStatus = Capturing then sstv\<lparr>ss_status := SCapturing\<rparr> else sstv)
      in jsonResponseNode rid (P_sstv sstv) s)"

definition api_sstv_toggle :: "web_env \<Rightarrow> date \<Rightarrow> nat \<Rightarrow> web_body \<Rightarrow> web \<Rightarrow> web" where
  "api_sstv_toggle we now rid b s =
     (let enabled = or_else (bd_enabled b) (\<not> ss_manualEnabled (getSstvStatus now (wb_sstv s)));
          s = broadcastSstvStatus we now (s\<lparr>wb_sstv := setManualSstvEnabled enabled (wb_sstv s)\<rparr>)
      in jsonResponseNode rid (P_sstv (getSstvStatus now (wb_sstv s))) s)"

definition api_ground_toggle :: "web_env \<Rightarrow> date \<Rightarrow> nat \<Rightarrow> web_body \<Rightarrow> web \<Rightarrow> web" where
  "api_ground_toggle we now rid b s =
     (let enabled = or_else (bd_enabled b) (\<not> ss_groundScanEnabled (getSstvStatus now (wb_sstv s)));
          s = broadcastSstvStatus we now (s\<lparr>wb_sstv := setGroundSstvScanEnabled enabled (wb_sstv s)\<rparr>)
      in jsonResponseNode rid (P_sstv (getSstvStatus now (wb_sstv s))) s)"

definition api_config :: "web_env \<Rightarrow> date \<Rightarrow> nat \<Rightarrow> web \<Rightarrow> web" where
  "api_config we now rid s =
     (let globe = we_globe we now; env = (\<lambda>name d. or_num (we_num we name) d)
      in jsonResponseNode rid (P_config
           \<lparr>wg_station = \<lparr>co_latitude = (case globe of None \<Rightarrow> env ''STATION_LATITUDE'' 0 | Some g \<Rightarrow> fst (gs_station g)),
                          co_longitude = (case globe of None \<Rightarrow> env ''STATION_LONGITUDE'' 0 | Some g \<Rightarrow> snd (gs_station g)),
                          co_altitude = env ''STATION_ALTITUDE'' 0\<rparr>,
            wg_gain = wb_gain s, wg_band = wb_band s, wg_bandGains = bgs_getAll (wb_store s),
            wg_ppmCorrection = env ''SDR_PPM_CORRECTION'' 0, wg_sampleRate = env ''SDR_SAMPLE_RATE'' 48000,
            wg_minElevation = env ''MIN_ELEVATION'' 20, wg_minSignalStrength = env ''MIN_SIGNAL_STRENGTH'' (- 30),
            wg_skipSignalCheck = we_skipSignalCheck we\<rparr>) s)"

definition api_fft_start :: "web_env \<Rightarrow> bool \<Rightarrow> date \<Rightarrow> nat \<Rightarrow> web_body \<Rightarrow> web \<Rightarrow> web" where
  "api_fft_start we ok now rid b s =
     (let config = \<lparr>fc_frequency = or_num (bd_frequency b) 137500000, fc_bandwidth = or_num (bd_bandwidth b) 200000,
                    fc_fftSize = (case bd_fftSize b of None \<Rightarrow> 1024 | Some n \<Rightarrow> if n = 0 then 1024 else n),
                    fc_gain = or_num (bd_gain b) (wb_gain s), fc_updateRate = or_num (bd_updateRate b) 10\<rparr>
      in s\<lparr>wb_fft := startFFTStream (we_lib we) ok now config 0 (wb_fft s), wb_tasks := wb_tasks s @ [StartReply rid]\<rparr>)"

text \<open>The gain as the user sets it, over HTTP and over the socket.\<close>

definition set_user_gain :: "date \<Rightarrow> number \<Rightarrow> web \<Rightarrow> web" where
  "set_user_gain now gain s =
     (let s = s\<lparr>wb_gain := gain, wb_auto := ag_setGain gain (wb_auto s), wb_store := bgs_set (wb_band s) gain True (wb_store s)\<rparr>
      in if isFFTStreamRunning (wb_fft s) then debouncedFFTStart now (stream_frequency s) s else s)"

definition api_gain :: "date \<Rightarrow> nat \<Rightarrow> web_body \<Rightarrow> web \<Rightarrow> web" where
  "api_gain now rid b s =
     (if bd_auto b = Some True
      then let s = s\<lparr>wb_store := bgs_clear (wb_band s) (wb_store s), wb_auto := ag_enable (wb_auto s)\<rparr>
           in jsonResponseNode rid (P_gain (wb_gain s) True (Some (wb_band s))) s
      else case bd_gain b of
             None \<Rightarrow> textResponse rid 400 ''Gain must be between 0 and 49'' s
           | Some gain \<Rightarrow>
               (if gain < 0 \<or> gain > 49 then textResponse rid 400 ''Gain must be between 0 and 49'' s
                else let s = set_user_gain now gain s in jsonResponseNode rid (P_gain (wb_gain s) False None) s))"

definition notches :: "web \<Rightarrow> NotchFilter list" where
  "notches s = fsh_notches (fs_shared (wb_fft s))"

definition put_notches :: "NotchFilter list \<Rightarrow> web \<Rightarrow> web" where
  "put_notches fs s = s\<lparr>wb_fft := (wb_fft s)\<lparr>fs_shared := (fs_shared (wb_fft s))\<lparr>fsh_notches := fs\<rparr>\<rparr>\<rparr>"

definition api_notch_add :: "nat \<Rightarrow> web_body \<Rightarrow> web \<Rightarrow> web" where
  "api_notch_add rid b s =
     (case bd_frequency b of
        None \<Rightarrow> textResponse rid 400 ''frequency required'' s
      | Some f \<Rightarrow>
          (if f = 0 then textResponse rid 400 ''frequency required'' s
           else let s = put_notches (addNotchFilter f (or_num (bd_width b) 5000) (notches s)) s
                in jsonResponseNode rid (P_filters True (notches s)) s))"

definition api_notch_remove :: "nat \<Rightarrow> web_body \<Rightarrow> web \<Rightarrow> web" where
  "api_notch_remove rid b s =
     (case bd_frequency b of
        None \<Rightarrow> textResponse rid 400 ''frequency required'' s
      | Some f \<Rightarrow>
          (if f = 0 then textResponse rid 400 ''frequency required'' s
           else let (removed, fs) = removeNotchFilter f (notches s)
                in jsonResponseNode rid (P_filters removed fs) (put_notches fs s)))"

definition api_notch_toggle :: "nat \<Rightarrow> web_body \<Rightarrow> web \<Rightarrow> web" where
  "api_notch_toggle rid b s =
     (case (bd_frequency b, bd_enabled b) of
        (Some f, Some enabled) \<Rightarrow>
          (if f = 0 then textResponse rid 400 ''frequency and enabled required'' s
           else let (updated, fs) = setNotchFilterEnabled f enabled (notches s)
                in jsonResponseNode rid (P_filters updated fs) (put_notches fs s))
      | _ \<Rightarrow> textResponse rid 400 ''frequency and enabled required'' s)"

text \<open>
  The chain of routes.  \<open>decode\<close> is \<open>decodeURIComponent\<close>; the name it yields, or
  \<open>None\<close> when it throws, which nothing catches: the request is never answered.
\<close>

definition web_handle_request ::
  "web_env \<Rightarrow> (string \<Rightarrow> string option) \<Rightarrow> bool \<Rightarrow> date \<Rightarrow> nat \<Rightarrow> web_request \<Rightarrow> web \<Rightarrow> web" where
  "web_handle_request we decode ok now rid rq s =
     (let path = wq_path rq; meth = wq_method rq
      in if path = ''/'' \<or> path = ''/index.html'' then serveStaticNode we rid ''index.html'' ''text/html'' s
         else if path = ''/styles.css'' then serveStaticNode we rid ''styles.css'' ''text/css'' s
         else if path = ''/app.js'' then serveStaticNode we rid ''app.js'' ''application/javascript'' s
         else if js_startsWith path ''/assets/''
         then let filename = drop 1 path in serveStaticNode we rid filename (getContentType filename) s
         else if js_startsWith path ''/images/'' then serveImageNode we rid (drop 8 path) s
         else if js_startsWith path ''/api/images/''
         then (case decode (drop 12 path) of None \<Rightarrow> s | Some filename \<Rightarrow> serveImageNode we rid filename s)
         else if path = ''/api/status'' then jsonResponseNode rid (P_state (wb_state s)) s
         else if path = ''/api/passes'' then jsonResponseNode rid (P_passes (st_upcomingPasses (wb_state s))) s
         else if path = ''/api/captures'' then api_captures we rid rq s
         else if path = ''/api/summary'' then api_summary rid s
         else if path = ''/api/sstv/status'' then api_sstv_status now rid s
         else if path = ''/api/sstv/toggle'' \<and> meth = POST then read_body (wq_body rq) rid (api_sstv_toggle we now rid) s
         else if path = ''/api/sstv/ground-scan/toggle'' \<and> meth = POST
         then read_body (wq_body rq) rid (api_ground_toggle we now rid) s
         else if path = ''/api/globe'' then jsonResponseNode rid (P_globe (we_globe we now)) s
         else if path = ''/api/version'' then jsonResponseNode rid (P_version (we_version we)) s
         else if path = ''/api/config'' then api_config we now rid s
         else if path = ''/api/fft/status''
         then jsonResponseNode rid (P_fft_status (isFFTStreamRunning (wb_fft s)) (getFFTStreamConfig (wb_fft s))
                (length (wb_subscribers s))) s
         else if path = ''/api/fft/start'' \<and> meth = POST then read_body (wq_body rq) rid (api_fft_start we ok now rid) s
         else if path = ''/api/config/gain'' \<and> meth = POST then read_body (wq_body rq) rid (api_gain now rid) s
         else if path = ''/api/fft/stop'' \<and> meth = POST
         then s\<lparr>wb_fft := stopFFTStream now (wb_fft s), wb_tasks := wb_tasks s @ [StopReply rid]\<rparr>
         else if path = ''/api/fft/notch'' \<and> meth = GET then jsonResponseNode rid (P_filter_list (notches s)) s
         else if path = ''/api/fft/notch'' \<and> meth = POST then read_body (wq_body rq) rid (api_notch_add rid) s
         else if path = ''/api/fft/notch'' \<and> meth = DELETE then read_body (wq_body rq) rid (api_notch_remove rid) s
         else if path = ''/api/fft/notch/toggle'' \<and> meth = POST then read_body (wq_body rq) rid (api_notch_toggle rid) s
         else if path = ''/api/fft/notch/clear'' \<and> meth = POST
         then jsonResponseNode rid (P_filters True []) (put_notches (clearNotchFilters (notches s)) s)
         else textResponse rid 404 ''Not Found'' s)"

section \<open>Sockets\<close>

definition ws_connection :: "web_env \<Rightarrow> date \<Rightarrow> nat \<Rightarrow> web \<Rightarrow> web" where
  "ws_connection we now ws s =
     wemit (WsSend ws (M_init (wb_state s) (we_globe we now) (isFFTStreamRunning (wb_fft s)) (getFFTStreamConfig (wb_fft s))
              (notches s) (getFFTStreamError (wb_fft s))))
       (s\<lparr>wb_clients := set_add ws (wb_clients s)\<rparr>)"

definition ws_disconnect :: "nat \<Rightarrow> web \<Rightarrow> web" where
  "ws_disconnect ws s = s\<lparr>wb_clients := set_delete ws (wb_clients s), wb_subscribers := set_delete ws (wb_subscribers s)\<rparr>"

definition capture_in_progress :: "SystemState \<Rightarrow> bool" where
  "capture_in_progress st \<longleftrightarrow> st_status st = Capturing \<or> st_status st = Decoding"

definition fft_subscribe :: "date \<Rightarrow> nat \<Rightarrow> number option \<Rightarrow> web \<Rightarrow> web" where
  "fft_subscribe now ws frequency s =
     (let s = s\<lparr>wb_subscribers := set_add ws (wb_subscribers s), wb_pendingStop := None\<rparr>;
          s = (if length (wb_history s) > 0 then wemit (WsSend ws (M_fft_history (wb_history s))) s else s);
          s = (if \<not> isFFTStreamRunning (wb_fft s) \<and> \<not> capture_in_progress (wb_state s)
               then debouncedFFTStart now
                      (if st_status (wb_state s) = Scanning \<and> or_num (st_scanningFrequency (wb_state s)) 0 \<noteq> 0
                       then or_num (st_scanningFrequency (wb_state s)) 0 else or_num frequency 137500000) s
               else s)
      in wemit (WsSend ws (M_fft_subscribed (isFFTStreamRunning (wb_fft s)) (getFFTStreamConfig (wb_fft s))
                 (getFFTStreamError (wb_fft s)))) s)"

definition fft_unsubscribe :: "date \<Rightarrow> nat \<Rightarrow> web \<Rightarrow> web" where
  "fft_unsubscribe now ws s =
     wemit (WsSend ws M_fft_unsubscribed)
       (s\<lparr>wb_subscribers := set_delete ws (wb_subscribers s), wb_pendingStop := Some (now + 1000)\<rparr>)"

definition stop_fires :: "date \<Rightarrow> web \<Rightarrow> web" where
  "stop_fires now s =
     (case wb_pendingStop s of
        None \<Rightarrow> s
      | Some due \<Rightarrow>
          (if now < due then s
           else let s = s\<lparr>wb_pendingStop := None\<rparr>
                in if wb_subscribers s = [] \<and> isFFTStreamRunning (wb_fft s)
                   then s\<lparr>wb_fft := stopFFTStream now (wb_fft s)\<rparr> else s))"

definition fft_set_gain :: "date \<Rightarrow> nat \<Rightarrow> number option \<Rightarrow> web \<Rightarrow> web" where
  "fft_set_gain now ws gain s =
     (case gain of
        None \<Rightarrow> s
      | Some g \<Rightarrow> if g \<ge> 0 \<and> g \<le> 49
                  then let s = set_user_gain now g s in wemit (WsSend ws (M_gain_updated (wb_gain s))) s else s)"

fun ws_message :: "date \<Rightarrow> nat \<Rightarrow> client_message option \<Rightarrow> web \<Rightarrow> web" where
  "ws_message now ws (Some (C_fft_subscribe f)) s = fft_subscribe now ws f s"
| "ws_message now ws (Some C_fft_unsubscribe) s = fft_unsubscribe now ws s"
| "ws_message now ws (Some (C_fft_set_frequency f)) s =
     (case f of None \<Rightarrow> s | Some g \<Rightarrow> if g = 0 then s else debouncedFFTStart now g s)"
| "ws_message now ws (Some (C_fft_set_gain g)) s = fft_set_gain now ws g s"
| "ws_message now ws (Some C_other) s = s"
| "ws_message now ws None s = s"

section \<open>State changes\<close>

text \<open>
  The listener of the state manager.  When it stops the FFT stream for a pass it awaits that,
  and the event goes out afterwards.
\<close>

definition on_state :: "web_env \<Rightarrow> date \<Rightarrow> StateEvent \<Rightarrow> web \<Rightarrow> web" where
  "on_state we now ev s =
     (let s = (case ev of
                 scanning_frequency f name \<Rightarrow>
                   if wb_subscribers s \<noteq> [] \<and> \<not> capture_in_progress (wb_state s) then debouncedFFTStart now f s else s
               | _ \<Rightarrow> s)
      in case ev of
           pass_start pass \<Rightarrow>
             if isFFTStreamRunning (wb_fft s)
             then s\<lparr>wb_fft := stopFFTStream now (wb_fft s), wb_deferred := wb_deferred s @ [ev]\<rparr>
             else to_clients (we_open we now) (M_event ev) s
         | _ \<Rightarrow> to_clients (we_open we now) (M_event ev) s)"

definition state_call :: "web_env \<Rightarrow> date \<Rightarrow> sm_call \<Rightarrow> web \<Rightarrow> web" where
  "state_call we now c s = (let (st, ev) = sm_exec now c (wb_state s) in on_state we now ev (s\<lparr>wb_state := st\<rparr>))"

definition deferred_event :: "web_env \<Rightarrow> date \<Rightarrow> web \<Rightarrow> web" where
  "deferred_event we now s =
     (case wb_deferred s of [] \<Rightarrow> s | ev # evs \<Rightarrow> to_clients (we_open we now) (M_event ev) (s\<lparr>wb_deferred := evs\<rparr>))"

text \<open>\<open>success\<close>: what the awaited start resolved with.\<close>

definition reply_task :: "nat \<Rightarrow> bool \<Rightarrow> web \<Rightarrow> web" where
  "reply_task k success s =
     (case elem_at (wb_tasks s) (int k) of
        None \<Rightarrow> s
      | Some t \<Rightarrow>
          (let s = s\<lparr>wb_tasks := take k (wb_tasks s) @ drop (k + 1) (wb_tasks s)\<rparr>
           in case t of
                StartReply rid \<Rightarrow> jsonResponseNode rid (P_fft success (isFFTStreamRunning (wb_fft s))) s
              | StopReply rid \<Rightarrow> jsonResponseNode rid (P_fft True False) s))"

definition web_fft_event :: "web_env \<Rightarrow> bool \<Rightarrow> date \<Rightarrow> fs_event \<Rightarrow> web \<Rightarrow> web" where
  "web_fft_event we ok now ev s =
     (let fft = fs_step (we_lib we) (now, ok, ev) (wb_fft s);
          frames = drop (length (fsh_emitted (fs_shared (wb_fft s)))) (fsh_emitted (fs_shared fft))
      in fold (\<lambda>(cb, data). web_broadcastFFTData we now data) frames (s\<lparr>wb_fft := fft\<rparr>))"

datatype web_event =
    WebRequest nat "string \<Rightarrow> string option" web_request
  | WsConnect nat | WsDisconnect nat | WsMessageIn nat "client_message option"
  | StateCall sm_call | DeferredEvent | StartFires | StopFires | ErrorCheck | ReplyTask nat bool
  | WebFft fs_event

fun web_step :: "web_env \<Rightarrow> date \<times> bool \<times> web_event \<Rightarrow> web \<Rightarrow> web" where
  "web_step we (now, ok, WebRequest rid decode rq) s = web_handle_request we decode ok now rid rq s"
| "web_step we (now, ok, WsConnect ws) s = ws_connection we now ws s"
| "web_step we (now, ok, WsDisconnect ws) s = ws_disconnect ws s"
| "web_step we (now, ok, WsMessageIn ws m) s = ws_message now ws m s"
| "web_step we (now, ok, StateCall c) s = state_call we now c s"
| "web_step we (now, ok, DeferredEvent) s = deferred_event we now s"
| "web_step we (now, ok, StartFires) s = start_fires we ok now s"
| "web_step we (now, ok, StopFires) s = stop_fires now s"
| "web_step we (now, ok, ErrorCheck) s = error_check we now s"
| "web_step we (now, ok, ReplyTask k success) s = reply_task k success s"
| "web_step we (now, ok, WebFft ev) s = web_fft_event we ok now ev s"

section \<open>Invariant\<close>

definition gain_ok :: "number \<Rightarrow> bool" where
  "gain_ok g \<longleftrightarrow> 0 \<le> g \<and> g \<le> 49"

definition gains_inv :: "web \<Rightarrow> bool" where
  "gains_inv s \<longleftrightarrow>
     gain_ok (wb_gain s) \<and> gain_ok (ag_currentGain (wb_auto s)) \<and>
     (\<forall>b e. bgs_get (wb_store s) b = Some e \<longrightarrow> gain_ok (bg_gain e)) \<and>
     ac_minGain (wb_autoConfig s) = 0 \<and> ac_maxGain (wb_autoConfig s) = 49 \<and> ac_step (wb_autoConfig s) = 5"

definition web_inv :: "web \<Rightarrow> bool" where
  "web_inv s \<longleftrightarrow>
     length (wb_history s) \<le> 150 \<and> distinct (wb_clients s) \<and> distinct (wb_subscribers s) \<and> gains_inv s \<and>
     fs_inv (wb_fft s)"

lemma wemit_simps [simp]:
  "wb_history (wemit x s) = wb_history s" "wb_clients (wemit x s) = wb_clients s" "wb_subscribers (wemit x s) = wb_subscribers s"
  "wb_gain (wemit x s) = wb_gain s" "wb_auto (wemit x s) = wb_auto s" "wb_store (wemit x s) = wb_store s"
  "wb_autoConfig (wemit x s) = wb_autoConfig s" "wb_fft (wemit x s) = wb_fft s" "wb_state (wemit x s) = wb_state s"
  "wb_pendingStart (wemit x s) = wb_pendingStart s" "wb_band (wemit x s) = wb_band s" "wb_out (wemit x s) = wb_out s @ [x]"
  "wb_pendingStop (wemit x s) = wb_pendingStop s" "wb_sstv (wemit x s) = wb_sstv s"
  by (simp_all add: wemit_def)

text \<open>Updates the invariant does not see.\<close>

lemma web_inv_frame:
  assumes "web_inv s" "wb_history s' = wb_history s" "wb_gain s' = wb_gain s" "wb_auto s' = wb_auto s"
    "wb_store s' = wb_store s" "wb_autoConfig s' = wb_autoConfig s"
    "distinct (wb_clients s) \<Longrightarrow> distinct (wb_clients s')" "distinct (wb_subscribers s) \<Longrightarrow> distinct (wb_subscribers s')"
    "fs_inv (wb_fft s) \<Longrightarrow> fs_inv (wb_fft s')"
  shows "web_inv s'"
  using assms by (simp add: web_inv_def gains_inv_def)

lemma web_inv_emit [simp]: "web_inv (wemit x s) = web_inv s" "web_inv (jsonResponseNode rid d s) = web_inv s"
  "web_inv (textResponse rid n t s) = web_inv s"
  by (simp_all add: web_inv_def gains_inv_def jsonResponseNode_def textResponse_def)

lemma serve_inv [simp]: "web_inv (serve_file we rid p c s) = web_inv s" "web_inv (serveStaticNode we rid f c s) = web_inv s"
  "web_inv (serveImageNode we rid f s) = web_inv s"
  by (simp_all add: serve_file_def serveStaticNode_def serveImageNode_def split: sum.splits option.splits)

lemma debounce_inv [simp]: "web_inv (debouncedFFTStart now f s) = web_inv s"
  by (simp add: debouncedFFTStart_def web_inv_def gains_inv_def)

lemma drop_socket_inv:
  "web_inv s \<Longrightarrow> web_inv (s\<lparr>wb_clients := set_delete ws (wb_clients s)\<rparr>)"
  "web_inv s \<Longrightarrow> web_inv (s\<lparr>wb_subscribers := set_delete ws (wb_subscribers s)\<rparr>)"
  by (simp_all add: web_inv_def gains_inv_def)

lemma to_clients_inv: "web_inv s \<Longrightarrow> web_inv (to_clients takes m s)"
proof -
  have "web_inv s \<Longrightarrow> web_inv (fold (\<lambda>ws s. if takes ws then wemit (WsSend ws m) s
      else s\<lparr>wb_clients := set_delete ws (wb_clients s)\<rparr>) wss s)" for wss s
    by (induction wss arbitrary: s) (auto intro: drop_socket_inv)
  then show "web_inv s \<Longrightarrow> web_inv (to_clients takes m s)" by (simp add: to_clients_def)
qed

lemma to_subscribers_inv: "web_inv s \<Longrightarrow> web_inv (to_subscribers takes m s)"
proof -
  have "web_inv s \<Longrightarrow> web_inv (fold (\<lambda>ws s. if takes ws then wemit (WsSend ws m) s
      else s\<lparr>wb_subscribers := set_delete ws (wb_subscribers s)\<rparr>) wss s)" for wss s
    by (induction wss arbitrary: s) (auto intro: drop_socket_inv)
  then show "web_inv s \<Longrightarrow> web_inv (to_subscribers takes m s)" by (simp add: to_subscribers_def)
qed

text \<open>The stream only changes by its own calls.\<close>

lemma fft_call_inv:
  "fs_inv f \<Longrightarrow> fs_inv (startFFTStream lib ok now c cb f)" "fs_inv f \<Longrightarrow> fs_inv (stopFFTStream now f)"
  "fs_inv f \<Longrightarrow> fs_inv (f\<lparr>fs_shared := (fs_shared f)\<lparr>fsh_notches := ns\<rparr>\<rparr>)"
  using fs_sys.step_inv [of f lib "(now, ok, CallStart c cb)"] fs_sys.step_inv [of f lib "(now, ok, CallStop)"]
  by (auto simp: fs_inv_def running_inv_def procs_inv_def)

lemma put_notches_inv: "web_inv s \<Longrightarrow> web_inv (put_notches ns s)"
  by (simp add: put_notches_def web_inv_def gains_inv_def fft_call_inv(3))

lemma bgs_gain_set: "bgs_get (bgs_set b g c st) b' = (if b' = b then Some \<lparr>bg_band = b, bg_gain = g, bg_calibrated = c\<rparr> else bgs_get st b')"
  by (simp add: bgs_get_def bgs_set_def map_get_set)

lemma set_user_gain_inv: "web_inv s \<Longrightarrow> gain_ok g \<Longrightarrow> web_inv (set_user_gain now g s)"
  by (auto simp: set_user_gain_def Let_def web_inv_def gains_inv_def ag_setGain_def bgs_gain_set debouncedFFTStart_def)

lemma ag_feed_gain:
  assumes "ag_feed cfg bins a = (r, a')" "gain_ok (ag_currentGain a)"
    and "ac_minGain cfg = 0" "ac_maxGain cfg = 49" "ac_step cfg = 5"
  shows "gain_ok (ag_currentGain a')" "\<And>x g. r = GAdjusted x g \<Longrightarrow> gain_ok g" "\<And>g. r = GInRange g \<Longrightarrow> gain_ok g"
    "\<And>g. r = GLimitReached g \<Longrightarrow> gain_ok g"
  using assms by (auto simp: ag_feed_def ag_adjust_def Let_def gain_ok_def split: if_splits)

lemma feed_auto_gain_inv:
  assumes "web_inv s"
  shows "web_inv (feed_auto_gain now data s)"
proof (cases "ag_enabled (wb_auto s)")
  case True
  obtain r a where f: "ag_feed (wb_autoConfig s) (fd_bins data) (wb_auto s) = (r, a)" by fastforce
  have g: "gain_ok (ag_currentGain (wb_auto s))" "ac_minGain (wb_autoConfig s) = 0" "ac_maxGain (wb_autoConfig s) = 49"
    "ac_step (wb_autoConfig s) = 5" using assms by (auto simp: web_inv_def gains_inv_def)
  show ?thesis
    using assms True f ag_feed_gain [OF f g(1-4)]
    by (cases r) (auto simp: feed_auto_gain_def web_inv_def gains_inv_def bgs_gain_set debouncedFFTStart_def)
qed (simp add: feed_auto_gain_def assms)

lemma push_history_length: "length h \<le> 150 \<Longrightarrow> length (push_history d h) \<le> 150"
  by (simp add: push_history_def FFT_HISTORY_MAX_def Let_def)

lemma web_broadcast_inv: "web_inv s \<Longrightarrow> web_inv (web_broadcastFFTData we now data s)"
proof -
  assume i: "web_inv s"
  have "web_inv (s\<lparr>wb_history := push_history data (wb_history s)\<rparr>)"
    using i push_history_length [of "wb_history s"] by (simp add: web_inv_def gains_inv_def)
  then show ?thesis by (auto simp: web_broadcastFFTData_def Let_def intro: to_subscribers_inv feed_auto_gain_inv)
qed

lemma web_fft_event_inv:
  assumes "web_inv s"
  shows "web_inv (web_fft_event we ok now ev s)"
proof -
  let ?f = "fs_step (we_lib we) (now, ok, ev) (wb_fft s)"
  have "web_inv (s\<lparr>wb_fft := ?f\<rparr>)"
    using assms fs_sys.step_inv [of "wb_fft s" "we_lib we" "(now, ok, ev)"] by (simp add: web_inv_def gains_inv_def)
  moreover have "web_inv s' \<Longrightarrow> web_inv (fold (\<lambda>(cb, data). web_broadcastFFTData we now data) frames s')"
    for frames :: "(nat \<times> FFTData) list" and s'
    by (induction frames arbitrary: s') (auto intro: web_broadcast_inv)
  ultimately show ?thesis by (simp add: web_fft_event_def Let_def)
qed

lemma configure_gain_inv:
  assumes "web_inv s" "gain_ok (defaultGain we)"
  shows "web_inv (configure_gain we f s)"
  using assms
  by (auto simp: configure_gain_def Let_def bgs_getForFrequency_def web_inv_def gains_inv_def ag_enable_def ag_disable_def
      bgs_get_def split: option.splits)

lemma start_fires_inv:
  assumes "web_inv s" "gain_ok (defaultGain we)"
  shows "web_inv (start_fires we ok now s)"
proof (cases "wb_pendingStart s")
  case (Some p)
  obtain frequency due where p: "p = (frequency, due)" by fastforce
  have "web_inv (s\<lparr>wb_pendingStart := None, wb_history := []\<rparr>)"
    using assms(1) by (simp add: web_inv_def gains_inv_def)
  from configure_gain_inv [OF this assms(2), of frequency] show ?thesis
    using assms(1) Some p by (auto simp: start_fires_def Let_def web_inv_def gains_inv_def intro: fft_call_inv(1))
qed (simp add: start_fires_def assms)

lemma read_body_inv: "web_inv s \<Longrightarrow> (\<And>b. web_inv (k b s)) \<Longrightarrow> web_inv (read_body body rid k s)"
  by (simp add: read_body_def split: option.splits)

lemma sstv_update_inv: "web_inv s \<Longrightarrow> web_inv (s\<lparr>wb_sstv := x\<rparr>)"
  by (simp add: web_inv_def gains_inv_def)

lemma sstv_toggle_inv: "web_inv s \<Longrightarrow> web_inv (api_sstv_toggle we now rid b s)"
  "web_inv s \<Longrightarrow> web_inv (api_ground_toggle we now rid b s)"
  by (simp_all add: api_sstv_toggle_def api_ground_toggle_def broadcastSstvStatus_def Let_def sstv_update_inv to_clients_inv)

lemma fft_start_task_inv: "web_inv s \<Longrightarrow> web_inv (api_fft_start we ok now rid b s)"
  by (simp add: api_fft_start_def Let_def web_inv_def gains_inv_def fft_call_inv(1))

lemma api_gain_inv: "web_inv s \<Longrightarrow> web_inv (api_gain now rid b s)"
proof -
  assume i: "web_inv s"
  have "web_inv (s\<lparr>wb_store := bgs_clear (wb_band s) (wb_store s), wb_auto := ag_enable (wb_auto s)\<rparr>)"
    using i by (auto simp: web_inv_def gains_inv_def bgs_get_def bgs_clear_def map_get_delete ag_enable_def split: if_splits)
  then show ?thesis
    using i set_user_gain_inv [OF i] by (auto simp: api_gain_def Let_def gain_ok_def split: option.splits)
qed

lemma notch_api_inv: "web_inv s \<Longrightarrow> web_inv (api_notch_add rid b s)" "web_inv s \<Longrightarrow> web_inv (api_notch_remove rid b s)"
  "web_inv s \<Longrightarrow> web_inv (api_notch_toggle rid b s)"
  by (auto simp: api_notch_add_def api_notch_remove_def api_notch_toggle_def Let_def put_notches_inv
      split: option.splits prod.splits)

lemma read_api_inv: "web_inv (api_captures we rid rq s) = web_inv s" "web_inv (api_summary rid s) = web_inv s"
  "web_inv (api_sstv_status now rid s) = web_inv s" "web_inv (api_config we now rid s) = web_inv s"
  by (simp_all add: api_captures_def api_summary_def api_sstv_status_def api_config_def Let_def split: sum.splits)

lemma fft_stop_task_inv: "web_inv s \<Longrightarrow> web_inv (s\<lparr>wb_fft := stopFFTStream now (wb_fft s), wb_tasks := ts\<rparr>)"
  by (simp add: web_inv_def gains_inv_def fft_call_inv(2))

lemma web_inv_if: "web_inv a \<Longrightarrow> web_inv b \<Longrightarrow> web_inv (if c then a else b)"
  by simp

lemma image_request_inv: "web_inv s \<Longrightarrow> web_inv (case r of None \<Rightarrow> s | Some f \<Rightarrow> serveImageNode we rid f s)"
  by (simp split: option.splits)

lemmas web_api_inv = sstv_toggle_inv fft_start_task_inv api_gain_inv notch_api_inv read_api_inv fft_stop_task_inv put_notches_inv

lemma web_handle_request_inv:
  assumes "web_inv s"
  shows "web_inv (web_handle_request we decode ok now rid rq s)"
  using assms unfolding web_handle_request_def Let_def
  by (intro web_inv_if read_body_inv image_request_inv) (simp_all only: web_api_inv web_inv_emit serve_inv)

lemma stop_fires_inv: "web_inv s \<Longrightarrow> web_inv (stop_fires now s)"
  by (auto simp: stop_fires_def Let_def web_inv_def gains_inv_def intro: fft_call_inv(2) split: option.splits)

lemma error_check_inv: "web_inv s \<Longrightarrow> web_inv (error_check we now s)"
proof -
  assume "web_inv s"
  then have "web_inv (s\<lparr>wb_errorChecks := n\<rparr>)" for n by (simp add: web_inv_def gains_inv_def)
  then show ?thesis using \<open>web_inv s\<close>
    by (auto simp: error_check_def Let_def broadcastFFTError_def intro: to_subscribers_inv split: option.splits)
qed

lemma reply_task_inv: "web_inv s \<Longrightarrow> web_inv (reply_task k success s)"
  by (auto simp: reply_task_def Let_def web_inv_def gains_inv_def jsonResponseNode_def split: option.splits web_task.splits)

lemma fft_subscribe_inv: "web_inv s \<Longrightarrow> web_inv (fft_subscribe now ws f s)"
proof -
  assume "web_inv s"
  then have "web_inv (s\<lparr>wb_subscribers := set_add ws (wb_subscribers s), wb_pendingStop := None\<rparr>)"
    by (simp add: web_inv_def gains_inv_def)
  then show ?thesis by (simp add: fft_subscribe_def Let_def)
qed

lemma fft_unsubscribe_inv: "web_inv s \<Longrightarrow> web_inv (fft_unsubscribe now ws s)"
  by (simp add: fft_unsubscribe_def web_inv_def gains_inv_def)

lemma fft_set_gain_inv: "web_inv s \<Longrightarrow> web_inv (fft_set_gain now ws g s)"
  by (simp add: fft_set_gain_def Let_def set_user_gain_inv gain_ok_def split: option.splits)

lemma ws_message_inv: "web_inv s \<Longrightarrow> web_inv (ws_message now ws m s)"
  by (cases "(now, ws, m, s)" rule: ws_message.cases)
    (auto intro: fft_subscribe_inv fft_unsubscribe_inv fft_set_gain_inv split: option.splits)

lemma stop_for_pass_inv: "web_inv s \<Longrightarrow> web_inv (s\<lparr>wb_fft := stopFFTStream now (wb_fft s), wb_deferred := evs\<rparr>)"
  by (simp add: web_inv_def gains_inv_def fft_call_inv(2))

lemma on_state_inv: "web_inv s \<Longrightarrow> web_inv (on_state we now ev s)"
  by (cases ev) (simp_all add: on_state_def Let_def to_clients_inv stop_for_pass_inv)

lemma state_call_inv: "web_inv s \<Longrightarrow> web_inv (state_call we now c s)"
proof -
  assume "web_inv s"
  then have "web_inv (s\<lparr>wb_state := st\<rparr>)" for st by (simp add: web_inv_def gains_inv_def)
  then show ?thesis by (auto simp: state_call_def Let_def intro: on_state_inv split: prod.splits)
qed

lemma deferred_event_inv: "web_inv s \<Longrightarrow> web_inv (deferred_event we now s)"
proof -
  assume "web_inv s"
  then have "web_inv (s\<lparr>wb_deferred := evs\<rparr>)" for evs by (simp add: web_inv_def gains_inv_def)
  then show ?thesis using \<open>web_inv s\<close> by (auto simp: deferred_event_def intro: to_clients_inv split: list.splits)
qed

lemma connection_inv: "web_inv s \<Longrightarrow> web_inv (ws_connection we now ws s)" "web_inv s \<Longrightarrow> web_inv (ws_disconnect ws s)"
  by (simp_all add: ws_connection_def ws_disconnect_def web_inv_def gains_inv_def)

definition web_started :: "web_env \<Rightarrow> web \<Rightarrow> bool" where
  "web_started we s \<longleftrightarrow> (\<exists>now sstv d. s = web_initial we now sstv d) \<and> gain_ok (defaultGain we)"

interpretation web_sys: handler_system "web_started we" "\<lambda>_. gain_ok (defaultGain we)" "web_step we" web_inv for we
proof
  show "web_inv s" if "web_started we s" for s
    using that fs_inv_initial
    by (auto simp: web_started_def web_initial_def web_inv_def gains_inv_def web_autoConfig_def fullConfig_def or_else_def
        bgs_get_def createAutoGain_def ag_disable_def Let_def intro: fft_call_inv(3))
  show "web_inv (web_step we e s)" if "web_inv s" "gain_ok (defaultGain we)" for e s
    using that by (cases "(we, e, s)" rule: web_step.cases)
      (auto intro: web_handle_request_inv connection_inv ws_message_inv state_call_inv deferred_event_inv start_fires_inv
        stop_fires_inv error_check_inv reply_task_inv web_fft_event_inv)
qed

section \<open>An example server\<close>

definition demo_web_env :: web_env where
  "demo_web_env = \<lparr>we_lib = \<lparr>fft_accepts = \<lambda>n. n = 2048, fft_transform = \<lambda>n xs. xs\<rparr>, we_open = \<lambda>t ws. True,
     we_globe = \<lambda>t. None, we_SDR_GAIN = None, we_num = \<lambda>_. None, we_skipSignalCheck = False,
     we_read = \<lambda>p. if p = ''/etc/passwd'' then Inr (Some ''root'') else Inr None,
     we_staticDir = ''/app/static'', we_imagesDir = ''/app/images'', we_version = None,
     we_sql = \<lparr>sq_order = \<lambda>rs. rs, sq_group = \<lambda>rs. rs\<rparr>\<rparr>"

definition demo_web :: web where
  "demo_web = web_initial demo_web_env 0 (sstv_init None) \<lparr>dm_dirs = \<lambda>_. False, dm_files = [], dm_instance = None\<rparr>"

definition get_request :: "string \<Rightarrow> web_request" where
  "get_request path = \<lparr>wq_method = GET, wq_path = path, wq_limit = None, wq_offset = None, wq_body = None\<rparr>"

lemma demo_gain: "defaultGain demo_web_env = 20"
  by (simp add: defaultGain_def demo_web_env_def or_num_def)

lemma demo_web_started: "web_started demo_web_env demo_web"
  unfolding web_started_def demo_web_def gain_ok_def demo_gain by auto

section \<open>Properties\<close>



subsection \<open>Image files\<close>

text \<open>A path without empty, dot or parent segments.\<close>

definition plain_segs :: "string list \<Rightarrow> bool" where
  "plain_segs segs \<longleftrightarrow> (\<forall>x \<in> set segs. CHR ''/'' \<notin> set x \<and> x \<noteq> [] \<and> x \<noteq> ''.'' \<and> x \<noteq> ''..'')"

definition abs_path :: "string list \<Rightarrow> string" where
  "abs_path segs = ''/'' @ js_join ''/'' segs"

lemma js_split_sep: "js_split c (a @ c # b) = js_split c a @ js_split c b"
  by (induction a) (auto split: list.splits)

lemma js_split_sublist: "w \<in> set (js_split c s) \<Longrightarrow> sublist w s"
proof -
  assume "w \<in> set (js_split c s)"
  then obtain ps qs where "js_split c s = ps @ w # qs" by (meson split_list)
  moreover have "sublist w (js_join sep (ps @ w # qs))" for sep
  proof (induction ps)
    case Nil
    then show ?case by (cases qs) (auto intro: sublist_appendI [of "[]", simplified])
  next
    case (Cons p ps)
    have "js_join sep (p # (ps @ w # qs)) = (p @ sep) @ js_join sep (ps @ w # qs)" by (cases "ps @ w # qs") auto
    moreover have "sublist (js_join sep (ps @ w # qs)) ((p @ sep) @ js_join sep (ps @ w # qs))" by (rule sublist_append_leftI)
    ultimately show ?case using Cons by (metis append_Cons sublist_order.order.trans)
  qed
  ultimately show ?thesis using js_join_split [of c s] by metis
qed

lemma normalize_plain:
  "\<forall>x \<in> set segs. x \<noteq> ''..'' \<Longrightarrow> normalize_segs isAbs acc segs = rev acc @ filter (\<lambda>x. x \<noteq> [] \<and> x \<noteq> ''.'') segs"
  by (induction isAbs acc segs rule: normalize_segs.induct) auto

lemma split_abs_path: "plain_segs segs \<Longrightarrow> segs \<noteq> [] \<Longrightarrow> js_split (CHR ''/'') (abs_path segs) = [] # segs"
  using js_split_join [of segs "CHR ''/''"] by (simp add: abs_path_def plain_segs_def)

lemma filter_plain: "plain_segs segs \<Longrightarrow> filter (\<lambda>x. x \<noteq> [] \<and> x \<noteq> ''.'') segs = segs"
  by (simp add: plain_segs_def)

lemma resolve_absolute:
  assumes "plain_segs segs" "segs \<noteq> []"
  shows "path_resolve dir (abs_path segs) = abs_path segs"
proof -
  have "normalize_segs True [] ([] # segs) = segs"
    using assms normalize_plain [of "[] # segs" True "[]"] filter_plain [OF assms(1)] by (simp add: plain_segs_def)
  then show ?thesis
    using split_abs_path [OF assms] by (simp add: path_resolve_def js_startsWith_def Let_def, simp add: abs_path_def)
qed

lemma js_join_append: "a \<noteq> [] \<Longrightarrow> b \<noteq> [] \<Longrightarrow> js_join sep (a @ b) = js_join sep a @ sep @ js_join sep b"
proof (induction sep a rule: js_join.induct)
  case (2 sep w)
  then show ?case by (cases b) auto
qed auto

lemma resolve_relative:
  assumes "plain_segs segs" "segs \<noteq> []" "\<not> js_includes file ''..''" "\<not> js_startsWith file ''/''"
  shows "path_resolve (abs_path segs) file = abs_path segs \<or> prefix (abs_path segs @ ''/'') (path_resolve (abs_path segs) file)"
proof -
  let ?fs = "filter (\<lambda>x. x \<noteq> [] \<and> x \<noteq> ''.'') (js_split (CHR ''/'') file)"
  have nd: "x \<noteq> ''..''" if "x \<in> set (js_split (CHR ''/'') file)" for x
    using js_split_sublist [OF that] assms(3) by (auto simp: js_includes_def)
  have "js_split (CHR ''/'') (abs_path segs @ ''/'' @ file) = ([] # segs) @ js_split (CHR ''/'') file"
    using js_split_sep [of "CHR ''/''" "abs_path segs" "file"] split_abs_path [OF assms(1,2)] by simp
  moreover have "normalize_segs True [] (([] # segs) @ js_split (CHR ''/'') file) = segs @ ?fs"
    using assms(1) nd filter_plain [OF assms(1)] by (subst normalize_plain) (auto simp: plain_segs_def)
  ultimately have "path_resolve (abs_path segs) file = ''/'' @ js_join ''/'' (segs @ ?fs)"
    using assms(4) by (simp add: path_resolve_def)
  then show ?thesis
    using js_join_append [of segs ?fs "''/''"] assms(2) by (cases "?fs = []") (simp_all add: abs_path_def)
qed



text \<open>The check of image names lets absolute names through: a request for \<open>/images/\<close>
  followed by the absolute path of any file of the machine is answered with that file, wherever
  the directory of images is.\<close>

theorem image_request_reads_any_file:
  assumes "plain_segs segs" "segs \<noteq> []" "\<not> js_includes (abs_path segs) ''..''" "we_read we (abs_path segs) = Inr (Some content)"
  shows "web_handle_request we decode ok now rid (get_request (''/images/'' @ abs_path segs)) s =
    wemit (HttpReply rid 200 (P_file ''image/png'' content)) s"
  using assms resolve_absolute [OF assms(1,2)]
  by (simp add: web_handle_request_def get_request_def js_startsWith_def serveImageNode_def serve_file_def)

theorem image_request_reads_any_file_witness:
  "wb_out (web_handle_request demo_web_env Some True 0 1 (get_request ''/images//etc/passwd'') demo_web) =
   [HttpReply 1 200 (P_file ''image/png'' ''root'')]"
proof -
  have e: "abs_path [''etc'', ''passwd''] = ''/etc/passwd''" by (simp add: abs_path_def)
  have "\<not> js_includes ''/etc/passwd'' ''..''" by (simp add: js_includes_def sublist_code)
  then have "web_handle_request demo_web_env Some True 0 1 (get_request (''/images/'' @ abs_path [''etc'', ''passwd''])) demo_web =
      wemit (HttpReply 1 200 (P_file ''image/png'' ''root'')) demo_web"
    by (intro image_request_reads_any_file) (simp_all add: plain_segs_def e demo_web_env_def)
  then show ?thesis by (simp add: e demo_web_def web_initial_def)
qed

subsection \<open>Calibration\<close>

lemma to_subscribers_simps [simp]:
  "wb_gain (to_subscribers takes m s) = wb_gain s" "wb_auto (to_subscribers takes m s) = wb_auto s"
  "wb_store (to_subscribers takes m s) = wb_store s" "wb_pendingStart (to_subscribers takes m s) = wb_pendingStart s"
  "wb_fft (to_subscribers takes m s) = wb_fft s" "wb_state (to_subscribers takes m s) = wb_state s"
proof -
  have "wb_gain (fold (\<lambda>ws s. if takes ws then wemit (WsSend ws m) s
      else s\<lparr>wb_subscribers := set_delete ws (wb_subscribers s)\<rparr>) wss s) = wb_gain s \<and>
    wb_auto (fold (\<lambda>ws s. if takes ws then wemit (WsSend ws m) s
      else s\<lparr>wb_subscribers := set_delete ws (wb_subscribers s)\<rparr>) wss s) = wb_auto s \<and>
    wb_store (fold (\<lambda>ws s. if takes ws then wemit (WsSend ws m) s
      else s\<lparr>wb_subscribers := set_delete ws (wb_subscribers s)\<rparr>) wss s) = wb_store s \<and>
    wb_pendingStart (fold (\<lambda>ws s. if takes ws then wemit (WsSend ws m) s
      else s\<lparr>wb_subscribers := set_delete ws (wb_subscribers s)\<rparr>) wss s) = wb_pendingStart s \<and>
    wb_fft (fold (\<lambda>ws s. if takes ws then wemit (WsSend ws m) s
      else s\<lparr>wb_subscribers := set_delete ws (wb_subscribers s)\<rparr>) wss s) = wb_fft s \<and>
    wb_state (fold (\<lambda>ws s. if takes ws then wemit (WsSend ws m) s
      else s\<lparr>wb_subscribers := set_delete ws (wb_subscribers s)\<rparr>) wss s) = wb_state s" for wss s
    by (induction wss arbitrary: s) auto
  then show "wb_gain (to_subscribers takes m s) = wb_gain s" "wb_auto (to_subscribers takes m s) = wb_auto s"
    "wb_store (to_subscribers takes m s) = wb_store s" "wb_pendingStart (to_subscribers takes m s) = wb_pendingStart s"
    "wb_fft (to_subscribers takes m s) = wb_fft s" "wb_state (to_subscribers takes m s) = wb_state s"
    by (simp_all add: to_subscribers_def)
qed

lemma disabled_calibration:
  "\<not> ag_enabled (wb_auto s) \<Longrightarrow> wb_gain (fold (web_broadcastFFTData we t) frames s) = wb_gain s"
proof (induction frames arbitrary: s)
  case (Cons d frames)
  have "wb_gain (web_broadcastFFTData we t d s) = wb_gain s" "wb_auto (web_broadcastFFTData we t d s) = wb_auto s"
    using Cons.prems by (simp_all add: web_broadcastFFTData_def feed_auto_gain_def Let_def)
  then show ?case using Cons by simp
qed simp

text \<open>The automatic calibration makes one step and stops: when a spectrum makes it change the gain,
  the restart half a second later finds a stored gain, takes the band as calibrated and switches
  the calibration off, and no later spectrum changes the gain.\<close>

theorem calibration_stops_after_one_step:
  assumes "wb_subscribers s \<noteq> []" "ag_enabled (wb_auto s)"
    and "ag_feed (wb_autoConfig s) (fd_bins data) (wb_auto s) = (GAdjusted old newGain, a)"
    and "classifyBand (stream_frequency s) = wb_band s" "now + 500 \<le> later"
  shows "let s' = start_fires we ok later (web_broadcastFFTData we now data s)
    in wb_gain s' = newGain \<and> \<not> ag_enabled (wb_auto s') \<and>
       bgs_get (wb_store s') (wb_band s) = Some \<lparr>bg_band = wb_band s, bg_gain = newGain, bg_calibrated = False\<rparr> \<and>
       wb_gain (fold (web_broadcastFFTData we t) frames s') = newGain"
proof -
  let ?s0 = "s\<lparr>wb_history := push_history data (wb_history s)\<rparr>"
  let ?s1 = "web_broadcastFFTData we now data s"
  have f0: "stream_frequency ?s0 = stream_frequency s" by (simp add: stream_frequency_def)
  have s1: "wb_pendingStart ?s1 = Some (stream_frequency s, now + 500)" "wb_store ?s1 = bgs_set (wb_band s) newGain False (wb_store s)"
    using assms(1-3) f0 by (simp_all add: web_broadcastFFTData_def feed_auto_gain_def debouncedFFTStart_def FFT_START_DEBOUNCE_MS_def Let_def)
  have get: "map_get (bgs_set (wb_band s) newGain False (wb_store s)) (wb_band s) = Some \<lparr>bg_band = wb_band s, bg_gain = newGain, bg_calibrated = False\<rparr>"
    by (simp add: bgs_set_def map_get_set)
  let ?s' = "start_fires we ok later ?s1"
  have "wb_gain ?s' = newGain \<and> \<not> ag_enabled (wb_auto ?s') \<and> wb_store ?s' = bgs_set (wb_band s) newGain False (wb_store s)"
    using s1 assms(4,5) get by (simp add: start_fires_def configure_gain_def bgs_getForFrequency_def ag_disable_def Let_def)
  then show ?thesis using disabled_calibration [of ?s'] get by (simp add: Let_def bgs_get_def)
qed

text \<open>A weak spectrum after nine others.\<close>

definition demo_spectrum :: FFTData where
  "demo_spectrum = \<lparr>fd_timestamp = 0, fd_centerFreq = 137500000, fd_bins = [- 100, - 100, - 100], fd_minPower = - 100, fd_maxPower = - 100\<rparr>"

theorem calibration_stops_after_one_step_witness:
  "let s = demo_web\<lparr>wb_subscribers := [1], wb_auto := (wb_auto demo_web)\<lparr>ag_samples := replicate 9 (- 100)\<rparr>\<rparr>
   in wb_gain (start_fires demo_web_env True 1000 (web_broadcastFFTData demo_web_env 0 demo_spectrum s)) = 25"
proof -
  let ?s = "demo_web\<lparr>wb_subscribers := [1], wb_auto := (wb_auto demo_web)\<lparr>ag_samples := replicate 9 (- 100)\<rparr>\<rparr>"
  have au: "wb_auto ?s = \<lparr>ag_enabled = True, ag_currentGain = 20, ag_samples = replicate 9 (- 100)\<rparr>"
    using demo_gain by (simp add: demo_web_def web_initial_def createAutoGain_def demo_web_env_def)
  have cf: "wb_autoConfig ?s = \<lparr>ac_targetMin = - 80, ac_targetMax = - 55, ac_samplesNeeded = 10, ac_step = 5, ac_minGain = 0, ac_maxGain = 49\<rparr>"
    by (simp add: demo_web_def web_initial_def web_autoConfig_def fullConfig_def or_else_def)
  have med: "bins_median (fd_bins demo_spectrum) = - 100"
    by (simp add: bins_median_def demo_spectrum_def elem_at_def or_else_def)
  have feed: "ag_feed (wb_autoConfig ?s) (fd_bins demo_spectrum) (wb_auto ?s) =
      (GAdjusted 20 25, \<lparr>ag_enabled = True, ag_currentGain = 25, ag_samples = []\<rparr>)"
    unfolding au cf by (simp add: ag_feed_def ag_adjust_def med Let_def numeral_eq_Suc)
  have band: "classifyBand (stream_frequency ?s) = wb_band ?s"
    by (simp add: stream_frequency_def demo_web_def web_initial_def getFFTStreamConfig_def fs_initial_def or_num_def classifyBand_cases)
  have "wb_subscribers ?s \<noteq> []" "ag_enabled (wb_auto ?s)" using au by simp_all
  moreover have "0 + 500 \<le> (1000 :: int)" by simp
  ultimately show ?thesis
    using calibration_stops_after_one_step [OF _ _ feed band, of 0 1000 demo_web_env True] unfolding Let_def by blast
qed

subsection \<open>The receiver during a capture\<close>

text \<open>A socket message that sets the frequency starts the FFT stream although a capture is in
  progress and the receiver is in use; subscribing, which checks for a capture, does not.\<close>

theorem set_frequency_starts_during_capture:
  assumes "capture_in_progress (wb_state s)" "f \<noteq> 0" "wb_pendingStart s = None" "t0 + 500 \<le> t1"
    and "\<not> fs_running (wb_fft s)" "\<not> fs_starting (wb_fft s)" "fs_lastStop (wb_fft s) + 4000 \<le> t1"
    and "fft_accepts (we_lib we) 2048"
  shows "let s' = fold (web_step we) [(t0, True, WsMessageIn ws (Some (C_fft_set_frequency (Some f)))), (t1, True, StartFires)] s;
      s'' = fold (web_step we) [(t0, True, WsMessageIn ws (Some (C_fft_subscribe (Some f)))), (t1, True, StartFires)] s
    in isFFTStreamRunning (wb_fft s') \<and> capture_in_progress (wb_state s') \<and> wb_fft s'' = wb_fft s"
proof -
  let ?m = "debouncedFFTStart t0 f s"
  let ?g = "configure_gain we f (?m\<lparr>wb_pendingStart := None, wb_history := []\<rparr>)"
  have keep: "wb_fft (configure_gain we f v) = wb_fft v" "wb_state (configure_gain we f v) = wb_state v" for v
    by (simp_all add: configure_gain_def Let_def)
  have st: "wb_state (start_fires we True t1 ?m) = wb_state s"
    "wb_fft (start_fires we True t1 ?m) = startFFTStream (we_lib we) True t1
       \<lparr>fc_frequency = f, fc_bandwidth = 200000, fc_fftSize = 2048, fc_gain = wb_gain ?g, fc_updateRate = 30\<rparr> 0 (wb_fft s)"
    using assms(4) by (simp_all add: start_fires_def debouncedFFTStart_def FFT_START_DEBOUNCE_MS_def Let_def keep)
  have "isFFTStreamRunning (wb_fft (start_fires we True t1 ?m))"
    using assms(5-8) unfolding st(2)
    by (simp add: startFFTStream_def start_delay_def start_spawn_def MIN_RESTART_DELAY_MS_def return_start_def
        isFFTStreamRunning_def proc_killed_def Let_def nth_append)
  moreover have "wb_fft (start_fires we True t1 (fft_subscribe t0 ws (Some f) s)) = wb_fft s"
    using assms(1,3) by (simp add: fft_subscribe_def start_fires_def Let_def)
  ultimately show ?thesis using assms(1,2) st(1) by (simp add: Let_def)
qed

theorem set_frequency_starts_during_capture_witness:
  "let s = demo_web\<lparr>wb_state := (initialState 0)\<lparr>st_status := Capturing\<rparr>\<rparr>;
       s' = fold (web_step demo_web_env) [(10000, True, WsMessageIn 1 (Some (C_fft_set_frequency (Some 145800000)))), (11000, True, StartFires)] s
   in isFFTStreamRunning (wb_fft s') \<and> capture_in_progress (wb_state s')"
  using set_frequency_starts_during_capture [of "demo_web\<lparr>wb_state := (initialState 0)\<lparr>st_status := Capturing\<rparr>\<rparr>" 145800000 10000 11000 demo_web_env 1]
  by (simp add: Let_def capture_in_progress_def demo_web_def web_initial_def fs_initial_def demo_web_env_def del: web_step.simps)

end
