(* ===== verification/Web_Clients.thy ===== *)
theory Web_Clients
  imports Web_Server
begin

text \<open>
  The messages a socket of \<open>src/middleware/web/server.ts\<close> is sent, as a client of the server
  sees them.  A client is its view of the server's state as a function of the messages it got: the
  first message establishes it, an event keeps it up for the allowed calls of the state manager,
  and messages that say nothing of the state leave it.  The dashboard and the page without a build
  step are the two clients.
\<close>

section \<open>What a socket is sent\<close>

fun messages_to :: "nat \<Rightarrow> web_output list \<Rightarrow> web_message list" where
  "messages_to ws [] = []"
| "messages_to ws (HttpReply rid n p # out) = messages_to ws out"
| "messages_to ws (WsSend w m # out) = (if w = ws then m # messages_to ws out else messages_to ws out)"

definition tells_no_state :: "web_message \<Rightarrow> bool" where
  "tells_no_state m \<longleftrightarrow> (case m of M_init st g r c n e \<Rightarrow> False | M_event ev \<Rightarrow> False | _ \<Rightarrow> True)"

lemma messages_to_append [simp]: "messages_to ws (xs @ ys) = messages_to ws xs @ messages_to ws ys"
  by (induction ws xs rule: messages_to.induct) simp_all

lemma tells_no_state_simps [simp]:
  "tells_no_state (M_sstv_status st)" "tells_no_state (M_fft_data d)" "tells_no_state (M_fft_history ds)" "tells_no_state (M_fft_subscribed r c e)"
  "tells_no_state M_fft_unsubscribed" "tells_no_state (M_fft_error e')" "tells_no_state (M_gain_updated g)"
  by (simp_all add: tells_no_state_def)

text \<open>
  \<open>ws\<close> is connected, no event waits for the FFT stream, and what the socket got shows the
  server's state.
\<close>

definition mirror :: "(web_message list \<Rightarrow> SystemState \<Rightarrow> bool) \<Rightarrow> nat \<Rightarrow> web \<Rightarrow> bool" where
  "mirror view ws s \<longleftrightarrow>
     ws \<in> set (wb_clients s) \<and> distinct (wb_clients s) \<and> wb_deferred s = [] \<and> view (messages_to ws (wb_out s)) (wb_state s)"

text \<open>
  A step after which the socket is still there and nothing had to wait: the socket takes messages
  and does not close, and no pass starts while the FFT stream runs.
\<close>

definition undisturbed :: "web_env \<Rightarrow> nat \<Rightarrow> date \<times> bool \<times> web_event \<Rightarrow> web \<Rightarrow> bool" where
  "undisturbed we ws e s \<longleftrightarrow>
     (case e of (now, ok, ev) \<Rightarrow> we_open we now ws \<and>
       (case ev of
          WsDisconnect w \<Rightarrow> w \<noteq> ws
        | StateCall (StartPass p) \<Rightarrow> \<not> isFFTStreamRunning (wb_fft s)
        | _ \<Rightarrow> True))"

fun undisturbed_run :: "web_env \<Rightarrow> nat \<Rightarrow> (date \<times> bool \<times> web_event) list \<Rightarrow> web \<Rightarrow> bool" where
  "undisturbed_run we ws [] s \<longleftrightarrow> True"
| "undisturbed_run we ws (e # es) s \<longleftrightarrow> undisturbed we ws e s \<and> undisturbed_run we ws es (web_step we e s)"

definition event_allowed :: "(sm_call \<Rightarrow> bool) \<Rightarrow> date \<times> bool \<times> web_event \<Rightarrow> bool" where
  "event_allowed allowed e \<longleftrightarrow> (case snd (snd e) of StateCall c \<Rightarrow> allowed c | _ \<Rightarrow> True)"

lemma mirror_skip [simp]:
  "mirror v ws (s\<lparr>wb_subscribers := a\<rparr>) = mirror v ws s" "mirror v ws (s\<lparr>wb_gain := b\<rparr>) = mirror v ws s"
  "mirror v ws (s\<lparr>wb_band := c\<rparr>) = mirror v ws s" "mirror v ws (s\<lparr>wb_store := d\<rparr>) = mirror v ws s"
  "mirror v ws (s\<lparr>wb_auto := e\<rparr>) = mirror v ws s" "mirror v ws (s\<lparr>wb_autoConfig := f\<rparr>) = mirror v ws s"
  "mirror v ws (s\<lparr>wb_pendingStart := g\<rparr>) = mirror v ws s" "mirror v ws (s\<lparr>wb_pendingStop := h\<rparr>) = mirror v ws s"
  "mirror v ws (s\<lparr>wb_errorChecks := i\<rparr>) = mirror v ws s" "mirror v ws (s\<lparr>wb_history := j\<rparr>) = mirror v ws s"
  "mirror v ws (s\<lparr>wb_tasks := k\<rparr>) = mirror v ws s" "mirror v ws (s\<lparr>wb_fft := l\<rparr>) = mirror v ws s"
  "mirror v ws (s\<lparr>wb_sstv := m\<rparr>) = mirror v ws s"
  by (simp_all add: mirror_def)

lemma mirror_reply [simp]: "mirror v ws (wemit (HttpReply rid n p) s) = mirror v ws s"
  "mirror v ws (jsonResponseNode rid d s) = mirror v ws s" "mirror v ws (textResponse rid n t s) = mirror v ws s"
  by (simp_all add: mirror_def jsonResponseNode_def textResponse_def wemit_def)

lemma mirror_serve [simp]: "mirror v ws (serve_file we rid p c s) = mirror v ws s"
  "mirror v ws (serveStaticNode we rid f c s) = mirror v ws s" "mirror v ws (serveImageNode we rid f s) = mirror v ws s"
  by (simp_all add: serve_file_def serveStaticNode_def serveImageNode_def split: sum.splits option.splits)

lemma mirror_debounce [simp]: "mirror v ws (debouncedFFTStart now f s) = mirror v ws s"
  by (simp add: debouncedFFTStart_def)

lemma mirror_gain [simp]: "mirror v ws (set_user_gain now g s) = mirror v ws s"
  "mirror v ws (feed_auto_gain now d s) = mirror v ws s" "mirror v ws (configure_gain we g s) = mirror v ws s"
  by (simp_all add: set_user_gain_def feed_auto_gain_def configure_gain_def Let_def split: prod.splits GainAdjustResult.splits)

lemma mirror_requests [simp]:
  "mirror v ws (put_notches ns s) = mirror v ws s" "mirror v ws (api_captures we rid rq s) = mirror v ws s"
  "mirror v ws (api_summary rid s) = mirror v ws s" "mirror v ws (api_sstv_status now rid s) = mirror v ws s"
  "mirror v ws (api_config we now rid s) = mirror v ws s" "mirror v ws (api_fft_start we ok now rid b s) = mirror v ws s"
  "mirror v ws (api_gain now rid b s) = mirror v ws s" "mirror v ws (api_notch_add rid b s) = mirror v ws s"
  "mirror v ws (api_notch_remove rid b s) = mirror v ws s" "mirror v ws (api_notch_toggle rid b s) = mirror v ws s"
  by (simp_all add: put_notches_def api_captures_def api_summary_def api_sstv_status_def api_config_def api_fft_start_def
      api_gain_def api_notch_add_def api_notch_remove_def api_notch_toggle_def Let_def split: sum.splits option.splits prod.splits)

text \<open>What a broadcast does to the messages of one socket.\<close>

lemma set_delete_other: "w \<noteq> ws \<Longrightarrow> ws \<in> set (set_delete w xs) \<longleftrightarrow> ws \<in> set xs"
  by (auto simp: set_delete_def)

lemma to_clients_fields:
  "wb_state (to_clients takes m s) = wb_state s" "wb_deferred (to_clients takes m s) = wb_deferred s"
  "distinct (wb_clients s) \<Longrightarrow> distinct (wb_clients (to_clients takes m s))"
  "takes ws \<Longrightarrow> ws \<in> set (wb_clients s) \<Longrightarrow> ws \<in> set (wb_clients (to_clients takes m s))"
proof -
  let ?f = "\<lambda>w s. if takes w then wemit (WsSend w m) s else s\<lparr>wb_clients := set_delete w (wb_clients s)\<rparr>"
  have "wb_state (fold ?f xs s) = wb_state s \<and> wb_deferred (fold ?f xs s) = wb_deferred s \<and>
      (distinct (wb_clients s) \<longrightarrow> distinct (wb_clients (fold ?f xs s))) \<and>
      (takes ws \<longrightarrow> ws \<in> set (wb_clients s) \<longrightarrow> ws \<in> set (wb_clients (fold ?f xs s)))" for xs s
  proof (induction xs arbitrary: s)
    case (Cons w xs)
    have "takes ws \<Longrightarrow> \<not> takes w \<Longrightarrow> w \<noteq> ws" by auto
    then show ?case using Cons.IH [of "?f w s"] by (auto simp: set_delete_other wemit_def)
  qed simp
  note * = this [of "wb_clients s" s]
  show "wb_state (to_clients takes m s) = wb_state s" "wb_deferred (to_clients takes m s) = wb_deferred s"
    "distinct (wb_clients s) \<Longrightarrow> distinct (wb_clients (to_clients takes m s))"
    "takes ws \<Longrightarrow> ws \<in> set (wb_clients s) \<Longrightarrow> ws \<in> set (wb_clients (to_clients takes m s))"
    using * by (auto simp: to_clients_def)
qed

lemma to_clients_messages:
  assumes "distinct (wb_clients s)" "ws \<in> set (wb_clients s)" "takes ws"
  shows "messages_to ws (wb_out (to_clients takes m s)) = messages_to ws (wb_out s) @ [m]"
proof -
  let ?f = "\<lambda>w s. if takes w then wemit (WsSend w m) s else s\<lparr>wb_clients := set_delete w (wb_clients s)\<rparr>"
  have "distinct xs \<Longrightarrow> messages_to ws (wb_out (fold ?f xs s)) =
      messages_to ws (wb_out s) @ (if ws \<in> set xs then [m] else [])" for xs s
  proof (induction xs arbitrary: s)
    case (Cons w xs)
    then show ?case using Cons.IH [of "?f w s"] assms(3) by (auto simp: wemit_def)
  qed simp
  then show ?thesis using assms by (simp add: to_clients_def)
qed

locale message_view =
  fixes view :: "web_message list \<Rightarrow> SystemState \<Rightarrow> bool" and allowed :: "sm_call \<Rightarrow> bool"
  assumes view_quiet: "view ms s \<Longrightarrow> tells_no_state m \<Longrightarrow> view (ms @ [m]) s"
    and view_init: "view (ms @ [M_init s g r c n e]) s"
    and view_event: "view ms s \<Longrightarrow> allowed call \<Longrightarrow>
      view (ms @ [M_event (snd (sm_exec now call s))]) (fst (sm_exec now call s))"
begin

lemma mirror_quiet_send:
  assumes "mirror view ws s" "tells_no_state m"
  shows "mirror view ws (wemit (WsSend w m) s)"
  using assms view_quiet [of "messages_to ws (wb_out s)" "wb_state s" m]
  by (auto simp: mirror_def wemit_def)

lemma mirror_to_clients:
  assumes "mirror view ws s" "tells_no_state m" "takes ws"
  shows "mirror view ws (to_clients takes m s)"
  using assms view_quiet [of "messages_to ws (wb_out s)" "wb_state s" m]
  by (auto simp: mirror_def to_clients_fields to_clients_messages)

lemma mirror_to_subscribers:
  assumes "mirror view ws s" "tells_no_state m"
  shows "mirror view ws (to_subscribers takes m s)"
proof -
  have "mirror view ws s \<Longrightarrow> mirror view ws (fold (\<lambda>w s. if takes w then wemit (WsSend w m) s
      else s\<lparr>wb_subscribers := set_delete w (wb_subscribers s)\<rparr>) xs s)" for xs s
    by (induction xs arbitrary: s) (use assms(2) mirror_quiet_send in auto)
  then show ?thesis using assms(1) by (simp add: to_subscribers_def)
qed

lemma mirror_read_body: "mirror view ws s \<Longrightarrow> (\<And>b. mirror view ws (k b s)) \<Longrightarrow> mirror view ws (read_body body rid k s)"
  by (simp add: read_body_def split: option.splits)

lemma mirror_if: "mirror view ws a \<Longrightarrow> mirror view ws b \<Longrightarrow> mirror view ws (if c then a else b)"
  by simp

lemma mirror_image: "mirror view ws s \<Longrightarrow> mirror view ws (case r of None \<Rightarrow> s | Some f \<Rightarrow> serveImageNode we rid f s)"
  by (simp split: option.splits)

lemma mirror_toggle:
  assumes "mirror view ws s" "we_open we now ws"
  shows "mirror view ws (api_sstv_toggle we now rid b s)" "mirror view ws (api_ground_toggle we now rid b s)"
  using assms by (simp_all add: api_sstv_toggle_def api_ground_toggle_def broadcastSstvStatus_def Let_def mirror_to_clients)

lemma mirror_request:
  assumes "mirror view ws s" "we_open we now ws"
  shows "mirror view ws (web_handle_request we decode ok now rid rq s)"
  using assms unfolding web_handle_request_def Let_def
  by (intro mirror_if mirror_read_body mirror_image)
    (simp_all only: mirror_toggle mirror_reply mirror_serve mirror_requests mirror_skip)

lemma mirror_ws_message: "mirror view ws s \<Longrightarrow> mirror view ws (ws_message now w m s)"
  by (cases "(now, w, m, s)" rule: ws_message.cases)
    (auto simp: fft_subscribe_def fft_unsubscribe_def fft_set_gain_def Let_def mirror_quiet_send split: option.splits)

lemma mirror_timers:
  assumes "mirror view ws s"
  shows "mirror view ws (start_fires we ok now s)" "mirror view ws (stop_fires now s)"
    "mirror view ws (error_check we now s)" "mirror view ws (reply_task k success s)"
  using assms
  by (auto simp: start_fires_def stop_fires_def error_check_def reply_task_def broadcastFFTError_def Let_def
      intro!: mirror_to_subscribers split: option.splits prod.splits web_task.splits)

lemma mirror_fft_event: "mirror view ws s \<Longrightarrow> mirror view ws (web_fft_event we ok now ev s)"
proof -
  have b: "mirror view ws s \<Longrightarrow> mirror view ws (web_broadcastFFTData we now d s)" for d s
    by (simp add: web_broadcastFFTData_def Let_def mirror_to_subscribers)
  have "mirror view ws s \<Longrightarrow> mirror view ws (fold (\<lambda>(cb, data). web_broadcastFFTData we now data) frames s)"
    for frames :: "(nat \<times> FFTData) list" and s
    by (induction frames arbitrary: s) (auto intro: b)
  then show "mirror view ws s \<Longrightarrow> mirror view ws (web_fft_event we ok now ev s)" by (simp add: web_fft_event_def Let_def)
qed

text \<open>A socket that connects is told the state; the others are told nothing new.\<close>

lemma mirror_connected:
  assumes "distinct (wb_clients s)" "wb_deferred s = []"
  shows "mirror view ws (ws_connection we now ws s)"
  using assms view_init by (simp add: mirror_def ws_connection_def wemit_def set_add_def)

lemma mirror_connection:
  assumes "mirror view ws s"
  shows "mirror view ws (ws_connection we now w s)"
proof (cases "w = ws")
  case True
  then show ?thesis using assms mirror_connected by (simp add: mirror_def)
next
  case False
  then show ?thesis using assms by (simp add: mirror_def ws_connection_def wemit_def set_add_def)
qed

lemma mirror_disconnect: "mirror view ws s \<Longrightarrow> w \<noteq> ws \<Longrightarrow> mirror view ws (ws_disconnect w s)"
  by (simp add: mirror_def ws_disconnect_def set_delete_other)

lemma mirror_broadcast_event:
  assumes "mirror view ws s" "allowed call" "we_open we now ws" "wb_state s' = fst (sm_exec now call (wb_state s))"
    and "wb_clients s' = wb_clients s" "wb_deferred s' = wb_deferred s" "wb_out s' = wb_out s"
  shows "mirror view ws (to_clients (we_open we now) (M_event (snd (sm_exec now call (wb_state s)))) s')"
  using assms view_event [of "messages_to ws (wb_out s)" "wb_state s" call now]
  by (simp add: mirror_def to_clients_fields to_clients_messages)

lemma mirror_state_call:
  assumes "mirror view ws s" "allowed call" "we_open we now ws"
    and "\<And>p. call = StartPass p \<Longrightarrow> \<not> isFFTStreamRunning (wb_fft s)"
  shows "mirror view ws (state_call we now call s)"
  using assms mirror_broadcast_event [OF assms(1-3)]
  by (cases call)
    (auto simp: state_call_def on_state_def Let_def setStatus_def setScanningFrequency_def startPass_def updateProgress_def
      completePass_def updatePasses_def emitGlobeState_def debouncedFFTStart_def)

lemma mirror_step:
  assumes "mirror view ws s" "undisturbed we ws e s" "event_allowed allowed e"
  shows "mirror view ws (web_step we e s)"
proof -
  obtain now ok ev where e: "e = (now, ok, ev)" by (metis prod_cases3)
  have d: "wb_deferred s = []" using assms(1) by (simp add: mirror_def)
  show ?thesis
    using assms unfolding e
    by (cases ev) (auto simp: undisturbed_def event_allowed_def deferred_event_def d intro: mirror_request mirror_connection
        mirror_disconnect mirror_ws_message mirror_state_call mirror_timers mirror_fft_event split: sm_call.splits)
qed

lemma mirror_run:
  "mirror view ws s \<Longrightarrow> undisturbed_run we ws es s \<Longrightarrow> list_all (event_allowed allowed) es \<Longrightarrow>
   mirror view ws (fold (web_step we) es s)"
  by (induction we ws es s rule: undisturbed_run.induct) (auto intro: mirror_step)

theorem connected_view:
  assumes "web_inv s" "wb_deferred s = []" "undisturbed_run we ws es (web_step we (now, ok, WsConnect ws) s)"
    and "list_all (event_allowed allowed) es"
  shows "view (messages_to ws (wb_out (fold (web_step we) es (web_step we (now, ok, WsConnect ws) s))))
           (wb_state (fold (web_step we) es (web_step we (now, ok, WsConnect ws) s)))"
proof -
  have "mirror view ws (web_step we (now, ok, WsConnect ws) s)"
    using assms(1,2) mirror_connected by (simp add: web_inv_def)
  from mirror_run [OF this assms(3,4)] show ?thesis by (simp add: mirror_def)
qed

end

lemma all_allowed: "list_all (event_allowed (\<lambda>_. True)) es"
  by (simp add: list_all_iff event_allowed_def split: web_event.splits)

end
