(* ===== verification/Dashboard.thy ===== *)
theory Dashboard
  imports Web_Clients
begin

text \<open>
  \<open>src/frontend/src/hooks/useWebSocket.ts\<close> and \<open>store/index.ts\<close>: what the
  dashboard keeps of the messages the web server sends, and what it sends.  The messages are
  those of \<open>Web_Server\<close>; a status is the text that travels, since the
  browser's type of it is not checked against what arrives.
\<close>

section \<open>State\<close>

definition status_text :: "SystemStatus \<Rightarrow> string" where
  "status_text st = (case st of Idle \<Rightarrow> ''idle'' | Waiting \<Rightarrow> ''waiting'' | Capturing \<Rightarrow> ''capturing''
     | Decoding \<Rightarrow> ''decoding'' | Scanning \<Rightarrow> ''scanning'')"

record ui_system =
  us_status :: string
  us_currentPass :: "SatellitePass option"
  us_nextPass :: "SatellitePass option"
  us_upcomingPasses :: "SatellitePass list"
  us_captureProgress :: number
  us_captureElapsed :: number
  us_captureTotal :: number
  us_lastUpdate :: date
  us_scanningFrequency :: "number option"
  us_scanningFrequencyName :: "string option"

record ui_fft =
  uf_running :: bool
  uf_config :: "FFTStreamConfig option"
  uf_error :: "string option"

record ws_state =
  wv_connected :: bool
  wv_error :: "string option"
  wv_reconnectAttempts :: nat

record ui =
  ui_ws :: ws_state
  ui_attempts :: nat
  ui_timers :: "nat list"
  ui_state :: "ui_system option"
  ui_globe :: "GlobeState option"
  ui_sstv :: "SSTVStatus option"
  ui_passes :: "SatellitePass list"
  ui_progress :: "(number \<times> number \<times> number) option"
  ui_fft_state :: ui_fft
  ui_frames :: "FFTData list"
  ui_forwarded :: "web_message list"

definition ui_initial :: ui where
  "ui_initial = \<lparr>ui_ws = \<lparr>wv_connected = False, wv_error = None, wv_reconnectAttempts = 0\<rparr>, ui_attempts = 0,
     ui_timers = [], ui_state = None, ui_globe = None, ui_sstv = None, ui_passes = [], ui_progress = None,
     ui_fft_state = \<lparr>uf_running = False, uf_config = None, uf_error = None\<rparr>, ui_frames = [], ui_forwarded = []\<rparr>"

definition of_system :: "SystemState \<Rightarrow> ui_system" where
  "of_system s = \<lparr>us_status = status_text (st_status s), us_currentPass = st_currentPass s, us_nextPass = st_nextPass s,
     us_upcomingPasses = st_upcomingPasses s, us_captureProgress = st_captureProgress s,
     us_captureElapsed = st_captureElapsed s, us_captureTotal = st_captureTotal s, us_lastUpdate = st_lastUpdate s,
     us_scanningFrequency = st_scanningFrequency s, us_scanningFrequencyName = st_scanningFrequencyName s\<rparr>"

section \<open>Messages\<close>

definition upd_system :: "(ui_system \<Rightarrow> ui_system) \<Rightarrow> ui \<Rightarrow> ui" where
  "upd_system f u = u\<lparr>ui_state := map_option f (ui_state u)\<rparr>"

fun on_event :: "StateEvent \<Rightarrow> ui \<Rightarrow> ui" where
  "on_event (status_change st) u = upd_system (us_status_update (\<lambda>_. status_text st)) u"
| "on_event (capture_progress p e t) u = u\<lparr>ui_progress := Some (p, e, t)\<rparr>"
| "on_event (pass_start pass) u = upd_system (\<lambda>x. x\<lparr>us_currentPass := Some pass, us_status := ''recording''\<rparr>) u"
| "on_event (pass_complete r) u =
     (upd_system (\<lambda>x. x\<lparr>us_currentPass := None, us_status := ''idle''\<rparr>) u)\<lparr>ui_progress := None\<rparr>"
| "on_event (passes_updated passes) u =
     upd_system (\<lambda>x. x\<lparr>us_upcomingPasses := passes, us_nextPass := first passes\<rparr>) (u\<lparr>ui_passes := passes\<rparr>)"
| "on_event (satellite_positions globe) u = u\<lparr>ui_globe := Some globe\<rparr>"
| "on_event (scanning_frequency f n) u =
     upd_system (\<lambda>x. x\<lparr>us_scanningFrequency := Some f, us_scanningFrequencyName := Some n\<rparr>) u"

fun reduce_message :: "web_message \<Rightarrow> ui \<Rightarrow> ui" where
  "reduce_message (M_init st globe running config notch err) u =
     u\<lparr>ui_state := Some (of_system st), ui_globe := (case globe of None \<Rightarrow> ui_globe u | Some g \<Rightarrow> Some g),
       ui_passes := st_upcomingPasses st, ui_fft_state := \<lparr>uf_running = running, uf_config = config, uf_error = err\<rparr>\<rparr>"
| "reduce_message (M_event ev) u = on_event ev u"
| "reduce_message (M_sstv_status st) u = u\<lparr>ui_sstv := Some st\<rparr>"
| "reduce_message (M_fft_data d) u =
     (let f = ui_fft_state u;
          u = (if uf_error f \<notin> {None, Some []} then u\<lparr>ui_fft_state := f\<lparr>uf_running := True, uf_error := None\<rparr>\<rparr> else u)
      in u\<lparr>ui_frames := ui_frames u @ [d]\<rparr>)"
| "reduce_message (M_fft_history ds) u = u\<lparr>ui_frames := ui_frames u @ ds\<rparr>"
| "reduce_message (M_fft_subscribed running config err) u =
     u\<lparr>ui_fft_state := \<lparr>uf_running = running, uf_config = config, uf_error = err\<rparr>\<rparr>"
| "reduce_message M_fft_unsubscribed u = u\<lparr>ui_fft_state := \<lparr>uf_running = False, uf_config = None, uf_error = None\<rparr>\<rparr>"
| "reduce_message (M_fft_error e) u = u\<lparr>ui_fft_state := (ui_fft_state u)\<lparr>uf_running := False, uf_error := Some e\<rparr>\<rparr>"
| "reduce_message (M_gain_updated g) u = u"

definition ui_on_message :: "web_message \<Rightarrow> ui \<Rightarrow> ui" where
  "ui_on_message m u = (let u = reduce_message m u in u\<lparr>ui_forwarded := ui_forwarded u @ [m]\<rparr>)"

section \<open>Connection\<close>

definition ui_on_open :: "ui \<Rightarrow> ui" where
  "ui_on_open u = u\<lparr>ui_attempts := 0, ui_ws := \<lparr>wv_connected = True, wv_error = None, wv_reconnectAttempts = 0\<rparr>\<rparr>"

text \<open>With the default delay of a second and at most twenty attempts.\<close>

definition ui_on_close :: "ui \<Rightarrow> ui" where
  "ui_on_close u =
     (let u = u\<lparr>ui_ws := (ui_ws u)\<lparr>wv_connected := False, wv_error := None\<rparr>\<rparr>
      in if ui_attempts u < 20
         then let n = ui_attempts u + 1
              in u\<lparr>ui_attempts := n, ui_ws := (ui_ws u)\<lparr>wv_reconnectAttempts := n\<rparr>,
                   ui_timers := ui_timers u @ [1000 * min n 10]\<rparr>
         else u)"

definition ui_on_error :: "ui \<Rightarrow> ui" where
  "ui_on_error u = u\<lparr>ui_ws := (ui_ws u)\<lparr>wv_error := Some ''Connection error''\<rparr>\<rparr>"

text \<open>What goes out: nothing unless the current socket is open.\<close>

definition subscribeFFT :: "bool \<Rightarrow> number option \<Rightarrow> client_message option" where
  "subscribeFFT ready frequency = (if ready then Some (C_fft_subscribe frequency) else None)"

definition unsubscribeFFT :: "bool \<Rightarrow> client_message option" where
  "unsubscribeFFT ready = (if ready then Some C_fft_unsubscribe else None)"

definition setFFTFrequency :: "bool \<Rightarrow> number \<Rightarrow> client_message option" where
  "setFFTFrequency ready frequency = (if ready then Some (C_fft_set_frequency (Some frequency)) else None)"

section \<open>The store of the interface\<close>

datatype DiagnosticsTab = Tab_console | Tab_state | Tab_network | Tab_sdr | Tab_passes

datatype WaterfallMode = Mode_satellite | Mode_sstv_2m

record UIState =
  uis_diagnosticsOpen :: bool
  uis_diagnosticsTab :: DiagnosticsTab
  uis_diagnosticsPanelHeight :: number
  uis_waterfallMode :: WaterfallMode
  uis_selectedFrequency :: "number option"

definition useUIStore :: UIState where
  "useUIStore = \<lparr>uis_diagnosticsOpen = False, uis_diagnosticsTab = Tab_console, uis_diagnosticsPanelHeight = 300,
     uis_waterfallMode = Mode_satellite, uis_selectedFrequency = None\<rparr>"

definition setDiagnosticsOpen :: "bool \<Rightarrow> UIState \<Rightarrow> UIState" where
  "setDiagnosticsOpen opened s = s\<lparr>uis_diagnosticsOpen := opened\<rparr>"

definition setDiagnosticsTab :: "DiagnosticsTab \<Rightarrow> UIState \<Rightarrow> UIState" where
  "setDiagnosticsTab tab s = s\<lparr>uis_diagnosticsTab := tab\<rparr>"

definition setDiagnosticsPanelHeight :: "number \<Rightarrow> UIState \<Rightarrow> UIState" where
  "setDiagnosticsPanelHeight height s = s\<lparr>uis_diagnosticsPanelHeight := height\<rparr>"

definition setWaterfallMode :: "WaterfallMode \<Rightarrow> UIState \<Rightarrow> UIState" where
  "setWaterfallMode mode s = s\<lparr>uis_waterfallMode := mode\<rparr>"

definition setSelectedFrequency :: "number option \<Rightarrow> UIState \<Rightarrow> UIState" where
  "setSelectedFrequency freq s = s\<lparr>uis_selectedFrequency := freq\<rparr>"

definition toggleDiagnostics :: "UIState \<Rightarrow> UIState" where
  "toggleDiagnostics s = s\<lparr>uis_diagnosticsOpen := \<not> uis_diagnosticsOpen s\<rparr>"

text \<open>What is written to local storage, and what a reload makes of it.\<close>

definition partialize :: "UIState \<Rightarrow> bool \<times> DiagnosticsTab \<times> number \<times> WaterfallMode" where
  "partialize s = (uis_diagnosticsOpen s, uis_diagnosticsTab s, uis_diagnosticsPanelHeight s, uis_waterfallMode s)"

definition rehydrate :: "bool \<times> DiagnosticsTab \<times> number \<times> WaterfallMode \<Rightarrow> UIState" where
  "rehydrate p = (case p of (opened, tab, height, mode) \<Rightarrow>
     useUIStore\<lparr>uis_diagnosticsOpen := opened, uis_diagnosticsTab := tab, uis_diagnosticsPanelHeight := height,
                uis_waterfallMode := mode\<rparr>)"

lemma reload_keeps_all_but_selection: "rehydrate (partialize s) = s\<lparr>uis_selectedFrequency := None\<rparr>"
  by (simp add: rehydrate_def partialize_def useUIStore_def)

section \<open>Following the server\<close>

definition ui_of :: "nat \<Rightarrow> web \<Rightarrow> ui" where
  "ui_of ws s = fold ui_on_message (messages_to ws (wb_out s)) ui_initial"

lemma tells_no_state_message: "tells_no_state m \<Longrightarrow> ui_state (ui_on_message m u) = ui_state u"
  by (cases m) (simp_all add: tells_no_state_def ui_on_message_def Let_def)

text \<open>
  A view of the server's state that looks at the browser's copy of the state only: the first
  message establishes it and an event keeps it, for the allowed calls of the state manager.
\<close>

locale ui_view =
  fixes view :: "ui \<Rightarrow> SystemState \<Rightarrow> bool" and allowed :: "sm_call \<Rightarrow> bool"
  assumes view_cong: "ui_state u' = ui_state u \<Longrightarrow> view u s \<Longrightarrow> view u' s"
    and view_init: "view (ui_on_message (M_init s g r c n e) u) s"
    and view_event: "view u s \<Longrightarrow> allowed call \<Longrightarrow>
      view (ui_on_message (M_event (snd (sm_exec now call s))) u) (fst (sm_exec now call s))"

sublocale ui_view \<subseteq> msgs: message_view "\<lambda>ms. view (fold ui_on_message ms ui_initial)" allowed
  by unfold_locales (auto intro: view_init view_event view_cong [OF tells_no_state_message])

section \<open>The two views\<close>

text \<open>The browser shows a pass that started as \<open>recording\<close>, which the server never sends.\<close>

definition status_agrees :: "string \<Rightarrow> SystemStatus \<Rightarrow> bool" where
  "status_agrees txt st \<longleftrightarrow> txt = status_text st \<or> (txt = ''recording'' \<and> st = Capturing)"

definition follows :: "ui \<Rightarrow> SystemState \<Rightarrow> bool" where
  "follows u s \<longleftrightarrow>
     (case ui_state u of
        None \<Rightarrow> False
      | Some x \<Rightarrow> status_agrees (us_status x) (st_status s) \<and> us_currentPass x = st_currentPass s)"

definition follows_queue :: "ui \<Rightarrow> SystemState \<Rightarrow> bool" where
  "follows_queue u s \<longleftrightarrow>
     (case ui_state u of
        None \<Rightarrow> False
      | Some x \<Rightarrow> us_upcomingPasses x = st_upcomingPasses s \<and> us_nextPass x = st_nextPass s)"

definition completes :: "sm_call \<Rightarrow> bool" where
  "completes c \<longleftrightarrow> (case c of CompletePass r \<Rightarrow> True | _ \<Rightarrow> False)"

lemma status_agrees_simps [simp]:
  "status_agrees (status_text st) st" "status_agrees ''recording'' Capturing" "status_agrees ''idle'' Idle"
  by (simp_all add: status_agrees_def status_text_def)

interpretation status_view: ui_view follows "\<lambda>_. True"
proof
  show "follows (ui_on_message (M_init s g r c n e) u) s" for s g r c n e u
    by (simp add: follows_def ui_on_message_def of_system_def Let_def)
  show "follows (ui_on_message (M_event (snd (sm_exec now call s))) u) (fst (sm_exec now call s))"
    if "follows u s" for u s call now
    using that by (cases call) (auto simp: follows_def ui_on_message_def upd_system_def sm_defs split: option.splits)
qed (simp add: follows_def)

interpretation queue_view: ui_view follows_queue "\<lambda>c. \<not> completes c"
proof
  show "follows_queue (ui_on_message (M_init s g r c n e) u) s" for s g r c n e u
    by (simp add: follows_queue_def ui_on_message_def of_system_def Let_def)
  show "follows_queue (ui_on_message (M_event (snd (sm_exec now call s))) u) (fst (sm_exec now call s))"
    if "follows_queue u s" "\<not> completes call" for u s call now
    using that
    by (cases call) (auto simp: follows_queue_def ui_on_message_def upd_system_def completes_def sm_defs split: option.splits)
qed (simp add: follows_queue_def)


text \<open>C21: Under the same conditions it shows the queue of passes and the next pass of the server, if no
  pass completes: that event changes the server's queue and says nothing of it.\<close>

theorem dashboard_shows_queue:
  assumes "web_inv s" "wb_deferred s = []" "undisturbed_run we ws es (web_step we (now, ok, WsConnect ws) s)"
    and "list_all (event_allowed (\<lambda>c. \<not> completes c)) es"
    and "s' = fold (web_step we) es (web_step we (now, ok, WsConnect ws) s)"
  shows "follows_queue (ui_of ws s') (wb_state s')"
  using queue_view.msgs.connected_view [OF assms(1-4)] assms(5) by (simp add: ui_of_def)

text \<open>An example: the queue is filled and its first pass starts.\<close>

definition demo_steps :: "(date \<times> bool \<times> web_event) list" where
  "demo_steps = [(1, True, StateCall (UpdatePasses [demo_pass 500])), (2, True, StateCall (StartPass (demo_pass 500)))]"

definition demo_connected :: web where
  "demo_connected = web_step demo_web_env (0, True, WsConnect 7) demo_web"

lemma demo_web_inv: "web_inv demo_web" "wb_deferred demo_web = []"
  using web_sys.start_inv [OF demo_web_started] by (simp_all add: demo_web_def web_initial_def)

lemmas demo_web_defs = demo_connected_def demo_web_def web_initial_def ws_connection_def demo_web_env_def wemit_def set_add_def
  state_call_def on_state_def to_clients_def initialState_def updatePasses_def startPass_def isFFTStreamRunning_def
  fs_initial_def Let_def

lemma demo_undisturbed: "undisturbed_run demo_web_env 7 demo_steps demo_connected"
  by (simp add: demo_steps_def undisturbed_def demo_web_defs)


theorem dashboard_shows_queue_witness:
  "follows_queue (ui_of 7 (fold (web_step demo_web_env) demo_steps demo_connected))
     (wb_state (fold (web_step demo_web_env) demo_steps demo_connected))"
  using dashboard_shows_queue [OF demo_web_inv demo_undisturbed [unfolded demo_connected_def] _ refl]
  by (simp add: demo_connected_def demo_steps_def event_allowed_def completes_def)

section \<open>Where the two part\<close>

text \<open>The completed pass leaves the server's queue and stays in the dashboard's.\<close>

lemma filter_eq_self: "xs = filter P xs \<longleftrightarrow> (\<forall>x\<in>set xs. P x)"
  by (metis filter_id_conv)

lemma completed_pass_stays_shown:
  fixes s :: SystemState
  assumes "follows_queue u s" "p \<in> set (st_upcomingPasses s)" "is_completed_pass r p"
    and "s' = fst (sm_exec now (CompletePass r) s)" "u' = ui_on_message (M_event (snd (sm_exec now (CompletePass r) s))) u"
  shows "p \<notin> set (st_upcomingPasses s')" "p \<in> set (us_upcomingPasses (the (ui_state u')))" "\<not> follows_queue u' s'"
  using assms
  by (auto simp: follows_queue_def ui_on_message_def upd_system_def completePass_def Let_def
      filter_eq_self split: option.splits)

text \<open>The frequency of a scan is cleared by the server when the scan ends, and not by the dashboard.\<close>

lemma scan_frequency_stays_shown:
  assumes "ui_state u = Some x"
  shows "map_option us_scanningFrequency
      (ui_state (ui_on_message (M_event (snd (sm_exec now (SetStatus Idle) s))) u)) = Some (us_scanningFrequency x)"
    "st_scanningFrequency (fst (sm_exec now (SetStatus Idle) s)) = None"
  using assms by (simp_all add: ui_on_message_def upd_system_def setStatus_def Let_def)

text \<open>
  A pass that starts while the FFT stream runs is announced once the stream has stopped.  One that
  ends before then is announced first, and the dashboard is left with a recording that is over.
\<close>

lemma late_start_is_shown_last:
  assumes "mirror (\<lambda>ms. follows (fold ui_on_message ms ui_initial)) ws s" "isFFTStreamRunning (wb_fft s)" "we_open we t1 ws" "we_open we t2 ws"
    and "s' = fold (web_step we) [(t0, a, StateCall (StartPass p)), (t1, b, StateCall (CompletePass r)), (t2, c, DeferredEvent)] s"
  shows "st_status (wb_state s') = Idle" "map_option us_status (ui_state (ui_of ws s')) = Some ''recording''"
    "map_option us_currentPass (ui_state (ui_of ws s')) = Some (Some p)"
proof -
  let ?s1 = "s\<lparr>wb_state := fst (startPass t0 p (wb_state s)), wb_fft := stopFFTStream t0 (wb_fft s), wb_deferred := [pass_start p]\<rparr>"
  let ?s2 = "to_clients (we_open we t1) (M_event (pass_complete r))
    (?s1\<lparr>wb_state := fst (completePass t1 r (wb_state ?s1))\<rparr>)"
  let ?s3 = "to_clients (we_open we t2) (M_event (pass_start p)) (?s2\<lparr>wb_deferred := []\<rparr>)"
  have m: "ws \<in> set (wb_clients s)" "distinct (wb_clients s)" "wb_deferred s = []" "ui_state (ui_of ws s) \<noteq> None"
    using assms(1) by (auto simp: mirror_def follows_def ui_of_def split: option.splits)
  have s': "s' = ?s3"
    using assms(2,5) m(3)
    by (simp add: state_call_def on_state_def deferred_event_def startPass_def completePass_def Let_def to_clients_fields)
  show "st_status (wb_state s') = Idle" by (simp add: s' to_clients_fields completePass_def Let_def)
  have "ws \<in> set (wb_clients ?s2)" "distinct (wb_clients ?s2)"
    using m(1,2) assms(3) by (simp_all add: to_clients_fields)
  then have "messages_to ws (wb_out s') = messages_to ws (wb_out s) @ [M_event (pass_complete r), M_event (pass_start p)]"
    using m(1,2) assms(3,4) by (simp add: s' to_clients_messages)
  then have "ui_of ws s' = ui_on_message (M_event (pass_start p)) (ui_on_message (M_event (pass_complete r)) (ui_of ws s))"
    by (simp add: ui_of_def)
  then show "map_option us_status (ui_state (ui_of ws s')) = Some ''recording''"
    "map_option us_currentPass (ui_state (ui_of ws s')) = Some (Some p)"
    using m(4) by (auto simp: ui_on_message_def upd_system_def Let_def)
qed

section \<open>Reconnecting\<close>

definition ui_closes :: "nat \<Rightarrow> ui \<Rightarrow> ui" where
  "ui_closes n u = (ui_on_close ^^ n) u"

definition retry_delays :: "nat \<Rightarrow> nat list" where
  "retry_delays n = map (\<lambda>k. 1000 * min k 10) [1..<n + 1]"

lemma retry_delays_Suc: "retry_delays (Suc n) = retry_delays n @ [1000 * min (Suc n) 10]"
  by (simp add: retry_delays_def)

lemma retry_delays_sum: "n \<le> 20 \<Longrightarrow> sum_list (retry_delays n) \<le> 155000"
proof -
  have "sum_list (retry_delays n) \<le> sum_list (retry_delays (n + k))" for k
    by (induction k) (simp_all add: retry_delays_Suc)
  moreover assume "n \<le> 20"
  ultimately have "sum_list (retry_delays n) \<le> sum_list (retry_delays 20)" by (metis le_add_diff_inverse)
  also have "\<dots> = 155000" by (simp add: retry_delays_def upt_rec)
  finally show ?thesis .
qed

lemma ui_closes_from:
  "ui_attempts (ui_closes n (u\<lparr>ui_attempts := 0\<rparr>)) = min n 20 \<and>
   ui_timers (ui_closes n (u\<lparr>ui_attempts := 0\<rparr>)) = ui_timers u @ retry_delays (min n 20)"
proof (induction n)
  case 0
  then show ?case by (simp add: ui_closes_def retry_delays_def)
next
  case (Suc n)
  then show ?case
    by (cases "n < 20") (simp_all add: ui_closes_def ui_on_close_def Let_def min_absorb1 min_absorb2 retry_delays_Suc)
qed

text \<open>After a connection is lost the dashboard tries again at most twenty times, each time after one
  second more than the last up to ten seconds, so it gives up for good at most 155 seconds of
  waiting later; a connection that opens starts the count again.\<close>

theorem reconnect_attempts_bounded:
  "let v = ui_closes n (ui_on_open u) in
    ui_timers v = ui_timers u @ retry_delays (min n 20) \<and>
    ui_attempts v = min n 20 \<and> sum_list (drop (length (ui_timers u)) (ui_timers v)) \<le> 155000 \<and>
    ui_attempts (ui_on_open v) = 0"
proof -
  let ?w = "u\<lparr>ui_ws := \<lparr>wv_connected = True, wv_error = None, wv_reconnectAttempts = 0\<rparr>\<rparr>"
  have "ui_on_open u = ?w\<lparr>ui_attempts := 0\<rparr>" "ui_attempts (ui_on_open v) = 0" for v by (simp_all add: ui_on_open_def)
  then show ?thesis
    using ui_closes_from [of n ?w] retry_delays_sum [of "min n 20"] by (simp add: Let_def)
qed

end
