(* ===== verification/Signal_Check.thy ===== *)
theory Signal_Check
  imports Shell
begin

text \<open>
  \<open>src/backend/capture/signal.ts\<close>: measuring the power at a frequency with
  \<open>rtl_power\<close>, verification by repeated checks, and the continuous monitor.
\<close>

section \<open>Numbers in the output\<close>

text \<open>
  \<open>Number.parseFloat\<close>; \<open>None\<close> stands for \<open>NaN\<close> and the infinities, which
  the callers treat alike.
\<close>

definition take_sign :: "string \<Rightarrow> number \<times> string" where
  "take_sign s =
     (case s of c # r \<Rightarrow> if c = CHR ''-'' then (- 1, r) else if c = CHR ''+'' then (1, r) else (1, s)
      | [] \<Rightarrow> (1, []))"

definition scale10 :: "number \<Rightarrow> nat \<Rightarrow> number \<Rightarrow> number" where
  "scale10 sg e m = (if sg < 0 then m / 10 ^ e else m * 10 ^ e)"

definition exponent_scale :: "string \<Rightarrow> number \<Rightarrow> number" where
  "exponent_scale s m =
     (case s of
        c # r \<Rightarrow>
          (if c = CHR ''e'' \<or> c = CHR ''E''
           then let (sg, r') = take_sign r; ds = takeWhile is_digit r'
                in if ds = [] then m else scale10 sg (parse_digits ds) m
           else m)
      | [] \<Rightarrow> m)"

definition js_parseFloat :: "string \<Rightarrow> number option" where
  "js_parseFloat text =
     (let (sg, s) = take_sign (dropWhile is_ws text);
          ip = takeWhile is_digit s; s1 = dropWhile is_digit s;
          (fp, s2) = (case s1 of
                        c # r \<Rightarrow> if c = CHR ''.'' then (takeWhile is_digit r, dropWhile is_digit r) else ([], s1)
                      | [] \<Rightarrow> ([], []))
      in if ip = [] \<and> fp = [] then None
         else Some (sg * exponent_scale s2 (real (parse_digits ip) + real (parse_digits fp) / 10 ^ length fp)))"

section \<open>Operations\<close>

record SignalStrength =
  sig_frequency :: number
  sig_power :: number
  sig_timestamp :: date

definition parsePowerFromLine :: "string \<Rightarrow> number option" where
  "parsePowerFromLine line =
     (let parts = js_split (CHR '','') line
      in if length parts \<ge> 7 then js_parseFloat (or_else (elem_at parts 6) ''0'') else None)"

definition add_reading :: "string \<Rightarrow> number \<times> nat \<Rightarrow> number \<times> nat" where
  "add_reading line acc =
     (let parts = js_split (CHR '','') line;
          power = (if length parts \<ge> 7 then js_parseFloat (or_else (elem_at parts 6) ''0'') else None)
      in case power of None \<Rightarrow> acc | Some p \<Rightarrow> (fst acc + p, snd acc + 1))"

definition parsePowerReadings :: "string \<Rightarrow> number \<times> nat" where
  "parsePowerReadings stdout = fold add_reading (js_split NL (js_trim stdout)) (0, 0)"

definition scan_args :: "number \<Rightarrow> number \<Rightarrow> arg list" where
  "scan_args frequency gain =
     (let freqMHz = frequency / 1000000
      in [lit ''-f'',
          [N freqMHz, T ''M:'', N (freqMHz + 1), T ''M:'', N (real (sg_scanBandwidthHz SIGNAL))],
          lit ''-g'', num gain, lit ''-i'', lit ''1'', lit ''-e'',
          [N (real (sg_scanDurationSeconds SIGNAL)), T ''s''], lit ''-''])"

definition checkSignalStrength ::
  "os \<Rightarrow> SatelliteInfo \<Rightarrow> number \<Rightarrow> date \<Rightarrow> (SignalStrength option \<times> date) option" where
  "checkSignalStrength sys satellite gain now =
     (case runCommand sys now ''rtl_power'' (scan_args (sat_frequency satellite) gain) of
        None \<Rightarrow> None
      | Some (Inl error, now) \<Rightarrow> Some (None, now)
      | Some (Inr result, now) \<Rightarrow>
          (let scanFailed = (cmd_exitCode result \<noteq> 0);
               (totalPower, count) = (if scanFailed then (0, 0) else parsePowerReadings (cmd_stdout result))
           in Some (if count > 0
                    then Some \<lparr>sig_frequency = sat_frequency satellite, sig_power = totalPower / real count,
                               sig_timestamp = now\<rparr>
                    else None, now)))"

definition checkSignalOnce :: "os \<Rightarrow> SatelliteInfo \<Rightarrow> number \<Rightarrow> number \<Rightarrow> date \<Rightarrow> (bool \<times> date) option" where
  "checkSignalOnce sys satellite gain minStrength now =
     map_option (\<lambda>(strength, now).
         (case strength of None \<Rightarrow> False | Some s \<Rightarrow> sig_power s > minStrength, now))
       (checkSignalStrength sys satellite gain now)"

definition verifySignal ::
  "os \<Rightarrow> SatelliteInfo \<Rightarrow> number \<Rightarrow> number \<Rightarrow> nat \<Rightarrow> date \<Rightarrow> (bool \<times> date) option" where
  "verifySignal sys satellite gain minStrength attempts now =
     (case attempt_loop (checkSignalOnce sys satellite gain minStrength) (js_sleep sys 2000) attempts now of
        None \<Rightarrow> None
      | Some (results, now) \<Rightarrow>
          (let successCount = length (filter (\<lambda>b. b) results);
               passed = (int successCount \<ge> \<lceil>real attempts / 2\<rceil>)
           in Some (passed, now)))"

definition verifySignalAtFrequency :: "os \<Rightarrow> number \<Rightarrow> number \<Rightarrow> number \<Rightarrow> date \<Rightarrow> (bool \<times> date) option" where
  "verifySignalAtFrequency sys frequency gain minStrength now =
     (let freqMHz = frequency / 1000000
      in case runCommand sys now ''rtl_power''
           [lit ''-f'', [N freqMHz, T ''M:'', N (freqMHz + 1 / 10), T ''M:10k''],
            lit ''-g'', num gain, lit ''-i'', lit ''1'', lit ''-e'', lit ''2s'', lit ''-''] of
           None \<Rightarrow> None
         | Some (Inl error, now) \<Rightarrow> Some (False, now)
         | Some (Inr result, now) \<Rightarrow>
             (if cmd_exitCode result \<noteq> 0 then Some (False, now)
              else let (totalPower, count) = parsePowerReadings (cmd_stdout result)
                   in if count = 0 then Some (False, now)
                      else Some (totalPower / real count > minStrength, now)))"

record signal_monitor =
  mon_args :: "arg list"
  mon_buffer :: string
  mon_readings :: "number list"

definition startSignalMonitor :: "SatelliteInfo \<Rightarrow> number \<Rightarrow> signal_monitor" where
  "startSignalMonitor satellite gain =
     (let freqMHz = sat_frequency satellite / 1000000
      in \<lparr>mon_args = [lit ''-f'',
            [N freqMHz, T ''M:'', N (freqMHz + 1), T ''M:'', N (real (sg_scanBandwidthHz SIGNAL))],
            lit ''-g'', num gain, lit ''-i'', lit ''2'', lit ''-''],
          mon_buffer = [], mon_readings = []\<rparr>)"

text \<open>The listener on the monitor's output; the readings are the calls of \<open>onReading\<close>.\<close>

definition monitor_data :: "string \<Rightarrow> signal_monitor \<Rightarrow> signal_monitor" where
  "monitor_data data m =
     (let buffer = mon_buffer m @ data;
          lines = js_split NL buffer;
          buffer = or_else (if lines = [] then None else Some (last lines)) [];
          lines = butlast lines
      in m\<lparr>mon_buffer := buffer,
           mon_readings := mon_readings m @ List.map_filter parsePowerFromLine lines\<rparr>)"

section \<open>The measured power\<close>

definition readings_of :: "string \<Rightarrow> number list" where
  "readings_of stdout = List.map_filter parsePowerFromLine (js_split NL (js_trim stdout))"

lemma add_reading_line: "add_reading line acc =
    (case parsePowerFromLine line of None \<Rightarrow> acc | Some p \<Rightarrow> (fst acc + p, snd acc + 1))"
  by (simp add: add_reading_def parsePowerFromLine_def Let_def)

lemma fold_add_reading:
  "fold add_reading lines (t, n) =
     (t + sum_list (List.map_filter parsePowerFromLine lines), n + length (List.map_filter parsePowerFromLine lines))"
  by (induction lines arbitrary: t n)
     (auto simp: add_reading_line List.map_filter_simps split: option.splits)

lemma parsePowerReadings_eq:
  "parsePowerReadings stdout = (sum_list (readings_of stdout), length (readings_of stdout))"
  by (simp add: parsePowerReadings_def readings_of_def fold_add_reading)

lemma mean_bounds:
  fixes xs :: "number list"
  assumes "xs \<noteq> []" "\<forall>x \<in> set xs. lo \<le> x \<and> x \<le> hi"
  shows "lo \<le> sum_list xs / real (length xs) \<and> sum_list xs / real (length xs) \<le> hi"
proof -
  have "real (length xs) * lo \<le> sum_list xs \<and> sum_list xs \<le> real (length xs) * hi"
    using assms(2) by (induction xs) (auto simp: distrib_right)
  moreover have "0 < real (length xs)" using assms(1) by simp
  ultimately show ?thesis by (simp add: field_simps)
qed

text \<open>A measurement exists exactly when the scan ran, exited with code 0 and printed at
  least one line with a finite seventh field; its power is the mean of these fields and lies
  between the smallest and the largest of them.\<close>

theorem checkSignalStrength_spec:
  assumes "runCommand sys now ''rtl_power'' (scan_args (sat_frequency sat) gain) = Some (r, t)"
  shows "\<exists>m. checkSignalStrength sys sat gain now = Some (m, t) \<and>
    (case m of
       None \<Rightarrow> (\<forall>res. r = Inr res \<longrightarrow> cmd_exitCode res \<noteq> 0 \<or> readings_of (cmd_stdout res) = [])
     | Some s \<Rightarrow> (\<exists>res. r = Inr res \<and> cmd_exitCode res = 0 \<and> readings_of (cmd_stdout res) \<noteq> [] \<and>
         sig_power s = sum_list (readings_of (cmd_stdout res)) / real (length (readings_of (cmd_stdout res))) \<and>
         Min (set (readings_of (cmd_stdout res))) \<le> sig_power s \<and>
         sig_power s \<le> Max (set (readings_of (cmd_stdout res)))))"
proof (cases r)
  case (Inl e)
  then show ?thesis using assms by (simp add: checkSignalStrength_def)
next
  case (Inr res)
  let ?xs = "readings_of (cmd_stdout res)"
  have "Min (set ?xs) \<le> sum_list ?xs / real (length ?xs) \<and> sum_list ?xs / real (length ?xs) \<le> Max (set ?xs)"
    if "?xs \<noteq> []" by (rule mean_bounds [OF that]) simp
  then show ?thesis
    using assms Inr by (auto simp: checkSignalStrength_def parsePowerReadings_eq Let_def)
qed

text \<open>A scan whose output has two usable lines, and one that cannot be started.\<close>

definition demo_scan :: string where
  "demo_scan = ''d,t,1,2,3,4,-10.5'' @ NL # ''d,t,1,2,3,4,-20.5''"

definition demo_os :: os where
  "demo_os = \<lparr>os_spawn = \<lambda>t c a. ([Stdout ''d,t,1,2,3,4,-10.5'', Stdout (NL # ''d,t,1,2,3,4,-20.5''), Close (Some 0)], 5000),
     os_exists = \<lambda>t p. True, os_mkdir = \<lambda>t p. True, os_late = \<lambda>t. 1, os_cwd = ''/app''\<rparr>"

lemma demo_os_settles: "os_settles demo_os"
  by (simp add: os_settles_def demo_os_def)

lemma demo_run: "runCommand demo_os now c a =
    Some (Inr \<lparr>cmd_stdout = demo_scan, cmd_stderr = [], cmd_exitCode = 0\<rparr>, now + 5000)"
  by (simp add: runCommand_def demo_os_def demo_scan_def)

lemma demo_readings: "readings_of demo_scan = [- 10.5, - 20.5]"
  by (simp add: demo_scan_def readings_of_def js_trim_def is_ws_def NL_def parsePowerFromLine_def js_parseFloat_def
      take_sign_def exponent_scale_def parse_digits_def is_digit_def digit_value_def elem_at_def
      List.map_filter_simps)

theorem checkSignalStrength_spec_witness:
  "\<exists>s. checkSignalStrength demo_os ISS 40 0 = Some (Some s, 5000) \<and> sig_power s = - 15.5"
  using checkSignalStrength_spec [of demo_os 0 ISS 40, OF demo_run] by (auto simp: demo_readings split: option.splits)

section \<open>Verification by majority\<close>

interpretation local_signal: signal_checker "checkSignalOnce sys sat gain minS" "js_sleep sys 2000"
    "verifySignal sys sat gain minS" for sys sat gain minS
  by unfold_locales (simp add: verifySignal_def split: option.splits)

lemma checkSignalOnce_answers: "os_settles sys \<Longrightarrow> \<forall>t. checkSignalOnce sys sat gain minS t \<noteq> None"
  using runCommand_settles [of sys]
  by (auto simp: checkSignalOnce_def checkSignalStrength_def Let_def split: option.splits sum.splits prod.splits)

text \<open>When every process ends, verification answers; it accepts exactly when at least as many
  checks were strong as were weak, and with at least one attempt it never accepts without some
  scan whose mean power exceeds the threshold.\<close>

theorem verifySignal_majority:
  assumes "os_settles sys"
  shows "\<exists>results t. attempt_loop (checkSignalOnce sys sat gain minS) (js_sleep sys 2000) n now = Some (results, t) \<and>
    length results = n \<and>
    verifySignal sys sat gain minS n now =
      Some (length (filter (\<lambda>b. \<not> b) results) \<le> length (filter (\<lambda>b. b) results), t) \<and>
    (verifySignal sys sat gain minS n now = Some (True, t) \<and> 0 < n \<longrightarrow>
      (\<exists>u v s. checkSignalStrength sys sat gain u = Some (Some s, v) \<and> sig_power s > minS))"
proof -
  obtain results t where l: "attempt_loop (checkSignalOnce sys sat gain minS) (js_sleep sys 2000) n now = Some (results, t)"
    using attempt_loop_answers [OF checkSignalOnce_answers [OF assms]] by fast
  have "\<exists>u v s. checkSignalStrength sys sat gain u = Some (Some s, v) \<and> sig_power s > minS"
    if "verifySignal sys sat gain minS n now = Some (True, t)" "0 < n"
    using local_signal.verify_needs_a_positive_check [OF that]
    by (fastforce simp: checkSignalOnce_def split: option.splits)
  then show ?thesis
    using l attempt_loop_length [OF l] local_signal.verify_iff [OF l] by blast
qed

theorem verifySignal_majority_witness:
  "\<exists>results t. length results = 3 \<and> verifySignal demo_os ISS 40 (- 20) 3 0 =
      Some (length (filter (\<lambda>b. \<not> b) results) \<le> length (filter (\<lambda>b. b) results), t)"
  using verifySignal_majority [OF demo_os_settles, of ISS 40 "- 20" 3 0] by blast

lemma attempt_loop_time:
  assumes "\<And>t b u. once t = Some (b, u) \<Longrightarrow> t \<le> u" "\<And>t. t \<le> pause t"
    "attempt_loop once pause n now = Some (bs, later)"
  shows "now \<le> later"
  using assms
proof (induction once pause n now arbitrary: bs later rule: attempt_loop.induct)
  case (2 once pause k now)
  obtain b t where o: "once now = Some (b, t)" using "2.prems"(3) by (auto split: option.splits)
  obtain bs' where l: "attempt_loop once pause k (if 0 < k then pause t else t) = Some (bs', later)"
    using "2.prems"(3) o by (auto split: option.splits)
  have "(if 0 < k then pause t else t) \<le> later"
    by (rule "2.IH" [OF o refl "2.prems"(1,2) l])
  moreover have "now \<le> t" "t \<le> pause t" using "2.prems"(1) [OF o] "2.prems"(2) by simp_all
  ultimately show ?case by (simp split: if_splits)
qed simp

lemma checkSignalOnce_time: "checkSignalOnce sys sat gain minS t = Some (b, u) \<Longrightarrow> t \<le> u"
  by (auto simp: checkSignalOnce_def checkSignalStrength_def Let_def
      split: option.splits sum.splits prod.splits if_splits dest: runCommand_time)

lemma verifySignal_time: "verifySignal sys sat gain minS n now = Some (b, later) \<Longrightarrow> now \<le> later"
proof -
  assume v: "verifySignal sys sat gain minS n now = Some (b, later)"
  then obtain bs where l: "attempt_loop (checkSignalOnce sys sat gain minS) (js_sleep sys 2000) n now = Some (bs, later)"
    by (auto simp: verifySignal_def Let_def split: option.splits)
  show ?thesis
    by (rule attempt_loop_time [OF _ _ l]) (auto simp: js_sleep_def dest: checkSignalOnce_time)
qed

lemma verifySignal_answers: "os_settles sys \<Longrightarrow> verifySignal sys sat gain minS n now \<noteq> None"
  by (rule local_signal.verify_answers [OF checkSignalOnce_answers])

section \<open>The monitor reads lines, not chunks\<close>

definition cut_lines :: "string \<Rightarrow> string list \<times> string" where
  "cut_lines s = (butlast (js_split NL s), last (js_split NL s))"

lemma js_split_concat: "js_split c (s @ t) = butlast (js_split c s) @ js_split c (last (js_split c s) @ t)"
proof (induction s)
  case (Cons x s)
  show ?case
  proof (cases "js_split c s")
    case Nil
    then show ?thesis by simp
  next
    case (Cons w ws)
    then show ?thesis using Cons.IH
      by (cases ws) (auto split: list.splits)
  qed
qed simp

interpretation lines: stream_splitter cut_lines
proof
  show "cut_lines (xs @ ys) = (os @ fst (cut_lines (rest @ ys)), snd (cut_lines (rest @ ys)))"
    if "cut_lines xs = (os, rest)" for xs ys os rest
    using that js_split_concat [of NL xs ys] by (auto simp: cut_lines_def butlast_append)
qed (simp add: cut_lines_def)

lemma monitor_data_cut:
  "monitor_data data m =
     m\<lparr>mon_buffer := snd (cut_lines (mon_buffer m @ data)),
       mon_readings := mon_readings m @ List.map_filter parsePowerFromLine (fst (cut_lines (mon_buffer m @ data)))\<rparr>"
  by (simp add: monitor_data_def cut_lines_def Let_def)

lemma map_filter_append: "List.map_filter f (xs @ ys) = List.map_filter f xs @ List.map_filter f ys"
  by (simp add: List.map_filter_def)

lemma monitor_run:
  assumes "cut_lines pre = (os, rest)" "mon_buffer m = rest"
    "mon_readings m = List.map_filter parsePowerFromLine os"
  shows "mon_buffer (fold monitor_data chunks m) = snd (cut_lines (pre @ concat chunks)) \<and>
    mon_readings (fold monitor_data chunks m) = List.map_filter parsePowerFromLine (fst (cut_lines (pre @ concat chunks)))"
  using assms
proof (induction chunks arbitrary: pre os rest m)
  case (Cons c chunks)
  have "cut_lines (pre @ c) = (os @ fst (cut_lines (rest @ c)), snd (cut_lines (rest @ c)))"
    by (rule lines.cut_append [OF Cons.prems(1)])
  from Cons.IH [OF this, of "monitor_data c m"] Cons.prems(2,3)
  show ?case by (simp add: monitor_data_cut map_filter_append)
qed simp

text \<open>The readings the monitor reports depend only on the bytes \<open>rtl_power\<close> printed, not
  on how they were cut into chunks: they are the powers of the complete lines, in order, and
  the unfinished line stays buffered.\<close>

theorem monitor_chunk_independent:
  "mon_readings (fold monitor_data chunks (startSignalMonitor sat gain)) =
     List.map_filter parsePowerFromLine (butlast (js_split NL (concat chunks))) \<and>
   mon_buffer (fold monitor_data chunks (startSignalMonitor sat gain)) = last (js_split NL (concat chunks))"
  using monitor_run [OF lines.cut_Nil, of "startSignalMonitor sat gain" chunks]
  by (simp add: startSignalMonitor_def Let_def List.map_filter_simps cut_lines_def)

end
