(* ===== verification/Formats.thy ===== *)
theory Formats
  imports Signal_Check
begin

text \<open>
  The formats of numbers: \<open>formatFrequency\<close> and \<open>formatDopplerShift\<close> of
  \<open>src/backend/prediction/doppler.ts\<close>, \<open>formatBytes\<close> of
  \<open>src/backend/utils/fs.ts\<close> and the functions of \<open>src/frontend/src/lib/utils.ts\<close>.
  \<open>str\<close> is JavaScript's conversion of a number to a string where no format is given.
\<close>

section \<open>toFixed\<close>

text \<open>
  \<open>x.toFixed(f)\<close> below \<open>10\<^sup>2\<^sup>1\<close>: the nearest multiple of \<open>10\<^sup>-\<^sup>f\<close>, the larger
  of two for a non-negative number; a negative one is the format of its absolute value.
\<close>

definition fixed_digits :: "nat \<Rightarrow> nat \<Rightarrow> string" where
  "fixed_digits f n =
     (if f = 0 then show_nat n
      else let ds = js_padStart (f + 1) (CHR ''0'') (show_nat n); k = length ds - f
           in take k ds @ ''.'' @ drop k ds)"

definition fixed_nat :: "nat \<Rightarrow> number \<Rightarrow> nat" where
  "fixed_nat f x = nat \<lfloor>x * 10 ^ f + 1 / 2\<rfloor>"

definition js_toFixed :: "nat \<Rightarrow> number \<Rightarrow> string" where
  "js_toFixed f x = (if x < 0 then ''-'' @ fixed_digits f (fixed_nat f (- x)) else fixed_digits f (fixed_nat f x))"

lemma parse_digits_fold: "foldl (\<lambda>n d. 10 * n + digit_value d) a ds = a * 10 ^ length ds + parse_digits ds"
proof (induction ds arbitrary: a)
  case (Cons d ds)
  show ?case
    unfolding parse_digits_def foldl_Cons Cons.IH [of "10 * a + digit_value d"] Cons.IH [of "10 * 0 + digit_value d"]
    by (simp add: algebra_simps)
qed (simp add: parse_digits_def)

lemma parse_digits_append: "parse_digits (ds @ es) = parse_digits ds * 10 ^ length es + parse_digits es"
proof -
  have "parse_digits (ds @ es) = foldl (\<lambda>n d. 10 * n + digit_value d) (parse_digits ds) es"
    by (simp add: parse_digits_def)
  then show ?thesis by (simp only: parse_digits_fold)
qed

lemma padded_digits:
  assumes "ds = js_padStart m (CHR ''0'') (show_nat n)"
  shows "parse_digits ds = n" "\<forall>c \<in> set ds. is_digit c" "m \<le> length ds" "ds \<noteq> []"
proof -
  have "parse_digits (replicate k (CHR ''0'')) = 0" for k
    by (induction k) (simp_all add: parse_digits_def digit_value_def)
  then show "parse_digits ds = n" unfolding assms js_padStart_def parse_digits_append parse_show_nat by simp
  show "\<forall>c \<in> set ds. is_digit c" using is_digit_show by (auto simp: assms js_padStart_def is_digit_def)
  show "m \<le> length ds" by (simp add: assms js_padStart_def)
  show "ds \<noteq> []" by (simp add: assms js_padStart_def show_nat.simps [of n])
qed

lemma digits_span: "\<forall>c \<in> set ds. is_digit c \<Longrightarrow> rest = [] \<or> \<not> is_digit (hd rest) \<Longrightarrow>
    takeWhile is_digit (ds @ rest) = ds \<and> dropWhile is_digit (ds @ rest) = rest"
  by (induction ds) (cases rest; auto)+

text \<open>What follows a number and does not continue it.\<close>

definition ends_number :: "string \<Rightarrow> bool" where
  "ends_number rest \<longleftrightarrow> (case rest of [] \<Rightarrow> True | c # _ \<Rightarrow> \<not> is_digit c \<and> c \<noteq> CHR ''.'' \<and> c \<noteq> CHR ''e'' \<and> c \<noteq> CHR ''E'')"

lemma fixed_digits_shape:
  obtains ip fp where "\<forall>c \<in> set ip. is_digit c" "\<forall>c \<in> set fp. is_digit c" "ip \<noteq> []" "length fp = f"
    "fixed_digits f n = ip @ (if f = 0 then [] else ''.'' @ fp)" "parse_digits ip * 10 ^ f + parse_digits fp = n"
proof (cases "f = 0")
  case True
  have "show_nat n \<noteq> []" by (simp add: show_nat.simps [of n])
  then show thesis
    using that [of "show_nat n" "[]"] True is_digit_show parse_show_nat by (simp add: fixed_digits_def parse_digits_def)
next
  case False
  define ds where "ds = js_padStart (f + 1) (CHR ''0'') (show_nat n)"
  note p = padded_digits [OF ds_def]
  let ?k = "length ds - f"
  have l: "length (drop ?k ds) = f" "take ?k ds \<noteq> []" using p(3,4) by auto
  have "parse_digits (take ?k ds) * 10 ^ f + parse_digits (drop ?k ds) = n"
    using parse_digits_append [of "take ?k ds" "drop ?k ds"] p(1) l(1) by simp
  moreover have "fixed_digits f n = take ?k ds @ ''.'' @ drop ?k ds"
    using False by (simp add: fixed_digits_def ds_def Let_def)
  ultimately show thesis
    using that [of "take ?k ds" "drop ?k ds"] p(2) l False by (auto dest: in_set_takeD in_set_dropD)
qed

lemma exponent_scale_ends: "ends_number rest \<Longrightarrow> exponent_scale rest m = m"
  by (auto simp: ends_number_def exponent_scale_def split: list.splits)

text \<open>\<open>parseFloat\<close> after the sign\<close>

definition read_magnitude :: "number \<Rightarrow> string \<Rightarrow> number option" where
  "read_magnitude sg s =
     (let ip = takeWhile is_digit s; s1 = dropWhile is_digit s;
          (fp, s2) = (case s1 of
                        c # r \<Rightarrow> if c = CHR ''.'' then (takeWhile is_digit r, dropWhile is_digit r) else ([], s1)
                      | [] \<Rightarrow> ([], []))
      in if ip = [] \<and> fp = [] then None
         else Some (sg * exponent_scale s2 (real (parse_digits ip) + real (parse_digits fp) / 10 ^ length fp)))"

lemma parseFloat_magnitude: "take_sign (dropWhile is_ws text) = (sg, s) \<Longrightarrow> js_parseFloat text = read_magnitude sg s"
  by (simp add: js_parseFloat_def read_magnitude_def)

lemma read_fixed_digits:
  assumes "ends_number rest"
  shows "read_magnitude sg (fixed_digits f n @ rest) = Some (sg * (real n / 10 ^ f))"
proof -
  obtain ip fp where d: "\<forall>c \<in> set ip. is_digit c" "\<forall>c \<in> set fp. is_digit c" "ip \<noteq> []" "length fp = f"
    "fixed_digits f n = ip @ (if f = 0 then [] else ''.'' @ fp)" "parse_digits ip * 10 ^ f + parse_digits fp = n"
    by (rule fixed_digits_shape)
  have r: "rest = [] \<or> \<not> is_digit (hd rest)" using assms by (auto simp: ends_number_def split: list.splits)
  have v: "real (parse_digits ip) + real (parse_digits fp) / 10 ^ f = real n / 10 ^ f"
    unfolding d(6) [symmetric] by (simp add: field_simps)
  have dot: "\<not> is_digit (CHR ''.'')" by (simp add: is_digit_def)
  show ?thesis
  proof (cases "f = 0")
    case True
    then have "fixed_digits f n @ rest = ip @ rest" using d(5) by simp
    moreover have "fp = []" using True d(4) by simp
    ultimately show ?thesis
      using True digits_span [OF d(1) r] d(3) v assms exponent_scale_ends [OF assms]
      by (auto simp: read_magnitude_def Let_def ends_number_def parse_digits_def split: list.splits)
  next
    case False
    then have e: "fixed_digits f n @ rest = ip @ CHR ''.'' # (fp @ rest)" using d(5) by simp
    show ?thesis
      unfolding e using digits_span [of ip "CHR ''.'' # (fp @ rest)"] digits_span [OF d(2) r] d(1,3,4) dot v exponent_scale_ends [OF assms]
      by (simp add: read_magnitude_def Let_def)
  qed
qed

lemma fixed_digits_head: "\<exists>c r. fixed_digits f n = c # r \<and> is_digit c"
proof -
  obtain ip fp where "\<forall>c \<in> set ip. is_digit c" "ip \<noteq> []" "fixed_digits f n = ip @ (if f = 0 then [] else ''.'' @ fp)"
    by (rule fixed_digits_shape)
  then show ?thesis by (cases ip) auto
qed

text \<open>The number a format shows.\<close>

definition js_fixed :: "nat \<Rightarrow> number \<Rightarrow> number" where
  "js_fixed f x = (if x < 0 then - (real (fixed_nat f (- x)) / 10 ^ f) else real (fixed_nat f x) / 10 ^ f)"

lemma read_toFixed:
  assumes "ends_number rest"
  shows "js_parseFloat (js_toFixed f x @ rest) = Some (js_fixed f x)"
    "0 \<le> x \<Longrightarrow> js_parseFloat (CHR ''+'' # js_toFixed f x @ rest) = Some (js_fixed f x)"
proof -
  have sgn: "take_sign (dropWhile is_ws (''-'' @ fixed_digits f n @ rest)) = (- 1, fixed_digits f n @ rest)"
    "take_sign (dropWhile is_ws (CHR ''+'' # fixed_digits f n @ rest)) = (1, fixed_digits f n @ rest)" for n
    by (simp_all add: take_sign_def is_ws_def)
  have pos: "take_sign (dropWhile is_ws (fixed_digits f n @ rest)) = (1, fixed_digits f n @ rest)" for n
    using fixed_digits_head [of f n] by (auto simp: take_sign_def is_ws_def is_digit_def)
  note m = parseFloat_magnitude read_fixed_digits [OF assms]
  show "js_parseFloat (js_toFixed f x @ rest) = Some (js_fixed f x)"
    using m(1) [OF sgn(1)] m(1) [OF pos] m(2) by (simp add: js_toFixed_def js_fixed_def)
  show "js_parseFloat (CHR ''+'' # js_toFixed f x @ rest) = Some (js_fixed f x)" if "0 \<le> x"
    using that m(1) [OF sgn(2)] m(2) by (simp add: js_toFixed_def js_fixed_def)
qed

lemma fixed_nat_near: "0 \<le> x \<Longrightarrow> \<bar>real (fixed_nat f x) / 10 ^ f - x\<bar> \<le> 1 / (2 * 10 ^ f)"
proof -
  assume "0 \<le> x"
  then have "real (fixed_nat f x) = of_int \<lfloor>x * 10 ^ f + 1 / 2\<rfloor>" by (simp add: fixed_nat_def)
  then have "\<bar>real (fixed_nat f x) - x * 10 ^ f\<bar> \<le> 1 / 2" by linarith
  moreover have "real (fixed_nat f x) / 10 ^ f - x = (real (fixed_nat f x) - x * 10 ^ f) / 10 ^ f" by (simp add: field_simps)
  ultimately show ?thesis by (simp add: abs_div field_simps)
qed

lemma js_fixed_near: "\<bar>js_fixed f x - x\<bar> \<le> 1 / (2 * 10 ^ f)"
  using fixed_nat_near [of x f] fixed_nat_near [of "- x" f] by (auto simp: js_fixed_def)

section \<open>Frequencies\<close>

definition formatFrequency :: "number \<Rightarrow> string" where
  "formatFrequency hz =
     (if hz \<ge> 1000000000 then js_toFixed 6 (hz / 1000000000) @ '' GHz''
      else if hz \<ge> 1000000 then js_toFixed 4 (hz / 1000000) @ '' MHz''
      else if hz \<ge> 1000 then js_toFixed 2 (hz / 1000) @ '' kHz''
      else js_toFixed 0 hz @ '' Hz'')"

definition formatDopplerShift :: "number \<Rightarrow> string" where
  "formatDopplerShift hz =
     (let sign = (if hz \<ge> 0 then ''+'' else [])
      in if \<bar>hz\<bar> \<ge> 1000 then sign @ js_toFixed 2 (hz / 1000) @ '' kHz'' else sign @ js_toFixed 0 hz @ '' Hz'')"

definition formatBytes :: "nat \<Rightarrow> string" where
  "formatBytes bytes =
     (if bytes < 1024 then show_nat bytes @ '' B''
      else if bytes < 1024 * 1024 then js_toFixed 1 (real bytes / 1024) @ '' KB''
      else js_toFixed 1 (real bytes / (1024 * 1024)) @ '' MB'')"

text \<open>The unit a frequency is shown in and the number of decimals.\<close>

definition frequency_unit :: "number \<Rightarrow> number \<times> nat" where
  "frequency_unit hz =
     (if hz \<ge> 1000000000 then (1000000000, 6) else if hz \<ge> 1000000 then (1000000, 4)
      else if hz \<ge> 1000 then (1000, 2) else (1, 0))"

lemma unit_ends_number [simp]: "ends_number (CHR '' '' # rest)"
  by (simp add: ends_number_def is_digit_def)

lemma js_fixed_scaled: "0 < u \<Longrightarrow> \<bar>js_fixed f (hz / u) * u - hz\<bar> \<le> u / (2 * 10 ^ f)"
proof -
  assume u: "0 < u"
  have "js_fixed f (hz / u) * u - hz = (js_fixed f (hz / u) - hz / u) * u" using u by (simp add: left_diff_distrib)
  then have "\<bar>js_fixed f (hz / u) * u - hz\<bar> = \<bar>js_fixed f (hz / u) - hz / u\<bar> * u" using u by (simp add: abs_mult)
  also have "\<dots> \<le> 1 / (2 * 10 ^ f) * u" using js_fixed_near [of f "hz / u"] u by (intro mult_right_mono) auto
  finally show ?thesis by simp
qed

text \<open>A frequency and a Doppler shift are shown to half a unit of the last decimal: the number
  that stands in the text, times its unit, is that close to the value, whatever its size and sign.\<close>

theorem formats_read_back:
  "(\<exists>v. js_parseFloat (formatFrequency hz) = Some v \<and>
        \<bar>v * fst (frequency_unit hz) - hz\<bar> \<le> fst (frequency_unit hz) / (2 * 10 ^ snd (frequency_unit hz))) \<and>
   (\<exists>v. js_parseFloat (formatDopplerShift hz) = Some v \<and>
        (if \<bar>hz\<bar> \<ge> 1000 then \<bar>v * 1000 - hz\<bar> \<le> 5 else \<bar>v - hz\<bar> \<le> 1 / 2))"
proof
  have r: "js_parseFloat (js_toFixed f x @ CHR '' '' # rest) = Some (js_fixed f x)" for f x rest
    by (rule read_toFixed) simp
  show "\<exists>v. js_parseFloat (formatFrequency hz) = Some v \<and>
        \<bar>v * fst (frequency_unit hz) - hz\<bar> \<le> fst (frequency_unit hz) / (2 * 10 ^ snd (frequency_unit hz))"
    using js_fixed_scaled [of 1000000000 6 hz] js_fixed_scaled [of 1000000 4 hz] js_fixed_scaled [of 1000 2 hz]
      js_fixed_scaled [of 1 0 hz]
    by (auto simp: formatFrequency_def frequency_unit_def r)
  have p: "js_parseFloat (CHR ''+'' # js_toFixed f x @ CHR '' '' # rest) = Some (js_fixed f x)" if "0 \<le> x" for f x rest
    using that by (intro read_toFixed) simp
  show "\<exists>v. js_parseFloat (formatDopplerShift hz) = Some v \<and>
        (if \<bar>hz\<bar> \<ge> 1000 then \<bar>v * 1000 - hz\<bar> \<le> 5 else \<bar>v - hz\<bar> \<le> 1 / 2)"
    using js_fixed_scaled [of 1000 2 hz] js_fixed_scaled [of 1 0 hz]
    by (cases "0 \<le> hz") (auto simp: formatDopplerShift_def Let_def r p)
qed

section \<open>Formats of the dashboard\<close>

definition ui_formatFrequency :: "(number \<Rightarrow> string) \<Rightarrow> number \<Rightarrow> string" where
  "ui_formatFrequency str hz =
     (if hz \<ge> 1000000000 then js_toFixed 6 (hz / 1000000000) @ '' GHz''
      else if hz \<ge> 1000000 then js_toFixed 4 (hz / 1000000) @ '' MHz''
      else if hz \<ge> 1000 then js_toFixed 2 (hz / 1000) @ '' kHz''
      else str hz @ '' Hz'')"

text \<open>\<open>x % m\<close> for a positive \<open>m\<close>: the remainder has the sign of \<open>x\<close>.\<close>

definition js_rem :: "number \<Rightarrow> number \<Rightarrow> number" where
  "js_rem x m = (if x < 0 then - (- x - m * of_int \<lfloor>- x / m\<rfloor>) else x - m * of_int \<lfloor>x / m\<rfloor>)"

definition ui_formatDuration :: "(number \<Rightarrow> string) \<Rightarrow> number \<Rightarrow> string" where
  "ui_formatDuration str seconds =
     (let hours = \<lfloor>seconds / 3600\<rfloor>; minutes = \<lfloor>js_rem seconds 3600 / 60\<rfloor>; secs = js_rem seconds 60
      in if hours > 0 then show_int hours @ ''h '' @ show_int minutes @ ''m '' @ str secs @ ''s''
         else if minutes > 0 then show_int minutes @ ''m '' @ str secs @ ''s''
         else str secs @ ''s'')"

definition two_digits :: "int \<Rightarrow> string" where
  "two_digits n = js_padStart 2 (CHR ''0'') (show_int n)"

definition ui_formatCountdown :: "int \<Rightarrow> string" where
  "ui_formatCountdown ms =
     (if ms \<le> 0 then ''Starting...''
      else let hours = ms div 3600000; minutes = ms mod 3600000 div 60000; seconds = ms mod 60000 div 1000
           in two_digits hours @ '':'' @ two_digits minutes @ '':'' @ two_digits seconds)"

definition ui_formatDopplerShift :: "number \<Rightarrow> string" where
  "ui_formatDopplerShift hz =
     (let sign = (if hz \<ge> 0 then ''+'' else [])
      in if \<bar>hz\<bar> \<ge> 1000 then sign @ js_toFixed 2 (hz / 1000) @ '' kHz'' else sign @ show_int (js_round hz) @ '' Hz'')"

text \<open>A string is the bytes of its UTF-8 text; the degree sign is two of them.\<close>

definition degree :: string where
  "degree = [CHR 0xC2, CHR 0xB0]"

definition to_upper_char :: "char \<Rightarrow> char" where
  "to_upper_char c = (if (97 :: nat) \<le> of_char c \<and> of_char c \<le> (122 :: nat) then char_of (of_char c - 32 :: nat) else c)"

definition js_toUpperCase :: "string \<Rightarrow> string" where
  "js_toUpperCase = map to_upper_char"

definition cn :: "string option list \<Rightarrow> string" where
  "cn classes = js_join '' '' (filter (\<lambda>c. c \<noteq> []) (List.map_filter (\<lambda>c. c) classes))"

lemma two_digits_parse: "0 \<le> n \<Longrightarrow> parse_digits (two_digits n) = nat n" "0 \<le> n \<Longrightarrow> CHR '':'' \<notin> set (two_digits n)"
proof -
  assume "0 \<le> n"
  then have e: "two_digits n = js_padStart 2 (CHR ''0'') (show_nat (nat n))" by (simp add: two_digits_def show_int_def)
  note p = padded_digits [OF e]
  show "parse_digits (two_digits n) = nat n" by (rule p(1))
  show "CHR '':'' \<notin> set (two_digits n)" using p(2) by (auto simp: is_digit_def)
qed

lemma clock_digits: "ms div 3600000 * 3600 + ms mod 3600000 div 60000 * 60 + ms mod 60000 div 1000 = ms div (1000 :: int)"
proof -
  have step: "x div (b * 1000) * b + x mod (b * 1000) div 1000 = x div (1000 :: int)" if "0 < b" for x b
  proof -
    have "x div 1000 = (x mod (b * 1000) + x div (b * 1000) * b * 1000) div 1000"
      using div_mult_mod_eq [of x "b * 1000"] by (simp add: mult.assoc add.commute)
    also have "\<dots> = x div (b * 1000) * b + x mod (b * 1000) div 1000" by (rule div_mult_self1) simp
    finally show ?thesis by simp
  qed
  have "ms mod 3600000 div 60000 * 60 + ms mod 60000 div 1000 = ms mod 3600000 div 1000"
    using step [of 60 "ms mod 3600000"] by (simp add: mod_mod_cancel)
  then show ?thesis using step [of 3600 ms] by simp
qed

text \<open>The parts of a countdown are its hours, minutes and seconds, and determine the second.\<close>

lemma countdown_reads_back:
  assumes "0 < ms"
  shows "\<exists>h m s. map parse_digits (js_split (CHR '':'') (ui_formatCountdown ms)) = [h, m, s] \<and>
    m < 60 \<and> s < 60 \<and> int (h * 3600 + m * 60 + s) = ms div 1000"
proof -
  define h m s where "h = ms div 3600000" and "m = ms mod 3600000 div 60000" and "s = ms mod 60000 div 1000"
  have n: "0 \<le> h" "0 \<le> m" "0 \<le> s" "m < 60" "s < 60" using assms by (auto simp: h_def m_def s_def)
  have c: "h * 3600 + m * 60 + s = ms div 1000" unfolding h_def m_def s_def by (rule clock_digits)
  have "ui_formatCountdown ms = two_digits h @ CHR '':'' # two_digits m @ CHR '':'' # two_digits s"
    using assms by (simp add: ui_formatCountdown_def Let_def h_def m_def s_def)
  then have "map parse_digits (js_split (CHR '':'') (ui_formatCountdown ms)) = [nat h, nat m, nat s]"
    using n two_digits_parse by (simp add: js_split_append js_split_no_sep)
  moreover have "int (nat h * 3600 + nat m * 60 + nat s) = ms div 1000" unfolding c [symmetric] using n by simp
  moreover have "nat m < 60" "nat s < 60" using n by simp_all
  ultimately show ?thesis by (intro exI [of _ "nat h"] exI [of _ "nat m"] exI [of _ "nat s"]) simp
qed

end
