(* ===== verification/Requests.thy ===== *)
theory Requests
  imports Dashboard Formats
begin

text \<open>
  \<open>src/frontend/src/hooks/useApi.ts\<close> and what the components do with it: the switches and
  the version check of \<open>App.tsx\<close>, \<open>SstvToggle.tsx\<close>, the polling of
  \<open>CaptureGallery.tsx\<close> and of \<open>StatusCards.tsx\<close>.  A request is answered by the
  server of \<open>Web_Server\<close>, fails in the network, or is not answered.
\<close>

section \<open>Requests\<close>

record VersionInfo =
  vi_version :: string
  vi_commit :: string
  vi_buildTime :: "string option"

datatype fetched = Network_error string | Response nat web_payload

record api_hook =
  ah_loading :: bool
  ah_error :: "string option"

text \<open>A body that is not JSON fails with the text of the parser's error.\<close>

definition is_json :: "web_payload \<Rightarrow> bool" where
  "is_json p \<longleftrightarrow> (case p of P_text t \<Rightarrow> False | P_file ct c \<Rightarrow> False | _ \<Rightarrow> True)"

definition response_json :: "string \<Rightarrow> fetched \<Rightarrow> web_payload throwing" where
  "response_json syntaxError r =
     (case r of
        Network_error e \<Rightarrow> Inl e
      | Response n p \<Rightarrow>
          if \<not> (200 \<le> n \<and> n \<le> 299) then Inl (''HTTP '' @ show_nat n) else if is_json p then Inr p else Inl syntaxError)"

definition fetch_begins :: "api_hook \<Rightarrow> api_hook" where
  "fetch_begins h = h\<lparr>ah_loading := True, ah_error := None\<rparr>"

definition fetchJson :: "string \<Rightarrow> fetched \<Rightarrow> api_hook \<Rightarrow> web_payload option \<times> api_hook" where
  "fetchJson syntaxError r h =
     (case response_json syntaxError r of
        Inl e \<Rightarrow> (None, h\<lparr>ah_error := Some e, ah_loading := False\<rparr>)
      | Inr p \<Rightarrow> (Some p, h\<lparr>ah_loading := False\<rparr>))"

text \<open>A request with a body is made and answered the same way.\<close>

definition postJson :: "string \<Rightarrow> fetched \<Rightarrow> api_hook \<Rightarrow> web_payload option \<times> api_hook" where
  "postJson syntaxError r h = fetchJson syntaxError r h"

definition api_get :: "string \<Rightarrow> web_request" where
  "api_get path = \<lparr>wq_method = GET, wq_path = path, wq_limit = None, wq_offset = None, wq_body = None\<rparr>"

definition api_post :: "string \<Rightarrow> bool \<Rightarrow> web_request" where
  "api_post path enabled =
     \<lparr>wq_method = POST, wq_path = path, wq_limit = None, wq_offset = None,
      wq_body = Some \<lparr>bd_enabled = Some enabled, bd_auto = None, bd_frequency = None, bd_bandwidth = None, bd_gain = None,
        bd_fftSize = None, bd_updateRate = None, bd_width = None\<rparr>\<rparr>"

definition api_captures_request :: "int \<Rightarrow> web_request" where
  "api_captures_request limit = (api_get ''/api/captures'')\<lparr>wq_limit := Some limit\<rparr>"

definition getCaptures :: "string \<Rightarrow> fetched \<Rightarrow> api_hook \<Rightarrow> web_capture list \<times> api_hook" where
  "getCaptures se r h =
     (case fetchJson se r h of (Some (P_captures cs), h) \<Rightarrow> (cs, h) | (_, h) \<Rightarrow> ([], h))"

definition getSummary :: "string \<Rightarrow> fetched \<Rightarrow> api_hook \<Rightarrow> capture_summary option \<times> api_hook" where
  "getSummary se r h = (case fetchJson se r h of (Some (P_summary c), h) \<Rightarrow> (Some c, h) | (_, h) \<Rightarrow> (None, h))"

definition ui_getSstvStatus :: "string \<Rightarrow> fetched \<Rightarrow> api_hook \<Rightarrow> SSTVStatus option \<times> api_hook" where
  "ui_getSstvStatus se r h = (case fetchJson se r h of (Some (P_sstv st), h) \<Rightarrow> (Some st, h) | (_, h) \<Rightarrow> (None, h))"

definition toggleSstv :: "string \<Rightarrow> fetched \<Rightarrow> api_hook \<Rightarrow> SSTVStatus option \<times> api_hook" where
  "toggleSstv se r h = (case postJson se r h of (Some (P_sstv st), h) \<Rightarrow> (Some st, h) | (_, h) \<Rightarrow> (None, h))"

definition toggleGroundScan :: "string \<Rightarrow> fetched \<Rightarrow> api_hook \<Rightarrow> SSTVStatus option \<times> api_hook" where
  "toggleGroundScan se r h = (case postJson se r h of (Some (P_sstv st), h) \<Rightarrow> (Some st, h) | (_, h) \<Rightarrow> (None, h))"

definition getConfig :: "string \<Rightarrow> fetched \<Rightarrow> api_hook \<Rightarrow> web_config option \<times> api_hook" where
  "getConfig se r h = (case fetchJson se r h of (Some (P_config c), h) \<Rightarrow> (Some c, h) | (_, h) \<Rightarrow> (None, h))"

text \<open>The version file is whatever JSON it holds: \<open>read_version\<close> is its fields.\<close>

definition getVersion :: "(string option \<Rightarrow> VersionInfo) \<Rightarrow> string \<Rightarrow> fetched \<Rightarrow> api_hook \<Rightarrow> VersionInfo option \<times> api_hook" where
  "getVersion read_version se r h =
     (case fetchJson se r h of (Some (P_version v), h) \<Rightarrow> (Some (read_version v), h) | (_, h) \<Rightarrow> (None, h))"

section \<open>The server answers\<close>

fun reply_to :: "nat \<Rightarrow> web_output list \<Rightarrow> fetched option" where
  "reply_to rid [] = None"
| "reply_to rid (WsSend ws m # out) = reply_to rid out"
| "reply_to rid (HttpReply r n p # out) = (if r = rid then Some (Response n p) else reply_to rid out)"

text \<open>What the server has sent for the request once it was handled.\<close>

definition exchange ::
  "web_env \<Rightarrow> (string \<Rightarrow> string option) \<Rightarrow> bool \<Rightarrow> date \<Rightarrow> nat \<Rightarrow> web_request \<Rightarrow> web \<Rightarrow> web \<times> fetched option" where
  "exchange we decode ok now rid rq s =
     (let s' = web_handle_request we decode ok now rid rq s
      in (s', reply_to rid (drop (length (wb_out s)) (wb_out s'))))"

section \<open>The switches of the header\<close>

record app =
  ap_issEnabled :: bool
  ap_groundEnabled :: bool
  ap_noaaEnabled :: bool
  ap_sstvLoading :: "string option"
  ap_version :: "VersionInfo option"
  ap_reloads :: nat

definition app_initial :: app where
  "app_initial = \<lparr>ap_issEnabled = False, ap_groundEnabled = True, ap_noaaEnabled = True, ap_sstvLoading = None,
     ap_version = None, ap_reloads = 0\<rparr>"

text \<open>The status that was asked for on the first display, and every status that is pushed.\<close>

definition app_sstv_status :: "SSTVStatus option \<Rightarrow> app \<Rightarrow> app" where
  "app_sstv_status r a =
     (case r of
        None \<Rightarrow> a
      | Some st \<Rightarrow> a\<lparr>ap_issEnabled := ss_enabled st, ap_groundEnabled := ss_groundScanEnabled st\<rparr>)"

definition handleIssToggle :: "app \<Rightarrow> web_request \<times> app" where
  "handleIssToggle a = (api_post ''/api/sstv/toggle'' (\<not> ap_issEnabled a), a\<lparr>ap_sstvLoading := Some ''iss''\<rparr>)"

definition iss_toggled :: "SSTVStatus option \<Rightarrow> app \<Rightarrow> app" where
  "iss_toggled r a =
     (let a = (case r of None \<Rightarrow> a | Some st \<Rightarrow> a\<lparr>ap_issEnabled := ss_enabled st\<rparr>) in a\<lparr>ap_sstvLoading := None\<rparr>)"

definition handleGroundToggle :: "app \<Rightarrow> web_request \<times> app" where
  "handleGroundToggle a =
     (api_post ''/api/sstv/ground-scan/toggle'' (\<not> ap_groundEnabled a), a\<lparr>ap_sstvLoading := Some ''ground''\<rparr>)"

definition ground_toggled :: "SSTVStatus option \<Rightarrow> app \<Rightarrow> app" where
  "ground_toggled r a =
     (let a = (case r of None \<Rightarrow> a | Some st \<Rightarrow> a\<lparr>ap_groundEnabled := ss_groundScanEnabled st\<rparr>) in a\<lparr>ap_sstvLoading := None\<rparr>)"

definition handleNoaaToggle :: "app \<Rightarrow> app" where
  "handleNoaaToggle a = a\<lparr>ap_noaaEnabled := \<not> ap_noaaEnabled a\<rparr>"

definition app_version_fetched :: "VersionInfo option \<Rightarrow> app \<Rightarrow> app" where
  "app_version_fetched r a = a\<lparr>ap_version := r\<rparr>"

definition app_checkVersion :: "VersionInfo option \<Rightarrow> app \<Rightarrow> app" where
  "app_checkVersion r a =
     (case (r, ap_version a) of
        (Some v, Some cur) \<Rightarrow> if vi_version v \<noteq> vi_version cur then a\<lparr>ap_reloads := ap_reloads a + 1\<rparr> else a
      | _ \<Rightarrow> a)"

section \<open>The settings panel\<close>

record sstv_toggle =
  tg_isLoading :: bool
  tg_isLoadingGround :: bool
  tg_enabled :: bool
  tg_groundScanEnabled :: bool
  tg_initialLoaded :: bool

definition toggle_initial :: sstv_toggle where
  "toggle_initial = \<lparr>tg_isLoading = False, tg_isLoadingGround = False, tg_enabled = False, tg_groundScanEnabled = True,
     tg_initialLoaded = False\<rparr>"

definition tg_show :: "SSTVStatus \<Rightarrow> sstv_toggle \<Rightarrow> sstv_toggle" where
  "tg_show st t = t\<lparr>tg_enabled := ss_enabled st, tg_groundScanEnabled := ss_groundScanEnabled st\<rparr>"

definition fetchInitialStatus :: "SSTVStatus option \<Rightarrow> sstv_toggle \<Rightarrow> sstv_toggle" where
  "fetchInitialStatus r t = (case r of None \<Rightarrow> t | Some st \<Rightarrow> (tg_show st t)\<lparr>tg_initialLoaded := True\<rparr>)"

definition tg_pushed :: "SSTVStatus option \<Rightarrow> sstv_toggle \<Rightarrow> sstv_toggle" where
  "tg_pushed pushed t = (case pushed of Some st \<Rightarrow> if tg_initialLoaded t then tg_show st t else t | None \<Rightarrow> t)"

definition tg_handleToggle :: "sstv_toggle \<Rightarrow> web_request \<times> sstv_toggle" where
  "tg_handleToggle t = (api_post ''/api/sstv/toggle'' (\<not> tg_enabled t), t\<lparr>tg_isLoading := True\<rparr>)"

text \<open>With the status that \<open>onToggle\<close> is called with.\<close>

definition tg_toggled :: "SSTVStatus option \<Rightarrow> sstv_toggle \<Rightarrow> sstv_toggle \<times> bool option" where
  "tg_toggled r t =
     (case r of
        None \<Rightarrow> (t\<lparr>tg_isLoading := False\<rparr>, None)
      | Some st \<Rightarrow> (t\<lparr>tg_enabled := ss_enabled st, tg_isLoading := False\<rparr>, Some (ss_enabled st)))"

definition tg_handleGroundScanToggle :: "sstv_toggle \<Rightarrow> web_request \<times> sstv_toggle" where
  "tg_handleGroundScanToggle t =
     (api_post ''/api/sstv/ground-scan/toggle'' (\<not> tg_groundScanEnabled t), t\<lparr>tg_isLoadingGround := True\<rparr>)"

definition tg_ground_toggled :: "SSTVStatus option \<Rightarrow> sstv_toggle \<Rightarrow> sstv_toggle" where
  "tg_ground_toggled r t =
     (let t = (case r of None \<Rightarrow> t | Some st \<Rightarrow> t\<lparr>tg_groundScanEnabled := ss_groundScanEnabled st\<rparr>)
      in t\<lparr>tg_isLoadingGround := False\<rparr>)"

definition tg_labels :: "SSTVStatus option \<Rightarrow> sstv_toggle \<Rightarrow> string \<times> string \<times> string \<times> string" where
  "tg_labels pushed t =
     (let isActive = map_option ss_status pushed = Some SCapturing; isScanning = map_option ss_status pushed = Some SScanning;
          onoff = (\<lambda>b. if b then ''Enabled'' else ''Disabled'')
      in (if isActive then ''Capturing'' else onoff (tg_enabled t),
          if tg_isLoading t then ''Updating...'' else onoff (tg_enabled t),
          if isScanning then ''Scanning'' else onoff (tg_groundScanEnabled t),
          if tg_isLoadingGround t then ''Updating...'' else onoff (tg_groundScanEnabled t)))"

section \<open>The gallery\<close>

record gallery =
  gl_captures :: "web_capture list"
  gl_selectedImage :: "string option"
  gl_loading :: bool

definition gallery_initial :: gallery where
  "gallery_initial = \<lparr>gl_captures = [], gl_selectedImage = None, gl_loading = True\<rparr>"

definition fetchCaptures :: "web_capture list \<Rightarrow> gallery \<Rightarrow> gallery" where
  "fetchCaptures cs g = g\<lparr>gl_captures := cs, gl_loading := False\<rparr>"

definition select_capture :: "web_capture \<Rightarrow> gallery \<Rightarrow> gallery" where
  "select_capture c g =
     (case first (che_imagePaths (wc_entry c)) of
        Some q \<Rightarrow> if q = [] then g else g\<lparr>gl_selectedImage := Some q\<rparr> | None \<Rightarrow> g)"

definition close_lightbox :: "gallery \<Rightarrow> gallery" where
  "close_lightbox g = g\<lparr>gl_selectedImage := None\<rparr>"

text \<open>\<open>encode\<close> is \<open>encodeURIComponent\<close>.\<close>

definition image_src :: "(string \<Rightarrow> string) \<Rightarrow> string \<Rightarrow> string" where
  "image_src encode path = ''/api/images/'' @ encode (last (js_split (CHR ''/'') path))"

definition card_src :: "(string \<Rightarrow> string) \<Rightarrow> web_capture \<Rightarrow> string option" where
  "card_src encode c = map_option (image_src encode) (first (che_imagePaths (wc_entry c)))"

definition lightbox_src :: "(string \<Rightarrow> string) \<Rightarrow> gallery \<Rightarrow> string option" where
  "lightbox_src encode g =
     (case gl_selectedImage g of Some q \<Rightarrow> if q = [] then None else Some (image_src encode q) | None \<Rightarrow> None)"

definition gallery_text :: "gallery \<Rightarrow> string option" where
  "gallery_text g = (if gl_loading g then None else if gl_captures g = [] then Some ''No captures yet'' else Some ''Recent Captures'')"

section \<open>The cards\<close>

record status_cards =
  sc_summary :: "capture_summary option"
  sc_config :: "web_config option"
  sc_countdown :: string

definition cards_fetchData :: "capture_summary option \<Rightarrow> web_config option \<Rightarrow> status_cards \<Rightarrow> status_cards" where
  "cards_fetchData summaryData configData c =
     (let c = (if summaryData \<noteq> None then c\<lparr>sc_summary := summaryData\<rparr> else c)
      in if configData \<noteq> None then c\<lparr>sc_config := configData\<rparr> else c)"

definition cards_updateCountdown :: "date \<Rightarrow> SatellitePass option \<Rightarrow> status_cards \<Rightarrow> status_cards" where
  "cards_updateCountdown now next c =
     c\<lparr>sc_countdown := (case next of None \<Rightarrow> ''-'' | Some pass \<Rightarrow> ui_formatCountdown (pass_aos pass - now))\<rparr>"

definition cards_statistics :: "status_cards \<Rightarrow> nat \<times> nat \<times> nat" where
  "cards_statistics c =
     (case sc_summary c of None \<Rightarrow> (0, 0, 0) | Some x \<Rightarrow> (cs_total x, cs_successful x, cs_failed x))"

section \<open>A switch and the server\<close>

lemma reply_to_append: "reply_to rid (xs @ ys) = (case reply_to rid xs of None \<Rightarrow> reply_to rid ys | Some r \<Rightarrow> Some r)"
  by (induction rid xs rule: reply_to.induct) simp_all

text \<open>A broadcast sends messages only.\<close>

lemma to_clients_out: "\<exists>out. wb_out (to_clients takes m s) = wb_out s @ out \<and> reply_to rid out = None"
proof -
  have "\<exists>out. wb_out (fold (\<lambda>w s. if takes w then wemit (WsSend w m) s
      else s\<lparr>wb_clients := set_delete w (wb_clients s)\<rparr>) xs s) = wb_out s @ out \<and> reply_to rid out = None" for xs s
  proof (induction xs arbitrary: s)
    case (Cons w xs)
    let ?s = "if takes w then wemit (WsSend w m) s else s\<lparr>wb_clients := set_delete w (wb_clients s)\<rparr>"
    obtain out where "wb_out (fold (\<lambda>w s. if takes w then wemit (WsSend w m) s
      else s\<lparr>wb_clients := set_delete w (wb_clients s)\<rparr>) xs ?s) = wb_out ?s @ out" "reply_to rid out = None"
      using Cons.IH [of ?s] by blast
    then show ?case by (intro exI [of _ "(if takes w then [WsSend w m] else []) @ out"]) (simp add: wemit_def)
  qed simp
  then show ?thesis by (simp add: to_clients_def)
qed

lemma json_reply_after_broadcast:
  "reply_to rid (drop (length (wb_out s)) (wb_out (jsonResponseNode rid p (to_clients takes m s)))) = Some (Response 200 p)"
proof -
  obtain out where "wb_out (to_clients takes m s) = wb_out s @ out" "reply_to rid out = None"
    using to_clients_out [where rid = rid] by blast
  then show ?thesis by (simp add: jsonResponseNode_def wemit_def reply_to_append)
qed

lemma to_clients_sstv [simp]: "wb_sstv (to_clients takes m s) = wb_sstv s"
proof -
  have "wb_sstv (fold (\<lambda>w s. if takes w then wemit (WsSend w m) s
      else s\<lparr>wb_clients := set_delete w (wb_clients s)\<rparr>) xs s) = wb_sstv s" for xs s
    by (induction xs arbitrary: s) (simp_all add: wemit_def)
  then show ?thesis by (simp add: to_clients_def)
qed

lemma post_toggle_routes:
  "web_handle_request we decode ok now rid (api_post ''/api/sstv/toggle'' b) s =
     api_sstv_toggle we now rid (the (wq_body (api_post ''/api/sstv/toggle'' b))) s"
  "web_handle_request we decode ok now rid (api_post ''/api/sstv/ground-scan/toggle'' b) s =
     api_ground_toggle we now rid (the (wq_body (api_post ''/api/sstv/ground-scan/toggle'' b))) s"
  by (simp_all add: web_handle_request_def api_post_def read_body_def js_startsWith_def)

lemma post_toggle_exchange:
  "exchange we decode ok now rid (api_post ''/api/sstv/toggle'' b) s = (s', r) \<Longrightarrow>
     wb_sstv s' = setManualSstvEnabled b (wb_sstv s) \<and> r = Some (Response 200 (P_sstv (getSstvStatus now (wb_sstv s'))))"
  "exchange we decode ok now rid (api_post ''/api/sstv/ground-scan/toggle'' b) s = (s', r) \<Longrightarrow>
     wb_sstv s' = setGroundSstvScanEnabled b (wb_sstv s) \<and> r = Some (Response 200 (P_sstv (getSstvStatus now (wb_sstv s'))))"
  using json_reply_after_broadcast [of rid "s\<lparr>wb_sstv := setManualSstvEnabled b (wb_sstv s)\<rparr>"]
    json_reply_after_broadcast [of rid "s\<lparr>wb_sstv := setGroundSstvScanEnabled b (wb_sstv s)\<rparr>"]
  unfolding exchange_def Let_def post_toggle_routes
  by (auto simp: api_post_def api_sstv_toggle_def api_ground_toggle_def broadcastSstvStatus_def Let_def)
    (simp_all add: jsonResponseNode_def wemit_def)

lemma read_sstv_reply:
  "fst (toggleSstv se (Response 200 (P_sstv st)) h) = Some st" "fst (toggleGroundScan se (Response 200 (P_sstv st)) h) = Some st"
  by (simp_all add: toggleSstv_def toggleGroundScan_def postJson_def fetchJson_def response_json_def is_json_def)

text \<open>C22: A switch of the header asks the server for the opposite of what it shows, the server does
  it, and the switch then shows the server's answer.  For the ground scan that is what was asked for;
  for the space station it is whether its signal is to be captured now, so that the switch stays on
  while an event of the calendar is active, however it is flipped.\<close>

theorem switches_follow_server:
  "(let (rq, a1) = handleIssToggle a; (s', r) = exchange we decode ok now rid rq s;
       a' = iss_toggled (Option.bind r (\<lambda>x. fst (toggleSstv se x h))) a1
   in sm_manualSstvEnabled (wb_sstv s') = (\<not> ap_issEnabled a) \<and> ap_sstvLoading a' = None \<and>
      ap_issEnabled a' = (if ap_issEnabled a then getActiveEvent now (wb_sstv s) \<noteq> None else True)) \<and>
   (let (rq, a1) = handleGroundToggle a; (s', r) = exchange we decode ok now rid rq s;
       a' = ground_toggled (Option.bind r (\<lambda>x. fst (toggleGroundScan se x h))) a1
   in sm_groundSstvScanEnabled (wb_sstv s') = (\<not> ap_groundEnabled a) \<and> ap_sstvLoading a' = None \<and>
      ap_groundEnabled a' = (\<not> ap_groundEnabled a))"
proof
  obtain s' r where e: "exchange we decode ok now rid (api_post ''/api/sstv/toggle'' (\<not> ap_issEnabled a)) s = (s', r)"
    by (cases "exchange we decode ok now rid (api_post ''/api/sstv/toggle'' (\<not> ap_issEnabled a)) s")
  then show "let (rq, a1) = handleIssToggle a; (s', r) = exchange we decode ok now rid rq s;
       a' = iss_toggled (Option.bind r (\<lambda>x. fst (toggleSstv se x h))) a1
   in sm_manualSstvEnabled (wb_sstv s') = (\<not> ap_issEnabled a) \<and> ap_sstvLoading a' = None \<and>
      ap_issEnabled a' = (if ap_issEnabled a then getActiveEvent now (wb_sstv s) \<noteq> None else True)"
    using post_toggle_exchange(1) [OF e]
    by (simp add: handleIssToggle_def Let_def read_sstv_reply iss_toggled_def getSstvStatus_def isSstvActive_def
        getActiveEvent_def setManualSstvEnabled_def)
next
  obtain s' r where e: "exchange we decode ok now rid (api_post ''/api/sstv/ground-scan/toggle'' (\<not> ap_groundEnabled a)) s = (s', r)"
    by (cases "exchange we decode ok now rid (api_post ''/api/sstv/ground-scan/toggle'' (\<not> ap_groundEnabled a)) s")
  then show "let (rq, a1) = handleGroundToggle a; (s', r) = exchange we decode ok now rid rq s;
       a' = ground_toggled (Option.bind r (\<lambda>x. fst (toggleGroundScan se x h))) a1
   in sm_groundSstvScanEnabled (wb_sstv s') = (\<not> ap_groundEnabled a) \<and> ap_sstvLoading a' = None \<and>
      ap_groundEnabled a' = (\<not> ap_groundEnabled a)"
    using post_toggle_exchange(2) [OF e]
    by (simp add: handleGroundToggle_def Let_def read_sstv_reply ground_toggled_def getSstvStatus_def setGroundSstvScanEnabled_def)
qed

text \<open>A request that fails leaves the switch as it was, and lets it be used again.\<close>

lemma failed_toggle_keeps: "iss_toggled None a = a\<lparr>ap_sstvLoading := None\<rparr>" "ground_toggled None a = a\<lparr>ap_sstvLoading := None\<rparr>"
  "fst (tg_toggled None t) = t\<lparr>tg_isLoading := False\<rparr>" "tg_ground_toggled None t = t\<lparr>tg_isLoadingGround := False\<rparr>"
  by (simp_all add: iss_toggled_def ground_toggled_def tg_toggled_def tg_ground_toggled_def)

text \<open>The settings panel and the header agree once both have seen the same status.\<close>

lemma panel_agrees_with_header:
  assumes "tg_initialLoaded t"
  shows "tg_enabled (tg_pushed (Some st) t) = ap_issEnabled (app_sstv_status (Some st) a)"
    "tg_groundScanEnabled (tg_pushed (Some st) t) = ap_groundEnabled (app_sstv_status (Some st) a)"
  using assms by (simp_all add: tg_pushed_def tg_show_def app_sstv_status_def)

section \<open>The gallery and the server\<close>

lemma resolve_file:
  assumes "plain_segs (segs @ [f])" "segs \<noteq> []"
  shows "path_resolve (abs_path segs) f = abs_path (segs @ [f])"
proof -
  have f: "CHR ''/'' \<notin> set f" "f \<noteq> []" "f \<noteq> ''.''" "f \<noteq> ''..''" and p: "plain_segs segs"
    using assms(1) by (auto simp: plain_segs_def)
  have "js_split (CHR ''/'') (abs_path segs @ ''/'' @ f) = [] # segs @ [f]"
    using js_split_sep [of "CHR ''/''" "abs_path segs" f] split_abs_path [OF p assms(2)] f(1) by (simp add: js_split_no_sep)
  moreover have "normalize_segs True [] ([] # segs @ [f]) = segs @ [f]"
    using assms(1) filter_plain [OF assms(1)] by (subst normalize_plain) (auto simp: plain_segs_def)
  moreover have "\<not> js_startsWith f ''/''" using f(1) by (cases f) (auto simp: js_startsWith_def)
  ultimately show ?thesis by (simp add: path_resolve_def Let_def abs_path_def)
qed

lemma image_route:
  assumes "decode (encode f) = Some f" "last (js_split (CHR ''/'') q) = f"
  shows "web_handle_request we decode ok now rid (api_get (image_src encode q)) s = serveImageNode we rid f s"
  using assms by (simp add: web_handle_request_def api_get_def image_src_def js_startsWith_def Let_def)

text \<open>C23: The picture of a capture in the gallery is the file of that name below the server's directory of
  images: whatever directory the stored path names, the request for the card's picture is answered
  with the file, if decoding a name undoes encoding it and the name has no two dots in a row.\<close>

theorem gallery_image_served:
  assumes "decode (encode f) = Some f" "che_imagePaths (wc_entry c) = q # qs" "last (js_split (CHR ''/'') q) = f"
    and "we_imagesDir we = abs_path segs" "segs \<noteq> []" "plain_segs (segs @ [f])" "\<not> js_includes f ''..''"
    and "we_read we (abs_path (segs @ [f])) = Inr (Some content)" "card_src encode c = Some src"
  shows "exchange we decode ok now rid (api_get src) s =
    (wemit (HttpReply rid 200 (P_file ''image/png'' content)) s, Some (Response 200 (P_file ''image/png'' content)))"
proof -
  have "src = image_src encode q" using assms(2,9) by (simp add: card_src_def)
  then have "web_handle_request we decode ok now rid (api_get src) s = wemit (HttpReply rid 200 (P_file ''image/png'' content)) s"
    using image_route [of decode encode f q] assms resolve_file [OF assms(6,5)] by (simp add: serveImageNode_def serve_file_def)
  then show ?thesis by (simp add: exchange_def Let_def wemit_def)
qed

definition demo_entry :: CaptureHistoryEntry where
  "demo_entry = \<lparr>che_id = 1, che_passId = ''p'', che_satelliteName = ''ISS'', che_satelliteNoradId = 25544, che_frequency = 145800000,
     che_signalType = ''sstv'', che_aosTime = [], che_losTime = [], che_maxElevation = 40, che_durationSeconds = 600,
     che_recordingPath = None, che_startTime = [], che_endTime = None, che_maxSignalStrength = None, che_success = True,
     che_errorMessage = None, che_createdAt = [], che_imagePaths = [''./images/a.png'']\<rparr>"

definition demo_card :: web_capture where
  "demo_card = \<lparr>wc_entry = demo_entry, wc_satellite = ''ISS'', wc_timestamp = []\<rparr>"

theorem gallery_image_served_witness:
  "snd (exchange (demo_web_env\<lparr>we_read := \<lambda>p. if p = ''/app/images/a.png'' then Inr (Some ''PNG'') else Inr None\<rparr>) Some True 0 1
     (api_get ''/api/images/a.png'') demo_web) = Some (Response 200 (P_file ''image/png'' ''PNG''))"
proof -
  let ?we = "demo_web_env\<lparr>we_read := \<lambda>p. if p = ''/app/images/a.png'' then Inr (Some ''PNG'') else Inr None\<rparr>"
  have e: "abs_path [''app'', ''images''] = ''/app/images''" "abs_path [''app'', ''images'', ''a.png''] = ''/app/images/a.png''"
    by (simp_all add: abs_path_def)
  have d: "\<not> js_includes ''a.png'' ''..''" by (simp add: js_includes_def sublist_code)
  have "exchange ?we Some True 0 1 (api_get ''/api/images/a.png'') demo_web =
      (wemit (HttpReply 1 200 (P_file ''image/png'' ''PNG'')) demo_web, Some (Response 200 (P_file ''image/png'' ''PNG'')))"
    by (rule gallery_image_served [where encode = "\<lambda>x. x" and f = "''a.png''" and c = demo_card and segs = "[''app'', ''images'']"
          and q = "''./images/a.png''" and qs = "[]"])
      (use d in \<open>simp_all add: demo_card_def demo_entry_def card_src_def image_src_def e plain_segs_def demo_web_env_def\<close>)
  then show ?thesis by simp
qed

text \<open>
  A poll that fails empties the gallery, which then says that there are no captures, while the
  cards keep what they last got.
\<close>

lemma failed_poll:
  assumes "response_json se r = Inl e"
  shows "gl_captures (fetchCaptures (fst (getCaptures se r h)) g) = []"
    "gallery_text (fetchCaptures (fst (getCaptures se r h)) g) = Some ''No captures yet''"
    "cards_fetchData (fst (getSummary se r h)) (fst (getConfig se r h)) c = c" "ah_error (snd (getCaptures se r h)) = Some e"
  using assms by (simp_all add: getCaptures_def getSummary_def getConfig_def fetchJson_def fetchCaptures_def gallery_text_def cards_fetchData_def)

text \<open>The METEOR switch asks nothing of the server: whether those passes are captured does not depend on it.\<close>

lemma noaa_toggle_is_local:
  "fst (handleIssToggle (handleNoaaToggle a)) = fst (handleIssToggle a)" "fst (handleGroundToggle (handleNoaaToggle a)) = fst (handleGroundToggle a)"
  "handleNoaaToggle (handleNoaaToggle a) = a"
  by (simp_all add: handleNoaaToggle_def handleIssToggle_def handleGroundToggle_def)

end
