(* ===== verification/Doppler.thy ===== *)
theory Doppler
  imports NW_Types
begin

text \<open>
  \<open>src/backend/prediction/doppler.ts\<close>: radial velocity by finite differences and the
  Doppler shift of a list of positions.  The time stamps are \<open>Date\<close> objects read
  through \<open>getTime\<close>, which is a parameter here: the identity for positions that own
  their time stamp, the lookup in the object store for positions that share one.
\<close>

definition SPEED_OF_LIGHT :: number where
  "SPEED_OF_LIGHT = 299792458"

definition seconds_between :: "('d \<Rightarrow> date) \<Rightarrow> 'd SatellitePosition \<Rightarrow> 'd SatellitePosition \<Rightarrow> number" where
  "seconds_between getTime p q = of_int (getTime (pos_timestamp q) - getTime (pos_timestamp p)) / 1000"

definition calculateRadialVelocity ::
  "('d \<Rightarrow> date) \<Rightarrow> 'd SatellitePosition option \<Rightarrow> 'd SatellitePosition \<Rightarrow> 'd SatellitePosition option \<Rightarrow> number"
where
  "calculateRadialVelocity getTime prev current nxt =
     (let from_prev =
            (case prev of
               Some p \<Rightarrow>
                 (let dt = seconds_between getTime p current in
                  if dt \<noteq> 0 then (pos_rangeSat current - pos_rangeSat p) * 1000 / dt else 0)
             | None \<Rightarrow> 0)
      in case nxt of
           Some n \<Rightarrow>
             (let dt = seconds_between getTime current n in
              if dt \<noteq> 0 then (pos_rangeSat n - pos_rangeSat current) * 1000 / dt else from_prev)
         | None \<Rightarrow> from_prev)"

definition velocity_at :: "('d \<Rightarrow> date) \<Rightarrow> 'd SatellitePosition list \<Rightarrow> nat \<Rightarrow> number" where
  "velocity_at getTime arr index =
     calculateRadialVelocity getTime (elem_at arr (int index - 1)) (arr ! index) (elem_at arr (int index + 1))"

definition doppler_point :: "('d \<Rightarrow> date) \<Rightarrow> number \<Rightarrow> 'd SatellitePosition list \<Rightarrow> nat \<Rightarrow> 'd DopplerPoint" where
  "doppler_point getTime baseFrequency arr index =
     (let velocity = velocity_at getTime arr index;
          shift = - baseFrequency * (velocity / SPEED_OF_LIGHT)
      in \<lparr>dp_timestamp = pos_timestamp (arr ! index), dp_frequency = baseFrequency + shift,
          dp_shift = shift\<rparr>)"

text \<open>The running extrema; \<open>None\<close> is the infinity they start from.\<close>

fun upd_max :: "number \<Rightarrow> number option \<Rightarrow> number option" where
  "upd_max shift None = Some shift"
| "upd_max shift (Some m) = (if shift > m then Some shift else Some m)"

fun upd_min :: "number \<Rightarrow> number option \<Rightarrow> number option" where
  "upd_min shift None = Some shift"
| "upd_min shift (Some m) = (if shift < m then Some shift else Some m)"

definition calculateDopplerShift :: "('d \<Rightarrow> date) \<Rightarrow> number \<Rightarrow> 'd SatellitePosition list \<Rightarrow> 'd DopplerData" where
  "calculateDopplerShift getTime baseFrequency positions =
     (if positions = [] then \<lparr>dd_points = [], dd_maxShift = 0, dd_minShift = 0\<rparr>
      else
        let points = map (doppler_point getTime baseFrequency positions) [0..<length positions];
            shifts = map dp_shift points
        in \<lparr>dd_points = points,
            dd_maxShift = or_else (fold upd_max shifts None) 0,
            dd_minShift = or_else (fold upd_min shifts None) 0\<rparr>)"

section \<open>Lemmas\<close>

lemma fold_upd_max_Some: "fold upd_max xs (Some m) = Some (Max (insert m (set xs)))"
proof (induction xs arbitrary: m)
  case (Cons x xs)
  have "fold upd_max (x # xs) (Some m) = Some (Max (insert (max m x) (set xs)))"
    using Cons.IH by (simp add: max_def)
  also have "Max (insert (max m x) (set xs)) = Max (insert m (set (x # xs)))"
    by (cases "xs = []") (simp_all add: max.assoc)
  finally show ?case .
qed simp

lemma fold_upd_min_Some: "fold upd_min xs (Some m) = Some (Min (insert m (set xs)))"
proof (induction xs arbitrary: m)
  case (Cons x xs)
  have "fold upd_min (x # xs) (Some m) = Some (Min (insert (min m x) (set xs)))"
    using Cons.IH by (simp add: min_def)
  also have "Min (insert (min m x) (set xs)) = Min (insert m (set (x # xs)))"
    by (cases "xs = []") (simp_all add: min.assoc)
  finally show ?case .
qed simp

lemma fold_upd_max: "xs \<noteq> [] \<Longrightarrow> fold upd_max xs None = Some (Max (set xs))"
  by (cases xs) (simp_all add: fold_upd_max_Some)

lemma fold_upd_min: "xs \<noteq> [] \<Longrightarrow> fold upd_min xs None = Some (Min (set xs))"
  by (cases xs) (simp_all add: fold_upd_min_Some)

lemma doppler_extrema:
  assumes "positions \<noteq> []"
  shows "dd_maxShift (calculateDopplerShift g f positions) = Max (dp_shift ` set (dd_points (calculateDopplerShift g f positions)))"
    and "dd_minShift (calculateDopplerShift g f positions) = Min (dp_shift ` set (dd_points (calculateDopplerShift g f positions)))"
  using assms
  by (simp_all add: calculateDopplerShift_def Let_def fold_upd_max fold_upd_min image_image)

lemma doppler_points_length: "length (dd_points (calculateDopplerShift g f ps)) = length ps"
  by (simp add: calculateDopplerShift_def Let_def)

text \<open>A satellite whose range shrinks from sample to sample has a negative radial velocity everywhere.\<close>

lemma velocity_at_approaching:
  assumes asc: "\<And>i j. i < j \<Longrightarrow> j < length ps \<Longrightarrow> getTime (pos_timestamp (ps ! i)) < getTime (pos_timestamp (ps ! j))"
    and desc: "\<And>i j. i < j \<Longrightarrow> j < length ps \<Longrightarrow> pos_rangeSat (ps ! j) < pos_rangeSat (ps ! i)"
    and "2 \<le> length ps" "i < length ps"
  shows "velocity_at getTime ps i < 0"
proof (cases "Suc i < length ps")
  case True
  have n: "elem_at ps (int i + 1) = Some (ps ! Suc i)"
    using True by (auto simp: elem_at_def nat_add_distrib)
  have "0 < seconds_between getTime (ps ! i) (ps ! Suc i)"
    using asc [of i "Suc i"] True by (simp add: seconds_between_def)
  moreover have "(pos_rangeSat (ps ! Suc i) - pos_rangeSat (ps ! i)) * 1000 < 0"
    using desc [of i "Suc i"] True by simp
  ultimately show ?thesis
    by (simp add: velocity_at_def calculateRadialVelocity_def n Let_def divide_neg_pos)
next
  case False
  then have n: "elem_at ps (int i + 1) = None" by (auto simp: elem_at_def)
  have "0 < i" using False assms(3,4) by simp
  then have p: "elem_at ps (int i - 1) = Some (ps ! (i - 1))"
    using assms(4) by (auto simp: elem_at_def nat_diff_distrib)
  have "0 < seconds_between getTime (ps ! (i - 1)) (ps ! i)"
    using asc [of "i - 1" i] \<open>0 < i\<close> assms(4) by (simp add: seconds_between_def)
  moreover have "(pos_rangeSat (ps ! i) - pos_rangeSat (ps ! (i - 1))) * 1000 < 0"
    using desc [of "i - 1" i] \<open>0 < i\<close> assms(4) by simp
  ultimately show ?thesis
    by (simp add: velocity_at_def calculateRadialVelocity_def n p Let_def divide_neg_pos)
qed

text \<open>Equal time stamps give no velocity at all.\<close>

lemma velocity_at_same_time:
  assumes "\<And>p. p \<in> set ps \<Longrightarrow> getTime (pos_timestamp p) = t" "i < length ps"
  shows "velocity_at getTime ps i = 0"
proof -
  have "seconds_between getTime p q = 0" if "p \<in> set ps" "q \<in> set ps" for p q
    using assms(1) that by (simp add: seconds_between_def)
  then show ?thesis
    using assms(2) elem_at_in_set [of ps "int i + 1"] elem_at_in_set [of ps "int i - 1"]
    by (auto simp: velocity_at_def calculateRadialVelocity_def Let_def split: option.splits)
qed

text \<open>A satellite that comes nearer from sample to sample is received above its
  nominal frequency at every sample; the reported extremes bound every shift, and there
  is one point per position.\<close>

theorem doppler_approaching:
  assumes "sorted_wrt (\<lambda>p q. getTime (pos_timestamp p) < getTime (pos_timestamp q) \<and>
      pos_rangeSat q < pos_rangeSat p) ps"
    and "2 \<le> length ps" "0 < f"
  shows "length (dd_points (calculateDopplerShift getTime f ps)) = length ps \<and>
    (\<forall>pt \<in> set (dd_points (calculateDopplerShift getTime f ps)).
       0 < dp_shift pt \<and> dp_frequency pt = f + dp_shift pt \<and>
       dd_minShift (calculateDopplerShift getTime f ps) \<le> dp_shift pt \<and>
       dp_shift pt \<le> dd_maxShift (calculateDopplerShift getTime f ps))"
proof -
  have v: "velocity_at getTime ps i < 0" if "i < length ps" for i
    by (rule velocity_at_approaching) (use assms that in \<open>auto simp: sorted_wrt_iff_nth_less\<close>)
  have "0 < dp_shift (doppler_point getTime f ps i)" if "i < length ps" for i
    using v [OF that] assms(3)
    by (simp add: doppler_point_def Let_def SPEED_OF_LIGHT_def mult_pos_neg)
  moreover have "ps \<noteq> []" using assms(2) by auto
  ultimately show ?thesis
    using doppler_extrema [of ps getTime f] doppler_points_length [of getTime f ps]
    by (auto simp: calculateDopplerShift_def Let_def doppler_point_def)
qed

theorem doppler_approaching_witness:
  "let p = (\<lambda>t r. \<lparr>pos_azimuth = 0, pos_elevation = 30, pos_rangeSat = r, pos_timestamp = t\<rparr>);
       d = calculateDopplerShift (\<lambda>t. t) 137900000 [p 0 1000, p 10000 940]
   in length (dd_points d) = 2 \<and> (\<forall>pt \<in> set (dd_points d). 0 < dp_shift pt)"
  using doppler_approaching [of "\<lambda>t. t"
      "[\<lparr>pos_azimuth = 0, pos_elevation = 30, pos_rangeSat = 1000, pos_timestamp = 0\<rparr>,
        \<lparr>pos_azimuth = 0, pos_elevation = 30, pos_rangeSat = 940, pos_timestamp = 10000\<rparr>]" 137900000]
  by (simp add: Let_def)

end
