(* ===== verification/Static_Page.thy ===== *)
theory Static_Page
  imports Requests Doppler
begin

text \<open>
  \<open>src/middleware/web/static/app.js\<close>: the page the server sends where the dashboard was
  not built.  The document is a map from element ids to elements; the library of the globe is what
  the page hands to it; requests are what the page has asked for, and their replies are events.
\<close>

section \<open>Document\<close>

record element =
  el_text :: string
  el_class :: "string list"
  el_checked :: bool
  el_style :: string
  el_points :: "(number \<times> number) list option"
  el_cx :: number

type_synonym dom = "string \<Rightarrow> element"

definition plain_element :: element where
  "plain_element = \<lparr>el_text = '''', el_class = [], el_checked = False, el_style = '''', el_points = None, el_cx = 0\<rparr>"

definition set_text :: "string \<Rightarrow> string \<Rightarrow> dom \<Rightarrow> dom" where
  "set_text i t d = d(i := (d i)\<lparr>el_text := t\<rparr>)"

definition set_class :: "string \<Rightarrow> string list \<Rightarrow> dom \<Rightarrow> dom" where
  "set_class i cs d = d(i := (d i)\<lparr>el_class := cs\<rparr>)"

definition add_class :: "string \<Rightarrow> string \<Rightarrow> dom \<Rightarrow> dom" where
  "add_class i c d = (if c \<in> set (el_class (d i)) then d else set_class i (el_class (d i) @ [c]) d)"

definition remove_class :: "string \<Rightarrow> string \<Rightarrow> dom \<Rightarrow> dom" where
  "remove_class i c d = set_class i (filter (\<lambda>x. x \<noteq> c) (el_class (d i))) d"

definition is_hidden :: "string \<Rightarrow> dom \<Rightarrow> bool" where
  "is_hidden i d \<longleftrightarrow> ''hidden'' \<in> set (el_class (d i))"

section \<open>Page\<close>

record globe_point =
  gpt_lat :: number
  gpt_lng :: number
  gpt_altitude :: number
  gpt_name :: string
  gpt_signalType :: SignalType

record globe_path =
  gpa_points :: "GroundTrackPoint list"
  gpa_name :: string
  gpa_signalType :: SignalType

record page_globe =
  pgl_points :: "globe_point list"
  pgl_paths :: "globe_path list"
  pgl_labels :: "(string \<times> number \<times> number) list"

datatype page_request =
    Get_captures | Get_summary | Get_sstv_status | Post_sstv_toggle bool | Get_version | Check_version

record page =
  pg_dom :: dom
  pg_state :: "ui_system option"
  pg_manualEnabled :: bool
  pg_reconnectAttempts :: nat
  pg_reconnects :: "nat list"
  pg_countdowns :: nat
  pg_versionChecks :: nat
  pg_toggleListeners :: nat
  pg_globe :: "page_globe option"
  pg_currentVersion :: "VersionInfo option"
  pg_requests :: "page_request list"
  pg_reloads :: nat

text \<open>What the browser provides: the texts of dates and numbers, and whether the globe library is loaded.\<close>

record page_env =
  pe_date :: "date \<Rightarrow> string"
  pe_date_text :: "string \<Rightarrow> string"
  pe_str :: "number \<Rightarrow> string"
  pe_globe :: bool

definition page_initial :: page where
  "page_initial =
     \<lparr>pg_dom = (\<lambda>i. plain_element)
        (''connection-status'' := plain_element\<lparr>el_text := ''Disconnected'', el_class := [''connection-status'', ''disconnected'']\<rparr>,
         ''status-badge'' := plain_element\<lparr>el_text := ''Idle'', el_class := [''status-badge'', ''status-idle'']\<rparr>,
         ''current-pass'' := plain_element\<lparr>el_class := [''current-pass'', ''hidden'']\<rparr>,
         ''progress-section'' := plain_element\<lparr>el_class := [''progress-section'', ''hidden'']\<rparr>,
         ''doppler-section'' := plain_element\<lparr>el_class := [''doppler-section'', ''hidden'']\<rparr>),
      pg_state = None, pg_manualEnabled = False, pg_reconnectAttempts = 0, pg_reconnects = [], pg_countdowns = 0,
      pg_versionChecks = 0, pg_toggleListeners = 0, pg_globe = None, pg_currentVersion = None, pg_requests = [], pg_reloads = 0\<rparr>"

definition on_dom :: "(dom \<Rightarrow> dom) \<Rightarrow> page \<Rightarrow> page" where
  "on_dom f p = p\<lparr>pg_dom := f (pg_dom p)\<rparr>"

definition ask :: "page_request list \<Rightarrow> page \<Rightarrow> page" where
  "ask rs p = p\<lparr>pg_requests := pg_requests p @ rs\<rparr>"

section \<open>Connection\<close>

definition updateConnectionStatus :: "bool \<Rightarrow> page \<Rightarrow> page" where
  "updateConnectionStatus up p =
     (if up
      then on_dom (set_class ''connection-status'' [''connection-status'', ''connected''] \<circ> set_text ''connection-status'' ''Connected'') p
      else on_dom (set_class ''connection-status'' [''connection-status'', ''disconnected''] \<circ> set_text ''connection-status'' ''Disconnected'') p)"

definition attemptReconnect :: "page \<Rightarrow> page" where
  "attemptReconnect p =
     (if pg_reconnectAttempts p < 20
      then let n = pg_reconnectAttempts p + 1
           in p\<lparr>pg_reconnectAttempts := n, pg_reconnects := pg_reconnects p @ [1000 * min n 10]\<rparr>
      else p)"

definition page_open :: "page \<Rightarrow> page" where
  "page_open p = updateConnectionStatus True (p\<lparr>pg_reconnectAttempts := 0\<rparr>)"

definition page_close :: "page \<Rightarrow> page" where
  "page_close p = attemptReconnect (updateConnectionStatus False p)"

section \<open>Status\<close>

definition statusMap :: "string \<Rightarrow> string \<times> string" where
  "statusMap st =
     or_else (map_of [(''idle'', (''Standby'', ''status-idle'')), (''waiting'', (''Waiting for Pass'', ''status-waiting'')),
        (''capturing'', (''Capturing'', ''status-capturing'')), (''decoding'', (''Decoding'', ''status-decoding''))] st)
       (''Standby'', ''status-idle'')"

definition updateStatus :: "string \<Rightarrow> page \<Rightarrow> page" where
  "updateStatus st p =
     (let config = statusMap st;
          p = on_dom (set_class ''status-badge'' [''status-badge'', snd config] \<circ> set_text ''status-badge'' (fst config)) p;
          p = on_dom (if st = ''capturing'' then remove_class ''progress-section'' ''hidden'' else add_class ''progress-section'' ''hidden'') p;
          p = on_dom (if st = ''capturing'' \<or> st = ''decoding'' then remove_class ''current-pass'' ''hidden''
                      else add_class ''doppler-section'' ''hidden'' \<circ> add_class ''current-pass'' ''hidden'') p
      in p\<lparr>pg_state := map_option (us_status_update (\<lambda>_. st)) (pg_state p)\<rparr>)"

definition updateSdrStatus :: "page \<Rightarrow> page" where
  "updateSdrStatus p =
     (let show = (\<lambda>dot txt. on_dom (set_text ''sdr-status-text'' txt \<circ> set_class ''sdr-status-dot'' [''status-indicator-dot'', dot]) p)
      in case pg_state p of
           None \<Rightarrow> show ''checking'' ''SDR: Checking...''
         | Some x \<Rightarrow>
             if us_status x = ''capturing'' \<or> us_status x = ''decoding'' then show ''online'' ''SDR: Active''
             else if us_upcomingPasses x \<noteq> [] then show ''online'' ''SDR: Ready''
             else show ''checking'' ''SDR: Standby'')"

definition page_updateProgress :: "page_env \<Rightarrow> number \<Rightarrow> number \<Rightarrow> number \<Rightarrow> page \<Rightarrow> page" where
  "page_updateProgress pe progress elapsed tot p =
     (let remaining = tot - elapsed; minutes = \<lfloor>remaining / 60\<rfloor>; seconds = js_rem remaining 60
      in on_dom (\<lambda>d.
           let d = d(''progress-fill'' := (d ''progress-fill'')\<lparr>el_style := pe_str pe progress @ ''%''\<rparr>);
               d = set_text ''progress-percent'' (pe_str pe progress @ ''%'') d
           in set_text ''progress-time''
                (show_int minutes @ '':'' @ js_padStart 2 (CHR ''0'') (pe_str pe seconds) @ '' remaining'') d) p)"

section \<open>Passes\<close>

definition updateCurrentPass :: "page_env \<Rightarrow> SatellitePass \<Rightarrow> page \<Rightarrow> page" where
  "updateCurrentPass pe pass p =
     on_dom (set_text ''current-elevation'' (js_toFixed 1 (pass_maxElevation pass) @ degree)
       \<circ> set_text ''current-frequency'' (ui_formatFrequency (pe_str pe) (sat_frequency (pass_satellite pass)))
       \<circ> set_text ''current-satellite'' (sat_name (pass_satellite pass))) p"

definition updateNextPass :: "page_env \<Rightarrow> SatellitePass option \<Rightarrow> page \<Rightarrow> page" where
  "updateNextPass pe pass p =
     (case pass of
        Some pass \<Rightarrow>
          (on_dom (set_text ''next-time'' (pe_date pe (pass_aos pass))
             \<circ> set_text ''next-frequency'' (ui_formatFrequency (pe_str pe) (sat_frequency (pass_satellite pass)))
             \<circ> set_text ''next-satellite'' (sat_name (pass_satellite pass))) p)
          \<lparr>pg_state := map_option (us_nextPass_update (\<lambda>_. Some pass)) (pg_state p)\<rparr>
      | None \<Rightarrow>
          on_dom (set_text ''next-time'' ''-'' \<circ> set_text ''next-frequency'' ''-''
             \<circ> set_text ''next-satellite'' ''No upcoming passes'') p)"

definition updateCountdown :: "date \<Rightarrow> page \<Rightarrow> page" where
  "updateCountdown now p =
     (case Option.bind (pg_state p) us_nextPass of
        None \<Rightarrow> on_dom (set_text ''next-countdown'' ''-'') p
      | Some pass \<Rightarrow>
          let diff = pass_aos pass - now
          in if diff \<le> 0 then on_dom (set_text ''next-countdown'' ''Starting...'') p
             else let hours = diff div 3600000; minutes = diff mod 3600000 div 60000; seconds = diff mod 60000 div 1000
                  in on_dom (set_text ''next-countdown'' (two_digits hours @ '':'' @ two_digits minutes @ '':'' @ two_digits seconds)) p)"

definition indent :: "nat \<Rightarrow> string \<Rightarrow> string" where
  "indent n t = NL # replicate n (CHR '' '') @ t"

definition pass_row :: "page_env \<Rightarrow> SatellitePass \<Rightarrow> string" where
  "pass_row pe pass =
     (let sat = pass_satellite pass; signalType = signal_type_name (sat_signalType sat)
      in indent 8 ''<tr>'' @ indent 10 (''<td>'' @ sat_name sat @ ''</td>'') @
         indent 10 (''<td><span class=\"signal-badge signal-'' @ signalType @ ''\">'' @ js_toUpperCase signalType @ ''</span></td>'') @
         indent 10 (''<td>'' @ ui_formatFrequency (pe_str pe) (sat_frequency sat) @ ''</td>'') @
         indent 10 (''<td>'' @ pe_date pe (pass_aos pass) @ ''</td>'') @
         indent 10 (''<td>'' @ show_int (js_round (pass_duration pass / 60)) @ '' min</td>'') @
         indent 10 (''<td>'' @ js_toFixed 1 (pass_maxElevation pass) @ degree @ ''</td>'') @
         indent 8 ''</tr>'' @ indent 6 [])"

definition updatePassesList :: "page_env \<Rightarrow> SatellitePass list \<Rightarrow> page \<Rightarrow> page" where
  "updatePassesList pe passes p =
     (if passes = []
      then on_dom (set_text ''passes-tbody'' ''<tr><td colspan=\"6\" class=\"empty-message\">No upcoming passes</td></tr>'') p
      else let p = on_dom (set_text ''passes-tbody'' (concat (map (pass_row pe) passes))) p;
               p = updateNextPass pe (first passes) p
           in p\<lparr>pg_state := map_option (us_upcomingPasses_update (\<lambda>_. passes)) (pg_state p)\<rparr>)"

definition startCountdown :: "page \<Rightarrow> page" where
  "startCountdown p = p\<lparr>pg_countdowns := 1\<rparr>"

section \<open>Doppler chart\<close>

definition chart_scale :: "'d DopplerData \<Rightarrow> number" where
  "chart_scale doppler =
     (let maxShift = max \<bar>dd_maxShift doppler\<bar> \<bar>dd_minShift doppler\<bar> in if maxShift > 0 then 60 / maxShift else 1)"

definition chart_points :: "'d DopplerData \<Rightarrow> (number \<times> number) list" where
  "chart_points doppler =
     (let points = dd_points doppler
      in map (\<lambda>i. (real i / real (length points - 1) * 600, 75 - dp_shift (points ! i) * chart_scale doppler)) [0..<length points])"

definition showDopplerChart :: "'d DopplerData \<Rightarrow> page \<Rightarrow> page" where
  "showDopplerChart doppler p =
     (if length (dd_points doppler) < 2 then p
      else on_dom (\<lambda>d.
             let d = remove_class ''doppler-section'' ''hidden'' d;
                 d = d(''doppler-line'' := (d ''doppler-line'')\<lparr>el_points := Some (chart_points doppler)\<rparr>);
                 d = set_text ''doppler-current'' (''Current: '' @ ui_formatDopplerShift (dp_shift (dd_points doppler ! 0))) d
             in set_text ''doppler-range'' (''Range: '' @ ui_formatDopplerShift (dd_minShift doppler) @ '' to '' @
                  ui_formatDopplerShift (dd_maxShift doppler)) d) p)"

definition updateDopplerMarker :: "number \<Rightarrow> page \<Rightarrow> page" where
  "updateDopplerMarker progressPercent p =
     (case el_points (pg_dom p ''doppler-line'') of
        None \<Rightarrow> p
      | Some points \<Rightarrow>
          if points = [] then p
          else on_dom (\<lambda>d. d(''doppler-marker'' := (d ''doppler-marker'')\<lparr>el_cx := progressPercent / 100 * 600\<rparr>)) p)"

section \<open>SSTV\<close>

definition updateSstvStatus :: "SSTVStatus \<Rightarrow> page \<Rightarrow> page" where
  "updateSstvStatus st p =
     (let p = p\<lparr>pg_manualEnabled := ss_manualEnabled st\<rparr>
      in on_dom (\<lambda>d.
           let d = d(''sstv-toggle'' := (d ''sstv-toggle'')\<lparr>el_checked := ss_manualEnabled st\<rparr>);
               d = set_text ''sstv-toggle-label'' (if ss_manualEnabled st then ''Enabled'' else ''Disabled'') d
           in if ss_activeEvent st \<noteq> None \<or> ss_manualEnabled st
              then set_class ''sstv-status-badge'' [''sstv-badge'', ''active'']
                     (set_text ''sstv-status-badge'' (if ss_activeEvent st \<noteq> None then ''Event Active'' else ''Manual Mode'') d)
              else set_class ''sstv-status-badge'' [''sstv-badge'', ''inactive''] (set_text ''sstv-status-badge'' ''Inactive'' d)) p)"

definition setupSstvToggle :: "page \<Rightarrow> page" where
  "setupSstvToggle p = p\<lparr>pg_toggleListeners := pg_toggleListeners p + 1\<rparr>"

text \<open>The user flips the switch: every listener that was added asks the server.\<close>

definition toggle_changed :: "page \<Rightarrow> page" where
  "toggle_changed p =
     (let p = on_dom (\<lambda>d. d(''sstv-toggle'' := (d ''sstv-toggle'')\<lparr>el_checked := \<not> el_checked (d ''sstv-toggle'')\<rparr>)) p
      in ask (replicate (pg_toggleListeners p) (Post_sstv_toggle (el_checked (pg_dom p ''sstv-toggle'')))) p)"

text \<open>The reply, or \<open>None\<close> when the request or the parsing of its body fails.\<close>

definition toggle_replied :: "SSTVStatus option \<Rightarrow> page \<Rightarrow> page" where
  "toggle_replied r p =
     (case r of
        Some st \<Rightarrow> updateSstvStatus st p
      | None \<Rightarrow> on_dom (\<lambda>d. d(''sstv-toggle'' := (d ''sstv-toggle'')\<lparr>el_checked := pg_manualEnabled p\<rparr>)) p)"

definition sstv_status_replied :: "SSTVStatus option \<Rightarrow> page \<Rightarrow> page" where
  "sstv_status_replied r p = (case r of Some st \<Rightarrow> updateSstvStatus st p | None \<Rightarrow> p)"

section \<open>Captures\<close>

definition display_image :: "string list \<Rightarrow> string option" where
  "display_image paths =
     (case find (\<lambda>q. js_includes q ''colour'' \<or> js_includes q ''composite'') paths of
        Some q \<Rightarrow> Some q | None \<Rightarrow> first paths)"

text \<open>An empty path is no image, and neither is a path whose last part is empty.\<close>

definition image_filename :: "string list \<Rightarrow> string option" where
  "image_filename paths =
     (case display_image paths of
        None \<Rightarrow> None
      | Some q \<Rightarrow> if q = [] \<or> last (js_split (CHR ''/'') q) = [] then None else Some (last (js_split (CHR ''/'') q)))"

definition capture_card :: "page_env \<Rightarrow> web_capture \<Rightarrow> string" where
  "capture_card pe capture =
     (let c = wc_entry capture; signalType = (if che_signalType c = [] then ''apt'' else che_signalType c)
      in indent 8 (''<div class=\"capture-card '' @ (if che_success c then [] else ''failed'') @ ''\">'') @
         indent 10 (case image_filename (che_imagePaths c) of
             Some f \<Rightarrow> ''<img src=\"/images/'' @ f @ ''\" alt=\"'' @ che_satelliteName c @ ''\" class=\"capture-image\" loading=\"lazy\">''
           | None \<Rightarrow> ''<div class=\"capture-failed-placeholder\">!</div>'') @
         indent 10 ''<div class=\"capture-info\">'' @ indent 12 ''<h4>'' @
         indent 14 (if che_success c then ''<span class=\"success-icon\">&#10003;</span>'' else ''<span class=\"failed-icon\">&#10007;</span>'') @
         indent 14 (che_satelliteName c) @
         indent 14 (''<span class=\"signal-badge signal-'' @ signalType @ ''\">'' @ js_toUpperCase signalType @ ''</span>'') @
         indent 12 ''</h4>'' @ indent 12 ''<div class=\"capture-meta\">'' @
         indent 14 (''<span>'' @ pe_date_text pe (che_startTime c) @ ''</span>'') @
         indent 14 (''<span>'' @ show_int (js_round (of_int (che_durationSeconds c) / 60)) @ '' min</span>'') @
         indent 14 (''<span>'' @ js_toFixed 1 (che_maxElevation c) @ degree @ '' max</span>'') @
         indent 12 ''</div>'' @
         indent 12 (case che_errorMessage c of
             Some e \<Rightarrow> if e = [] then [] else ''<div class=\"capture-error\">'' @ e @ ''</div>'' | None \<Rightarrow> []) @
         indent 10 ''</div>'' @ indent 8 ''</div>'' @ indent 6 [])"

definition renderCaptures :: "page_env \<Rightarrow> web_capture list \<Rightarrow> page \<Rightarrow> page" where
  "renderCaptures pe captures p =
     on_dom (set_text ''captures-gallery''
       (if captures = [] then ''<p class=\"empty-message\">No captures yet</p>'' else concat (map (capture_card pe) captures))) p"

definition captures_replied :: "page_env \<Rightarrow> web_capture list option \<Rightarrow> page \<Rightarrow> page" where
  "captures_replied pe r p = (case r of Some cs \<Rightarrow> renderCaptures pe cs p | None \<Rightarrow> p)"

definition summary_replied :: "capture_summary option \<Rightarrow> page \<Rightarrow> page" where
  "summary_replied r p =
     (case r of
        Some c \<Rightarrow> on_dom (set_text ''stat-failed'' (show_nat (cs_failed c)) \<circ> set_text ''stat-success'' (show_nat (cs_successful c))
                    \<circ> set_text ''stat-total'' (show_nat (cs_total c))) p
      | None \<Rightarrow> p)"

section \<open>Globe\<close>

definition initGlobe :: "page_env \<Rightarrow> page \<Rightarrow> page" where
  "initGlobe pe p =
     (if pg_globe p \<noteq> None \<or> \<not> pe_globe pe then p
      else p\<lparr>pg_globe := Some \<lparr>pgl_points = [], pgl_paths = [], pgl_labels = []\<rparr>\<rparr>)"

definition updateGlobe :: "GlobeState \<Rightarrow> page \<Rightarrow> page" where
  "updateGlobe g p =
     (if pg_globe p = None then p
      else p\<lparr>pg_globe := Some
        \<lparr>pgl_points = map (\<lambda>s. \<lparr>gpt_lat = geo_latitude s, gpt_lng = geo_longitude s, gpt_altitude = geo_altitude s,
            gpt_name = geo_name s, gpt_signalType = geo_signalType s\<rparr>) (gs_satellites g),
         pgl_paths = map (\<lambda>t. \<lparr>gpa_points = gt_points t, gpa_name = gt_name t, gpa_signalType = gt_signalType t\<rparr>) (gs_groundTracks g),
         pgl_labels = [(''Station'', fst (gs_station g), snd (gs_station g))]\<rparr>\<rparr>)"

section \<open>Version\<close>

definition updateVersionDisplay :: "string \<Rightarrow> string \<Rightarrow> page \<Rightarrow> page" where
  "updateVersionDisplay version commit p =
     on_dom (set_text ''version-info''
       (''v'' @ version @ '' ('' @ (if commit = [] then ''---'' else take 7 commit) @ '')'')) p"

definition version_replied :: "VersionInfo option \<Rightarrow> page \<Rightarrow> page" where
  "version_replied r p =
     (case r of
        Some v \<Rightarrow> updateVersionDisplay (vi_version v) (vi_commit v) (p\<lparr>pg_currentVersion := Some v\<rparr>)
      | None \<Rightarrow> updateVersionDisplay ''unknown'' ''---'' p)"

definition startVersionCheck :: "page \<Rightarrow> page" where
  "startVersionCheck p = p\<lparr>pg_versionChecks := pg_versionChecks p + 1\<rparr>"

definition check_replied :: "VersionInfo option \<Rightarrow> page \<Rightarrow> page" where
  "check_replied r p =
     (case (r, pg_currentVersion p) of
        (Some v, Some cur) \<Rightarrow>
          if vi_commit cur \<noteq> [] \<and> vi_commit v \<noteq> [] \<and> vi_commit cur \<noteq> vi_commit v then p\<lparr>pg_reloads := pg_reloads p + 1\<rparr> else p
      | _ \<Rightarrow> p)"

section \<open>Messages\<close>

definition renderAll :: "page_env \<Rightarrow> ui_system \<Rightarrow> page \<Rightarrow> page" where
  "renderAll pe x p =
     (let p = updateStatus (us_status x) p;
          p = updatePassesList pe (us_upcomingPasses x) p;
          p = updateNextPass pe (Option.bind (pg_state p) us_nextPass) p;
          p = (case us_currentPass x of Some pass \<Rightarrow> updateCurrentPass pe pass p | None \<Rightarrow> p);
          p = ask [Get_captures, Get_summary, Get_sstv_status] p;
          p = setupSstvToggle (startCountdown p);
          p = ask [Get_version] (initGlobe pe p)
      in updateSdrStatus (startVersionCheck p))"

definition handlePassComplete :: "page_env \<Rightarrow> date \<Rightarrow> page \<Rightarrow> page" where
  "handlePassComplete pe now p =
     (let p = updateStatus ''idle'' p;
          p = on_dom (add_class ''doppler-section'' ''hidden'' \<circ> add_class ''current-pass'' ''hidden'') p;
          p = (case pg_state p of
                 None \<Rightarrow> p
               | Some x \<Rightarrow>
                   let passes = filter (\<lambda>q. pass_aos q > now) (us_upcomingPasses x);
                       p = p\<lparr>pg_state := Some (x\<lparr>us_upcomingPasses := passes, us_nextPass := first passes\<rparr>)\<rparr>
                   in updatePassesList pe passes (updateNextPass pe (first passes) p))
      in ask [Get_captures, Get_summary] p)"

fun page_on_event :: "page_env \<Rightarrow> date \<Rightarrow> StateEvent \<Rightarrow> page \<Rightarrow> page" where
  "page_on_event pe now (status_change st) p = updateSdrStatus (updateStatus (status_text st) p)"
| "page_on_event pe now (capture_progress pr e t) p = page_updateProgress pe pr e t p"
| "page_on_event pe now (pass_start pass) p = updateStatus ''capturing'' (updateCurrentPass pe pass p)"
| "page_on_event pe now (pass_complete r) p = handlePassComplete pe now p"
| "page_on_event pe now (passes_updated passes) p = updatePassesList pe passes p"
| "page_on_event pe now (satellite_positions g) p = updateGlobe g p"
| "page_on_event pe now (scanning_frequency f n) p = p"

text \<open>No event of the server carries Doppler data with the start of a pass.\<close>

fun handleMessage :: "page_env \<Rightarrow> date \<Rightarrow> web_message \<Rightarrow> page \<Rightarrow> page" where
  "handleMessage pe now (M_init st g r c n e) p =
     (let p = renderAll pe (of_system st) (p\<lparr>pg_state := Some (of_system st)\<rparr>)
      in case g of None \<Rightarrow> p | Some g \<Rightarrow> updateGlobe g p)"
| "handleMessage pe now (M_event ev) p = page_on_event pe now ev p"
| "handleMessage pe now (M_sstv_status st) p = updateSstvStatus st p"
| "handleMessage pe now _ p = p"

section \<open>What the page shows of the server's state\<close>

lemma dom_simps [simp]:
  "el_text (set_text i t d j) = (if j = i then t else el_text (d j))" "el_text (set_class i cs d j) = el_text (d j)"
  "el_text (add_class i c d j) = el_text (d j)" "el_text (remove_class i c d j) = el_text (d j)"
  "is_hidden j (set_text i t d) = is_hidden j d"
  "is_hidden j (set_class i cs d) = (if j = i then ''hidden'' \<in> set cs else is_hidden j d)"
  "is_hidden j (add_class i ''hidden'' d) \<longleftrightarrow> j = i \<or> is_hidden j d"
  "is_hidden j (remove_class i ''hidden'' d) \<longleftrightarrow> j \<noteq> i \<and> is_hidden j d"
  by (auto simp: set_text_def set_class_def add_class_def remove_class_def is_hidden_def)

lemma dom_other [simp]:
  "is_hidden j (d(i := (d i)\<lparr>el_checked := b\<rparr>)) = is_hidden j d" "is_hidden j (d(i := (d i)\<lparr>el_style := st\<rparr>)) = is_hidden j d"
  by (auto simp: is_hidden_def)

lemma page_frames [simp]:
  "pg_state (on_dom f p) = pg_state p" "pg_dom (on_dom f p) = f (pg_dom p)" "pg_state (ask rs p) = pg_state p"
  "pg_dom (ask rs p) = pg_dom p" "pg_dom (startCountdown p) = pg_dom p" "pg_state (startCountdown p) = pg_state p"
  "pg_dom (setupSstvToggle p) = pg_dom p" "pg_state (setupSstvToggle p) = pg_state p"
  "pg_dom (startVersionCheck p) = pg_dom p" "pg_state (startVersionCheck p) = pg_state p"
  "pg_dom (initGlobe pe p) = pg_dom p" "pg_state (initGlobe pe p) = pg_state p"
  "pg_dom (updateGlobe g p) = pg_dom p" "pg_state (updateGlobe g p) = pg_state p"
  by (simp_all add: on_dom_def ask_def startCountdown_def setupSstvToggle_def startVersionCheck_def initGlobe_def updateGlobe_def)

text \<open>The badge, the two panels and the current pass.\<close>

definition shows_current :: "page_env \<Rightarrow> dom \<Rightarrow> SatellitePass \<Rightarrow> bool" where
  "shows_current pe d pass \<longleftrightarrow>
     el_text (d ''current-satellite'') = sat_name (pass_satellite pass) \<and>
     el_text (d ''current-frequency'') = ui_formatFrequency (pe_str pe) (sat_frequency (pass_satellite pass)) \<and>
     el_text (d ''current-elevation'') = js_toFixed 1 (pass_maxElevation pass) @ degree"

definition shows_status :: "dom \<Rightarrow> string \<Rightarrow> bool" where
  "shows_status d st \<longleftrightarrow>
     el_text (d ''status-badge'') = fst (statusMap st) \<and> is_hidden ''progress-section'' d = (st \<noteq> ''capturing'') \<and>
     is_hidden ''current-pass'' d = (st \<noteq> ''capturing'' \<and> st \<noteq> ''decoding'')"

definition page_shows :: "page_env \<Rightarrow> page \<Rightarrow> SystemState \<Rightarrow> bool" where
  "page_shows pe p s \<longleftrightarrow>
     shows_status (pg_dom p) (status_text (st_status s)) \<and>
     (case st_currentPass s of None \<Rightarrow> True | Some pass \<Rightarrow> shows_current pe (pg_dom p) pass)"

text \<open>What keeps the badge, the panels and the current pass of the document.\<close>

definition same_status :: "dom \<Rightarrow> dom \<Rightarrow> bool" where
  "same_status d d' \<longleftrightarrow>
     (\<forall>i \<in> {''status-badge'', ''current-satellite'', ''current-frequency'', ''current-elevation''}. el_text (d' i) = el_text (d i)) \<and>
     (\<forall>i \<in> {''progress-section'', ''current-pass''}. is_hidden i d' = is_hidden i d)"

lemma same_status_shows: "same_status d d' \<Longrightarrow> shows_status d' st = shows_status d st"
  "same_status d d' \<Longrightarrow> shows_current pe d' pass = shows_current pe d pass"
  by (auto simp: same_status_def shows_status_def shows_current_def)

lemma quiet_updates:
  "same_status (pg_dom p) (pg_dom (updateNextPass pe q p))" "same_status (pg_dom p) (pg_dom (updatePassesList pe qs p))"
  "same_status (pg_dom p) (pg_dom (updateSdrStatus p))" "same_status (pg_dom p) (pg_dom (page_updateProgress pe a e t p))"
  "same_status (pg_dom p) (pg_dom (updateSstvStatus st p))"
  by (auto simp: same_status_def updateNextPass_def updatePassesList_def updateSdrStatus_def page_updateProgress_def
      updateSstvStatus_def Let_def split: option.splits)

lemma same_status_refl: "same_status d d" and same_status_trans: "same_status d d' \<Longrightarrow> same_status d' d'' \<Longrightarrow> same_status d d''"
  by (simp_all add: same_status_def)

lemma updateStatus_shows:
  "shows_status (pg_dom (updateStatus st p)) st" "shows_current pe (pg_dom (updateStatus st p)) pass = shows_current pe (pg_dom p) pass"
  by (auto simp: shows_status_def shows_current_def updateStatus_def Let_def)

lemma updateCurrentPass_shows:
  "shows_current pe (pg_dom (updateCurrentPass pe pass p)) pass" "shows_status (pg_dom (updateCurrentPass pe pass p)) st = shows_status (pg_dom p) st"
  by (auto simp: shows_status_def shows_current_def updateCurrentPass_def)

lemma renderAll_shows: "page_shows pe (renderAll pe (of_system s) p) s"
proof -
  define p1 where "p1 = updateStatus (us_status (of_system s)) p"
  define p2 where "p2 = updatePassesList pe (us_upcomingPasses (of_system s)) p1"
  define p3 where "p3 = updateNextPass pe (Option.bind (pg_state p2) us_nextPass) p2"
  define p4 where "p4 = (case us_currentPass (of_system s) of Some pass \<Rightarrow> updateCurrentPass pe pass p3 | None \<Rightarrow> p3)"
  define p5 where "p5 = startVersionCheck (ask [Get_version] (initGlobe pe (setupSstvToggle (startCountdown
    (ask [Get_captures, Get_summary, Get_sstv_status] p4)))))"
  have r: "renderAll pe (of_system s) p = updateSdrStatus p5"
    unfolding renderAll_def Let_def p5_def p4_def p3_def p2_def p1_def by (rule refl)
  have "shows_status (pg_dom p3) (status_text (st_status s))"
    using updateStatus_shows(1) [of "status_text (st_status s)" p] same_status_shows(1) [OF quiet_updates(2), of pe]
      same_status_shows(1) [OF quiet_updates(1), of pe]
    by (simp add: p3_def p2_def p1_def of_system_def)
  then have "shows_status (pg_dom p4) (status_text (st_status s))"
    by (simp add: p4_def updateCurrentPass_shows split: option.splits)
  moreover have "shows_current pe (pg_dom p4) pass" if "st_currentPass s = Some pass" for pass
    using that by (simp add: p4_def of_system_def updateCurrentPass_shows)
  moreover have "pg_dom p5 = pg_dom p4" by (simp add: p5_def)
  ultimately show ?thesis
    unfolding r page_shows_def using same_status_shows(1) [OF quiet_updates(3)] same_status_shows(2) [OF quiet_updates(3)]
    by (simp split: option.splits)
qed

lemma queue_updates: "same_status (pg_dom p) (pg_dom (updatePassesList pe qs (updateNextPass pe q (p\<lparr>pg_state := x\<rparr>))))"
  using same_status_trans [OF quiet_updates(1) [of "p\<lparr>pg_state := x\<rparr>" pe q] quiet_updates(2)] by simp

lemma handlePassComplete_shows: "shows_status (pg_dom (handlePassComplete pe now p)) ''idle''"
proof -
  define p1 where "p1 = on_dom (add_class ''doppler-section'' ''hidden'' \<circ> add_class ''current-pass'' ''hidden'') (updateStatus ''idle'' p)"
  have "shows_status (pg_dom p1) ''idle''"
    using updateStatus_shows(1) [of "''idle''" p] by (simp add: p1_def shows_status_def)
  moreover have "same_status (pg_dom p1) (pg_dom (handlePassComplete pe now p))"
    unfolding handlePassComplete_def Let_def p1_def [symmetric]
    by (cases "pg_state p1") (simp_all add: same_status_refl queue_updates)
  ultimately show ?thesis by (simp add: same_status_shows)
qed

lemma page_message_shows:
  "tells_no_state m \<Longrightarrow> page_shows pe p s \<Longrightarrow> page_shows pe (handleMessage pe now m p) s"
  "page_shows pe (handleMessage pe now (M_init s g r c n e) p) s"
  "page_shows pe p s \<Longrightarrow>
   page_shows pe (handleMessage pe now (M_event (snd (sm_exec t call s))) p) (fst (sm_exec t call s))"
proof -
  show "page_shows pe (handleMessage pe now (M_init s g r c n e) p) s"
    using renderAll_shows [of pe s "p\<lparr>pg_state := Some (of_system s)\<rparr>"]
    by (cases g; cases "st_currentPass s") (simp_all add: Let_def page_shows_def)
  show "tells_no_state m \<Longrightarrow> page_shows pe p s \<Longrightarrow> page_shows pe (handleMessage pe now m p) s"
    by (cases m) (auto simp: tells_no_state_def page_shows_def same_status_shows [OF quiet_updates(5)] split: option.splits)
  show "page_shows pe (handleMessage pe now (M_event (snd (sm_exec t call s))) p) (fst (sm_exec t call s))" if "page_shows pe p s"
    using that
    by (cases call) (auto simp: page_shows_def sm_defs same_status_shows [OF quiet_updates(2)] same_status_shows [OF quiet_updates(3)]
        same_status_shows [OF quiet_updates(4)] updateStatus_shows updateCurrentPass_shows handlePassComplete_shows
        status_text_def split: option.splits SystemStatus.splits)
qed

text \<open>
  The page after the messages \<open>ms\<close>, each handled at a time of its own; what it shows does not
  depend on those times.
\<close>

definition page_of :: "page_env \<Rightarrow> date list \<Rightarrow> web_message list \<Rightarrow> page" where
  "page_of pe nows ms = fold (\<lambda>(now, m). handleMessage pe now m) (zip nows ms) page_initial"

definition at_any_times :: "page_env \<Rightarrow> (page \<Rightarrow> SystemState \<Rightarrow> bool) \<Rightarrow> web_message list \<Rightarrow> SystemState \<Rightarrow> bool" where
  "at_any_times pe view ms s \<longleftrightarrow> (\<forall>nows. length nows = length ms \<longrightarrow> view (page_of pe nows ms) s)"

lemma at_any_timesD: "at_any_times pe view ms s \<Longrightarrow> length nows = length ms \<Longrightarrow> view (page_of pe nows ms) s"
  by (simp add: at_any_times_def)

lemma at_any_times_snoc:
  assumes "\<And>nows now. length nows = length ms \<Longrightarrow> view (handleMessage pe now m (page_of pe nows ms)) s"
  shows "at_any_times pe view (ms @ [m]) s"
  unfolding at_any_times_def
proof (intro allI impI)
  fix nows :: "date list"
  assume n: "length nows = length (ms @ [m])"
  then obtain ts t where nows: "nows = ts @ [t]" by (cases nows rule: rev_cases) auto
  with n show "view (page_of pe nows (ms @ [m])) s" using assms [of ts t] by (simp add: page_of_def)
qed

interpretation page_status: message_view "at_any_times pe (page_shows pe)" "\<lambda>_. True" for pe
  by unfold_locales (auto intro!: at_any_times_snoc page_message_shows dest: at_any_timesD)


definition demo_page_env :: page_env where
  "demo_page_env = \<lparr>pe_date = (\<lambda>t. ''01/01/2025''), pe_date_text = (\<lambda>s. s), pe_str = (\<lambda>x. show_int (js_round x)), pe_globe = False\<rparr>"


section \<open>What the page shows of the queue\<close>

definition shows_next :: "page_env \<Rightarrow> dom \<Rightarrow> SatellitePass option \<Rightarrow> bool" where
  "shows_next pe d next \<longleftrightarrow>
     (case next of
        Some pass \<Rightarrow>
          el_text (d ''next-satellite'') = sat_name (pass_satellite pass) \<and>
          el_text (d ''next-frequency'') = ui_formatFrequency (pe_str pe) (sat_frequency (pass_satellite pass)) \<and>
          el_text (d ''next-time'') = pe_date pe (pass_aos pass)
      | None \<Rightarrow> el_text (d ''next-satellite'') = ''No upcoming passes'')"

definition passes_table :: "page_env \<Rightarrow> SatellitePass list \<Rightarrow> string" where
  "passes_table pe passes =
     (if passes = [] then ''<tr><td colspan=\"6\" class=\"empty-message\">No upcoming passes</td></tr>''
      else concat (map (pass_row pe) passes))"

definition shown_next :: "SystemState \<Rightarrow> SatellitePass option" where
  "shown_next s = (if st_upcomingPasses s = [] then st_nextPass s else first (st_upcomingPasses s))"

definition page_shows_queue :: "page_env \<Rightarrow> page \<Rightarrow> SystemState \<Rightarrow> bool" where
  "page_shows_queue pe p s \<longleftrightarrow>
     shows_next pe (pg_dom p) (shown_next s) \<and> el_text (pg_dom p ''passes-tbody'') = passes_table pe (st_upcomingPasses s) \<and>
     map_option us_upcomingPasses (pg_state p) = Some (st_upcomingPasses s) \<and>
     map_option us_nextPass (pg_state p) = Some (shown_next s)"

definition keeps_queue :: "sm_call \<Rightarrow> bool" where
  "keeps_queue c \<longleftrightarrow> (case c of CompletePass r \<Rightarrow> False | UpdatePasses ps \<Rightarrow> ps \<noteq> [] | _ \<Rightarrow> True)"

definition same_queue :: "page \<Rightarrow> page \<Rightarrow> bool" where
  "same_queue p p' \<longleftrightarrow>
     (\<forall>i \<in> {''next-satellite'', ''next-frequency'', ''next-time'', ''passes-tbody''}. el_text (pg_dom p' i) = el_text (pg_dom p i)) \<and>
     map_option us_upcomingPasses (pg_state p') = map_option us_upcomingPasses (pg_state p) \<and>
     map_option us_nextPass (pg_state p') = map_option us_nextPass (pg_state p)"

lemma same_queue_shows: "same_queue p p' \<Longrightarrow> page_shows_queue pe p' s = page_shows_queue pe p s"
  by (auto simp: same_queue_def page_shows_queue_def shows_next_def split: option.splits)

lemma same_queue_trans: "same_queue p p' \<Longrightarrow> same_queue p' p'' \<Longrightarrow> same_queue p p''"
  by (simp add: same_queue_def)

lemma queue_frames:
  "same_queue p (updateStatus st p)" "same_queue p (updateSdrStatus p)" "same_queue p (page_updateProgress pe a e t p)"
  "same_queue p (updateCurrentPass pe pass p)" "same_queue p (updateSstvStatus ss p)" "same_queue p (updateGlobe g p)"
  "same_queue p p" "same_queue p (ask rs p)" "same_queue p (startVersionCheck p)" "same_queue p (initGlobe pe p)"
  "same_queue p (setupSstvToggle p)" "same_queue p (startCountdown p)"
  by (auto simp: same_queue_def updateStatus_def updateSdrStatus_def page_updateProgress_def updateCurrentPass_def
      updateSstvStatus_def Let_def option.map_comp comp_def split: option.splits)

lemma updateNextPass_shows: "shows_next pe (pg_dom (updateNextPass pe q p)) q"
  by (auto simp: shows_next_def updateNextPass_def split: option.splits)

lemma updatePassesList_shows:
  assumes "pg_state p = Some x" "passes \<noteq> []"
  shows "shows_next pe (pg_dom (updatePassesList pe passes p)) (first passes)"
    "el_text (pg_dom (updatePassesList pe passes p) ''passes-tbody'') = passes_table pe passes"
    "pg_state (updatePassesList pe passes p) = Some (x\<lparr>us_upcomingPasses := passes, us_nextPass := first passes\<rparr>)"
proof -
  obtain q qs where "passes = q # qs" using assms(2) by (cases passes) auto
  then show "shows_next pe (pg_dom (updatePassesList pe passes p)) (first passes)"
    "el_text (pg_dom (updatePassesList pe passes p) ''passes-tbody'') = passes_table pe passes"
    "pg_state (updatePassesList pe passes p) = Some (x\<lparr>us_upcomingPasses := passes, us_nextPass := first passes\<rparr>)"
    using assms(1) by (simp_all add: shows_next_def updatePassesList_def updateNextPass_def passes_table_def Let_def)
qed

lemma lists_show_queue:
  assumes "map_option us_upcomingPasses (pg_state p) = Some (st_upcomingPasses s)" "map_option us_nextPass (pg_state p) = Some (st_nextPass s)"
    and "p2 = updatePassesList pe (st_upcomingPasses s) p"
  shows "page_shows_queue pe (updateNextPass pe (Option.bind (pg_state p2) us_nextPass) p2) s"
proof -
  obtain x where x: "pg_state p = Some x" "us_upcomingPasses x = st_upcomingPasses s" "us_nextPass x = st_nextPass s"
    using assms(1,2) by (cases "pg_state p") auto
  have tbody: "el_text (pg_dom (updateNextPass pe q p2) ''passes-tbody'') = el_text (pg_dom p2 ''passes-tbody'')" for q
    by (simp add: updateNextPass_def split: option.splits)
  have st: "pg_state (updateNextPass pe (Option.bind (pg_state p2) us_nextPass) p2) = pg_state p2"
    by (cases "pg_state p2") (auto simp: updateNextPass_def split: option.splits)
  have "Option.bind (pg_state p2) us_nextPass = shown_next s \<and> el_text (pg_dom p2 ''passes-tbody'') = passes_table pe (st_upcomingPasses s) \<and>
      map_option us_upcomingPasses (pg_state p2) = Some (st_upcomingPasses s) \<and> map_option us_nextPass (pg_state p2) = Some (shown_next s)"
  proof (cases "st_upcomingPasses s = []")
    case True
    then show ?thesis using x assms(3) by (simp add: updatePassesList_def passes_table_def shown_next_def)
  next
    case False
    then show ?thesis using updatePassesList_shows [OF x(1) False] assms(3) by (simp add: shown_next_def)
  qed
  then show ?thesis using updateNextPass_shows [of pe "shown_next s" p2] st tbody by (simp add: page_shows_queue_def)
qed

lemma renderAll_queue: "page_shows_queue pe (renderAll pe (of_system s) (p\<lparr>pg_state := Some (of_system s)\<rparr>)) s"
proof -
  let ?x = "of_system s"
  define p1 where "p1 = updateStatus (us_status ?x) (p\<lparr>pg_state := Some ?x\<rparr>)"
  define p2 where "p2 = updatePassesList pe (st_upcomingPasses s) p1"
  define p3 where "p3 = updateNextPass pe (Option.bind (pg_state p2) us_nextPass) p2"
  define p4 where "p4 = (case us_currentPass ?x of Some pass \<Rightarrow> updateCurrentPass pe pass p3 | None \<Rightarrow> p3)"
  have u: "us_upcomingPasses ?x = st_upcomingPasses s" by (simp add: of_system_def)
  have r: "renderAll pe ?x (p\<lparr>pg_state := Some ?x\<rparr>) = updateSdrStatus (startVersionCheck (ask [Get_version] (initGlobe pe
      (setupSstvToggle (startCountdown (ask [Get_captures, Get_summary, Get_sstv_status] p4))))))"
    unfolding renderAll_def Let_def p4_def p3_def p2_def p1_def u by (rule refl)
  have "map_option us_upcomingPasses (pg_state p1) = Some (st_upcomingPasses s)" "map_option us_nextPass (pg_state p1) = Some (st_nextPass s)"
    using queue_frames(1) [of "p\<lparr>pg_state := Some ?x\<rparr>" "us_status ?x"]
    by (simp_all add: p1_def same_queue_def of_system_def)
  then have "page_shows_queue pe p3 s" unfolding p3_def by (rule lists_show_queue) (rule p2_def)
  then have "page_shows_queue pe p4 s" by (simp add: p4_def same_queue_shows [OF queue_frames(4)] split: option.splits)
  then show ?thesis
    unfolding r by (simp add: queue_frames(2,8-12) [THEN same_queue_shows])
qed

lemma page_message_queue:
  "tells_no_state m \<Longrightarrow> page_shows_queue pe p s \<Longrightarrow> page_shows_queue pe (handleMessage pe now m p) s"
  "page_shows_queue pe (handleMessage pe now (M_init s g r c n e) p) s"
  "page_shows_queue pe p s \<Longrightarrow> keeps_queue call \<Longrightarrow>
   page_shows_queue pe (handleMessage pe now (M_event (snd (sm_exec t call s))) p) (fst (sm_exec t call s))"
proof -
  show "page_shows_queue pe (handleMessage pe now (M_init s g r c n e) p) s"
    using renderAll_queue [of pe s p] by (cases g) (simp_all add: Let_def same_queue_shows [OF queue_frames(6)])
  show "tells_no_state m \<Longrightarrow> page_shows_queue pe p s \<Longrightarrow> page_shows_queue pe (handleMessage pe now m p) s"
    by (cases m) (auto simp: tells_no_state_def same_queue_shows [OF queue_frames(5)])
  assume q: "page_shows_queue pe p s" and k: "keeps_queue call"
  obtain x where x: "pg_state p = Some x" using q by (auto simp: page_shows_queue_def)
  have frame: "page_shows_queue pe p' (fst (sm_exec t call s))" if "same_queue p p'" "st_upcomingPasses (fst (sm_exec t call s)) = st_upcomingPasses s"
    "st_nextPass (fst (sm_exec t call s)) = st_nextPass s" for p'
    using q that(2,3) unfolding same_queue_shows [OF that(1), symmetric] by (simp only: page_shows_queue_def shown_next_def)
  show "page_shows_queue pe (handleMessage pe now (M_event (snd (sm_exec t call s))) p) (fst (sm_exec t call s))"
  proof (cases call)
    case (UpdatePasses ps)
    then have "ps \<noteq> []" using k by (simp add: keeps_queue_def)
    then show ?thesis using UpdatePasses updatePassesList_shows [OF x] by (simp add: page_shows_queue_def shown_next_def updatePasses_def)
  next
    case (SetStatus st)
    then show ?thesis using same_queue_trans [OF queue_frames(1) queue_frames(2)] by (intro frame) (simp_all add: setStatus_def Let_def)
  next
    case (StartPass pass)
    then show ?thesis using same_queue_trans [OF queue_frames(4) queue_frames(1)] by (intro frame) (simp_all add: startPass_def)
  qed (rule frame; use k in \<open>auto simp: keeps_queue_def sm_defs queue_frames\<close>)+
qed

interpretation page_queue: message_view "at_any_times pe (page_shows_queue pe)" keeps_queue for pe
  by unfold_locales (auto intro!: at_any_times_snoc page_message_queue dest: at_any_timesD)

text \<open>Under the same conditions the page shows the server's queue, if no pass completes and the queue is not emptied.\<close>

lemma static_page_shows_queue:
  assumes "web_inv s" "wb_deferred s = []" "undisturbed_run we ws es (web_step we (now, ok, WsConnect ws) s)"
    and "list_all (event_allowed keeps_queue) es"
    and "s' = fold (web_step we) es (web_step we (now, ok, WsConnect ws) s)"
    and "length nows = length (messages_to ws (wb_out s'))"
  shows "page_shows_queue pe (page_of pe nows (messages_to ws (wb_out s'))) (wb_state s')"
  using page_queue.connected_view [OF assms(1-4)] assms(5,6) by (simp add: at_any_times_def)

text \<open>
  An emptied queue is told by the table only: the panel of the next pass and the countdown stay with
  the pass that was announced before.
\<close>

lemma emptied_queue_keeps_countdown:
  assumes "page_shows_queue pe p s" "st_upcomingPasses s = q # qs"
    and "p' = handleMessage pe now (M_event (snd (sm_exec t (UpdatePasses []) s))) p"
  shows "shows_next pe (pg_dom p') (Some q)" "Option.bind (pg_state p') us_nextPass = Some q"
    "el_text (pg_dom p' ''passes-tbody'') = passes_table pe []" "st_nextPass (fst (sm_exec t (UpdatePasses []) s)) = None"
  using assms
  by (auto simp: page_shows_queue_def shown_next_def updatePasses_def updatePassesList_def passes_table_def shows_next_def)

section \<open>What a reconnection leaves behind\<close>

definition is_init :: "web_message \<Rightarrow> bool" where
  "is_init m \<longleftrightarrow> (case m of M_init st g r c n e \<Rightarrow> True | _ \<Rightarrow> False)"

definition connections :: "web_message list \<Rightarrow> nat" where
  "connections ms = length (filter is_init ms)"

definition page_counters :: "page \<Rightarrow> nat \<times> nat \<times> nat" where
  "page_counters p = (pg_countdowns p, pg_toggleListeners p, pg_versionChecks p)"

lemma counters_frames [simp]:
  "page_counters (on_dom f p) = page_counters p" "page_counters (ask rs p) = page_counters p" "page_counters (updateStatus st p) = page_counters p"
  "page_counters (updateSdrStatus p) = page_counters p" "page_counters (updateCurrentPass pe pass p) = page_counters p"
  "page_counters (updateNextPass pe q p) = page_counters p" "page_counters (updatePassesList pe qs p) = page_counters p"
  "page_counters (page_updateProgress pe a e t p) = page_counters p" "page_counters (updateSstvStatus ss p) = page_counters p"
  "page_counters (updateGlobe g p) = page_counters p" "page_counters (initGlobe pe p) = page_counters p"
  "page_counters (p\<lparr>pg_state := x\<rparr>) = page_counters p" "page_counters (p\<lparr>pg_manualEnabled := b\<rparr>) = page_counters p"
  by (simp_all add: page_counters_def on_dom_def ask_def updateStatus_def updateSdrStatus_def updateCurrentPass_def updateNextPass_def
      updatePassesList_def page_updateProgress_def updateSstvStatus_def updateGlobe_def initGlobe_def Let_def split: option.splits)

lemma counters_steps:
  "page_counters (startVersionCheck p) = (case page_counters p of (a, b, c) \<Rightarrow> (a, b, c + 1))"
  "page_counters (setupSstvToggle p) = (case page_counters p of (a, b, c) \<Rightarrow> (a, b + 1, c))"
  "page_counters (startCountdown p) = (case page_counters p of (a, b, c) \<Rightarrow> (1, b, c))"
  by (simp_all add: page_counters_def startVersionCheck_def setupSstvToggle_def startCountdown_def)

lemma renderAll_counters: "page_counters (renderAll pe x p) = (case page_counters p of (a, b, c) \<Rightarrow> (1, b + 1, c + 1))"
proof -
  have "page_counters (case x of Some pass \<Rightarrow> updateCurrentPass pe pass q | None \<Rightarrow> q) = page_counters q" for x q
    by (simp split: option.splits)
  then show ?thesis unfolding renderAll_def Let_def by (simp add: counters_steps split: prod.splits)
qed

lemma handleMessage_counters:
  "page_counters (handleMessage pe now m p) =
     (if is_init m then case page_counters p of (a, b, c) \<Rightarrow> (1, b + 1, c + 1) else page_counters p)"
proof (cases m)
  case (M_init st g r c n e)
  then show ?thesis by (cases g) (simp_all add: is_init_def Let_def renderAll_counters)
next
  case (M_event ev)
  then show ?thesis
    by (cases ev) (simp_all add: is_init_def handlePassComplete_def Let_def split: option.splits)
qed (simp_all add: is_init_def)

text \<open>Every connection adds a listener to the switch and a timer that asks for the version, and
  nothing removes them: after \<open>n\<close> connections the page runs one countdown, asks for the version
  \<open>n\<close> times as often, and sends \<open>n\<close> requests, all with the same value, when the switch is flipped.\<close>

lemma reconnections_pile_up:
  "pg_toggleListeners (page_of pe nows ms) = connections (take (length nows) ms) \<and>
    pg_versionChecks (page_of pe nows ms) = connections (take (length nows) ms) \<and>
    pg_countdowns (page_of pe nows ms) = (if connections (take (length nows) ms) = 0 then 0 else 1) \<and>
    (\<exists>b. pg_requests (toggle_changed (page_of pe nows ms)) =
         pg_requests (page_of pe nows ms) @ replicate (connections (take (length nows) ms)) (Post_sstv_toggle b))"
proof -
  have "page_counters (fold (\<lambda>(now, m). handleMessage pe now m) (zip nows ms) p) =
      (case page_counters p of (a, b, c) \<Rightarrow>
        (if connections (take (length nows) ms) = 0 then a else 1, b + connections (take (length nows) ms), c + connections (take (length nows) ms)))" for p
  proof (induction nows arbitrary: ms p)
    case (Cons t ts)
    then show ?case
      by (cases ms) (auto simp: connections_def handleMessage_counters split: prod.splits)
  qed (simp add: connections_def)
  from this [of page_initial] have c: "page_counters (page_of pe nows ms) =
      (if connections (take (length nows) ms) = 0 then 0 else 1, connections (take (length nows) ms), connections (take (length nows) ms))"
    by (simp add: page_of_def page_counters_def page_initial_def)
  then show ?thesis
    by (auto simp: page_counters_def toggle_changed_def Let_def ask_def on_dom_def)
qed

section \<open>The switch and the server\<close>

text \<open>The answer of the server to the request of the switch; the page does not look at its status code.\<close>

definition sstv_reply :: "fetched option \<Rightarrow> SSTVStatus option" where
  "sstv_reply r = (case r of Some (Response n (P_sstv st)) \<Rightarrow> Some st | _ \<Rightarrow> None)"

lemma page_switch_round_trip:
  assumes "p1 = toggle_changed p" "b = el_checked (pg_dom p1 ''sstv-toggle'')"
    and "exchange we decode ok now rid (api_post ''/api/sstv/toggle'' b) s = (s', r)"
  shows "b = (\<not> el_checked (pg_dom p ''sstv-toggle''))" "sm_manualSstvEnabled (wb_sstv s') = b"
    "el_checked (pg_dom (toggle_replied (sstv_reply r) p1) ''sstv-toggle'') = b"
    "el_text (pg_dom (toggle_replied (sstv_reply r) p1) ''sstv-toggle-label'') = (if b then ''Enabled'' else ''Disabled'')"
    "pg_manualEnabled (toggle_replied (sstv_reply r) p1) = b"
  using post_toggle_exchange(1) [OF assms(3)] assms(1,2)
  by (simp_all add: toggle_changed_def Let_def toggle_replied_def sstv_reply_def updateSstvStatus_def getSstvStatus_def
      setManualSstvEnabled_def set_text_def set_class_def ask_def on_dom_def)

text \<open>A request that fails puts the switch back to what the server last said.\<close>

lemma page_switch_falls_back:
  "el_checked (pg_dom (toggle_replied None p) ''sstv-toggle'') = pg_manualEnabled p"
  by (simp add: toggle_replied_def)

section \<open>The chart stays in its box\<close>

lemma chart_y_in_box:
  assumes "\<bar>x\<bar> \<le> max \<bar>dd_maxShift d\<bar> \<bar>dd_minShift d\<bar>"
  shows "15 \<le> 75 - x * chart_scale d \<and> 75 - x * chart_scale d \<le> 135"
proof -
  let ?m = "max \<bar>dd_maxShift d\<bar> \<bar>dd_minShift d\<bar>"
  have "\<bar>x * chart_scale d\<bar> \<le> 60"
  proof (cases "?m > 0")
    case True
    then have "\<bar>x * chart_scale d\<bar> = \<bar>x\<bar> * 60 / ?m" by (simp add: chart_scale_def Let_def abs_mult)
    also have "\<dots> \<le> 60" using assms True by (simp add: divide_le_eq)
    finally show ?thesis .
  next
    case False
    then have "x = 0" using assms by linarith
    then show ?thesis by simp
  qed
  then show ?thesis by linarith
qed

text \<open>Every point of the Doppler curve that is computed for a pass is drawn inside the box of the chart:
  from its left to its right edge and at most 60 units above or below the line of no shift.\<close>

theorem doppler_chart_in_box:
  "showDopplerChart (calculateDopplerShift g f positions) p = p \<or>
   list_all (\<lambda>(x, y). 0 \<le> x \<and> x \<le> 600 \<and> 15 \<le> y \<and> y \<le> 135)
     (the (el_points (pg_dom (showDopplerChart (calculateDopplerShift g f positions) p) ''doppler-line'')))"
proof -
  define d where "d = calculateDopplerShift g f positions"
  have "0 \<le> real i / real (length (dd_points d) - 1) * 600 \<and> real i / real (length (dd_points d) - 1) * 600 \<le> 600 \<and>
      15 \<le> 75 - dp_shift (dd_points d ! i) * chart_scale d \<and> 75 - dp_shift (dd_points d ! i) * chart_scale d \<le> 135"
    if i: "i < length (dd_points d)" for i
  proof -
    have ne: "positions \<noteq> []" using i by (auto simp: d_def calculateDopplerShift_def)
    let ?s = "dp_shift (dd_points d ! i)"
    have "?s \<in> dp_shift ` set (dd_points d)" using i by simp
    then have "?s \<le> dd_maxShift d" "dd_minShift d \<le> ?s"
      unfolding d_def doppler_extrema [OF ne] by (auto intro: Max_ge Min_le)
    then have y: "\<bar>?s\<bar> \<le> max \<bar>dd_maxShift d\<bar> \<bar>dd_minShift d\<bar>" by linarith
    define t where "t = real i / real (length (dd_points d) - 1)"
    have "t \<le> 1" unfolding t_def using i by (intro divide_le_eq_1 [THEN iffD2]) auto
    moreover have "0 \<le> t" by (simp add: t_def)
    ultimately show ?thesis unfolding t_def [symmetric] using chart_y_in_box [OF y] by simp
  qed
  then have "list_all (\<lambda>(x, y). 0 \<le> x \<and> x \<le> 600 \<and> 15 \<le> y \<and> y \<le> 135) (chart_points d)"
    by (auto simp: chart_points_def Let_def list_all_iff)
  then show ?thesis
    by (auto simp: showDopplerChart_def Let_def d_def set_text_def)
qed

end
