(* ===== verification/Decoders.thy ===== *)
theory Decoders
  imports Signal_Check
begin

text \<open>
  \<open>src/backend/capture/decoders/\<close>: the registry of decoders and the two decoders, which
  run external programs.  An asynchronous function that may throw and may never settle is an
  \<open>async\<close>: given the instant it is called, the outcome and the instant it settles.
\<close>

section \<open>Asynchronous functions\<close>

type_synonym 'a async = "date \<Rightarrow> ('a throwing \<times> date) option"

definition async_return :: "'a \<Rightarrow> 'a async" where
  "async_return a now = Some (Inr a, now)"

definition async_throw :: "string \<Rightarrow> 'a async" where
  "async_throw e now = Some (Inl e, now)"

definition async_bind :: "'a async \<Rightarrow> ('a \<Rightarrow> 'b async) \<Rightarrow> 'b async" where
  "async_bind m f now =
     (case m now of
        None \<Rightarrow> None
      | Some (Inl e, t) \<Rightarrow> Some (Inl e, t)
      | Some (Inr a, t) \<Rightarrow> f a t)"

definition async_catch :: "'a async \<Rightarrow> 'a \<Rightarrow> 'a async" where
  "async_catch m a now =
     (case m now of
        None \<Rightarrow> None
      | Some (Inl e, t) \<Rightarrow> Some (Inr a, t)
      | Some (Inr b, t) \<Rightarrow> Some (Inr b, t))"

definition async_settles :: "'a async \<Rightarrow> bool" where
  "async_settles m \<longleftrightarrow> (\<forall>t. m t \<noteq> None)"

lemma async_return_settles [intro, simp]: "async_settles (async_return a)"
  by (simp add: async_settles_def async_return_def)

lemma async_throw_settles [intro, simp]: "async_settles (async_throw e)"
  by (simp add: async_settles_def async_throw_def)

lemma async_bind_settles [intro]:
  "async_settles m \<Longrightarrow> (\<And>a. async_settles (f a)) \<Longrightarrow> async_settles (async_bind m f)"
  by (auto simp: async_settles_def async_bind_def split: option.splits sum.splits prod.splits)

lemma async_catch_settles [intro]: "async_settles m \<Longrightarrow> async_settles (async_catch m a)"
  by (auto simp: async_settles_def async_catch_def split: option.splits sum.splits prod.splits)

definition run_cmd :: "os \<Rightarrow> string \<Rightarrow> arg list \<Rightarrow> CommandResult async" where
  "run_cmd sys command args now = runCommand sys now command args"

lemma run_cmd_settles [intro]: "os_settles sys \<Longrightarrow> async_settles (run_cmd sys c a)"
  using runCommand_settles by (simp add: async_settles_def run_cmd_def)

definition file_exists :: "os \<Rightarrow> string \<Rightarrow> bool async" where
  "file_exists sys path now = Some (Inr (os_exists sys now path), now)"

definition ensure_dir :: "os \<Rightarrow> string \<Rightarrow> unit async" where
  "ensure_dir sys path now = Some (if os_mkdir sys now path then Inr () else Inl ''mkdir'', now)"

lemma file_async_settles [intro, simp]:
  "async_settles (file_exists sys p)" "async_settles (ensure_dir sys p)"
  by (simp_all add: async_settles_def file_exists_def ensure_dir_def)

section \<open>Decoders\<close>

record DecoderResult =
  dr_outputPaths :: "string list"
  dr_metadata :: "(string \<times> string) list"

record Decoder =
  dec_name :: string
  dec_signalType :: SignalType
  dec_decode :: "string \<Rightarrow> string \<Rightarrow> DecoderResult option async"
  dec_checkInstalled :: "bool async"

definition script_path :: "os \<Rightarrow> string \<Rightarrow> string" where
  "script_path sys name = path_join [os_cwd sys, ''scripts'', name]"

definition decodeWithSatDump :: "os \<Rightarrow> string \<Rightarrow> string \<Rightarrow> string list async" where
  "decodeWithSatDump sys wavPath outputDir =
     (let baseName = js_basename wavPath ''.wav'';
          decodeOutputDir = path_join [outputDir, baseName @ ''_lrpt''];
          wrapperPath = script_path sys ''lrpt-decode-wrapper.sh''
      in async_bind (run_cmd sys wrapperPath [lit wavPath, lit decodeOutputDir]) (\<lambda>result.
           if cmd_exitCode result = 0 then
             async_bind (run_cmd sys ''find'' [lit decodeOutputDir, lit ''-name'', lit ''*.png'', lit ''-type'', lit ''f''])
               (\<lambda>lsResult.
                  let imagePaths = (if cmd_exitCode lsResult = 0
                                    then filter (\<lambda>p. length p > 0) (js_split NL (js_trim (cmd_stdout lsResult)))
                                    else [])
                  in async_return (if length imagePaths > 0 then imagePaths else []))
           else async_return []))"

definition lrptDecoder :: "os \<Rightarrow> Decoder" where
  "lrptDecoder sys =
     \<lparr>dec_name = ''LRPT Decoder (SatDump)'', dec_signalType = Lrpt,
      dec_decode = (\<lambda>wavPath outputDir.
        async_bind (file_exists sys wavPath) (\<lambda>fileFound.
          if \<not> fileFound then async_return None
          else async_bind (ensure_dir sys outputDir) (\<lambda>_.
                 async_bind (decodeWithSatDump sys wavPath outputDir) (\<lambda>outputPaths.
                   async_return (if length outputPaths > 0
                     then Some \<lparr>dr_outputPaths = outputPaths,
                                dr_metadata = [(''decoder'', ''SatDump''), (''pipeline'', ''meteor_m2-x_lrpt'')]\<rparr>
                     else None))))),
      dec_checkInstalled =
        async_catch (async_bind (run_cmd sys ''which'' [lit ''satdump'']) (\<lambda>result.
          if cmd_exitCode result \<noteq> 0 then async_return False
          else file_exists sys (script_path sys ''lrpt-decode-wrapper.sh''))) False\<rparr>"

definition decodeWithSstv :: "os \<Rightarrow> string \<Rightarrow> string \<Rightarrow> DecoderResult option async" where
  "decodeWithSstv sys wavPath outputDir =
     (let baseName = js_basename wavPath ''.wav'';
          outputPath = path_join [outputDir, baseName @ ''-sstv.png''];
          wrapperPath = script_path sys ''sstv-decode-wrapper.py''
      in async_bind (run_cmd sys ''python3'' [lit wrapperPath, lit wavPath, lit outputPath]) (\<lambda>result.
           async_bind (if cmd_exitCode result = 0 then file_exists sys outputPath else async_return False) (\<lambda>success.
             async_return (if success
               then Some \<lparr>dr_outputPaths = [outputPath], dr_metadata = [(''mode'', ''auto-detected'')]\<rparr>
               else None))))"

definition sstvDecoder :: "os \<Rightarrow> Decoder" where
  "sstvDecoder sys =
     \<lparr>dec_name = ''SSTV Decoder'', dec_signalType = Sstv,
      dec_decode = (\<lambda>wavPath outputDir.
        async_bind (file_exists sys wavPath) (\<lambda>fileFound.
          async_bind (if fileFound then ensure_dir sys outputDir else async_return ()) (\<lambda>_.
            if fileFound then decodeWithSstv sys wavPath outputDir else async_return None))),
      dec_checkInstalled =
        async_catch (async_bind (file_exists sys (script_path sys ''sstv-decode-wrapper.py'')) (\<lambda>wrapperExists.
          if \<not> wrapperExists then async_return False
          else async_bind (run_cmd sys ''python3'' [lit ''-c'', lit ''import sstv; print(\"OK\")'']) (\<lambda>result.
                 async_return (cmd_exitCode result = 0 \<and> js_includes (cmd_stdout result) ''OK'')))) False\<rparr>"

section \<open>Registry\<close>

type_synonym decoder_registry = "(SignalType, Decoder) jsmap"

definition registerDecoder :: "Decoder \<Rightarrow> decoder_registry \<Rightarrow> decoder_registry" where
  "registerDecoder decoder registry = map_set (dec_signalType decoder) decoder registry"

definition getDecoder :: "SignalType \<Rightarrow> decoder_registry \<Rightarrow> Decoder option" where
  "getDecoder signalType registry = map_get registry signalType"

definition getAllDecoders :: "decoder_registry \<Rightarrow> Decoder list" where
  "getAllDecoders registry = map_values registry"

definition hasDecoder :: "SignalType \<Rightarrow> decoder_registry \<Rightarrow> bool" where
  "hasDecoder signalType registry = map_has registry signalType"

text \<open>The registry after the module is loaded.\<close>

definition decoderRegistry :: "os \<Rightarrow> decoder_registry" where
  "decoderRegistry sys = registerDecoder (sstvDecoder sys) (registerDecoder (lrptDecoder sys) [])"

definition decodeRecording :: "os \<Rightarrow> string \<Rightarrow> string \<Rightarrow> SignalType \<Rightarrow> DecoderResult option async" where
  "decodeRecording sys wavPath outputDir signalType =
     (case getDecoder signalType (decoderRegistry sys) of
        None \<Rightarrow> async_return None
      | Some decoder \<Rightarrow>
          async_bind (dec_checkInstalled decoder) (\<lambda>decoderInstalled.
            if decoderInstalled then dec_decode decoder wavPath outputDir else async_return None))"

definition checkDecoderInstalled :: "os \<Rightarrow> SignalType \<Rightarrow> bool async" where
  "checkDecoderInstalled sys signalType =
     (case getDecoder signalType (decoderRegistry sys) of
        None \<Rightarrow> async_return False
      | Some decoder \<Rightarrow> dec_checkInstalled decoder)"

section \<open>Dispatch\<close>

lemma getDecoder_registered:
  "getDecoder t (decoderRegistry sys) = Some (case t of Lrpt \<Rightarrow> lrptDecoder sys | Sstv \<Rightarrow> sstvDecoder sys)"
  unfolding decoderRegistry_def registerDecoder_def getDecoder_def js_map.get_put
  by (cases t) (simp_all add: lrptDecoder_def sstvDecoder_def)

text \<open>Every satellite of the table has a decoder of its own signal type.\<close>

lemma every_satellite_has_a_decoder:
  "\<exists>d. getDecoder (sat_signalType sat) (decoderRegistry sys) = Some d \<and> dec_signalType d = sat_signalType sat"
  by (cases "sat_signalType sat") (simp_all add: getDecoder_registered lrptDecoder_def sstvDecoder_def)

lemma registered_decoders_settle:
  assumes "os_settles sys"
  shows "async_settles (dec_checkInstalled (lrptDecoder sys))" "async_settles (dec_checkInstalled (sstvDecoder sys))"
    "async_settles (dec_decode (lrptDecoder sys) w out)" "async_settles (dec_decode (sstvDecoder sys) w out)"
  using assms
  by (auto simp: lrptDecoder_def sstvDecoder_def decodeWithSatDump_def decodeWithSstv_def Let_def
      intro!: async_bind_settles async_catch_settles run_cmd_settles)

lemma decodeRecording_settles: "os_settles sys \<Longrightarrow> async_settles (decodeRecording sys w out t)"
  unfolding decodeRecording_def getDecoder_registered
  by (cases t) (auto intro!: async_bind_settles registered_decoders_settle)

lemma async_bind_Inr: "async_bind m f now = Some (Inr b, t) \<longleftrightarrow> (\<exists>a u. m now = Some (Inr a, u) \<and> f a u = Some (Inr b, t))"
  by (auto simp: async_bind_def split: option.splits sum.splits prod.splits)

lemma async_return_eq [simp]: "async_return a now = Some (r, t) \<longleftrightarrow> r = Inr a \<and> t = now"
  by (auto simp: async_return_def)

text \<open>When every process ends, decoding settles; a decoding result always names at least one
  non-empty path, it exists only if the recording was found and the decoder of the recording's
  own signal type is installed, and the path of an SSTV image is derived from the recording's
  name.\<close>

theorem decodeRecording_result:
  assumes "os_settles sys"
  shows "\<exists>r t. decodeRecording sys wav out sig now = Some (r, t) \<and>
    (\<forall>d. r = Inr (Some d) \<longrightarrow>
       dr_outputPaths d \<noteq> [] \<and>
       (\<exists>u. checkDecoderInstalled sys sig now = Some (Inr True, u) \<and> os_exists sys u wav) \<and>
       (sig = Lrpt \<longrightarrow> [] \<notin> set (dr_outputPaths d)) \<and>
       (sig = Sstv \<longrightarrow> dr_outputPaths d = [path_join [out, js_basename wav ''.wav'' @ ''-sstv.png'']]))"
proof -
  obtain r t where run: "decodeRecording sys wav out sig now = Some (r, t)"
    using decodeRecording_settles [OF assms] by (fastforce simp: async_settles_def)
  have "dr_outputPaths d \<noteq> [] \<and> (\<exists>u. checkDecoderInstalled sys sig now = Some (Inr True, u) \<and> os_exists sys u wav) \<and>
      (sig = Lrpt \<longrightarrow> [] \<notin> set (dr_outputPaths d)) \<and>
      (sig = Sstv \<longrightarrow> dr_outputPaths d = [path_join [out, js_basename wav ''.wav'' @ ''-sstv.png'']])"
    if "r = Inr (Some d)" for d
  proof (cases sig)
    case Lrpt
    then show ?thesis
      using run that unfolding decodeRecording_def checkDecoderInstalled_def getDecoder_registered
      by (auto simp: async_bind_Inr lrptDecoder_def file_exists_def decodeWithSatDump_def Let_def split: if_splits)
  next
    case Sstv
    then show ?thesis
      using run that unfolding decodeRecording_def checkDecoderInstalled_def getDecoder_registered
      by (auto simp: async_bind_Inr sstvDecoder_def file_exists_def decodeWithSstv_def Let_def split: if_splits)
  qed
  with run show ?thesis by blast
qed

theorem decodeRecording_result_witness:
  "\<exists>r t. decodeRecording demo_os ''/r/a.wav'' ''/i'' Lrpt 0 = Some (r, t)"
  using decodeRecording_result [OF demo_os_settles, of "''/r/a.wav''" "''/i''" Lrpt 0] by blast

text \<open>A decoder that is ended by a signal, as the time limit of five minutes does, counts as
  successful, since its null exit code is read as 0: the result is then what the search for
  images finds.\<close>

theorem killed_decoder_counts_as_success:
  assumes "os_spawn sys now (script_path sys ''lrpt-decode-wrapper.sh'')
      [lit wav, lit (path_join [out, js_basename wav ''.wav'' @ ''_lrpt''])] = ([Close None], ms)"
    and "os_spawn sys (now + int ms) ''find'' [lit (path_join [out, js_basename wav ''.wav'' @ ''_lrpt'']),
      lit ''-name'', lit ''*.png'', lit ''-type'', lit ''f''] = ([Stdout img, Close (Some 0)], ms')"
    and "img \<noteq> []" "NL \<notin> set img" "js_trim img = img"
  shows "decodeWithSatDump sys wav out now = Some (Inr [img], now + int ms + int ms')"
  using assms
  by (simp add: decodeWithSatDump_def Let_def async_bind_def run_cmd_def runCommand_def async_return_def js_split_no_sep)

theorem killed_decoder_counts_as_success_witness:
  "decodeWithSatDump (demo_os\<lparr>os_spawn := \<lambda>t c a. if c = ''find'' then ([Stdout ''x.png'', Close (Some 0)], 1) else ([Close None], 300000)\<rparr>)
     ''a.wav'' ''/i'' 0 = Some (Inr [''x.png''], 0 + int 300000 + int 1)"
  by (rule killed_decoder_counts_as_success)
     (auto simp: js_trim_def is_ws_def NL_def script_path_def path_join_def path_normalize_def demo_os_def)

section \<open>Time only moves forward\<close>

definition async_mono :: "'a async \<Rightarrow> bool" where
  "async_mono m \<longleftrightarrow> (\<forall>now r t. m now = Some (r, t) \<longrightarrow> now \<le> t)"

lemma async_monoD: "async_mono m \<Longrightarrow> m now = Some (r, t) \<Longrightarrow> now \<le> t"
  by (simp add: async_mono_def)

lemma async_return_mono [intro, simp]: "async_mono (async_return a)"
  by (simp add: async_mono_def)

lemma async_bind_mono [intro]: "async_mono m \<Longrightarrow> (\<And>a. async_mono (f a)) \<Longrightarrow> async_mono (async_bind m f)"
  unfolding async_mono_def async_bind_def
  by (auto split: option.splits sum.splits prod.splits) (meson order_trans)+

lemma async_catch_mono [intro]: "async_mono m \<Longrightarrow> async_mono (async_catch m a)"
  by (auto simp: async_mono_def async_catch_def split: option.splits sum.splits prod.splits)

lemma run_cmd_mono [intro, simp]: "async_mono (run_cmd sys c a)"
  by (auto simp: async_mono_def run_cmd_def runCommand_time)

lemma file_async_mono [intro, simp]: "async_mono (file_exists sys p)" "async_mono (ensure_dir sys p)"
  by (simp_all add: async_mono_def file_exists_def ensure_dir_def)

lemma registered_decoders_mono:
  "async_mono (dec_checkInstalled (lrptDecoder sys))" "async_mono (dec_checkInstalled (sstvDecoder sys))"
  "async_mono (dec_decode (lrptDecoder sys) w out)" "async_mono (dec_decode (sstvDecoder sys) w out)"
  by (auto simp: lrptDecoder_def sstvDecoder_def decodeWithSatDump_def decodeWithSstv_def Let_def
      intro!: async_bind_mono async_catch_mono)

lemma decodeRecording_mono: "async_mono (decodeRecording sys w out t)"
  unfolding decodeRecording_def getDecoder_registered
  by (cases t) (auto intro!: async_bind_mono registered_decoders_mono)

end
