(* ===== verification/Recorder.thy ===== *)
theory Recorder
  imports Decoders Capture_Database State_Manager Sstv_Events Fft_Stream
begin

text \<open>
  \<open>src/backend/capture/recorder.ts\<close>, with the station as the capture code sees it: the
  clock, the state manager and the events it has emitted, the database, the FFT stream, the
  scanner's flags and the recordings made.  What the capture code awaits changes the station
  only through its own calls.
\<close>

section \<open>The station\<close>

record recording =
  rec_path :: string
  rec_satellite :: SatelliteInfo
  rec_start :: date
  rec_end :: date

record station =
  w_now :: date
  w_state :: SystemState
  w_events :: "(date \<times> StateEvent) list"
  w_db :: db_module
  w_fft :: fft_stream
  w_sstv :: SstvModule
  w_recordings :: "recording list"

text \<open>
  What the processes do: the operating system, and how long \<open>rtl_sdr\<close> takes to end after
  a \<open>SIGTERM\<close> and \<open>sox\<close> to close after its input ended.
\<close>

record env =
  env_os :: os
  env_sdr_ends :: "date \<Rightarrow> nat"
  env_sox_ends :: "date \<Rightarrow> nat"

definition st_call :: "sm_call \<Rightarrow> station \<Rightarrow> station" where
  "st_call c w =
     (let (s, e) = sm_exec (w_now w) c (w_state w)
      in w\<lparr>w_state := s, w_events := w_events w @ [(w_now w, e)]\<rparr>)"

definition st_sleep :: "env \<Rightarrow> nat \<Rightarrow> station \<Rightarrow> station" where
  "st_sleep e ms w = w\<lparr>w_now := js_sleep (env_os e) ms (w_now w)\<rparr>"

text \<open>\<open>await stopFFTStream()\<close>\<close>

definition st_stopFFT :: "env \<Rightarrow> station \<Rightarrow> station" where
  "st_stopFFT e w =
     (case stop_begin (w_now w) (w_fft w) of
        (None, s) \<Rightarrow> w\<lparr>w_fft := stop_tail s\<rparr>
      | (Some (pid, due), s) \<Rightarrow>
          (let ends = w_now w + int (env_sdr_ends e (w_now w)); t = min ends due;
               s = (if ends \<le> due then proc_close t pid None s else s)
           in w\<lparr>w_now := t, w_fft := stop_resumed t s\<rparr>))"

lemma st_call_simps [simp]:
  "w_now (st_call c w) = w_now w" "w_db (st_call c w) = w_db w" "w_fft (st_call c w) = w_fft w"
  "w_recordings (st_call c w) = w_recordings w" "w_state (st_call c w) = fst (sm_exec (w_now w) c (w_state w))"
  "w_events (st_call c w) = w_events w @ [(w_now w, snd (sm_exec (w_now w) c (w_state w)))]"
  "w_sstv (st_call c w) = w_sstv w"
  by (simp_all add: st_call_def split: prod.splits)

lemma st_sleep_simps [simp]:
  "w_db (st_sleep e n w) = w_db w" "w_fft (st_sleep e n w) = w_fft w" "w_state (st_sleep e n w) = w_state w"
  "w_events (st_sleep e n w) = w_events w" "w_recordings (st_sleep e n w) = w_recordings w"
  "w_sstv (st_sleep e n w) = w_sstv w"
  by (simp_all add: st_sleep_def)

lemma st_sleep_now: "w_now w + int n \<le> w_now (st_sleep e n w)"
  by (simp add: st_sleep_def js_sleep_ge)

lemma st_stopFFT_simps [simp]:
  "w_db (st_stopFFT e w) = w_db w" "w_state (st_stopFFT e w) = w_state w" "w_events (st_stopFFT e w) = w_events w"
  "w_recordings (st_stopFFT e w) = w_recordings w" "w_sstv (st_stopFFT e w) = w_sstv w"
  by (simp_all add: st_stopFFT_def Let_def split: prod.splits option.splits)

section \<open>Recording\<close>

record RecordingSession =
  ses_satellite :: SatelliteInfo
  ses_outputPath :: string
  ses_startTime :: date
  ses_rtl_args :: "arg list"
  ses_sox_args :: "arg list"

definition startRecording :: "env \<Rightarrow> SatelliteInfo \<Rightarrow> ReceiverConfig \<Rightarrow> date \<Rightarrow> RecordingSession throwing" where
  "startRecording e satellite config now =
     (if \<not> os_mkdir (env_os e) now (rc_recordingsDir config) then Inl ''mkdir''
      else let filename = generateFilename now (sat_name satellite) ''wav'';
               outputPath = path_join [rc_recordingsDir config, filename]
           in Inr \<lparr>ses_satellite = satellite, ses_outputPath = outputPath, ses_startTime = now,
                   ses_rtl_args = [lit ''-f'', num (sat_frequency satellite), lit ''-s'', num (rc_sdr_sampleRate config),
                     lit ''-g'', num (rc_sdr_gain config), lit ''-p'', num (rc_sdr_ppmCorrection config),
                     lit ''-E'', lit ''deemp'', lit ''-F'', lit ''9'', lit ''-''],
                   ses_sox_args = [lit ''-t'', lit ''raw'', lit ''-r'', num (rc_sdr_sampleRate config), lit ''-e'', lit ''s'',
                     lit ''-b'', lit ''16'', lit ''-c'', lit ''1'', lit ''-'', lit ''-t'', lit ''wav'', lit outputPath]\<rparr>)"

text \<open>\<open>stop\<close>: at most five seconds for \<open>sox\<close> to finish the file.\<close>

definition session_stop :: "env \<Rightarrow> RecordingSession \<Rightarrow> station \<Rightarrow> station" where
  "session_stop e session w =
     (let t = w_now w + min (int (env_sox_ends e (w_now w))) 5000
      in w\<lparr>w_now := t,
           w_recordings := w_recordings w @
             [\<lparr>rec_path = ses_outputPath session, rec_satellite = ses_satellite session,
               rec_start = ses_startTime session, rec_end = t\<rparr>]\<rparr>)"

text \<open>
  Both callers pass a callback that reports the rounded percentage to the state manager.
\<close>

definition report_progress :: "int \<Rightarrow> int \<Rightarrow> station \<Rightarrow> station" where
  "report_progress elapsed tot w =
     (let progress = js_round (real_of_int elapsed / real_of_int tot * 100)
      in st_call (UpdateProgress (real_of_int progress) (real_of_int elapsed) (real_of_int tot)) w)"

lemma report_progress_now [simp]: "w_now (report_progress elapsed tot w) = w_now w"
  by (simp add: report_progress_def Let_def)

function record_loop :: "env \<Rightarrow> date \<Rightarrow> date \<Rightarrow> int \<Rightarrow> station \<Rightarrow> station" where
  "record_loop e startTime endTime durationSeconds w =
     (if w_now w < endTime
      then let elapsed = (w_now w - startTime) div 1000
           in record_loop e startTime endTime durationSeconds
                (st_sleep e 1000 (report_progress elapsed durationSeconds w))
      else w)"
  by pat_completeness auto
termination
proof (relation "measure (\<lambda>(e, s, t, d, w). nat (t - w_now w))", goal_cases)
  case (2 e s t d w x)
  then show ?case
    using st_sleep_now [of "report_progress x d w" 1000 e] by simp
qed simp

declare record_loop.simps [simp del]

definition recordPass :: "env \<Rightarrow> SatelliteInfo \<Rightarrow> int \<Rightarrow> ReceiverConfig \<Rightarrow> station \<Rightarrow> string throwing \<times> station" where
  "recordPass e satellite durationSeconds config w =
     (case startRecording e satellite config (w_now w) of
        Inl err \<Rightarrow> (Inl err, w)
      | Inr session \<Rightarrow>
          (let startTime = w_now w; endTime = startTime + durationSeconds * 1000;
               w = record_loop e startTime endTime durationSeconds w;
               w = session_stop e session w
           in (Inr (ses_outputPath session), w)))"

section \<open>What a recording reports\<close>

definition progress_ok :: "date \<Rightarrow> int \<Rightarrow> date \<times> StateEvent \<Rightarrow> bool" where
  "progress_ok startTime d te \<longleftrightarrow>
     (case te of (t, ev) \<Rightarrow> startTime \<le> t \<and> t < startTime + d * 1000 \<and>
        (let elapsed = (t - startTime) div 1000; progress = js_round (real_of_int elapsed / real_of_int d * 100)
         in 0 \<le> elapsed \<and> elapsed < d \<and> 0 \<le> progress \<and> progress \<le> 100 \<and>
            ev = capture_progress (real_of_int progress) (real_of_int elapsed) (real_of_int d)))"

lemma percent_range:
  assumes "0 \<le> x" "x \<le> (d :: int)" "0 < d"
  shows "0 \<le> js_round (real_of_int x / real_of_int d * 100) \<and> js_round (real_of_int x / real_of_int d * 100) \<le> 100"
proof -
  have "0 \<le> real_of_int x / real_of_int d * 100" "real_of_int x / real_of_int d * 100 \<le> 100"
    using assms by (simp_all add: field_simps)
  then show ?thesis
    using js_round_mono [of 0 "real_of_int x / real_of_int d * 100"] js_round_mono [of "real_of_int x / real_of_int d * 100" 100]
      js_round_of_int [of 0] js_round_of_int [of 100] by simp
qed

lemma report_progress_ok:
  assumes "startTime \<le> w_now w" "w_now w < startTime + d * 1000"
  shows "progress_ok startTime d (w_now w, snd (sm_exec (w_now w)
    (UpdateProgress (real_of_int (js_round (real_of_int ((w_now w - startTime) div 1000) / real_of_int d * 100)))
       (real_of_int ((w_now w - startTime) div 1000)) (real_of_int d)) (w_state w)))"
proof -
  have "0 < d" using assms by simp
  moreover have "0 \<le> (w_now w - startTime) div 1000" "(w_now w - startTime) div 1000 < d" using assms by auto
  ultimately show ?thesis
    using assms percent_range [of "(w_now w - startTime) div 1000" d]
    by (simp add: progress_ok_def updateProgress_def Let_def)
qed

lemma record_loop_spec:
  assumes "startTime \<le> w_now w" "endTime = startTime + d * 1000"
  shows "let w' = record_loop e startTime endTime d w in
    w_now w \<le> w_now w' \<and> endTime \<le> w_now w' \<and> w_db w' = w_db w \<and> w_fft w' = w_fft w \<and> w_sstv w' = w_sstv w \<and>
    w_recordings w' = w_recordings w \<and> st_status (w_state w') = st_status (w_state w) \<and>
    st_currentPass (w_state w') = st_currentPass (w_state w) \<and>
    st_upcomingPasses (w_state w') = st_upcomingPasses (w_state w) \<and>
    st_nextPass (w_state w') = st_nextPass (w_state w) \<and>
    (\<exists>ps. w_events w' = w_events w @ ps \<and> (\<forall>p \<in> set ps. progress_ok startTime d p) \<and>
       sorted_wrt (\<lambda>p q. fst p + 1000 \<le> fst q) ps \<and> (\<forall>p \<in> set ps. w_now w \<le> fst p))"
  using assms
proof (induction e startTime endTime d w rule: record_loop.induct)
  case (1 e startTime endTime d w)
  show ?case
  proof (cases "w_now w < endTime")
    case False
    then show ?thesis by (simp add: record_loop.simps [of e startTime endTime d w] Let_def)
  next
    case True
    let ?el = "(w_now w - startTime) div 1000"
    let ?w1 = "st_sleep e 1000 (report_progress ?el d w)"
    have later: "w_now w + 1000 \<le> w_now ?w1" using st_sleep_now [of "report_progress ?el d w" 1000 e] by simp
    have ok: "progress_ok startTime d (w_now w, snd (sm_exec (w_now w)
        (UpdateProgress (real_of_int (js_round (real_of_int ?el / real_of_int d * 100))) (real_of_int ?el) (real_of_int d)) (w_state w)))"
      using report_progress_ok "1.prems" True by simp
    have unfold: "record_loop e startTime endTime d w = record_loop e startTime endTime d ?w1"
      using True by (simp add: record_loop.simps [of e startTime endTime d w] Let_def)
    have "startTime \<le> w_now ?w1" using later "1.prems" by simp
    note ih = "1.IH" [OF True refl this "1.prems"(2)]
    obtain ps where ps: "w_events (record_loop e startTime endTime d ?w1) = w_events ?w1 @ ps"
      "\<forall>p \<in> set ps. progress_ok startTime d p" "sorted_wrt (\<lambda>p q. fst p + 1000 \<le> fst q) ps"
      "\<forall>p \<in> set ps. w_now ?w1 \<le> fst p"
      using ih unfolding Let_def by blast
    let ?p = "(w_now w, snd (sm_exec (w_now w)
        (UpdateProgress (real_of_int (js_round (real_of_int ?el / real_of_int d * 100))) (real_of_int ?el) (real_of_int d)) (w_state w)))"
    have "w_events (record_loop e startTime endTime d w) = w_events w @ ?p # ps \<and>
      (\<forall>p \<in> set (?p # ps). progress_ok startTime d p) \<and> sorted_wrt (\<lambda>p q. fst p + 1000 \<le> fst q) (?p # ps) \<and>
      (\<forall>p \<in> set (?p # ps). w_now w \<le> fst p)"
      using ps ok later unfold by (fastforce simp: report_progress_def Let_def)
    then show ?thesis
      using ih later unfolding unfold Let_def
      by (intro conjI exI [of _ "?p # ps"]) (simp_all add: report_progress_def Let_def updateProgress_def)
  qed
qed

lemma record_loop_upper:
  assumes "\<forall>t. os_late (env_os e) t \<le> L" "w_now w < endTime"
  shows "w_now (record_loop e startTime endTime d w) < endTime + 1000 + int L"
  using assms
proof (induction e startTime endTime d w rule: record_loop.induct)
  case (1 e startTime endTime d w)
  let ?w1 = "st_sleep e 1000 (report_progress ((w_now w - startTime) div 1000) d w)"
  have unfold: "record_loop e startTime endTime d w = record_loop e startTime endTime d ?w1"
    using "1.prems" by (simp add: record_loop.simps [of e startTime endTime d w] Let_def)
  have late: "w_now ?w1 < endTime + 1000 + int L"
  proof -
    have "int (os_late (env_os e) (w_now w)) \<le> int L" using "1.prems"(1) by simp
    moreover have "w_now ?w1 = w_now w + 1000 + int (os_late (env_os e) (w_now w))"
      by (simp add: st_sleep_def js_sleep_def)
    ultimately show ?thesis using "1.prems"(2) by linarith
  qed
  show ?case
  proof (cases "w_now ?w1 < endTime")
    case True
    then show ?thesis using "1.IH" [OF "1.prems"(2) refl "1.prems"(1)] unfold by simp
  next
    case False
    then show ?thesis using late unfold by (simp add: record_loop.simps [of e startTime endTime d ?w1])
  qed
qed


section \<open>An example station\<close>

definition demo_rconfig :: ReceiverConfig where
  "demo_rconfig = \<lparr>rc_serviceMode = Full, rc_sdrRelay_url = None, rc_sdrRelay_port = 3001, rc_sdrRelay_host = ''0.0.0.0'',
     rc_station = \<lparr>co_latitude = 51, co_longitude = 0, co_altitude = 0\<rparr>, rc_sdr_gain = 40, rc_sdr_sampleRate = 48000,
     rc_sdr_ppmCorrection = 0, rc_minElevation = 20, rc_minSignalStrength = - 20, rc_skipSignalCheck = False,
     rc_recordingsDir = ''/rec'', rc_imagesDir = ''/img'', rc_tle_updateIntervalHours = 24, rc_web_port = 3000,
     rc_web_host = ''0.0.0.0'', rc_database_path = ''/data/c.db'', rc_logLevel = Info, rc_issSstvEnabled = False\<rparr>"

definition demo_env :: env where
  "demo_env = \<lparr>env_os = demo_os, env_sdr_ends = \<lambda>t. 100, env_sox_ends = \<lambda>t. 50\<rparr>"

definition demo_station_at :: "date \<Rightarrow> station" where
  "demo_station_at t = \<lparr>w_now = t, w_state = initialState t, w_events = [],
     w_db = \<lparr>dm_dirs = \<lambda>_. False, dm_files = [], dm_instance = None\<rparr>, w_fft = fs_initial, w_sstv = sstv_init None,
     w_recordings = []\<rparr>"

lemma demo_env_simps [simp]: "env_os demo_env = demo_os"
  by (simp add: demo_env_def)

lemma demo_os_simps [simp]: "os_mkdir demo_os t p" "os_late demo_os t = 1" "os_exists demo_os t p"
  by (simp_all add: demo_os_def)


end
