(* ===== verification/Scheduler.thy ===== *)
theory Scheduler
  imports Recorder
begin

text \<open>
  \<open>src/backend/scheduler/scheduler.ts\<close>: waiting for a pass, capturing it and working
  through a list of passes.  The ground scan that may run in the background while the
  scheduler waits is started here and modelled in \<open>Sstv_Scanner\<close>.
\<close>

section \<open>Saving\<close>

text \<open>Every exception is caught, so a failed save leaves what was written before it.\<close>

definition put_db :: "string \<Rightarrow> db \<Rightarrow> station \<Rightarrow> station" where
  "put_db path d w = w\<lparr>w_db := (w_db w)\<lparr>dm_files := map_set path d (dm_files (w_db w))\<rparr>\<rparr>"

definition saveResultToDatabase :: "CaptureResult \<Rightarrow> SatellitePass \<Rightarrow> station \<Rightarrow> station" where
  "saveResultToDatabase result pass w =
     (case (dm_instance (w_db w), getDatabase (w_db w)) of
        (Some path, Inr d) \<Rightarrow>
          (case saveCapture (w_now w) result pass d of
             (Inl err, d) \<Rightarrow> put_db path d w
           | (Inr captureId, d) \<Rightarrow>
               put_db path
                 (if length (cr_imagePaths result) > 0
                  then snd (saveImages (w_now w) captureId (cr_imagePaths result) d) else d) w)
      | _ \<Rightarrow> w)"

lemma saveResult_simps [simp]:
  "w_now (saveResultToDatabase r p w) = w_now w" "w_state (saveResultToDatabase r p w) = w_state w"
  "w_events (saveResultToDatabase r p w) = w_events w" "w_fft (saveResultToDatabase r p w) = w_fft w"
  "w_recordings (saveResultToDatabase r p w) = w_recordings w" "w_sstv (saveResultToDatabase r p w) = w_sstv w"
  by (simp_all add: saveResultToDatabase_def put_db_def split: option.splits sum.splits prod.splits)

section \<open>Capturing\<close>

definition failed_result :: "SatelliteInfo \<Rightarrow> date \<Rightarrow> date \<Rightarrow> string \<Rightarrow> CaptureResult" where
  "failed_result satellite startTime endTime err =
     \<lparr>cr_satellite = satellite, cr_recordingPath = [], cr_imagePaths = [], cr_startTime = startTime,
      cr_endTime = endTime, cr_maxSignalStrength = 0, cr_success = False, cr_error = Some err\<rparr>"

definition finish_capture :: "CaptureResult \<Rightarrow> SatellitePass \<Rightarrow> station \<Rightarrow> CaptureResult \<times> station" where
  "finish_capture result pass w = (result, st_call (CompletePass result) (saveResultToDatabase result pass w))"

definition capture_duration :: "SatellitePass \<Rightarrow> int" where
  "capture_duration pass = \<lceil>pass_duration pass\<rceil> + pc_captureBufferSeconds PASS_CONSTRAINTS * 2"

text \<open>Release the device before \<open>pass_start\<close> is emitted.\<close>

definition release_device :: "env \<Rightarrow> station \<Rightarrow> station" where
  "release_device e w = (if isFFTStreamRunning (w_fft w) then st_sleep e 1000 (st_stopFFT e w) else w)"

text \<open>The \<open>try\<close> block: record, decode, save, complete; a thrown error completes too.\<close>

definition record_and_decode ::
  "env \<Rightarrow> SatellitePass \<Rightarrow> ReceiverConfig \<Rightarrow> station \<Rightarrow> (CaptureResult \<times> station) option" where
  "record_and_decode e pass config w =
     (let satellite = pass_satellite pass; startTime = w_now w;
          fail = (\<lambda>err w. Some (finish_capture (failed_result satellite startTime (w_now w) err) pass w))
      in case recordPass e satellite (capture_duration pass) config w of
           (Inl err, w) \<Rightarrow> fail err w
         | (Inr recordingPath, w) \<Rightarrow>
             (let w = st_call (SetStatus Decoding) w
              in case decodeRecording (env_os e) recordingPath (rc_imagesDir config) (sat_signalType satellite) (w_now w) of
                   None \<Rightarrow> None
                 | Some (Inl err, t) \<Rightarrow> fail err (w\<lparr>w_now := t\<rparr>)
                 | Some (Inr decoderResult, t) \<Rightarrow>
                     (let w = w\<lparr>w_now := t\<rparr>;
                          imagePaths = (case decoderResult of None \<Rightarrow> [] | Some r \<Rightarrow> dr_outputPaths r);
                          result = \<lparr>cr_satellite = satellite, cr_recordingPath = recordingPath,
                                    cr_imagePaths = imagePaths, cr_startTime = startTime, cr_endTime = w_now w,
                                    cr_maxSignalStrength = 0, cr_success = True, cr_error = None\<rparr>
                      in Some (finish_capture result pass w))))"

definition capturePass :: "env \<Rightarrow> SatellitePass \<Rightarrow> ReceiverConfig \<Rightarrow> station \<Rightarrow> (CaptureResult \<times> station) option" where
  "capturePass e pass config w =
     (let satellite = pass_satellite pass;
          w = release_device e w;
          w = st_call (StartPass pass) w
      in if \<not> rc_skipSignalCheck config
         then (case verifySignal (env_os e) satellite (rc_sdr_gain config) (rc_minSignalStrength config) 3 (w_now w) of
                 None \<Rightarrow> None
               | Some (signalOk, t) \<Rightarrow>
                   (let w = w\<lparr>w_now := t\<rparr>
                    in if \<not> signalOk
                       then Some (finish_capture (failed_result satellite (w_now w) (w_now w) ''Signal too weak'') pass w)
                       else record_and_decode e pass config w))
         else record_and_decode e pass config w)"

section \<open>Waiting and scheduling\<close>

definition MIN_IDLE_FOR_SSTV_SCAN :: int where
  "MIN_IDLE_FOR_SSTV_SCAN = 180"

text \<open>
  A scan that was started: when, and its maximum duration.  Up to its first \<open>await\<close> it
  runs inside the call: it sets the flags, the status and the first frequency.
\<close>

record background_scan =
  bs_startTime :: date
  bs_maxDuration :: int

definition scan_begins :: "station \<Rightarrow> station" where
  "scan_begins w =
     (let w = w\<lparr>w_sstv := (w_sstv w)\<lparr>sm_scanner := \<lparr>sf_isScanning = True, sf_shouldStop = False\<rparr>\<rparr>\<rparr>;
          w = st_call (SetStatus Scanning) w
      in st_call (SetScanningFrequency 144500000 ''2m SSTV Calling'') w)"

definition request_scan_stop :: "station \<Rightarrow> station" where
  "request_scan_stop w = w\<lparr>w_sstv := (w_sstv w)\<lparr>sm_scanner := stopSstvScanner (sm_scanner (w_sstv w))\<rparr>\<rparr>"

definition waitForPass :: "env \<Rightarrow> SatellitePass \<Rightarrow> station \<Rightarrow> background_scan option \<times> station" where
  "waitForPass e pass w =
     (let now = w_now w;
          targetTime = pass_aos pass - pc_captureBufferSeconds PASS_CONSTRAINTS * 1000;
          w = st_call (SetStatus Waiting) w
      in if now \<ge> targetTime then (None, w)
         else let waitMs = targetTime - now; waitSeconds = \<lceil>real_of_int waitMs / 1000\<rceil>
              in if waitSeconds > MIN_IDLE_FOR_SSTV_SCAN \<and> \<not> isSstvScannerRunning (sm_scanner (w_sstv w)) \<and>
                    isGroundSstvScanEnabled (w_sstv w)
                 then let maxScanDuration = min (waitSeconds - 60) 120;
                          w = scan_begins w;
                          w = st_sleep e (nat waitMs) w
                      in (Some \<lparr>bs_startTime = now, bs_maxDuration = maxScanDuration\<rparr>, request_scan_stop w)
                 else (None, st_sleep e (nat waitMs) w))"

fun runScheduler ::
  "env \<Rightarrow> SatellitePass list \<Rightarrow> ReceiverConfig \<Rightarrow> station \<Rightarrow> (CaptureResult list \<times> station) option" where
  "runScheduler e [] config w = Some ([], w)"
| "runScheduler e (pass # passes) config w =
     (if pass_los pass < w_now w then runScheduler e passes config w
      else let (scan, w) = waitForPass e pass w
           in case capturePass e pass config w of
                None \<Rightarrow> None
              | Some (result, w) \<Rightarrow>
                  (case runScheduler e passes config w of
                     None \<Rightarrow> None
                   | Some (results, w) \<Rightarrow> Some (result # results, w)))"

section \<open>Time formats\<close>

text \<open>\<open>%\<close> has the sign of the dividend; the callers pass natural numbers.\<close>

definition formatDuration :: "int \<Rightarrow> string" where
  "formatDuration seconds =
     (let hours = seconds div 3600; minutes = seconds mod 3600 div 60; secs = seconds mod 60
      in if hours > 0 then show_int hours @ ''h '' @ show_int minutes @ ''m '' @ show_int secs @ ''s''
         else if minutes > 0 then show_int minutes @ ''m '' @ show_int secs @ ''s''
         else show_int secs @ ''s'')"

definition formatCountdown :: "int \<Rightarrow> string" where
  "formatCountdown seconds =
     (let hours = seconds div 3600; minutes = seconds mod 3600 div 60; secs = seconds mod 60
      in ''Time until pass: '' @ js_padStart 2 (CHR ''0'') (show_int hours) @ '':'' @
         js_padStart 2 (CHR ''0'') (show_int minutes) @ '':'' @ js_padStart 2 (CHR ''0'') (show_int secs))"

section \<open>Captures complete\<close>

definition quiet :: "date \<times> StateEvent \<Rightarrow> bool" where
  "quiet te \<longleftrightarrow> (case snd te of pass_start _ \<Rightarrow> False | pass_complete _ \<Rightarrow> False | _ \<Rightarrow> True)"

definition recorded :: "station \<Rightarrow> station \<Rightarrow> bool" where
  "recorded w w' \<longleftrightarrow>
     w_recordings w' = w_recordings w \<or>
     (\<exists>x. w_recordings w' = w_recordings w @ [x] \<and> w_now w \<le> rec_start x \<and> rec_start x \<le> rec_end x \<and> rec_end x \<le> w_now w')"

lemma recordPass_keeps_all:
  assumes "recordPass e sat d config w = (r, w')"
  shows "w_db w' = w_db w \<and> w_fft w' = w_fft w \<and> st_upcomingPasses (w_state w') = st_upcomingPasses (w_state w) \<and>
    w_now w \<le> w_now w' \<and> (\<exists>ps. w_events w' = w_events w @ ps \<and> (\<forall>p \<in> set ps. quiet p)) \<and> recorded w w' \<and>
    w_sstv w' = w_sstv w"
proof -
  let ?w1 = "record_loop e (w_now w) (w_now w + d * 1000) d w"
  note l = record_loop_spec [of "w_now w" w "w_now w + d * 1000" d e, OF order_refl refl, unfolded Let_def]
  have q: "quiet p" if "progress_ok (w_now w) d p" for p
    using that by (auto simp: progress_ok_def quiet_def Let_def split: prod.splits)
  consider (err) x where "startRecording e sat config (w_now w) = Inl x" "w' = w"
    | (ok) ses where "startRecording e sat config (w_now w) = Inr ses" "w' = session_stop e ses ?w1"
    using assms by (auto simp: recordPass_def Let_def split: sum.splits)
  then show ?thesis
  proof cases
    case err
    then show ?thesis by (simp add: recorded_def)
  next
    case ok
    have st: "ses_startTime ses = w_now w"
      using ok(1) by (auto simp: startRecording_def Let_def split: if_splits)
    have "recorded w w'" using ok l st by (auto simp: session_stop_def Let_def recorded_def min_def)
    moreover have "\<exists>ps. w_events w' = w_events w @ ps \<and> (\<forall>p \<in> set ps. quiet p)"
      using ok l q by (auto simp: session_stop_def Let_def)
    ultimately show ?thesis using ok l by (simp add: session_stop_def Let_def min_def)
  qed
qed

lemma recordPass_keeps:
  assumes "recordPass e sat d config w = (r, w')"
  shows "w_db w' = w_db w" "w_fft w' = w_fft w" "st_upcomingPasses (w_state w') = st_upcomingPasses (w_state w)"
    "w_now w \<le> w_now w'" "\<exists>ps. w_events w' = w_events w @ ps \<and> (\<forall>p \<in> set ps. quiet p)" "recorded w w'"
    "w_sstv w' = w_sstv w"
  using recordPass_keeps_all [OF assms] by blast+

text \<open>
  What holds when a capture is over: the station is idle with no current pass, its pass left
  the queue only if it was recognised, and the last event announces the result.
\<close>

definition captured :: "SatellitePass \<Rightarrow> station \<Rightarrow> CaptureResult \<Rightarrow> station \<Rightarrow> bool" where
  "captured pass w r w' \<longleftrightarrow>
     st_status (w_state w') = Idle \<and> st_currentPass (w_state w') = None \<and> st_captureProgress (w_state w') = 0 \<and>
     st_upcomingPasses (w_state w') = filter (\<lambda>p. \<not> is_completed_pass r p) (st_upcomingPasses (w_state w)) \<and>
     st_nextPass (w_state w') = first (st_upcomingPasses (w_state w')) \<and>
     cr_satellite r = pass_satellite pass \<and> w_fft w' = w_fft w \<and> w_now w \<le> w_now w' \<and> recorded w w' \<and>
     (\<exists>ps. w_events w' = w_events w @ ps @ [(w_now w', pass_complete r)] \<and> (\<forall>p \<in> set ps. quiet p)) \<and>
     (\<exists>v. w_db v = w_db w \<and> w_now v = w_now w' \<and> w_db w' = w_db (saveResultToDatabase r pass v))"

lemma finish_captured:
  assumes "cr_satellite r = pass_satellite pass" "w_fft v = w_fft w" "w_now w \<le> w_now v" "recorded w v"
    "w_events v = w_events w @ ps" "\<forall>p \<in> set ps. quiet p" "w_db v = w_db w"
    "st_upcomingPasses (w_state v) = st_upcomingPasses (w_state w)"
  shows "captured pass w (fst (finish_capture r pass v)) (snd (finish_capture r pass v))"
  using assms unfolding captured_def finish_capture_def
  by (auto simp: completePass_def Let_def recorded_def)

lemma record_and_decode_captured:
  assumes "os_settles (env_os e)"
  shows "\<exists>r w'. record_and_decode e pass config w = Some (r, w') \<and> captured pass w r w' \<and> cr_startTime r = w_now w"
proof -
  obtain x w1 where rp: "recordPass e (pass_satellite pass) (capture_duration pass) config w = (x, w1)" by fastforce
  note k = recordPass_keeps [OF rp]
  obtain ps where ps: "w_events w1 = w_events w @ ps" "\<forall>p \<in> set ps. quiet p" using k(5) by blast
  show ?thesis
  proof (cases x)
    case (Inl err)
    let ?r = "failed_result (pass_satellite pass) (w_now w) (w_now w1) err"
    have "captured pass w (fst (finish_capture ?r pass w1)) (snd (finish_capture ?r pass w1))"
      using k ps by (intro finish_captured [where ps = ps]) (simp_all add: failed_result_def)
    then show ?thesis using rp Inl
      by (intro exI) (auto simp: record_and_decode_def Let_def finish_capture_def failed_result_def)
  next
    case (Inr path)
    let ?w2 = "st_call (SetStatus Decoding) w1"
    obtain d t where dec: "decodeRecording (env_os e) path (rc_imagesDir config) (sat_signalType (pass_satellite pass)) (w_now ?w2) = Some (d, t)"
      using decodeRecording_settles [OF assms(1)] by (fastforce simp: async_settles_def)
    have t: "w_now w1 \<le> t" using async_monoD [OF decodeRecording_mono dec] by simp
    have fin: "captured pass w (fst (finish_capture r pass (?w2\<lparr>w_now := t\<rparr>))) (snd (finish_capture r pass (?w2\<lparr>w_now := t\<rparr>)))"
      if "cr_satellite r = pass_satellite pass" for r
      using k ps t that
      by (intro finish_captured [where ps = "ps @ [(w_now w1, snd (sm_exec (w_now w1) (SetStatus Decoding) (w_state w1)))]"])
        (auto simp: quiet_def setStatus_def Let_def recorded_def)
    show ?thesis
    proof (cases d)
      case (Inl err)
      show ?thesis
        using rp Inr dec Inl fin [of "failed_result (pass_satellite pass) (w_now w) t err"]
        by (intro exI) (auto simp: record_and_decode_def Let_def finish_capture_def failed_result_def)
    next
      case dr: (Inr dr)
      let ?r = "\<lparr>cr_satellite = pass_satellite pass, cr_recordingPath = path,
          cr_imagePaths = (case dr of None \<Rightarrow> [] | Some r \<Rightarrow> dr_outputPaths r), cr_startTime = w_now w, cr_endTime = t,
          cr_maxSignalStrength = 0, cr_success = True, cr_error = None\<rparr>"
      show ?thesis
        using rp Inr dec dr fin [of ?r]
        by (intro exI) (auto simp: record_and_decode_def Let_def finish_capture_def)
    qed
  qed
qed

lemma stop_begin_time: "stop_begin now s = (Some (pid, due), s') \<Longrightarrow> due = now + 2000"
  by (auto simp: stop_begin_def split: option.splits if_splits)

lemma st_stopFFT_now: "w_now w \<le> w_now (st_stopFFT e w)"
  by (auto simp: st_stopFFT_def Let_def min_def split: prod.splits option.splits dest: stop_begin_time)

lemma st_stopFFT_stopped: "\<not> isFFTStreamRunning (w_fft (st_stopFFT e w))"
  by (auto simp: st_stopFFT_def Let_def isFFTStreamRunning_def stop_resumed_def split: prod.splits option.splits)

lemma release_device_simps [simp]:
  "w_db (release_device e w) = w_db w" "w_state (release_device e w) = w_state w"
  "w_events (release_device e w) = w_events w" "w_recordings (release_device e w) = w_recordings w"
  "w_sstv (release_device e w) = w_sstv w"
  by (simp_all add: release_device_def)

lemma release_device_now: "w_now w \<le> w_now (release_device e w)"
  using st_stopFFT_now [of w e] st_sleep_now [of "st_stopFFT e w" 1000 e] by (auto simp: release_device_def)

lemma release_device_stopped: "\<not> isFFTStreamRunning (w_fft (release_device e w))"
  using st_stopFFT_stopped by (simp add: release_device_def)

lemma capturePass_captured:
  assumes "os_settles (env_os e)"
  shows "\<exists>r w' v. capturePass e pass config w = Some (r, w') \<and> captured pass v r w' \<and>
    v = (st_call (StartPass pass) (release_device e w))\<lparr>w_now := w_now v\<rparr> \<and>
    w_now (release_device e w) \<le> w_now v \<and> w_now v \<le> cr_startTime r"
proof (cases "rc_skipSignalCheck config")
  case True
  let ?v = "st_call (StartPass pass) (release_device e w)"
  obtain r w' where "record_and_decode e pass config ?v = Some (r, w')" "captured pass ?v r w'" "cr_startTime r = w_now ?v"
    using record_and_decode_captured [OF assms] by blast
  then show ?thesis
    using True by (intro exI [of _ r] exI [of _ w'] exI [of _ ?v]) (simp add: capturePass_def Let_def)
next
  case False
  let ?v = "st_call (StartPass pass) (release_device e w)"
  obtain ok t where vs: "verifySignal (env_os e) (pass_satellite pass) (rc_sdr_gain config) (rc_minSignalStrength config) 3 (w_now ?v) = Some (ok, t)"
    using verifySignal_answers [OF assms(1)] by (metis not_Some_eq surj_pair)
  have t: "w_now ?v \<le> t" using verifySignal_time [OF vs] .
  show ?thesis
  proof (cases ok)
    case True
    obtain r w' where "record_and_decode e pass config (?v\<lparr>w_now := t\<rparr>) = Some (r, w')"
      "captured pass (?v\<lparr>w_now := t\<rparr>) r w'" "cr_startTime r = t"
      using record_and_decode_captured [OF assms, of pass config "?v\<lparr>w_now := t\<rparr>"] by auto
    then show ?thesis
      using False vs t True by (intro exI [of _ r] exI [of _ w'] exI [of _ "?v\<lparr>w_now := t\<rparr>"]) (simp add: capturePass_def Let_def)
  next
    case weak: False
    let ?r = "failed_result (pass_satellite pass) t t ''Signal too weak''" and ?u = "?v\<lparr>w_now := t\<rparr>"
    have "captured pass ?u (fst (finish_capture ?r pass ?u)) (snd (finish_capture ?r pass ?u))"
      by (rule finish_captured [where ps = "[]"]) (simp_all add: failed_result_def recorded_def)
    then show ?thesis
      using False vs t weak
      by (intro exI [of _ "fst (finish_capture ?r pass ?u)"] exI [of _ "snd (finish_capture ?r pass ?u)"] exI [of _ ?u])
         (simp add: capturePass_def Let_def finish_capture_def failed_result_def)
  qed
qed


lemma demo_pass_simps [simp]: "pass_duration (demo_pass t) = 600" "pass_aos (demo_pass t) = t"
  by (simp_all add: demo_pass_def)

lemma demo_env_settles [simp]: "os_settles (env_os demo_env)"
  using demo_os_settles by simp



text \<open>A captured pass leaves the queue of upcoming passes only if the recording started at
  exactly its predicted rise, to the millisecond: otherwise the first pass of the queue is
  still first, and announced as the next pass, after it has been captured.\<close>

theorem captured_pass_stays_queued:
  assumes "capturePass e pass config w = Some (r, w')" "os_settles (env_os e)"
    and "st_upcomingPasses (w_state w) = pass # rest" "cr_startTime r \<noteq> pass_aos pass"
  shows "\<exists>rest'. st_upcomingPasses (w_state w') = pass # rest' \<and> st_nextPass (w_state w') = Some pass"
proof -
  obtain v where v: "captured pass v r w'" "v = (st_call (StartPass pass) (release_device e w))\<lparr>w_now := w_now v\<rparr>"
    using capturePass_captured [OF assms(2), of pass config w] assms(1) by auto
  have "st_upcomingPasses (w_state v) = pass # rest"
    using assms(3) by (subst v(2)) (simp add: startPass_def)
  then show ?thesis
    using v(1) assms(4) by (simp add: captured_def is_completed_pass_def)
qed

theorem captured_pass_stays_queued_witness:
  "\<exists>r w' rest'. capturePass demo_env (demo_pass 60000) demo_rconfig
     ((demo_station_at 70000)\<lparr>w_state := (initialState 70000)\<lparr>st_upcomingPasses := [demo_pass 60000]\<rparr>\<rparr>) = Some (r, w') \<and>
     st_upcomingPasses (w_state w') = demo_pass 60000 # rest'"
proof -
  let ?w = "(demo_station_at 70000)\<lparr>w_state := (initialState 70000)\<lparr>st_upcomingPasses := [demo_pass 60000]\<rparr>\<rparr>"
  obtain r w' and v :: station where c: "capturePass demo_env (demo_pass 60000) demo_rconfig ?w = Some (r, w')"
    "w_now (release_device demo_env ?w) \<le> w_now v" "w_now v \<le> cr_startTime r"
    using capturePass_captured [OF demo_env_settles, of "demo_pass 60000" demo_rconfig ?w] by blast
  have "70000 \<le> cr_startTime r"
    using c release_device_now [of ?w demo_env] by (simp add: demo_station_at_def)
  then show ?thesis
    using captured_pass_stays_queued [OF c(1) demo_env_settles, of "[]"] c(1) by auto
qed

section \<open>The whole schedule\<close>

text \<open>The device records one pass at a time.\<close>

definition recordings_ok :: "station \<Rightarrow> bool" where
  "recordings_ok w \<longleftrightarrow>
     sorted_wrt (\<lambda>a b. rec_end a \<le> rec_start b) (w_recordings w) \<and>
     (\<forall>x \<in> set (w_recordings w). rec_start x \<le> rec_end x \<and> rec_end x \<le> w_now w)"

lemma recorded_ok: "recordings_ok w \<Longrightarrow> recorded w w' \<Longrightarrow> w_now w \<le> w_now w' \<Longrightarrow> recordings_ok w'"
  unfolding recordings_ok_def recorded_def by (fastforce simp: sorted_wrt_append)

lemma capturePass_recordings:
  assumes "os_settles (env_os e)" "recordings_ok w"
  shows "\<exists>r w'. capturePass e pass config w = Some (r, w') \<and> recordings_ok w' \<and> w_now w \<le> w_now w' \<and>
    cr_satellite r = pass_satellite pass \<and> w_now w \<le> cr_startTime r"
proof -
  obtain r w' v where c: "capturePass e pass config w = Some (r, w')" "captured pass v r w'"
    "v = (st_call (StartPass pass) (release_device e w))\<lparr>w_now := w_now v\<rparr>"
    "w_now (release_device e w) \<le> w_now v" "w_now v \<le> cr_startTime r"
    using capturePass_captured [OF assms(1), of pass config w] by blast
  have now: "w_now w \<le> w_now v" using release_device_now [of w e] c(4) by simp
  have "w_recordings v = w_recordings w" by (subst c(3)) simp
  then have "recordings_ok v"
    using assms(2) now by (auto simp: recordings_ok_def intro: order_trans)
  then have "recordings_ok w'" using recorded_ok c(2) by (auto simp: captured_def)
  then show ?thesis using c now by (auto simp: captured_def)
qed

lemma waitForPass_keeps:
  assumes "waitForPass e pass w = (scan, w')"
  shows "w_recordings w' = w_recordings w" "w_now w \<le> w_now w'"
    "pass_aos pass - 60000 \<le> w_now w'" "w_db w' = w_db w" "w_fft w' = w_fft w"
proof -
  have "w_now w + int (nat ms) \<le> w_now (st_sleep e (nat ms) v)" if "w_now v = w_now w" for v ms
    using st_sleep_now [of v "nat ms" e] that by simp
  from this [of "st_call (SetStatus Waiting) w" "pass_aos pass - 60000 - w_now w"]
    this [of "scan_begins (st_call (SetStatus Waiting) w)" "pass_aos pass - 60000 - w_now w"]
  show "w_recordings w' = w_recordings w" "w_now w \<le> w_now w'"
    "pass_aos pass - 60000 \<le> w_now w'" "w_db w' = w_db w" "w_fft w' = w_fft w"
    using assms by (auto simp: waitForPass_def Let_def request_scan_stop_def scan_begins_def PASS_CONSTRAINTS_def
        split: if_splits)
qed

lemma runScheduler_spec:
  assumes "os_settles (env_os e)" "recordings_ok w"
  shows "\<exists>results w' taken. runScheduler e passes config w = Some (results, w') \<and> recordings_ok w' \<and>
    w_now w \<le> w_now w' \<and> subseq taken passes \<and> map cr_satellite results = map pass_satellite taken \<and>
    list_all2 (\<lambda>p r. pass_aos p - 60000 \<le> cr_startTime r) taken results"
  using assms
proof (induction e passes config w rule: runScheduler.induct)
  case (1 e config w)
  then show ?case by simp
next
  case (2 e pass passes config w)
  show ?case
  proof (cases "pass_los pass < w_now w")
    case True
    then obtain results w' taken where "runScheduler e passes config w = Some (results, w') \<and> recordings_ok w' \<and>
      w_now w \<le> w_now w' \<and> subseq taken passes \<and> map cr_satellite results = map pass_satellite taken \<and>
      list_all2 (\<lambda>p r. pass_aos p - 60000 \<le> cr_startTime r) taken results"
      using "2.IH"(1) "2.prems" by auto
    then show ?thesis using True by (intro exI [of _ results] exI [of _ w'] exI [of _ taken]) auto
  next
    case False
    obtain scan w1 where wp: "waitForPass e pass w = (scan, w1)" by fastforce
    note k = waitForPass_keeps [OF wp]
    have "recordings_ok w1" using "2.prems"(2) k(1,2) by (auto simp: recordings_ok_def intro: order_trans)
    then obtain r w2 where c: "capturePass e pass config w1 = Some (r, w2)" "recordings_ok w2" "w_now w1 \<le> w_now w2"
      "cr_satellite r = pass_satellite pass" "w_now w1 \<le> cr_startTime r"
      using capturePass_recordings [OF "2.prems"(1)] by blast
    obtain results w' taken where i: "runScheduler e passes config w2 = Some (results, w')" "recordings_ok w'"
      "w_now w2 \<le> w_now w'" "subseq taken passes" "map cr_satellite results = map pass_satellite taken"
      "list_all2 (\<lambda>p r. pass_aos p - 60000 \<le> cr_startTime r) taken results"
      using "2.IH"(2) [OF False wp [symmetric] refl c(1) refl] "2.prems" c(2) by auto
    show ?thesis
      using False wp c i k by (intro exI [of _ "r # results"] exI [of _ w'] exI [of _ "pass # taken"]) auto
  qed
qed



end
