(* ===== verification/Sstv_Scanner.thy ===== *)
theory Sstv_Scanner
  imports Scheduler
begin

text \<open>
  \<open>src/backend/capture/sstv-scanner.ts\<close>: the scan of the two-metre SSTV frequencies that
  the scheduler starts while it waits.  The peak power of the latest FFT frame at an instant is
  the parameter \<open>peak\<close>; \<open>stop\<close> is the value of \<open>shouldStop\<close> at an instant,
  which other code sets.
\<close>

section \<open>Operations\<close>

definition SSTV_SCAN_FREQUENCIES :: "(number \<times> string) list" where
  "SSTV_SCAN_FREQUENCIES = [(144500000, ''2m SSTV Calling''), (145500000, ''2m SSTV Alt'')]"

definition GROUND_SSTV_INFO :: SatelliteInfo where
  "GROUND_SSTV_INFO = \<lparr>sat_name = ''2m SSTV'', sat_noradId = 0, sat_frequency = 144500000,
     sat_signalType = Sstv, sat_signalConfig = SIGNAL_CONFIGS Sstv, sat_enabled = True, sat_eventBased = None\<rparr>"

definition fake_pass :: "SatelliteInfo \<Rightarrow> date \<Rightarrow> date \<Rightarrow> int \<Rightarrow> SatellitePass" where
  "fake_pass info startTime now durationSeconds =
     \<lparr>pass_satellite = info, pass_aos = startTime, pass_los = now, pass_maxElevation = 90,
      pass_maxElevationTime = startTime, pass_duration = real_of_int durationSeconds\<rparr>"

definition captureSstv ::
  "env \<Rightarrow> SatelliteInfo \<Rightarrow> ReceiverConfig \<Rightarrow> int \<Rightarrow> station \<Rightarrow> (CaptureResult option \<times> station) option" where
  "captureSstv e info config durationSeconds w =
     (let startTime = w_now w; w = st_call (SetStatus Capturing) w
      in case recordPass e info durationSeconds config w of
           (Inl err, w) \<Rightarrow> Some (None, st_call (SetStatus Idle) w)
         | (Inr recordingPath, w) \<Rightarrow>
             (let w = st_call (SetStatus Decoding) w
              in case decodeRecording (env_os e) recordingPath (rc_imagesDir config) Sstv (w_now w) of
                   None \<Rightarrow> None
                 | Some (Inl err, t) \<Rightarrow> Some (None, st_call (SetStatus Idle) (w\<lparr>w_now := t\<rparr>))
                 | Some (Inr decoderResult, t) \<Rightarrow>
                     (let w = w\<lparr>w_now := t\<rparr>;
                          imagePaths = (case decoderResult of None \<Rightarrow> [] | Some r \<Rightarrow> dr_outputPaths r);
                          result = \<lparr>cr_satellite = info, cr_recordingPath = recordingPath,
                                    cr_imagePaths = imagePaths, cr_startTime = startTime, cr_endTime = w_now w,
                                    cr_maxSignalStrength = 0, cr_success = (length imagePaths > 0), cr_error = None\<rparr>;
                          w = saveResultToDatabase result (fake_pass info startTime (w_now w) durationSeconds) w
                      in Some (Some result, st_call (SetStatus Idle) w))))"

text \<open>The dwell on one frequency: at most forty samples, half a second apart.\<close>

fun dwell ::
  "env \<Rightarrow> (date \<Rightarrow> number option) \<Rightarrow> (date \<Rightarrow> bool) \<Rightarrow> date \<Rightarrow> number \<Rightarrow> nat \<Rightarrow> station \<Rightarrow> bool \<times> station" where
  "dwell e peak stop endTime threshold 0 w = (False, w)"
| "dwell e peak stop endTime threshold (Suc n) w =
     (if stop (w_now w) \<or> \<not> w_now w < endTime then (False, w)
      else let w = st_sleep e 500 w
           in case peak (w_now w) of
                None \<Rightarrow> dwell e peak stop endTime threshold n w
              | Some p \<Rightarrow> if p > threshold then (True, w) else dwell e peak stop endTime threshold n w)"

fun scan_freqs ::
  "env \<Rightarrow> (date \<Rightarrow> number option) \<Rightarrow> (date \<Rightarrow> bool) \<Rightarrow> ReceiverConfig \<Rightarrow> int \<Rightarrow> date \<Rightarrow>
   (number \<times> string) list \<Rightarrow> station \<Rightarrow> (CaptureResult option \<times> station) option" where
  "scan_freqs e peak stop config maxDuration endTime [] w = Some (None, w)"
| "scan_freqs e peak stop config maxDuration endTime ((frequency, name) # freqs) w =
     (if stop (w_now w) \<or> w_now w \<ge> endTime then Some (None, w)
      else let w = st_call (SetScanningFrequency frequency name) w;
               signalThreshold = rc_minSignalStrength config - 5;
               (hasSignal, w) = dwell e peak stop endTime signalThreshold 40 w
           in if hasSignal \<and> \<not> stop (w_now w)
              then let w = st_sleep e 1000 (st_stopFFT e w);
                       captureInfo = GROUND_SSTV_INFO\<lparr>sat_name := name, sat_frequency := frequency\<rparr>
                   in case captureSstv e captureInfo config maxDuration w of
                        None \<Rightarrow> None
                      | Some (result, w) \<Rightarrow>
                          (if (case result of None \<Rightarrow> False | Some r \<Rightarrow> cr_success r) then Some (result, w)
                           else scan_freqs e peak stop config maxDuration endTime freqs (st_call (SetStatus Scanning) w))
              else scan_freqs e peak stop config maxDuration endTime freqs w)"

section \<open>Progress of the scan\<close>

text \<open>What every part of the scan keeps: time moves on and recordings are only added.\<close>

definition scan_step :: "station \<Rightarrow> station \<Rightarrow> bool" where
  "scan_step w w' \<longleftrightarrow> w_now w \<le> w_now w' \<and> (\<exists>rs. w_recordings w' = w_recordings w @ rs) \<and> w_sstv w' = w_sstv w"

lemma scan_step_refl [simp]: "scan_step w w"
  by (simp add: scan_step_def)

lemma scan_step_trans [trans]: "scan_step u v \<Longrightarrow> scan_step v w \<Longrightarrow> scan_step u w"
  unfolding scan_step_def by auto

lemma scan_step_call [simp]: "scan_step w (st_call c w)"
  by (simp add: scan_step_def)

lemma scan_step_sleep [simp]: "scan_step w (st_sleep e n w)"
  using st_sleep_now [of w n e] by (simp add: scan_step_def)

lemma scan_step_stop [simp]: "scan_step w (st_stopFFT e w)"
  by (simp add: scan_step_def st_stopFFT_now)

lemma scan_step_record: "recordPass e sat d config w = (r, w') \<Longrightarrow> scan_step w w'"
  using recordPass_keeps [of e sat d config w r w'] by (auto simp: scan_step_def recorded_def)

lemma dwell_step: "dwell e peak stop endTime thr n w = (b, w') \<Longrightarrow> scan_step w w'"
proof (induction e peak stop endTime thr n w arbitrary: b w' rule: dwell.induct)
  case (2 e peak stop endTime thr n w)
  show ?case
  proof (cases "stop (w_now w) \<or> \<not> w_now w < endTime")
    case True
    then show ?thesis using "2.prems" by simp
  next
    case False
    have "scan_step (st_sleep e 500 w) w'"
      using "2.IH" [OF False refl] "2.prems" False by (auto simp: Let_def split: option.splits if_splits)
    with scan_step_sleep show ?thesis by (rule scan_step_trans)
  qed
qed simp

lemma captureSstv_step:
  assumes "captureSstv e info config d w = Some (res, w')"
  shows "scan_step w w'"
proof -
  let ?w1 = "st_call (SetStatus Capturing) w"
  obtain r w2 where rp: "recordPass e info d config ?w1 = (r, w2)" by fastforce
  have 12: "scan_step w w2" using scan_step_call scan_step_record [OF rp] by (rule scan_step_trans)
  show ?thesis
  proof (cases r)
    case (Inl err)
    then have "w' = st_call (SetStatus Idle) w2" using assms rp by (simp add: captureSstv_def Let_def)
    with 12 show ?thesis using scan_step_trans [OF 12 scan_step_call] by simp
  next
    case (Inr path)
    let ?w3 = "st_call (SetStatus Decoding) w2"
    obtain d' t where dec: "decodeRecording (env_os e) path (rc_imagesDir config) Sstv (w_now ?w3) = Some (d', t)"
      using assms rp Inr by (auto simp: captureSstv_def Let_def split: option.splits)
    have t: "w_now w2 \<le> t" using async_monoD [OF decodeRecording_mono dec] by simp
    have "w_now w' = t \<and> w_recordings w' = w_recordings w2 \<and> w_sstv w' = w_sstv w2"
      using assms rp Inr dec by (auto simp: captureSstv_def Let_def split: sum.splits)
    with 12 t show ?thesis by (auto simp: scan_step_def)
  qed
qed

lemma scan_freqs_step:
  "scan_freqs e peak stop config d endTime fs w = Some (res, w') \<Longrightarrow> scan_step w w'"
proof (induction e peak stop config d endTime fs w arbitrary: res w' rule: scan_freqs.induct)
  case (2 e peak stop config d endTime frequency name freqs w)
  show ?case
  proof (cases "stop (w_now w) \<or> w_now w \<ge> endTime")
    case True
    then show ?thesis using "2.prems" by simp
  next
    case False
    let ?w1 = "st_call (SetScanningFrequency frequency name) w"
    obtain b w2 where dw: "dwell e peak stop endTime (rc_minSignalStrength config - 5) 40 ?w1 = (b, w2)" by fastforce
    have 2: "scan_step w w2" using scan_step_call dwell_step [OF dw] by (rule scan_step_trans)
    show ?thesis
    proof (cases "b \<and> \<not> stop (w_now w2)")
      case sig: True
      let ?w3 = "st_sleep e 1000 (st_stopFFT e w2)"
      have 3: "scan_step w ?w3" using 2 scan_step_stop scan_step_sleep by (blast intro: scan_step_trans)
      obtain res1 w4 where cap: "captureSstv e (GROUND_SSTV_INFO\<lparr>sat_name := name, sat_frequency := frequency\<rparr>) config d ?w3 = Some (res1, w4)"
        using "2.prems" False dw sig by (auto simp: Let_def split: option.splits)
      have 4: "scan_step w w4" using 3 captureSstv_step [OF cap] by (rule scan_step_trans)
      show ?thesis
      proof (cases "case res1 of None \<Rightarrow> False | Some r \<Rightarrow> cr_success r")
        case True
        then show ?thesis using "2.prems" False dw sig cap 4 by (simp add: Let_def)
      next
        case fail: False
        have "scan_step (st_call (SetStatus Scanning) w4) w'"
          using "2.IH"(1) [OF False refl refl dw [symmetric] refl sig refl refl cap refl fail] "2.prems" False dw sig cap fail
          by (simp add: Let_def)
        then show ?thesis using 4 scan_step_call by (blast intro: scan_step_trans)
      qed
    next
      case nosig: False
      have "scan_step w2 w'"
        using "2.IH"(2) [OF False refl refl dw [symmetric] refl nosig] "2.prems" False dw nosig by (auto simp: Let_def)
      with 2 show ?thesis by (rule scan_step_trans)
    qed
  qed
qed simp

lemma dwell_advances:
  assumes "dwell e peak stop endTime thr (Suc n) w = (b, w')" "\<not> stop (w_now w)" "w_now w < endTime"
  shows "w_now w + 500 \<le> w_now w'"
proof -
  let ?v = "st_sleep e 500 w"
  have "scan_step ?v w'"
    using assms dwell_step [of e peak stop endTime thr n ?v b w'] by (auto simp: Let_def split: option.splits if_splits)
  then show ?thesis using st_sleep_now [of w 500 e] by (simp add: scan_step_def)
qed

lemma scan_freqs_advances:
  assumes "scan_freqs e peak stop config d endTime (f # fs) w = Some (res, w')" "\<not> stop (w_now w)" "w_now w < endTime"
  shows "w_now w + 500 \<le> w_now w'"
proof -
  obtain frequency name where f: "f = (frequency, name)" by fastforce
  let ?w1 = "st_call (SetScanningFrequency frequency name) w"
  obtain b w2 where dw: "dwell e peak stop endTime (rc_minSignalStrength config - 5) 40 ?w1 = (b, w2)" by fastforce
  have adv: "w_now w + 500 \<le> w_now w2"
    using dwell_advances [of e peak stop endTime "rc_minSignalStrength config - 5" 39 ?w1 b w2] dw assms(2,3)
    by (simp del: dwell.simps)
  have "scan_step w2 w'"
  proof (cases "b \<and> \<not> stop (w_now w2)")
    case sig: True
    let ?w3 = "st_sleep e 1000 (st_stopFFT e w2)"
    obtain r1 w4 where cap: "captureSstv e (GROUND_SSTV_INFO\<lparr>sat_name := name, sat_frequency := frequency\<rparr>) config d ?w3 = Some (r1, w4)"
      using assms dw sig f by (auto simp: Let_def simp del: dwell.simps split: option.splits)
    have "scan_step w2 w4"
      using scan_step_stop scan_step_sleep captureSstv_step [OF cap] by (blast intro: scan_step_trans)
    moreover have "w' = w4 \<or> scan_step (st_call (SetStatus Scanning) w4) w'"
      using assms dw sig f cap scan_freqs_step [of e peak stop config d endTime fs "st_call (SetStatus Scanning) w4" res w']
      by (auto simp: Let_def simp del: dwell.simps split: if_splits)
    ultimately show ?thesis using scan_step_call by (blast intro: scan_step_trans)
  next
    case False
    then show ?thesis
      using assms dw f scan_freqs_step [of e peak stop config d endTime fs w2 res w']
      by (auto simp: Let_def simp del: dwell.simps)
  qed
  with adv show ?thesis by (simp add: scan_step_def)
qed

section \<open>The scan\<close>

function scan_loop ::
  "env \<Rightarrow> (date \<Rightarrow> number option) \<Rightarrow> (date \<Rightarrow> bool) \<Rightarrow> ReceiverConfig \<Rightarrow> int \<Rightarrow> date \<Rightarrow> station \<Rightarrow>
   (CaptureResult option \<times> station) option" where
  "scan_loop e peak stop config maxDuration endTime w =
     (if \<not> stop (w_now w) \<and> w_now w < endTime
      then (case scan_freqs e peak stop config maxDuration endTime SSTV_SCAN_FREQUENCIES w of
              None \<Rightarrow> None
            | Some (Some result, w) \<Rightarrow> Some (Some result, w)
            | Some (None, w) \<Rightarrow> scan_loop e peak stop config maxDuration endTime w)
      else Some (None, w))"
  by pat_completeness auto

termination
  by (relation "measure (\<lambda>(e, peak, stop, config, d, endTime, w). nat (endTime - w_now w))")
    (auto simp: SSTV_SCAN_FREQUENCIES_def simp del: scan_freqs.simps dest!: scan_freqs_advances)

declare scan_loop.simps [simp del]

text \<open>The \<open>finally\<close> clause; the flag is also cleared before a successful return.\<close>

definition scan_finally :: "station \<Rightarrow> station" where
  "scan_finally w =
     (let w = w\<lparr>w_sstv := (w_sstv w)\<lparr>sm_scanner := (sm_scanner (w_sstv w))\<lparr>sf_isScanning := False\<rparr>\<rparr>\<rparr>
      in if st_status (w_state w) = Scanning then st_call (SetStatus Idle) w else w)"

definition scanForSstv ::
  "env \<Rightarrow> (date \<Rightarrow> number option) \<Rightarrow> (date \<Rightarrow> bool) \<Rightarrow> ReceiverConfig \<Rightarrow> int \<Rightarrow> station \<Rightarrow>
   (CaptureResult option \<times> station) option" where
  "scanForSstv e peak stop config maxDurationSeconds w =
     (if isSstvScannerRunning (sm_scanner (w_sstv w)) then Some (None, w)
      else let w = w\<lparr>w_sstv := (w_sstv w)\<lparr>sm_scanner := \<lparr>sf_isScanning = True, sf_shouldStop = False\<rparr>\<rparr>\<rparr>;
               w = st_call (SetStatus Scanning) w;
               endTime = w_now w + maxDurationSeconds * 1000
           in case scan_loop e peak stop config maxDurationSeconds endTime w of
                None \<Rightarrow> None
              | Some (result, w) \<Rightarrow> Some (result, scan_finally w))"

section \<open>The scan ends\<close>

lemma captureSstv_returns:
  assumes "os_settles (env_os e)"
  shows "\<exists>res w'. captureSstv e info config d w = Some (res, w') \<and> st_status (w_state w') = Idle \<and>
    (\<forall>r. res = Some r \<longrightarrow> cr_success r = (cr_imagePaths r \<noteq> []))"
proof -
  obtain r w2 where rp: "recordPass e info d config (st_call (SetStatus Capturing) w) = (r, w2)" by fastforce
  show ?thesis
  proof (cases r)
    case (Inl err)
    then show ?thesis using rp by (simp add: captureSstv_def Let_def setStatus_def)
  next
    case (Inr path)
    obtain d' t where "decodeRecording (env_os e) path (rc_imagesDir config) Sstv (w_now w2) = Some (d', t)"
      using decodeRecording_settles [OF assms, of path "rc_imagesDir config" Sstv] by (fastforce simp: async_settles_def)
    then show ?thesis
      using rp Inr by (cases d') (auto simp: captureSstv_def Let_def setStatus_def)
  qed
qed

lemma scan_freqs_returns:
  assumes "os_settles (env_os e)"
  shows "\<exists>res w'. scan_freqs e peak stop config d endTime fs w = Some (res, w') \<and>
    (\<forall>r. res = Some r \<longrightarrow> cr_imagePaths r \<noteq> [] \<and> st_status (w_state w') = Idle)"
proof (induction fs arbitrary: w)
  case (Cons f fs)
  obtain frequency name where f: "f = (frequency, name)" by fastforce
  obtain b w2 where dw: "dwell e peak stop endTime (rc_minSignalStrength config - 5) 40
      (st_call (SetScanningFrequency frequency name) w) = (b, w2)" by fastforce
  obtain r1 w4 where cap: "captureSstv e (GROUND_SSTV_INFO\<lparr>sat_name := name, sat_frequency := frequency\<rparr>) config d
      (st_sleep e 1000 (st_stopFFT e w2)) = Some (r1, w4)" "st_status (w_state w4) = Idle"
    "\<forall>r. r1 = Some r \<longrightarrow> cr_success r = (cr_imagePaths r \<noteq> [])"
    using captureSstv_returns [OF assms] by blast
  show ?case
    using f dw cap Cons.IH [of w2] Cons.IH [of "st_call (SetStatus Scanning) w4"]
    by (auto simp: Let_def split: option.splits)
qed simp

lemma scan_loop_returns:
  assumes "os_settles (env_os e)"
  shows "\<exists>res w'. scan_loop e peak stop config d endTime w = Some (res, w') \<and> scan_step w w' \<and>
    (\<forall>r. res = Some r \<longrightarrow> cr_imagePaths r \<noteq> []) \<and> (res = None \<longrightarrow> stop (w_now w') \<or> endTime \<le> w_now w')"
  using assms
proof (induction e peak stop config d endTime w rule: scan_loop.induct)
  case (1 e peak stop config d endTime w)
  show ?case
  proof (cases "\<not> stop (w_now w) \<and> w_now w < endTime")
    case True
    obtain res w1 where sf: "scan_freqs e peak stop config d endTime SSTV_SCAN_FREQUENCIES w = Some (res, w1)"
      "\<forall>r. res = Some r \<longrightarrow> cr_imagePaths r \<noteq> []"
      using scan_freqs_returns [OF "1.prems"] by blast
    note st = scan_freqs_step [OF sf(1)]
    show ?thesis
    proof (cases res)
      case None
      then show ?thesis
        using True sf(1) "1.IH" [OF True sf(1) refl None] "1.prems" scan_step_trans [OF st]
        by (subst scan_loop.simps) auto
    next
      case (Some r)
      then show ?thesis using True sf st by (subst scan_loop.simps) auto
    qed
  next
    case False
    then show ?thesis by (subst scan_loop.simps) auto
  qed
qed

lemma scanForSstv_returns:
  assumes "os_settles (env_os e)"
  shows "\<exists>res w'. scanForSstv e peak stop config d w = Some (res, w')"
proof -
  let ?w0 = "st_call (SetStatus Scanning) (w\<lparr>w_sstv := (w_sstv w)\<lparr>sm_scanner := \<lparr>sf_isScanning = True, sf_shouldStop = False\<rparr>\<rparr>\<rparr>)"
  obtain res w1 where "scan_loop e peak stop config d (w_now w + d * 1000) ?w0 = Some (res, w1)"
    using scan_loop_returns [OF assms] by blast
  then show ?thesis by (simp add: scanForSstv_def Let_def)
qed

text \<open>A scan that may start ends when every process ends, because each round of the
  frequencies takes time: the running flag is cleared, the status is no longer
  \<open>scanning\<close>, nothing recorded before is lost, and without a result it was stopped or its
  time was over; a result has images.\<close>

theorem scanForSstv_ends:
  assumes "os_settles (env_os e)" "\<not> isSstvScannerRunning (sm_scanner (w_sstv w))"
  shows "\<exists>res w'. scanForSstv e peak stop config d w = Some (res, w') \<and>
    \<not> isSstvScannerRunning (sm_scanner (w_sstv w')) \<and> st_status (w_state w') \<noteq> Scanning \<and>
    (\<exists>rs. w_recordings w' = w_recordings w @ rs) \<and>
    (\<forall>r. res = Some r \<longrightarrow> cr_imagePaths r \<noteq> []) \<and>
    (res = None \<longrightarrow> stop (w_now w') \<or> w_now w + d * 1000 \<le> w_now w')"
proof -
  let ?w0 = "st_call (SetStatus Scanning) (w\<lparr>w_sstv := (w_sstv w)\<lparr>sm_scanner := \<lparr>sf_isScanning = True, sf_shouldStop = False\<rparr>\<rparr>\<rparr>)"
  obtain res w1 where l: "scan_loop e peak stop config d (w_now w + d * 1000) ?w0 = Some (res, w1)" "scan_step ?w0 w1"
    "\<forall>r. res = Some r \<longrightarrow> cr_imagePaths r \<noteq> []" "res = None \<longrightarrow> stop (w_now w1) \<or> w_now w + d * 1000 \<le> w_now w1"
    using scan_loop_returns [OF assms(1), of peak stop config d "w_now w + d * 1000" ?w0] by auto
  have fin: "w_now (scan_finally w1) = w_now w1" "w_recordings (scan_finally w1) = w_recordings w1"
    "\<not> isSstvScannerRunning (sm_scanner (w_sstv (scan_finally w1)))" "st_status (w_state (scan_finally w1)) \<noteq> Scanning"
    by (simp_all add: scan_finally_def isSstvScannerRunning_def setStatus_def Let_def)
  have "scanForSstv e peak stop config d w = Some (res, scan_finally w1)"
    using assms(2) l(1) by (simp add: scanForSstv_def Let_def)
  moreover have "\<exists>rs. w_recordings (scan_finally w1) = w_recordings w @ rs"
    using l(2) fin(2) by (simp add: scan_step_def)
  ultimately show ?thesis using l fin by auto
qed

theorem scanForSstv_ends_witness:
  "\<exists>res w'. scanForSstv demo_env (\<lambda>t. if t \<ge> 30000 then Some (-10) else None) (\<lambda>t. t \<ge> 100000) demo_rconfig 120 (demo_station_at 0) = Some (res, w') \<and>
     \<not> isSstvScannerRunning (sm_scanner (w_sstv w')) \<and> st_status (w_state w') \<noteq> Scanning"
  using scanForSstv_ends [OF demo_env_settles, of "demo_station_at 0"]
  by (fastforce simp: demo_station_at_def sstv_init_def isSstvScannerRunning_def)

section \<open>A recording of the scan outlives the stop\<close>

lemma dwell_waits:
  assumes "\<And>t. t < T0 \<Longrightarrow> peak t = None" "\<And>t. T0 \<le> t \<Longrightarrow> peak t = Some p" "thr < p"
    "\<And>t. t < T0 \<Longrightarrow> \<not> stop t" "T0 \<le> endTime" "\<And>t. os_late (env_os e) t \<le> L"
  shows "w_now w < T0 \<Longrightarrow> dwell e peak stop endTime thr n w = (b, w') \<Longrightarrow>
    if b then T0 \<le> w_now w' \<and> w_now w' < T0 + 501 + int L \<and> w_fft w' = w_fft w else w_now w' < T0"
proof (induction n arbitrary: w)
  case (Suc n)
  let ?v = "st_sleep e 500 w"
  have v: "w_now ?v \<le> w_now w + 500 + int L"
    using assms(6) [of "w_now w"] by (simp add: st_sleep_def js_sleep_def)
  show ?case
  proof (cases "w_now ?v < T0")
    case True
    then show ?thesis using Suc assms(1) [OF True] assms(4) [of "w_now w"] assms(5) by (auto simp: Let_def)
  next
    case False
    then show ?thesis using Suc.prems assms(2) [of "w_now ?v"] assms(3,5) assms(4) [of "w_now w"] v by (auto simp: Let_def)
  qed
qed simp

lemma recordPass_recording:
  assumes "os_mkdir (env_os e) (w_now w) (rc_recordingsDir config)" "recordPass e sat d config w = (r, w')"
  shows "\<exists>x. w_recordings w' = w_recordings w @ [x] \<and> rec_start x = w_now w \<and> w_now w + d * 1000 \<le> rec_end x"
  using assms record_loop_spec [of "w_now w" w "w_now w + d * 1000" d e]
  by (auto simp: recordPass_def startRecording_def session_stop_def Let_def)

text \<open>The recordings that start at \<open>T0\<close> or later and last their whole duration.\<close>

definition late_recording :: "date \<Rightarrow> int \<Rightarrow> station \<Rightarrow> bool" where
  "late_recording T0 d w \<longleftrightarrow> (\<exists>x \<in> set (w_recordings w). T0 \<le> rec_start x \<and> rec_start x + d * 1000 \<le> rec_end x)"

lemma late_recording_step: "late_recording T0 d w \<Longrightarrow> scan_step w w' \<Longrightarrow> late_recording T0 d w'"
  by (auto simp: late_recording_def scan_step_def)

lemma captureSstv_late:
  assumes "\<And>t. os_mkdir (env_os e) t (rc_recordingsDir config)" "T0 \<le> w_now w"
    "captureSstv e info config d w = Some (res, w')"
  shows "late_recording T0 d w'"
proof -
  obtain r w2 where rp: "recordPass e info d config (st_call (SetStatus Capturing) w) = (r, w2)" by fastforce
  have "late_recording T0 d w2"
    using recordPass_recording [OF assms(1) rp] assms(2) by (auto simp: late_recording_def)
  moreover have "w_recordings w' = w_recordings w2"
    using assms(3) rp by (auto simp: captureSstv_def Let_def split: option.splits sum.splits prod.splits)
  ultimately show ?thesis by (simp add: late_recording_def)
qed

lemma scan_freqs_late:
  assumes sig: "\<And>t. t < T0 \<Longrightarrow> peak t = None" "\<And>t. T0 \<le> t \<Longrightarrow> peak t = Some p" "rc_minSignalStrength config - 5 < p"
    and stop: "\<And>t. t < T0 + 501 + int L \<Longrightarrow> \<not> stop t" and late: "\<And>t. os_late (env_os e) t \<le> L"
    and mk: "\<And>t. os_mkdir (env_os e) t (rc_recordingsDir config)" and le: "T0 \<le> endTime"
  shows "w_now w < T0 \<Longrightarrow> scan_freqs e peak stop config d endTime fs w = Some (res, w') \<Longrightarrow>
    (res = None \<and> w_now w' < T0) \<or> late_recording T0 d w'"
proof (induction fs arbitrary: w)
  case (Cons f fs)
  obtain frequency name where f: "f = (frequency, name)" by fastforce
  let ?w1 = "st_call (SetScanningFrequency frequency name) w"
  obtain b w2 where dw: "dwell e peak stop endTime (rc_minSignalStrength config - 5) 40 ?w1 = (b, w2)" by fastforce
  have go: "\<not> stop (w_now w)" "w_now w < endTime" using stop [of "w_now w"] Cons.prems(1) le by auto
  have dwl: "if b then T0 \<le> w_now w2 \<and> w_now w2 < T0 + 501 + int L \<and> w_fft w2 = w_fft ?w1 else w_now w2 < T0"
    using stop Cons.prems(1) by (intro dwell_waits [OF sig _ le late _ dw]) auto
  show ?case
  proof (cases b)
    case False
    then show ?thesis using Cons.IH [of w2] Cons.prems dw dwl go f by (auto simp: Let_def simp del: dwell.simps)
  next
    case True
    let ?w3 = "st_sleep e 1000 (st_stopFFT e w2)"
    have ns: "\<not> stop (w_now w2)" "T0 \<le> w_now w2" using dwl True stop by auto
    obtain r1 w4 where cap: "captureSstv e (GROUND_SSTV_INFO\<lparr>sat_name := name, sat_frequency := frequency\<rparr>) config d ?w3 = Some (r1, w4)"
      using Cons.prems dw True go ns f by (auto simp: Let_def simp del: dwell.simps split: option.splits)
    have "T0 \<le> w_now ?w3" using ns(2) st_stopFFT_now [of w2 e] st_sleep_now [of "st_stopFFT e w2" 1000 e] by simp
    then have l4: "late_recording T0 d w4" using captureSstv_late [OF mk _ cap] by blast
    have "w' = w4 \<or> scan_step (st_call (SetStatus Scanning) w4) w'"
      using Cons.prems dw True go ns f cap scan_freqs_step [of e peak stop config d endTime fs "st_call (SetStatus Scanning) w4" res w']
      by (auto simp: Let_def simp del: dwell.simps split: if_splits)
    then show ?thesis using l4 late_recording_step scan_step_trans [OF scan_step_call] by blast
  qed
qed simp

lemma scan_loop_late:
  assumes sig: "\<And>t. t < T0 \<Longrightarrow> peak t = None" "\<And>t. T0 \<le> t \<Longrightarrow> peak t = Some p" "rc_minSignalStrength config - 5 < p"
    and stop: "\<And>t. t < T0 + 501 + int L \<Longrightarrow> \<not> stop t" and late: "\<And>t. os_late (env_os e) t \<le> L"
    and mk: "\<And>t. os_mkdir (env_os e) t (rc_recordingsDir config)" and le: "T0 \<le> endTime" and os: "os_settles (env_os e)"
  shows "w_now w < T0 \<Longrightarrow> scan_loop e peak stop config d endTime w = Some (res, w') \<Longrightarrow> late_recording T0 d w'"
  using assms
proof (induction e peak stop config d endTime w rule: scan_loop.induct)
  case (1 e peak stop config d endTime w)
  have go: "\<not> stop (w_now w) \<and> w_now w < endTime" using "1.prems"(1,6,9) by auto
  obtain r1 w1 where sf: "scan_freqs e peak stop config d endTime SSTV_SCAN_FREQUENCIES w = Some (r1, w1)"
    using scan_freqs_returns [OF "1.prems"(10)] by blast
  have alt: "(r1 = None \<and> w_now w1 < T0) \<or> late_recording T0 d w1"
    using scan_freqs_late [OF "1.prems"(3-9) "1.prems"(1) sf] by blast
  show ?case
  proof (cases r1)
    case (Some r)
    then show ?thesis using alt "1.prems"(2) go sf by (subst (asm) scan_loop.simps) auto
  next
    case None
    then have l: "scan_loop e peak stop config d endTime w1 = Some (res, w')"
      using "1.prems"(2) go sf by (subst (asm) scan_loop.simps) auto
    have "scan_step w1 w'" using scan_loop_returns [OF "1.prems"(10), of peak stop config d endTime w1] l by auto
    then show ?thesis
      using alt late_recording_step "1.IH" [OF go sf refl None _ l "1.prems"(3-10)] by blast
  qed
qed

text \<open>The stop that ends the wait for a pass does not end a recording of the ground scan: if a
  signal appears at \<open>T0\<close>, before the time of the scan is over and while nobody has asked it
  to stop, the scan records from \<open>T0\<close> or later for its whole duration, however early a
  stop is requested after that.\<close>

theorem scan_recording_outlives_stop:
  assumes "\<forall>t. peak t = (if t < T0 then None else Some p)" "rc_minSignalStrength config - 5 < p"
    and "\<forall>t < T0 + 501 + int L. \<not> stop t" "\<forall>t. os_late (env_os e) t \<le> L"
    and "\<forall>t. os_mkdir (env_os e) t (rc_recordingsDir config)" "os_settles (env_os e)"
    and "w_now w < T0" "T0 \<le> w_now w + d * 1000" "\<not> isSstvScannerRunning (sm_scanner (w_sstv w))"
    and "scanForSstv e peak stop config d w = Some (res, w')"
  shows "\<exists>x \<in> set (w_recordings w'). T0 \<le> rec_start x \<and> rec_start x + d * 1000 \<le> rec_end x"
proof -
  let ?w0 = "st_call (SetStatus Scanning) (w\<lparr>w_sstv := (w_sstv w)\<lparr>sm_scanner := \<lparr>sf_isScanning = True, sf_shouldStop = False\<rparr>\<rparr>\<rparr>)"
  obtain w1 where l: "scan_loop e peak stop config d (w_now w + d * 1000) ?w0 = Some (res, w1)" "w' = scan_finally w1"
    using assms(9,10) by (auto simp: scanForSstv_def Let_def split: option.splits)
  have "late_recording T0 d w1"
    using assms(1-8) by (intro scan_loop_late [OF _ _ _ _ _ _ _ _ _ l(1), where p = p and L = L]) auto
  then show ?thesis using l(2) by (simp add: late_recording_def scan_finally_def Let_def)
qed

theorem scan_recording_outlives_stop_witness:
  "\<exists>res w'. scanForSstv demo_env (\<lambda>t. if t < 100000 then None else Some (-10)) (\<lambda>t. t \<ge> 121000) demo_rconfig 120 (demo_station_at 0) = Some (res, w') \<and>
     (\<exists>x \<in> set (w_recordings w'). 121000 + 90000 < rec_end x)"
proof -
  have ns: "\<not> isSstvScannerRunning (sm_scanner (w_sstv (demo_station_at 0)))"
    by (simp add: demo_station_at_def sstv_init_def isSstvScannerRunning_def)
  obtain res w' where sc: "scanForSstv demo_env (\<lambda>t. if t < 100000 then None else Some (-10)) (\<lambda>t. t \<ge> 121000) demo_rconfig 120 (demo_station_at 0) = Some (res, w')"
    using scanForSstv_returns [OF demo_env_settles] by blast
  have "\<exists>x \<in> set (w_recordings w'). 100000 \<le> rec_start x \<and> rec_start x + 120 * 1000 \<le> rec_end x"
    by (rule scan_recording_outlives_stop [OF _ _ _ _ _ demo_env_settles _ _ ns sc, where L = 1 and p = "-10"])
      (simp_all add: demo_station_at_def demo_rconfig_def)
  then obtain x where "x \<in> set (w_recordings w')" "121000 + 90000 < rec_end x" by auto
  then show ?thesis using sc by blast
qed

end
