(* ===== verification/Live_View.thy ===== *)
theory Live_View
  imports Static_Page Sstv_Scanner
begin

text \<open>
  The station and its viewers together.  The scheduler, the recorder and the scanner of
  \<open>src/backend/\<close> change the shared state only through calls of the state manager, each of which
  reaches the web server of \<open>src/middleware/web/server.ts\<close> as one event between its own.  So
  what a program of the station does is a list of calls, and what a viewer is shown follows from the
  calls among the events of the server, whatever else happens between them.
\<close>

section \<open>Programs of the station as calls\<close>

text \<open>The calls \<open>cs\<close> lead from one station to another: its state and the events it emitted are theirs.\<close>

definition made :: "(date \<times> sm_call) list \<Rightarrow> station \<Rightarrow> station \<Rightarrow> bool" where
  "made cs w w' \<longleftrightarrow>
     w_state w' = fst (sm_run cs (w_state w)) \<and> w_events w' = w_events w @ zip (map fst cs) (snd (sm_run cs (w_state w)))"

lemma sm_run_length: "length (snd (sm_run cs s)) = length cs"
  by (induction cs s rule: sm_run.induct) (auto split: prod.splits)

lemma made_refl: "w_state w' = w_state w \<Longrightarrow> w_events w' = w_events w \<Longrightarrow> made [] w w'"
  by (simp add: made_def)

lemma made_self: "\<exists>cs. made cs w w"
  using made_refl by blast

lemma made_call: "made [(w_now w, c)] w (st_call c w)"
  by (simp add: made_def split: prod.splits)

lemma made_trans: "made cs u v \<Longrightarrow> made ds v w \<Longrightarrow> made (cs @ ds) u w"
  using sm_run_length [of cs "w_state u"] by (auto simp: made_def sm_run_append split: prod.splits)

lemma made_then: "made cs u v \<Longrightarrow> w_state w = w_state v \<Longrightarrow> w_events w = w_events v \<Longrightarrow> made cs u w"
  by (simp add: made_def)

lemma made_from: "made cs v w \<Longrightarrow> w_state u = w_state v \<Longrightarrow> w_events u = w_events v \<Longrightarrow> made cs u w"
  by (simp add: made_def)

text \<open>The calls of a recording report its progress; a capture adds the switch to decoding.\<close>

definition is_progress :: "date \<times> sm_call \<Rightarrow> bool" where
  "is_progress tc \<longleftrightarrow> (case snd tc of UpdateProgress p e t \<Rightarrow> True | _ \<Rightarrow> False)"

definition in_capture :: "date \<times> sm_call \<Rightarrow> bool" where
  "in_capture tc \<longleftrightarrow> is_progress tc \<or> snd tc = SetStatus Decoding"

lemma record_loop_made: "\<exists>cs. made cs w (record_loop e t0 t1 d w) \<and> list_all is_progress cs"
proof (induction e t0 t1 d w rule: record_loop.induct)
  case (1 e t0 t1 d w)
  show ?case
  proof (cases "w_now w < t1")
    case True
    let ?v = "report_progress ((w_now w - t0) div 1000) d w"
    obtain cs where "made cs (st_sleep e 1000 ?v) (record_loop e t0 t1 d (st_sleep e 1000 ?v))" "list_all is_progress cs"
      using "1.IH" [OF True refl] by blast
    moreover have "made [(w_now w, UpdateProgress x y z)] w ?v"
      if "x = real_of_int (js_round (real_of_int ((w_now w - t0) div 1000) / real_of_int d * 100))"
        "y = real_of_int ((w_now w - t0) div 1000)" "z = real_of_int d" for x y z
      using that made_call by (simp add: report_progress_def Let_def)
    then obtain c where "made [c] w ?v" "is_progress c" by (force simp: is_progress_def)
    ultimately show ?thesis
      using True made_trans [OF made_then, of "[c]" w ?v "st_sleep e 1000 ?v" cs]
      by (intro exI [of _ "c # cs"]) (simp add: record_loop.simps [of e t0 t1 d w] Let_def)
  next
    case False
    then show ?thesis by (intro exI [of _ "[]"]) (simp add: record_loop.simps [of e t0 t1 d w] made_refl)
  qed
qed

lemma recordPass_made: "recordPass e sat d config w = (r, w') \<Longrightarrow> \<exists>cs. made cs w w' \<and> list_all is_progress cs"
proof (cases "startRecording e sat config (w_now w)")
  case (Inr session)
  assume "recordPass e sat d config w = (r, w')"
  with Inr have "w' = session_stop e session (record_loop e (w_now w) (w_now w + d * 1000) d w)"
    by (simp add: recordPass_def Let_def)
  then have "w_state w' = w_state (record_loop e (w_now w) (w_now w + d * 1000) d w)"
    "w_events w' = w_events (record_loop e (w_now w) (w_now w + d * 1000) d w)"
    by (simp_all add: session_stop_def Let_def)
  then show ?thesis
    using record_loop_made [of w e "w_now w" "w_now w + d * 1000" d] made_then by blast
qed (auto simp: recordPass_def intro: exI [of _ "[]"] made_refl)

lemma finish_made: "made [(w_now w, CompletePass r)] w (snd (finish_capture r pass w))"
  unfolding finish_capture_def snd_conv by (rule made_from, subst saveResult_simps(1) [symmetric], rule made_call) simp_all

lemma progress_in_capture: "list_all is_progress cs \<Longrightarrow> list_all in_capture cs"
  by (simp add: list_all_iff in_capture_def)

lemma record_and_decode_made:
  assumes "record_and_decode e pass config w = Some (r, w')"
  shows "\<exists>t cs. made (cs @ [(t, CompletePass r)]) w w' \<and> list_all in_capture cs"
proof -
  obtain x w1 where rp: "recordPass e (pass_satellite pass) (capture_duration pass) config w = (x, w1)" by fastforce
  obtain cs where cs: "made cs w w1" "list_all in_capture cs"
    using recordPass_made [OF rp] progress_in_capture by blast
  have fin: ?thesis if "finish_capture q pass v = (r, w')" "made ds w v" "list_all in_capture ds" for q v ds
    using that made_trans [OF that(2) finish_made, of q pass] by (auto simp: finish_capture_def)
  show ?thesis
  proof (cases x)
    case (Inl err)
    then show ?thesis using assms rp cs by (intro fin) (auto simp: record_and_decode_def Let_def)
  next
    case (Inr path)
    let ?w2 = "st_call (SetStatus Decoding) w1"
    have "made (cs @ [(w_now w1, SetStatus Decoding)]) w ?w2" "list_all in_capture (cs @ [(w_now w1, SetStatus Decoding)])"
      using made_trans [OF cs(1) made_call] cs(2) by (simp_all add: in_capture_def)
    moreover obtain q t where "finish_capture q pass (?w2\<lparr>w_now := t\<rparr>) = (r, w')"
      using assms rp Inr by (auto simp: record_and_decode_def Let_def split: option.splits sum.splits prod.splits)
    ultimately show ?thesis by (intro fin [of q "?w2\<lparr>w_now := t\<rparr>"]) (auto intro: made_then)
  qed
qed

text \<open>A capture is announced first, reports on itself, and is completed last.\<close>

lemma capturePass_made:
  assumes "capturePass e pass config w = Some (r, w')"
  shows "\<exists>t cs t'. made ((t, StartPass pass) # cs @ [(t', CompletePass r)]) w w' \<and> list_all in_capture cs"
proof -
  let ?v = "st_call (StartPass pass) (release_device e w)"
  have v: "made [(w_now ?v, StartPass pass)] w ?v"
    using made_from [OF made_call, of w "release_device e w" "StartPass pass"] by simp
  consider (weak) q u where "finish_capture q pass u = (r, w')" "w_state u = w_state ?v" "w_events u = w_events ?v"
    | (rec) u where "record_and_decode e pass config u = Some (r, w')" "w_state u = w_state ?v" "w_events u = w_events ?v"
  proof (cases "rc_skipSignalCheck config")
    case True
    then have "record_and_decode e pass config ?v = Some (r, w')" using assms by (simp add: capturePass_def Let_def)
    then show ?thesis by (rule rec) simp_all
  next
    case False
    obtain ok t where vs: "verifySignal (env_os e) (pass_satellite pass) (rc_sdr_gain config) (rc_minSignalStrength config) 3 (w_now ?v) = Some (ok, t)"
      using assms False by (auto simp: capturePass_def Let_def split: option.splits)
    then have "(if ok then record_and_decode e pass config (?v\<lparr>w_now := t\<rparr>)
        else Some (finish_capture (failed_result (pass_satellite pass) t t ''Signal too weak'') pass (?v\<lparr>w_now := t\<rparr>))) = Some (r, w')"
      using assms False by (simp add: capturePass_def Let_def split: if_splits)
    then show ?thesis using weak [of _ "?v\<lparr>w_now := t\<rparr>"] rec [of "?v\<lparr>w_now := t\<rparr>"] by (auto split: if_splits)
  qed
  then show ?thesis
  proof cases
    case (weak q u)
    have "made ([(w_now ?v, StartPass pass)] @ [(w_now u, CompletePass q)]) w w'"
      using made_trans [OF made_then [OF v weak(2,3)] finish_made, of q pass] weak(1) by simp
    then show ?thesis using weak(1) by (intro exI [of _ "w_now ?v"] exI [of _ "[]"] exI [of _ "w_now u"]) (auto simp: finish_capture_def)
  next
    case (rec u)
    then obtain t' cs where "made (cs @ [(t', CompletePass r)]) u w'" "list_all in_capture cs"
      using record_and_decode_made by blast
    then show ?thesis using made_trans [OF made_then [OF v rec(2,3)]] by fastforce
  qed
qed

lemma waitForPass_made:
  assumes "waitForPass e pass w = (scan, w')"
  shows "\<exists>cs. made cs w w'"
proof -
  let ?v = "st_call (SetStatus Waiting) w"
  let ?u = "?v\<lparr>w_sstv := (w_sstv ?v)\<lparr>sm_scanner := \<lparr>sf_isScanning = True, sf_shouldStop = False\<rparr>\<rparr>\<rparr>"
  obtain cs where cs: "made cs w (scan_begins ?v)"
    using made_trans [OF made_trans [OF made_then [OF made_call, of ?u] made_call] made_call, of "SetStatus Waiting" w "SetStatus Scanning"
        "SetScanningFrequency 144500000 ''2m SSTV Calling''"]
    by (simp add: scan_begins_def Let_def)
  have "w_state w' = w_state ?v \<and> w_events w' = w_events ?v \<or>
      w_state w' = w_state (scan_begins ?v) \<and> w_events w' = w_events (scan_begins ?v)"
    using assms by (auto simp: waitForPass_def Let_def request_scan_stop_def simp del: st_call_simps(5,6) split: if_splits)
  then show ?thesis using made_then [OF made_call] made_then [OF cs] by blast
qed

lemma runScheduler_made: "runScheduler e passes config w = Some (rs, w') \<Longrightarrow> \<exists>cs. made cs w w'"
proof (induction passes arbitrary: w rs)
  case (Cons pass passes)
  obtain scan v where wait: "waitForPass e pass w = (scan, v)" by fastforce
  show ?case
  proof (cases "pass_los pass < w_now w")
    case False
    then obtain r u rs' where "capturePass e pass config v = Some (r, u)" "runScheduler e passes config u = Some (rs', w')"
      using Cons.prems wait by (auto split: option.splits prod.splits)
    then show ?thesis
      using waitForPass_made [OF wait] capturePass_made Cons.IH made_trans by meson
  qed (use Cons in simp)
qed (auto intro: made_self)

text \<open>The scan for ground signals, too.\<close>

lemma dwell_quiet:
  "dwell e peak stop endTime thr n w = (b, w') \<Longrightarrow> w_state w' = w_state w \<and> w_events w' = w_events w"
proof (induction e peak stop endTime thr n w arbitrary: b w' rule: dwell.induct)
  case (2 e peak stop endTime thr n w)
  show ?case
  proof (cases "stop (w_now w) \<or> \<not> w_now w < endTime")
    case False
    have "w_state w' = w_state (st_sleep e 500 w) \<and> w_events w' = w_events (st_sleep e 500 w)"
      using "2.IH" [OF False refl] "2.prems" False by (auto simp: Let_def simp del: st_sleep_simps split: option.splits if_splits)
    then show ?thesis by simp
  qed (use "2.prems" in simp)
qed simp

lemma captureSstv_made:
  assumes "captureSstv e info config d w = Some (res, w')"
  shows "\<exists>cs. made cs w w'"
proof -
  obtain x w1 where rp: "recordPass e info d config (st_call (SetStatus Capturing) w) = (x, w1)" by fastforce
  obtain cs where cs: "made cs w w1" using made_trans [OF made_call] recordPass_made [OF rp] by blast
  have idle: "\<exists>cs. made cs w (st_call (SetStatus Idle) v)" if "made cs w u" "w_state v = w_state u" "w_events v = w_events u" for cs u v
    using made_trans [OF made_then [OF that] made_call] by blast
  show ?thesis
  proof (cases x)
    case (Inl err)
    then show ?thesis using assms rp idle [OF cs refl refl] by (simp add: captureSstv_def Let_def)
  next
    case (Inr path)
    then obtain v where "w' = st_call (SetStatus Idle) v" "w_state v = w_state (st_call (SetStatus Decoding) w1)"
      "w_events v = w_events (st_call (SetStatus Decoding) w1)"
      using assms rp by (auto simp: captureSstv_def Let_def split: option.splits sum.splits prod.splits)
    then show ?thesis using idle [OF made_trans [OF cs made_call]] by blast
  qed
qed

lemma scan_freqs_made: "scan_freqs e peak stop config d endTime fs w = Some (res, w') \<Longrightarrow> \<exists>cs. made cs w w'"
proof (induction fs arbitrary: w)
  case (Cons f fs)
  obtain frequency name where f: "f = (frequency, name)" by fastforce
  let ?w1 = "st_call (SetScanningFrequency frequency name) w"
  obtain b w2 where dw: "dwell e peak stop endTime (rc_minSignalStrength config - 5) 40 ?w1 = (b, w2)" by fastforce
  let ?w3 = "st_sleep e 1000 (st_stopFFT e w2)"
  have 2: "made [(w_now w, SetScanningFrequency frequency name)] w w2" using made_then [OF made_call] dwell_quiet [OF dw] by blast
  have 3: "made [(w_now w, SetScanningFrequency frequency name)] w ?w3" by (rule made_then [OF 2]) simp_all
  have 4: "\<exists>cs. made cs w w4" if "captureSstv e (GROUND_SSTV_INFO\<lparr>sat_name := name, sat_frequency := frequency\<rparr>) config d ?w3 = Some (r, w4)" for r w4
    using made_trans [OF 3] captureSstv_made [OF that] by blast
  have 5: "\<exists>cs. made cs w w'" if "made ds w v" "scan_freqs e peak stop config d endTime fs v = Some (res, w')" for ds v
    using made_trans [OF that(1)] Cons.IH [OF that(2)] by blast
  show ?case
  proof (cases "stop (w_now w) \<or> w_now w \<ge> endTime")
    case True
    then show ?thesis using Cons.prems f by (auto intro: made_self)
  next
    case False
    then consider "scan_freqs e peak stop config d endTime fs w2 = Some (res, w')"
      | r w4 where "captureSstv e (GROUND_SSTV_INFO\<lparr>sat_name := name, sat_frequency := frequency\<rparr>) config d ?w3 = Some (r, w4)"
          "w' = w4 \<or> scan_freqs e peak stop config d endTime fs (st_call (SetStatus Scanning) w4) = Some (res, w')"
      using Cons.prems f dw by (auto simp: Let_def simp del: dwell.simps split: if_splits option.splits)
    then show ?thesis
    proof cases
      case 1
      then show ?thesis using 5 [OF 2] by blast
    next
      case (2 r w4)
      then show ?thesis using 4 5 made_trans [OF _ made_call] by blast
    qed
  qed
qed (auto intro: made_self)

lemma scan_loop_made: "scan_loop e peak stop config d endTime w = Some (res, w') \<Longrightarrow> \<exists>cs. made cs w w'"
proof (induction e peak stop config d endTime w arbitrary: res rule: scan_loop.induct)
  case (1 e peak stop config d endTime w)
  show ?case
  proof (cases "\<not> stop (w_now w) \<and> w_now w < endTime")
    case True
    obtain q v where q: "scan_freqs e peak stop config d endTime SSTV_SCAN_FREQUENCIES w = Some (q, v)"
      using "1.prems" True by (auto simp: scan_loop.simps [of e peak stop config d endTime w] split: option.splits)
    obtain cs where cs: "made cs w v" using scan_freqs_made [OF q] by blast
    show ?thesis
    proof (cases q)
      case None
      then have "scan_loop e peak stop config d endTime v = Some (res, w')"
        using "1.prems" True q by (simp add: scan_loop.simps [of e peak stop config d endTime w])
      then show ?thesis using "1.IH" [OF True q refl None] made_trans [OF cs] by blast
    next
      case (Some r)
      then show ?thesis using "1.prems" True q cs by (auto simp: scan_loop.simps [of e peak stop config d endTime w])
    qed
  next
    case False
    then show ?thesis
      using "1.prems" by (auto simp: scan_loop.simps [of e peak stop config d endTime w] made_self)
  qed
qed

lemma scanForSstv_made:
  assumes "scanForSstv e peak stop config d w = Some (res, w')"
  shows "\<exists>cs. made cs w w'"
proof (cases "isSstvScannerRunning (sm_scanner (w_sstv w))")
  case True
  then show ?thesis using assms by (auto simp: scanForSstv_def intro: made_self)
next
  case False
  let ?w1 = "w\<lparr>w_sstv := (w_sstv w)\<lparr>sm_scanner := \<lparr>sf_isScanning = True, sf_shouldStop = False\<rparr>\<rparr>\<rparr>"
  let ?w2 = "st_call (SetStatus Scanning) ?w1"
  obtain v where v: "scan_loop e peak stop config d (w_now ?w2 + d * 1000) ?w2 = Some (res, v)" "w' = scan_finally v"
    using assms False by (auto simp: scanForSstv_def Let_def split: option.splits)
  have 2: "made [(w_now ?w1, SetStatus Scanning)] w ?w2" by (rule made_from [OF made_call]) simp_all
  obtain cs where cs: "made cs w v" using made_trans [OF 2] scan_loop_made [OF v(1)] by blast
  let ?v = "v\<lparr>w_sstv := (w_sstv v)\<lparr>sm_scanner := (sm_scanner (w_sstv v))\<lparr>sf_isScanning := False\<rparr>\<rparr>\<rparr>"
  have "made cs w ?v" by (rule made_then [OF cs]) simp_all
  then show ?thesis using v(2) made_trans [OF _ made_call, of cs w ?v "SetStatus Idle"] by (auto simp: scan_finally_def Let_def)
qed

section \<open>The server follows the calls\<close>

text \<open>The calls of the state manager among the events of the server.\<close>

fun state_calls :: "(date \<times> bool \<times> web_event) list \<Rightarrow> (date \<times> sm_call) list" where
  "state_calls [] = []"
| "state_calls ((now, ok, ev) # es) = (case ev of StateCall c \<Rightarrow> (now, c) # state_calls es | _ \<Rightarrow> state_calls es)"

text \<open>No request, message or timer of the server changes the state.\<close>

lemma state_replies [simp]:
  "wb_state (jsonResponseNode rid d s) = wb_state s" "wb_state (textResponse rid n t s) = wb_state s"
  "wb_state (serve_file we rid p c s) = wb_state s" "wb_state (serveStaticNode we rid f c s) = wb_state s"
  "wb_state (serveImageNode we rid f s) = wb_state s" "wb_state (debouncedFFTStart now g s) = wb_state s"
  "wb_state (to_clients takes m s) = wb_state s" "wb_state (to_subscribers takes m s) = wb_state s"
  by (simp_all add: jsonResponseNode_def textResponse_def serve_file_def serveStaticNode_def serveImageNode_def
      debouncedFFTStart_def to_clients_fields split: sum.splits option.splits)

lemma state_gain [simp]:
  "wb_state (set_user_gain now g s) = wb_state s" "wb_state (feed_auto_gain now d s) = wb_state s"
  "wb_state (configure_gain we g s) = wb_state s" "wb_state (put_notches ns s) = wb_state s"
  by (simp_all add: set_user_gain_def feed_auto_gain_def configure_gain_def put_notches_def Let_def
      split: prod.splits GainAdjustResult.splits)

lemma state_api [simp]:
  "wb_state (api_captures we rid rq s) = wb_state s" "wb_state (api_summary rid s) = wb_state s"
  "wb_state (api_sstv_status now rid s) = wb_state s" "wb_state (api_config we now rid s) = wb_state s"
  "wb_state (api_fft_start we ok now rid b s) = wb_state s" "wb_state (api_gain now rid b s) = wb_state s"
  "wb_state (api_notch_add rid b s) = wb_state s" "wb_state (api_notch_remove rid b s) = wb_state s"
  "wb_state (api_notch_toggle rid b s) = wb_state s" "wb_state (api_sstv_toggle we now rid b s) = wb_state s"
  "wb_state (api_ground_toggle we now rid b s) = wb_state s"
  by (simp_all add: api_captures_def api_summary_def api_sstv_status_def api_config_def api_fft_start_def api_gain_def
      api_notch_add_def api_notch_remove_def api_notch_toggle_def api_sstv_toggle_def api_ground_toggle_def
      broadcastSstvStatus_def Let_def split: sum.splits option.splits prod.splits)

lemma state_body [simp]: "(\<And>b v. wb_state (k b v) = wb_state v) \<Longrightarrow> wb_state (read_body body rid k s) = wb_state s"
  by (simp add: read_body_def split: option.splits)

lemma state_image [simp]: "wb_state (case r of None \<Rightarrow> s | Some f \<Rightarrow> serveImageNode we rid f s) = wb_state s"
  by (simp split: option.splits)

lemma state_if: "wb_state a = st \<Longrightarrow> wb_state b = st \<Longrightarrow> wb_state (if c then a else b) = st"
  by simp

lemma state_request: "wb_state (web_handle_request we decode ok now rid rq s) = wb_state s"
  unfolding web_handle_request_def Let_def by (intro state_if) simp_all

lemma state_fft: "wb_state (web_fft_event we ok now ev s) = wb_state s"
proof -
  have "wb_state (fold (\<lambda>(cb, data). web_broadcastFFTData we now data) frames v) = wb_state v" for frames :: "(nat \<times> FFTData) list" and v
    by (induction frames arbitrary: v) (auto simp: web_broadcastFFTData_def Let_def)
  then show ?thesis by (simp add: web_fft_event_def Let_def)
qed

lemma state_step: "wb_state (web_step we (now, ok, ev) s) = fst (sm_run (state_calls [(now, ok, ev)]) (wb_state s))"
proof (cases ev)
  case (StateCall c)
  then show ?thesis
    by (auto simp: state_call_def on_state_def Let_def split: prod.splits StateEvent.splits)
next
  case (WsMessageIn ws m)
  then show ?thesis
    by (cases "(now, ws, m, s)" rule: ws_message.cases)
      (auto simp: fft_subscribe_def fft_unsubscribe_def fft_set_gain_def Let_def split: option.splits)
qed (auto simp: state_request state_fft ws_connection_def ws_disconnect_def deferred_event_def start_fires_def stop_fires_def error_check_def
    reply_task_def broadcastFFTError_def Let_def split: option.splits prod.splits web_task.splits list.splits)

lemma state_run: "wb_state (fold (web_step we) es s) = fst (sm_run (state_calls es) (wb_state s))"
proof (induction es arbitrary: s)
  case (Cons e es)
  obtain now ok ev where e: "e = (now, ok, ev)" by (metis prod_cases3)
  have "state_calls (e # es) = state_calls [e] @ state_calls es" by (cases ev) (simp_all add: e)
  then show ?case using Cons.IH [of "web_step we e s"] state_step [of we now ok ev s] by (simp add: e sm_run_append split: prod.splits)
qed simp

text \<open>What a client shows after a program of the station ran, with anything else in between.\<close>

context message_view
begin

lemma program_seen:
  assumes "web_inv s" "wb_deferred s = []" "undisturbed_run we ws es (web_step we (now, ok, WsConnect ws) s)"
    and "list_all (event_allowed allowed) es"
  shows "view (messages_to ws (wb_out (fold (web_step we) es (web_step we (now, ok, WsConnect ws) s))))
           (fst (sm_run (state_calls es) (wb_state s)))"
  using connected_view [OF assms] state_run [of we es "web_step we (now, ok, WsConnect ws) s"] by (simp add: ws_connection_def)

end

lemma undisturbed_prefix: "undisturbed_run we ws (es @ fs) s \<Longrightarrow> undisturbed_run we ws es s"
  by (induction we ws es s rule: undisturbed_run.induct) simp_all

lemma state_calls_append [simp]: "state_calls (es @ fs) = state_calls es @ state_calls fs"
  by (induction es rule: state_calls.induct) (simp_all split: web_event.splits)

lemma in_capture_state:
  "list_all in_capture cs \<Longrightarrow> st_currentPass s = Some pass \<Longrightarrow> capture_in_progress s \<Longrightarrow>
   st_currentPass (fst (sm_run cs s)) = Some pass \<and> capture_in_progress (fst (sm_run cs s))"
proof (induction cs s rule: sm_run.induct)
  case (2 now c cs s)
  have "st_currentPass (fst (sm_exec now c s)) = Some pass \<and> capture_in_progress (fst (sm_exec now c s))"
    using "2.prems" by (cases c) (auto simp: in_capture_def is_progress_def sm_defs capture_in_progress_def)
  then show ?case using "2.IH" [OF prod.collapse] "2.prems"(1) by (auto split: prod.splits)
qed simp

text \<open>The state a viewer is to be shown after the first \<open>n\<close> calls of a capture.\<close>

lemma capture_phase:
  assumes "list_all in_capture cs" "ds @ fs = (t, StartPass pass) # cs @ [(t', CompletePass r)]"
  shows "ds = [] \<or> ds \<noteq> [] \<and> fs \<noteq> [] \<and> st_currentPass (fst (sm_run ds s)) = Some pass \<and> capture_in_progress (fst (sm_run ds s)) \<or>
    fs = [] \<and> st_currentPass (fst (sm_run ds s)) = None \<and> st_status (fst (sm_run ds s)) = Idle"
proof (cases "ds = []")
  case False
  then obtain bs where ds: "ds = (t, StartPass pass) # bs" "bs @ fs = cs @ [(t', CompletePass r)]" using assms(2) by (cases ds) auto
  let ?s = "fst (sm_exec t (StartPass pass) s)"
  have start: "st_currentPass ?s = Some pass" "capture_in_progress ?s" by (simp_all add: sm_defs capture_in_progress_def)
  have run: "fst (sm_run ds s) = fst (sm_run bs ?s)" by (simp add: ds(1) split: prod.splits)
  show ?thesis
  proof (cases fs rule: rev_cases)
    case Nil
    then have "bs = cs @ [(t', CompletePass r)]" using ds(2) by simp
    then show ?thesis using Nil run by (simp add: sm_run_append sm_defs split: prod.splits)
  next
    case (snoc fs' x)
    then have "list_all in_capture bs" using ds(2) assms(1) by (auto simp flip: append_assoc)
    then show ?thesis using False snoc run in_capture_state [OF _ start] by simp
  qed
qed simp

text \<open>
  A whole schedule, or a scan for ground signals: whatever calls they made, the dashboard and the page
  show the state the station is in afterwards.
\<close>

lemma programs_seen:
  assumes "web_inv s" "wb_deferred s = []" "wb_state s = w_state w" "made (state_calls es) w w'"
    and "undisturbed_run we ws es (web_step we (now, ok, WsConnect ws) s)"
    and "s' = fold (web_step we) es (web_step we (now, ok, WsConnect ws) s)" "length nows = length (messages_to ws (wb_out s'))"
  shows "follows (ui_of ws s') (w_state w')" "page_shows pe (page_of pe nows (messages_to ws (wb_out s'))) (w_state w')"
  using status_view.msgs.program_seen [OF assms(1,2,5) all_allowed] page_status.program_seen [OF assms(1,2,5) all_allowed] assms(3,4,6,7)
  by (simp_all add: ui_of_def made_def at_any_times_def)


text \<open>With nothing between the calls and no stream to stop, nothing is disturbed.\<close>

definition only_calls :: "(date \<times> sm_call) list \<Rightarrow> (date \<times> bool \<times> web_event) list" where
  "only_calls cs = map (\<lambda>(t, c). (t, True, StateCall c)) cs"

lemma state_calls_only [simp]: "state_calls (only_calls cs) = cs"
  by (induction cs) (auto simp: only_calls_def)

lemma calls_undisturbed:
  assumes "\<And>t. we_open we t ws" "\<not> isFFTStreamRunning (wb_fft s)"
  shows "undisturbed_run we ws (only_calls cs) s"
  using assms(2)
proof (induction cs arbitrary: s)
  case (Cons tc cs)
  have fft: "wb_fft (to_clients takes m v) = wb_fft v" for takes m v
  proof -
    have "wb_fft (fold (\<lambda>w v. if takes w then wemit (WsSend w m) v else v\<lparr>wb_clients := set_delete w (wb_clients v)\<rparr>) xs v) = wb_fft v" for xs v
      by (induction xs arbitrary: v) simp_all
    then show ?thesis by (simp add: to_clients_def)
  qed
  have "wb_fft (state_call we t c s) = wb_fft s" for t c
    using Cons.prems by (auto simp: state_call_def on_state_def fft debouncedFFTStart_def Let_def split: prod.splits StateEvent.splits)
  then show ?case
    using Cons assms(1) by (cases tc) (auto simp: only_calls_def undisturbed_def split: sm_call.splits)
qed (simp add: only_calls_def)


end
