(* ===== verification/Idle_Scan.thy ===== *)
theory Idle_Scan
  imports Sstv_Scanner
begin

text \<open>
  The wait of \<open>src/backend/scheduler/scheduler.ts\<close> with the scan of
  \<open>src/backend/capture/sstv-scanner.ts\<close> in the background: two programs on one event loop,
  which share the flags of the scanner, the state manager, the FFT stream and the receiver.  Each runs
  from one \<open>await\<close> to the next without interruption, so a program is the point where it waits
  and what it does when it is resumed there; \<open>Sstv_Scanner\<close> has the same scan as one function,
  undisturbed.  Between any two resumptions other code may call the state manager, change the settings
  of the scan or drive the FFT stream.
\<close>

section \<open>The scan, from one await to the next\<close>

text \<open>
  A point has the index of the frequency and the instant from which it may be resumed.  After
  \<open>Listening\<close> comes the number of samples taken; \<open>Releasing\<close> waits for a process of the FFT
  stream; from \<open>Recording\<close> on the instant \<open>captureSstv\<close> was called is kept.  A decoder that
  never answers leaves the scan at \<open>Hanging\<close>.
\<close>

datatype scan_point =
    Listening nat nat date
  | Releasing nat nat date
  | Settling nat date
  | Recording nat date RecordingSession date
  | Closing nat date RecordingSession date
  | Developing nat date string "DecoderResult option throwing" date
  | Hanging
  | Scan_over "CaptureResult option"

record scan_task =
  sk_config :: ReceiverConfig
  sk_duration :: int
  sk_endTime :: date

definition should_stop :: "station \<Rightarrow> bool" where
  "should_stop w = sf_shouldStop (sm_scanner (w_sstv w))"

definition scan_exit :: "CaptureResult option \<Rightarrow> station \<Rightarrow> scan_point \<times> station" where
  "scan_exit result w = (Scan_over result, scan_finally w)"

text \<open>The head of the \<open>for\<close> loop, and of the \<open>while\<close> loop around it once the frequencies are through.\<close>

definition scan_next :: "scan_task \<Rightarrow> nat \<Rightarrow> station \<Rightarrow> scan_point \<times> station" where
  "scan_next t k w =
     (if should_stop w \<or> w_now w \<ge> sk_endTime t then scan_exit None w
      else let k = (if k < length SSTV_SCAN_FREQUENCIES then k else 0); (frequency, name) = SSTV_SCAN_FREQUENCIES ! k
           in (Listening k 0 (w_now w + 500), st_call (SetScanningFrequency frequency name) w))"

definition has_signal :: "scan_task \<Rightarrow> station \<Rightarrow> bool" where
  "has_signal t w =
     (case getLatestFFTData (w_fft w) of
        None \<Rightarrow> False
      | Some fftData \<Rightarrow> fd_maxPower fftData > rc_minSignalStrength (sk_config t) - 5)"

definition after_dwell :: "scan_task \<Rightarrow> nat \<Rightarrow> bool \<Rightarrow> station \<Rightarrow> scan_point \<times> station" where
  "after_dwell t k hasSignal w =
     (if hasSignal \<and> \<not> should_stop w
      then (case stop_begin (w_now w) (w_fft w) of
              (None, s) \<Rightarrow> (Settling k (w_now w + 1000), w\<lparr>w_fft := stop_tail s\<rparr>)
            | (Some (pid, due), s) \<Rightarrow> (Releasing k pid due, w\<lparr>w_fft := s\<rparr>))
      else scan_next t (k + 1) w)"

definition after_capture :: "scan_task \<Rightarrow> nat \<Rightarrow> CaptureResult option \<Rightarrow> station \<Rightarrow> scan_point \<times> station" where
  "after_capture t k result w =
     (if (case result of None \<Rightarrow> False | Some r \<Rightarrow> cr_success r) then scan_exit result w
      else scan_next t (k + 1) (st_call (SetStatus Scanning) w))"

definition capture_info :: "nat \<Rightarrow> SatelliteInfo" where
  "capture_info k =
     GROUND_SSTV_INFO\<lparr>sat_name := snd (SSTV_SCAN_FREQUENCIES ! k), sat_frequency := fst (SSTV_SCAN_FREQUENCIES ! k)\<rparr>"

text \<open>The head of the loop of \<open>recordPass\<close>.\<close>

definition record_tick :: "env \<Rightarrow> scan_task \<Rightarrow> nat \<Rightarrow> date \<Rightarrow> RecordingSession \<Rightarrow> station \<Rightarrow> scan_point \<times> station" where
  "record_tick e t k startTime session w =
     (if w_now w < ses_startTime session + sk_duration t * 1000
      then (Recording k startTime session (w_now w + 1000),
            report_progress ((w_now w - ses_startTime session) div 1000) (sk_duration t) w)
      else (Closing k startTime session (w_now w + min (int (env_sox_ends e (w_now w))) 5000), w))"

definition begin_capture :: "env \<Rightarrow> scan_task \<Rightarrow> nat \<Rightarrow> station \<Rightarrow> scan_point \<times> station" where
  "begin_capture e t k w =
     (let w = st_call (SetStatus Capturing) w
      in case startRecording e (capture_info k) (sk_config t) (w_now w) of
           Inl err \<Rightarrow> after_capture t k None (st_call (SetStatus Idle) w)
         | Inr session \<Rightarrow> record_tick e t k (w_now w) session w)"

definition begin_decoding :: "env \<Rightarrow> scan_task \<Rightarrow> nat \<Rightarrow> date \<Rightarrow> RecordingSession \<Rightarrow> station \<Rightarrow> scan_point \<times> station" where
  "begin_decoding e t k startTime session w =
     (let w = w\<lparr>w_recordings := w_recordings w @
                  [\<lparr>rec_path = ses_outputPath session, rec_satellite = ses_satellite session,
                    rec_start = ses_startTime session, rec_end = w_now w\<rparr>]\<rparr>;
          w = st_call (SetStatus Decoding) w
      in case decodeRecording (env_os e) (ses_outputPath session) (rc_imagesDir (sk_config t)) Sstv (w_now w) of
           None \<Rightarrow> (Hanging, w)
         | Some (r, due) \<Rightarrow> (Developing k startTime (ses_outputPath session) r due, w))"

definition finish_decoding ::
  "scan_task \<Rightarrow> nat \<Rightarrow> date \<Rightarrow> string \<Rightarrow> DecoderResult option throwing \<Rightarrow> station \<Rightarrow> scan_point \<times> station" where
  "finish_decoding t k startTime recordingPath r w =
     (case r of
        Inl err \<Rightarrow> after_capture t k None (st_call (SetStatus Idle) w)
      | Inr decoderResult \<Rightarrow>
          (let imagePaths = (case decoderResult of None \<Rightarrow> [] | Some r \<Rightarrow> dr_outputPaths r);
               result = \<lparr>cr_satellite = capture_info k, cr_recordingPath = recordingPath, cr_imagePaths = imagePaths,
                         cr_startTime = startTime, cr_endTime = w_now w, cr_maxSignalStrength = 0,
                         cr_success = (length imagePaths > 0), cr_error = None\<rparr>;
               w = saveResultToDatabase result (fake_pass (capture_info k) startTime (w_now w) (sk_duration t)) w
           in after_capture t k (Some result) (st_call (SetStatus Idle) w)))"

fun scan_due :: "scan_point \<Rightarrow> station \<Rightarrow> bool" where
  "scan_due (Listening k i due) w \<longleftrightarrow> due \<le> w_now w"
| "scan_due (Releasing k pid due) w \<longleftrightarrow> proc_ended (w_fft w) pid \<or> due \<le> w_now w"
| "scan_due (Settling k due) w \<longleftrightarrow> due \<le> w_now w"
| "scan_due (Recording k startTime session due) w \<longleftrightarrow> due \<le> w_now w"
| "scan_due (Closing k startTime session due) w \<longleftrightarrow> due \<le> w_now w"
| "scan_due (Developing k startTime path r due) w \<longleftrightarrow> due \<le> w_now w"
| "scan_due Hanging w \<longleftrightarrow> False"
| "scan_due (Scan_over r) w \<longleftrightarrow> False"

fun scan_resume :: "env \<Rightarrow> scan_task \<Rightarrow> scan_point \<Rightarrow> station \<Rightarrow> scan_point \<times> station" where
  "scan_resume e t (Listening k i due) w =
     (if has_signal t w then after_dwell t k True w
      else if i + 1 < 40 \<and> \<not> should_stop w \<and> w_now w < sk_endTime t then (Listening k (i + 1) (w_now w + 500), w)
      else after_dwell t k False w)"
| "scan_resume e t (Releasing k pid due) w =
     (Settling k (w_now w + 1000), w\<lparr>w_fft := stop_resumed (w_now w) (w_fft w)\<rparr>)"
| "scan_resume e t (Settling k due) w = begin_capture e t k w"
| "scan_resume e t (Recording k startTime session due) w = record_tick e t k startTime session w"
| "scan_resume e t (Closing k startTime session due) w = begin_decoding e t k startTime session w"
| "scan_resume e t (Developing k startTime path r due) w = finish_decoding t k startTime path r w"
| "scan_resume e t Hanging w = (Hanging, w)"
| "scan_resume e t (Scan_over r) w = (Scan_over r, w)"

definition scan_starts :: "scan_task \<Rightarrow> station \<Rightarrow> scan_point \<times> station" where
  "scan_starts t w =
     (let w = w\<lparr>w_sstv := (w_sstv w)\<lparr>sm_scanner := \<lparr>sf_isScanning = True, sf_shouldStop = False\<rparr>\<rparr>\<rparr>
      in scan_next t 0 (st_call (SetStatus Scanning) w))"

section \<open>The wait\<close>

text \<open>The instant of the wait's next one-second tick; the wait itself is over at \<open>il_target\<close>.\<close>

datatype wait_point = Waits date | Wait_over

record idle =
  il_station :: station
  il_target :: date
  il_wait :: wait_point
  il_scan :: "(scan_task \<times> scan_point) option"

definition idle_begin :: "SatellitePass \<Rightarrow> ReceiverConfig \<Rightarrow> station \<Rightarrow> idle" where
  "idle_begin pass config w =
     (let now = w_now w;
          targetTime = pass_aos pass - pc_captureBufferSeconds PASS_CONSTRAINTS * 1000;
          w = st_call (SetStatus Waiting) w
      in if now \<ge> targetTime then \<lparr>il_station = w, il_target = targetTime, il_wait = Wait_over, il_scan = None\<rparr>
         else let waitSeconds = \<lceil>real_of_int (targetTime - now) / 1000\<rceil>
              in if waitSeconds > MIN_IDLE_FOR_SSTV_SCAN \<and> \<not> isSstvScannerRunning (sm_scanner (w_sstv w)) \<and>
                    isGroundSstvScanEnabled (w_sstv w)
                 then let maxScanDuration = min (waitSeconds - 60) 120;
                          t = \<lparr>sk_config = config, sk_duration = maxScanDuration, sk_endTime = now + maxScanDuration * 1000\<rparr>;
                          (pt, w) = scan_starts t w
                      in \<lparr>il_station = w, il_target = targetTime, il_wait = Waits (now + 1000), il_scan = Some (t, pt)\<rparr>
                 else \<lparr>il_station = w, il_target = targetTime, il_wait = Waits (now + 1000), il_scan = None\<rparr>)"

text \<open>The interval of the wait without a scan only writes to the console.\<close>

definition wait_tick :: "idle \<Rightarrow> idle" where
  "wait_tick s =
     (let w = il_station s; remaining = \<lceil>real_of_int (il_target s - w_now w) / 1000\<rceil>
      in s\<lparr>il_wait := Waits (w_now w + 1000),
           il_station := (if il_scan s \<noteq> None \<and> remaining \<le> 30 \<and> isSstvScannerRunning (sm_scanner (w_sstv w))
                          then request_scan_stop w else w)\<rparr>)"

definition wait_end :: "idle \<Rightarrow> idle" where
  "wait_end s = s\<lparr>il_wait := Wait_over, il_station := (if il_scan s \<noteq> None then request_scan_stop (il_station s) else il_station s)\<rparr>"

section \<open>All together\<close>

datatype idle_event = ScanResumes | WaitTicks | WaitEnds | OtherCall sm_call | OtherSetting sstv_call | StreamEvent fs_event

definition idle_step :: "env \<Rightarrow> fft_lib \<Rightarrow> date \<times> bool \<times> idle_event \<Rightarrow> idle \<Rightarrow> idle" where
  "idle_step e lib ev s =
     (case ev of (now, ok, a) \<Rightarrow>
       let w = (il_station s)\<lparr>w_now := max now (w_now (il_station s))\<rparr>; s = s\<lparr>il_station := w\<rparr>
       in case a of
            ScanResumes \<Rightarrow>
              (case il_scan s of
                 Some (t, pt) \<Rightarrow>
                   if scan_due pt w then let (pt, w) = scan_resume e t pt w in s\<lparr>il_scan := Some (t, pt), il_station := w\<rparr> else s
               | None \<Rightarrow> s)
          | WaitTicks \<Rightarrow> (case il_wait s of Waits due \<Rightarrow> if due \<le> w_now w then wait_tick s else s | Wait_over \<Rightarrow> s)
          | WaitEnds \<Rightarrow> (if il_wait s \<noteq> Wait_over \<and> il_target s \<le> w_now w then wait_end s else s)
          | OtherCall c \<Rightarrow> s\<lparr>il_station := st_call c w\<rparr>
          | OtherSetting c \<Rightarrow> s\<lparr>il_station := w\<lparr>w_sstv := sstv_exec c (w_sstv w)\<rparr>\<rparr>
          | StreamEvent x \<Rightarrow> s\<lparr>il_station := w\<lparr>w_fft := fs_step lib (w_now w, ok, x) (w_fft w)\<rparr>\<rparr>)"

section \<open>What each resumption keeps\<close>

lemma sstv_exec_flags: "sf_isScanning (sm_scanner (sstv_exec c m)) = sf_isScanning (sm_scanner m)"
  "sf_shouldStop (sm_scanner m) \<Longrightarrow> sf_shouldStop (sm_scanner (sstv_exec c m))"
  by (cases c, simp_all add: sstv_defs)+

lemma report_progress_simps [simp]:
  "w_sstv (report_progress x d w) = w_sstv w" "w_fft (report_progress x d w) = w_fft w"
  "w_recordings (report_progress x d w) = w_recordings w"
  by (simp_all add: report_progress_def Let_def)

lemma request_scan_stop_simps [simp]:
  "w_now (request_scan_stop w) = w_now w" "w_fft (request_scan_stop w) = w_fft w" "w_recordings (request_scan_stop w) = w_recordings w"
  "should_stop (request_scan_stop w)" "w_state (request_scan_stop w) = w_state w"
  "sf_isScanning (sm_scanner (w_sstv (request_scan_stop w))) = sf_isScanning (sm_scanner (w_sstv w))"
  by (simp_all add: request_scan_stop_def should_stop_def stopSstvScanner_def)

lemma scan_finally_simps [simp]:
  "w_now (scan_finally w) = w_now w" "w_fft (scan_finally w) = w_fft w" "w_recordings (scan_finally w) = w_recordings w"
  "\<not> sf_isScanning (sm_scanner (w_sstv (scan_finally w)))"
  "sf_shouldStop (sm_scanner (w_sstv (scan_finally w))) = sf_shouldStop (sm_scanner (w_sstv w))"
  by (simp_all add: scan_finally_def Let_def)

definition running :: "scan_point \<Rightarrow> bool" where
  "running pt \<longleftrightarrow> (case pt of Scan_over r \<Rightarrow> False | _ \<Rightarrow> True)"

lemma running_simps [simp]:
  "running (Listening k i due)" "running (Releasing k pid due)" "running (Settling k due)" "running (Recording k st ses due)"
  "running (Closing k st ses due)" "running (Developing k st path r due)" "running Hanging" "\<not> running (Scan_over res)"
  by (simp_all add: running_def)

text \<open>
  What is so at a point: indices within their tables, the listening over half a second after the scan's
  time, a recording under way for less than its duration.
\<close>

fun point_ok :: "scan_task \<Rightarrow> scan_point \<Rightarrow> bool" where
  "point_ok t (Listening k i due) \<longleftrightarrow> k < 2 \<and> i < 40 \<and> due < sk_endTime t + 500"
| "point_ok t (Releasing k pid due) \<longleftrightarrow> k < 2"
| "point_ok t (Settling k due) \<longleftrightarrow> k < 2"
| "point_ok t (Recording k st ses due) \<longleftrightarrow> k < 2 \<and> due < ses_startTime ses + sk_duration t * 1000 + 1000 \<and> ses_satellite ses = capture_info k"
| "point_ok t (Closing k st ses due) \<longleftrightarrow> k < 2 \<and> ses_satellite ses = capture_info k"
| "point_ok t (Developing k st path r due) \<longleftrightarrow> k < 2"
| "point_ok t Hanging \<longleftrightarrow> True"
| "point_ok t (Scan_over r) \<longleftrightarrow> True"

text \<open>One resumption: the point is in order, the flag of the scanner says whether the scan runs, and nobody but the scanner's
  callers sets the other flag.\<close>

definition resumed_ok :: "scan_task \<Rightarrow> station \<Rightarrow> scan_point \<times> station \<Rightarrow> bool" where
  "resumed_ok t w pw \<longleftrightarrow>
     point_ok t (fst pw) \<and> sf_isScanning (sm_scanner (w_sstv (snd pw))) = running (fst pw) \<and>
     should_stop (snd pw) = should_stop w \<and> w_now (snd pw) = w_now w"

lemma scan_next_ok: "sf_isScanning (sm_scanner (w_sstv w)) \<Longrightarrow> resumed_ok t w (scan_next t k w)"
  by (auto simp: resumed_ok_def scan_next_def scan_exit_def should_stop_def SSTV_SCAN_FREQUENCIES_def Let_def split: prod.splits)

lemma scan_exit_ok: "resumed_ok t w (scan_exit r w)"
  by (simp add: resumed_ok_def scan_exit_def should_stop_def)

lemma resumed_ok_frame:
  "resumed_ok t w pw \<Longrightarrow> should_stop w = should_stop v \<Longrightarrow> w_now w = w_now v \<Longrightarrow> resumed_ok t v pw"
  by (simp add: resumed_ok_def)

lemma after_dwell_ok:
  "sf_isScanning (sm_scanner (w_sstv w)) \<Longrightarrow> k < 2 \<Longrightarrow> resumed_ok t w (after_dwell t k sig w)"
  using scan_next_ok [of w t "k + 1"]
  by (auto simp: after_dwell_def resumed_ok_def should_stop_def split: prod.splits option.splits)

lemma after_capture_ok: "sf_isScanning (sm_scanner (w_sstv w)) \<Longrightarrow> resumed_ok t w (after_capture t k r w)"
  using scan_exit_ok resumed_ok_frame [OF scan_next_ok, of "st_call (SetStatus Scanning) w" w]
  by (auto simp: after_capture_def should_stop_def)

lemma record_tick_ok:
  assumes "sf_isScanning (sm_scanner (w_sstv w))" "k < 2" "ses_satellite ses = capture_info k"
  shows "resumed_ok t w (record_tick e t k st ses w)"
  using assms by (auto simp: record_tick_def resumed_ok_def should_stop_def)

lemma begin_capture_ok:
  assumes "sf_isScanning (sm_scanner (w_sstv w))" "k < 2"
  shows "resumed_ok t w (begin_capture e t k w)"
proof (cases "startRecording e (capture_info k) (sk_config t) (w_now w)")
  case (Inl err)
  then show ?thesis
    using assms resumed_ok_frame [OF after_capture_ok, of "st_call (SetStatus Idle) (st_call (SetStatus Capturing) w)" w]
    by (simp add: begin_capture_def should_stop_def)
next
  case (Inr ses)
  then have "ses_satellite ses = capture_info k" by (auto simp: startRecording_def Let_def split: if_splits)
  then show ?thesis
    using Inr assms resumed_ok_frame [OF record_tick_ok, of "st_call (SetStatus Capturing) w" k ses w]
    by (simp add: begin_capture_def should_stop_def)
qed

lemma begin_decoding_ok:
  "sf_isScanning (sm_scanner (w_sstv w)) \<Longrightarrow> k < 2 \<Longrightarrow> resumed_ok t w (begin_decoding e t k st ses w)"
  by (auto simp: begin_decoding_def resumed_ok_def should_stop_def Let_def split: option.splits prod.splits)

lemma finish_decoding_ok:
  assumes "sf_isScanning (sm_scanner (w_sstv w))"
  shows "resumed_ok t w (finish_decoding t k st path r w)"
proof -
  have "resumed_ok t w (after_capture t k q v)"
    if "w_sstv v = w_sstv w" "w_now v = w_now w" for q v
    using that assms by (intro resumed_ok_frame [OF after_capture_ok]) (simp_all add: should_stop_def)
  then show ?thesis by (simp add: finish_decoding_def Let_def split: sum.splits)
qed

lemma scan_resume_ok:
  "sf_isScanning (sm_scanner (w_sstv w)) = running pt \<Longrightarrow> point_ok t pt \<Longrightarrow> scan_due pt w \<Longrightarrow> resumed_ok t w (scan_resume e t pt w)"
  by (induction e t pt w rule: scan_resume.induct)
    (auto simp: after_dwell_ok begin_capture_ok record_tick_ok begin_decoding_ok finish_decoding_ok,
      auto simp: resumed_ok_def should_stop_def)

section \<open>Every interleaving\<close>

definition idle_inv :: "idle \<Rightarrow> bool" where
  "idle_inv s \<longleftrightarrow>
     (case il_scan s of
        None \<Rightarrow> True
      | Some (t, pt) \<Rightarrow>
          point_ok t pt \<and> sf_isScanning (sm_scanner (w_sstv (il_station s))) = running pt \<and>
          (il_wait s = Wait_over \<longrightarrow> should_stop (il_station s)) \<and> sk_duration t = 120 \<and> sk_endTime t + 60000 < il_target s)"

text \<open>
  A wait long enough for a scan is long enough for one of two minutes with another minute to spare: the
  shorter duration in the code is never taken.
\<close>

lemma wait_seconds:
  fixes d :: int
  assumes "180 < \<lceil>real_of_int d / 1000\<rceil>"
  shows "min (\<lceil>real_of_int d / 1000\<rceil> - 60) 120 = 120" "180000 < d"
proof -
  have "180 < real_of_int d / 1000" using assms by (simp add: less_ceiling_iff)
  then show "180000 < d" by (simp add: less_divide_eq)
  show "min (\<lceil>real_of_int d / 1000\<rceil> - 60) 120 = 120" using assms by simp
qed

lemma idle_begin_inv: "idle_inv (idle_begin pass config w)"
proof -
  let ?d = "pass_aos pass - pc_captureBufferSeconds PASS_CONSTRAINTS * 1000 - w_now w"
  have start: "point_ok t pt \<and> sf_isScanning (sm_scanner (w_sstv v)) = running pt" if "scan_starts t u = (pt, v)" for t u pt v
    using that scan_next_ok [of "st_call (SetStatus Scanning) (u\<lparr>w_sstv := (w_sstv u)\<lparr>sm_scanner := \<lparr>sf_isScanning = True, sf_shouldStop = False\<rparr>\<rparr>\<rparr>)" t 0]
    by (simp add: scan_starts_def resumed_ok_def Let_def)
  show ?thesis
    using wait_seconds [of ?d]
    by (auto simp: idle_inv_def idle_begin_def MIN_IDLE_FOR_SSTV_SCAN_def Let_def dest: start split: prod.splits)
qed

lemma idle_step_inv:
  assumes "idle_inv s"
  shows "idle_inv (idle_step e lib ev s)"
proof -
  obtain now ok a where ev: "ev = (now, ok, a)" by (metis prod_cases3)
  let ?w = "(il_station s)\<lparr>w_now := max now (w_now (il_station s))\<rparr>"
  show ?thesis
  proof (cases "il_scan s")
    case None
    then show ?thesis by (auto simp: idle_inv_def idle_step_def ev wait_tick_def wait_end_def Let_def split: idle_event.splits wait_point.splits)
  next
    case (Some tp)
    obtain t pt where tp: "tp = (t, pt)" by fastforce
    have i: "point_ok t pt" "sf_isScanning (sm_scanner (w_sstv ?w)) = running pt" "il_wait s = Wait_over \<Longrightarrow> should_stop ?w"
      "sk_duration t = 120" "sk_endTime t + 60000 < il_target s"
      using assms Some tp by (simp_all add: idle_inv_def should_stop_def)
    show ?thesis
    proof (cases a)
      case ScanResumes
      then show ?thesis
        using i Some tp scan_resume_ok [OF i(2,1), of e]
        by (cases "scan_resume e t pt ?w") (auto simp: idle_inv_def idle_step_def ev resumed_ok_def Let_def should_stop_def)
    next
      case (OtherSetting c)
      then show ?thesis
        using i Some tp sstv_exec_flags by (auto simp: idle_inv_def idle_step_def ev should_stop_def Let_def)
    qed (use i Some tp in \<open>auto simp: idle_inv_def idle_step_def ev wait_tick_def wait_end_def should_stop_def Let_def
          request_scan_stop_def stopSstvScanner_def split: wait_point.splits\<close>)
  qed
qed

interpretation idle_sys: handler_system "\<lambda>s. \<exists>pass config w. s = idle_begin pass config w" "\<lambda>_. True" "idle_step e lib" idle_inv
  for e lib
  by unfold_locales (auto simp: idle_begin_inv idle_step_inv)

lemma idle_reachable: "idle_inv (fold (idle_step e lib) es (idle_begin pass config w))"
  by (rule idle_sys.reachable_inv) (auto simp: list_all_iff)

text \<open>C12: In every state the wait and its scan reach together with any other code, the flag of the
  scanner says whether the scan runs; the scan is given two minutes, which are over more than a minute
  before the wait; while it listens it is resumed more than 59 seconds before the end of the wait; and
  once the wait is over it has been told to stop.\<close>

theorem idle_scan_invariant:
  assumes "s = fold (idle_step e lib) es (idle_begin pass config w)" "il_scan s = Some (t, pt)"
  shows "isSstvScannerRunning (sm_scanner (w_sstv (il_station s))) = running pt \<and> sk_duration t = 120 \<and>
    sk_endTime t + 60000 < il_target s \<and> (pt = Listening k i due \<longrightarrow> k < 2 \<and> i < 40 \<and> due + 59500 < il_target s) \<and>
    (il_wait s = Wait_over \<longrightarrow> should_stop (il_station s))"
  using idle_reachable [of e lib es pass config w] assms by (auto simp: idle_inv_def isSstvScannerRunning_def)

text \<open>An example: a pass in four minutes, with the ground scan enabled and a frame of the given power on the stream.\<close>

definition demo_ground :: "number \<Rightarrow> station" where
  "demo_ground p = (demo_station_at 0)\<lparr>w_sstv := sstv_init (Some ''true''),
     w_fft := fs_initial\<lparr>fs_shared := (fs_shared fs_initial)\<lparr>fsh_latest :=
       Some \<lparr>fd_timestamp = 0, fd_centerFreq = 144500000, fd_bins = [], fd_minPower = p, fd_maxPower = p\<rparr>\<rparr>\<rparr>\<rparr>"

definition demo_idle :: "number \<Rightarrow> idle" where
  "demo_idle p = idle_begin (demo_pass 241000) demo_rconfig (demo_ground p)"

lemmas demo_idle_defs = demo_idle_def idle_begin_def demo_pass_def PASS_CONSTRAINTS_def MIN_IDLE_FOR_SSTV_SCAN_def demo_ground_def
  demo_station_at_def sstv_init_def isSstvScannerRunning_def isGroundSstvScanEnabled_def scan_starts_def scan_next_def should_stop_def
  SSTV_SCAN_FREQUENCIES_def st_call_def sm_defs

lemma demo_idle_listens: "il_scan (demo_idle p) = Some (\<lparr>sk_config = demo_rconfig, sk_duration = 120, sk_endTime = 120000\<rparr>, Listening 0 0 500)"
  by (simp add: demo_idle_defs)

theorem idle_scan_invariant_witness:
  "il_scan (demo_idle 0) \<noteq> None \<and> (500 :: int) + 59500 < il_target (demo_idle 0) \<and>
   isSstvScannerRunning (sm_scanner (w_sstv (il_station (demo_idle 0))))"
  using idle_scan_invariant [of "demo_idle 0" demo_env demo_fft "[]" "demo_pass 241000" demo_rconfig "demo_ground 0", OF _ demo_idle_listens, of 0 0 500]
  by (simp add: demo_idle_listens) (simp add: demo_idle_def)

section \<open>A stop while the scan listens\<close>

text \<open>Two states that differ in the scan and in what it was told only.\<close>

definition same_receiver :: "idle \<Rightarrow> idle \<Rightarrow> bool" where
  "same_receiver a b \<longleftrightarrow>
     w_fft (il_station a) = w_fft (il_station b) \<and> w_now (il_station a) = w_now (il_station b) \<and>
     w_recordings (il_station a) = w_recordings (il_station b) \<and> il_wait a = il_wait b \<and> il_target a = il_target b"

definition told_to_stop :: "scan_task \<Rightarrow> scan_point \<Rightarrow> idle \<Rightarrow> bool" where
  "told_to_stop t pt a \<longleftrightarrow>
     should_stop (il_station a) \<and> (il_scan a = Some (t, pt) \<or> il_scan a = Some (t, Scan_over None))"

lemma stopped_resume:
  "should_stop w \<Longrightarrow> scan_resume e t (Listening k i due) w = scan_exit None w"
  by (simp add: after_dwell_def scan_next_def)

lemma stopped_step:
  assumes "told_to_stop t (Listening k i due) a" "il_scan b = None" "same_receiver a b"
  shows "told_to_stop t (Listening k i due) (idle_step e lib ev a) \<and> il_scan (idle_step e lib ev b) = None \<and>
    same_receiver (idle_step e lib ev a) (idle_step e lib ev b) \<and>
    (il_scan a = Some (t, Scan_over None) \<or> snd (snd ev) = ScanResumes \<and> due \<le> fst ev \<longrightarrow>
     il_scan (idle_step e lib ev a) = Some (t, Scan_over None))"
proof -
  obtain now ok x where ev: "ev = (now, ok, x)" by (metis prod_cases3)
  let ?w = "(il_station a)\<lparr>w_now := max now (w_now (il_station a))\<rparr>"
  have stop: "should_stop ?w" using assms(1) by (simp add: told_to_stop_def should_stop_def)
  show ?thesis
  proof (cases x)
    case ScanResumes
    then show ?thesis
      using assms stopped_resume [OF stop, of e t k i due]
      by (auto simp: told_to_stop_def same_receiver_def idle_step_def ev scan_exit_def should_stop_def Let_def)
  next
    case (OtherSetting c)
    then show ?thesis
      using assms sstv_exec_flags(2) by (auto simp: told_to_stop_def same_receiver_def idle_step_def ev should_stop_def Let_def)
  qed (use assms in \<open>auto simp: told_to_stop_def same_receiver_def idle_step_def ev wait_tick_def wait_end_def should_stop_def Let_def
        request_scan_stop_def stopSstvScanner_def split: wait_point.splits\<close>)
qed

lemma stopped_run:
  "told_to_stop t (Listening k i due) a \<Longrightarrow> il_scan b = None \<Longrightarrow> same_receiver a b \<Longrightarrow>
   told_to_stop t (Listening k i due) (fold (idle_step e lib) es a) \<and>
   same_receiver (fold (idle_step e lib) es a) (fold (idle_step e lib) es b) \<and>
   (il_scan a = Some (t, Scan_over None) \<or> (\<exists>ev \<in> set es. snd (snd ev) = ScanResumes \<and> due \<le> fst ev) \<longrightarrow>
    il_scan (fold (idle_step e lib) es a) = Some (t, Scan_over None))"
proof (induction es arbitrary: a b)
  case (Cons ev es)
  note st = stopped_step [OF Cons.prems, of e lib ev]
  show ?case using st Cons.IH [of "idle_step e lib ev a" "idle_step e lib ev b"] by auto
qed simp

lemma alone_recordings: "il_scan b = None \<Longrightarrow> w_recordings (il_station (fold (idle_step e lib) es b)) = w_recordings (il_station b)"
proof (induction es arbitrary: b)
  case (Cons ev es)
  have "il_scan (idle_step e lib ev b) = None \<and> w_recordings (il_station (idle_step e lib ev b)) = w_recordings (il_station b)"
    using Cons.prems by (auto simp: idle_step_def wait_tick_def wait_end_def Let_def split: prod.splits idle_event.splits wait_point.splits)
  then show ?case using Cons.IH [of "idle_step e lib ev b"] by simp
qed simp

text \<open>C13: A scan that still listens when it is told to stop leaves the receiver alone: whatever happens
  afterwards, the FFT stream runs as if there were no scan, nothing is recorded, and the scan is over
  with its next resumption.\<close>

theorem stopped_scan_leaves_receiver:
  assumes "il_scan s0 = Some (t, Listening k i due)" "should_stop (il_station s0)" "s = fold (idle_step e lib) es s0"
  shows "w_fft (il_station s) = w_fft (il_station (fold (idle_step e lib) es (s0\<lparr>il_scan := None\<rparr>))) \<and>
    w_recordings (il_station s) = w_recordings (il_station s0) \<and>
    (il_scan s = Some (t, Listening k i due) \<or> il_scan s = Some (t, Scan_over None)) \<and>
    ((\<exists>now ok. (now, ok, ScanResumes) \<in> set es \<and> due \<le> now) \<longrightarrow> il_scan s = Some (t, Scan_over None))"
proof -
  have "told_to_stop t (Listening k i due) s0" "same_receiver s0 (s0\<lparr>il_scan := None\<rparr>)"
    using assms(1,2) by (simp_all add: told_to_stop_def same_receiver_def)
  from stopped_run [OF this(1) _ this(2), of e lib es] show ?thesis
    using assms(3) alone_recordings [of "s0\<lparr>il_scan := None\<rparr>" e lib es]
    by (fastforce simp: told_to_stop_def same_receiver_def)
qed

definition demo_stopped :: idle where
  "demo_stopped = idle_step demo_env demo_fft (600, True, OtherSetting (SetGround False)) (demo_idle 0)"

theorem stopped_scan_leaves_receiver_witness:
  "il_scan (fold (idle_step demo_env demo_fft) [(700, True, ScanResumes), (181000, True, WaitEnds)] demo_stopped) =
     Some (\<lparr>sk_config = demo_rconfig, sk_duration = 120, sk_endTime = 120000\<rparr>, Scan_over None)"
proof -
  have "il_scan demo_stopped = Some (\<lparr>sk_config = demo_rconfig, sk_duration = 120, sk_endTime = 120000\<rparr>, Listening 0 0 500)"
    "should_stop (il_station demo_stopped)"
    by (simp_all add: demo_stopped_def idle_step_def demo_idle_listens Let_def) (simp add: should_stop_def sstv_defs)
  from stopped_scan_leaves_receiver [OF this refl, of demo_env demo_fft "[(700, True, ScanResumes), (181000, True, WaitEnds)]"]
  show ?thesis by auto
qed

section \<open>A stop while the scan records\<close>

lemma recording_step:
  assumes "il_scan a = Some (t, Recording k st ses due)" "sk_duration t = 120"
    and "w_now (il_station a) < ses_startTime ses + 120000" "fst ev < ses_startTime ses + 120000"
  shows "\<exists>due. il_scan (idle_step e lib ev a) = Some (t, Recording k st ses due)"
    "w_now (il_station (idle_step e lib ev a)) < ses_startTime ses + 120000" "il_target (idle_step e lib ev a) = il_target a"
  using assms
  by (auto simp: idle_step_def record_tick_def wait_tick_def wait_end_def Let_def
      split: prod.splits idle_event.splits wait_point.splits)

lemma recording_run:
  "il_scan a = Some (t, Recording k st ses due) \<Longrightarrow> sk_duration t = 120 \<Longrightarrow> w_now (il_station a) < ses_startTime ses + 120000 \<Longrightarrow>
   list_all (\<lambda>ev. fst ev < ses_startTime ses + 120000) es \<Longrightarrow>
   \<exists>due. il_scan (fold (idle_step e lib) es a) = Some (t, Recording k st ses due) \<and>
     w_now (il_station (fold (idle_step e lib) es a)) < ses_startTime ses + 120000 \<and> il_target (fold (idle_step e lib) es a) = il_target a"
proof (induction es arbitrary: a due)
  case (Cons ev es)
  then obtain due' where "il_scan (idle_step e lib ev a) = Some (t, Recording k st ses due')"
    "w_now (il_station (idle_step e lib ev a)) < ses_startTime ses + 120000" "il_target (idle_step e lib ev a) = il_target a"
    using recording_step [of a t k st ses due ev e lib] by auto
  then show ?case using Cons.IH [of "idle_step e lib ev a" due'] Cons.prems by simp
qed simp

text \<open>C36: A scan that records does not look whether it is to stop: two minutes from the start of its recording
  it still records, whatever is asked of it.  If the wait ends within this time, the scheduler goes on to
  capture the pass while the receiver is taken by the scan.\<close>

theorem ground_recording_overlaps_pass:
  assumes "s0 = fold (idle_step e lib) es0 (idle_begin pass config w)" "il_scan s0 = Some (t, Recording k st ses due)"
    and "w_now (il_station s0) < ses_startTime ses + 120000" "list_all (\<lambda>ev. fst ev < ses_startTime ses + 120000) es"
    and "il_target s0 \<le> now" "now < ses_startTime ses + 120000" "s = fold (idle_step e lib) (es @ [(now, ok, WaitEnds)]) s0"
  shows "il_wait s = Wait_over \<and> (\<exists>due. il_scan s = Some (t, Recording k st ses due))"
proof -
  have d: "sk_duration t = 120"
    using idle_reachable [of e lib es0 pass config w] assms(1,2) by (auto simp: idle_inv_def)
  let ?a = "fold (idle_step e lib) es s0"
  obtain due' where a: "il_scan ?a = Some (t, Recording k st ses due')" "w_now (il_station ?a) < ses_startTime ses + 120000"
    "il_target ?a = il_target s0"
    using recording_run [OF assms(2) d assms(3,4)] by blast
  have "il_wait s = Wait_over" using assms(5,7) a(3) by (auto simp: idle_step_def wait_end_def Let_def max_def)
  moreover have "\<exists>due. il_scan s = Some (t, Recording k st ses due)"
    using recording_step(1) [OF a(1) d a(2), of "(now, ok, WaitEnds)" e lib] assms(6,7) by simp
  ultimately show ?thesis by simp
qed

text \<open>An example: a signal is heard after 119 seconds of the scan, a minute before the end of the wait.\<close>

definition demo_recording :: idle where
  "demo_recording = fold (idle_step demo_env demo_fft) [(119000, True, ScanResumes), (120000, True, ScanResumes)] (demo_idle (-10))"

lemma demo_recording_records:
  "\<exists>t ses due. il_scan demo_recording = Some (t, Recording 0 120000 ses due) \<and> ses_startTime ses = 120000 \<and>
     w_now (il_station demo_recording) = 120000 \<and> il_target demo_recording = 181000"
  by (simp add: demo_recording_def idle_step_def demo_idle_defs has_signal_def getLatestFFTData_def fs_initial_def demo_rconfig_def
      after_dwell_def stop_begin_def stop_tail_def begin_capture_def startRecording_def record_tick_def report_progress_def demo_env_def demo_os_def)

theorem ground_recording_overlaps_pass_witness:
  "\<exists>t ses due. il_wait (idle_step demo_env demo_fft (181000, True, WaitEnds) demo_recording) = Wait_over \<and>
     il_scan (idle_step demo_env demo_fft (181000, True, WaitEnds) demo_recording) = Some (t, Recording 0 120000 ses due)"
proof -
  obtain t ses due where r: "il_scan demo_recording = Some (t, Recording 0 120000 ses due)" "ses_startTime ses = 120000"
    "w_now (il_station demo_recording) = 120000" "il_target demo_recording = 181000"
    using demo_recording_records by blast
  show ?thesis
    using ground_recording_overlaps_pass [OF demo_recording_def [unfolded demo_idle_def] r(1), of "[]" 181000 _ True] r(2-4) by auto
qed

section \<open>The wait alone\<close>

text \<open>
  Seen by the scheduler alone, between the start of the wait and its end, this is its
  \<open>waitForPass\<close>.
\<close>

lemma scan_starts_begins:
  "w_now v < sk_endTime t \<Longrightarrow> scan_starts t v = (Listening 0 0 (w_now v + 500), scan_begins v)"
  by (simp add: scan_starts_def scan_begins_def scan_next_def should_stop_def SSTV_SCAN_FREQUENCIES_def Let_def)

lemma waitForPass_alone:
  assumes "target = pass_aos pass - pc_captureBufferSeconds PASS_CONSTRAINTS * 1000" "w_now w < target"
    and "woken = js_sleep (env_os e) (nat (target - w_now w)) (w_now w)"
  shows "snd (waitForPass e pass w) = il_station (idle_step e lib (woken, ok, WaitEnds) (idle_begin pass config w))"
proof -
  let ?v = "st_call (SetStatus Waiting) w" and ?n = "\<lceil>real_of_int (target - w_now w) / 1000\<rceil>"
  have woken: "target \<le> woken" "w_now w \<le> woken" "woken = js_sleep (env_os e) (nat (target - w_now w)) (w_now (scan_begins ?v))"
    using assms(2,3) by (simp_all add: js_sleep_def scan_begins_def Let_def)
  show ?thesis
  proof (cases "?n > MIN_IDLE_FOR_SSTV_SCAN \<and> \<not> isSstvScannerRunning (sm_scanner (w_sstv ?v)) \<and> isGroundSstvScanEnabled (w_sstv ?v)")
    case True
    let ?t = "\<lparr>sk_config = config, sk_duration = min (?n - 60) 120, sk_endTime = w_now w + min (?n - 60) 120 * 1000\<rparr>"
    have "w_now ?v < sk_endTime ?t" using True wait_seconds(1) [of "target - w_now w"] by (simp add: MIN_IDLE_FOR_SSTV_SCAN_def)
    then have "idle_begin pass config w = \<lparr>il_station = scan_begins ?v, il_target = target, il_wait = Waits (w_now w + 1000),
        il_scan = Some (?t, Listening 0 0 (w_now ?v + 500))\<rparr>"
      unfolding idle_begin_def assms(1) [symmetric] Let_def using True assms(2) by (simp add: scan_starts_begins)
    moreover have "snd (waitForPass e pass w) = request_scan_stop (scan_begins ?v\<lparr>w_now := woken\<rparr>)"
      unfolding waitForPass_def assms(1) [symmetric] Let_def st_sleep_def woken(3) using True assms(2) by simp
    moreover have "w_now (scan_begins ?v) = w_now w" by (simp add: scan_begins_def Let_def)
    ultimately show ?thesis using woken(1,2) by (simp add: idle_step_def wait_end_def Let_def)
  next
    case False
    then have "idle_begin pass config w = \<lparr>il_station = ?v, il_target = target, il_wait = Waits (w_now w + 1000), il_scan = None\<rparr>"
      unfolding idle_begin_def assms(1) [symmetric] Let_def using assms(2) by auto
    moreover have "snd (waitForPass e pass w) = ?v\<lparr>w_now := woken\<rparr>"
      unfolding waitForPass_def assms(1) [symmetric] Let_def st_sleep_def assms(3) using False assms(2) by auto
    ultimately show ?thesis using woken(1,2) by (simp add: idle_step_def wait_end_def Let_def)
  qed
qed

section \<open>What the dashboard is told\<close>

text \<open>
  A scan that ends sets the status to \<open>idle\<close>, although the scheduler still waits: for the rest of
  the wait nothing sets it to \<open>waiting\<close> again.
\<close>

lemma wait_shown_idle:
  assumes "st_status (w_state w) = Scanning"
  shows "st_status (w_state (snd (scan_exit r w))) = Idle"
  using assms by (simp add: scan_exit_def scan_finally_def setStatus_def Let_def)

end
