(* ===== verification/Sdr_Relay.thy ===== *)
theory Sdr_Relay
  imports Recorder
begin

text \<open>
  \<open>src/sdr-relay/types.ts\<close> and \<open>src/sdr-relay/server.ts\<close>: the server beside the
  receiver.  Its module variables are the state; a handler that awaits something is a
  suspended task; one event at a time runs: a request, the continuation of a task, a tick of a
  progress timer, a message or the end of a web socket, or an event of the FFT stream.

  The body of a request is what \<open>JSON.parse\<close> makes of it at the type its route casts it
  to, \<open>None\<close> when it throws.  Session identifiers end in six random characters and are
  taken as unique.
\<close>

section \<open>Types\<close>

datatype sdr_mode = Mode_idle | Mode_fft | Mode_recording

record SDRStatus =
  sdr_connected :: bool
  sdr_device :: "string option"
  sdr_mode_of :: sdr_mode
  sdr_error :: "string option"

datatype session_status = Session_recording | Session_complete | Session_error

record CaptureSession =
  cs_sessionId :: string
  cs_frequency :: number
  cs_startTime :: string
  cs_durationSeconds :: number
  cs_status :: session_status
  cs_progress :: "number option"
  cs_outputPath :: "string option"
  cs_error :: "string option"

record StartCaptureRequest =
  scr_frequency :: number
  scr_durationSeconds :: number
  scr_sampleRate :: number
  scr_gain :: number
  scr_ppmCorrection :: "number option"
  scr_satelliteName :: "string option"

record StartCaptureResponse =
  sca_sessionId :: string
  sca_success :: bool
  sca_error :: "string option"

record StopCaptureRequest =
  spr_sessionId :: string

record StopCaptureResponse =
  spa_success :: bool
  spa_outputPath :: "string option"
  spa_error :: "string option"

record SignalCheckRequest =
  scq_frequency :: number
  scq_bandwidth :: "number option"
  scq_gain :: number

record SignalCheckResponse =
  sck_frequency :: number
  sck_power :: number
  sck_detected :: bool
  sck_timestamp :: string

record TuneRequest =
  tun_frequency :: number

record TuneResponse =
  tur_success :: bool
  tur_frequency :: "number option"
  tur_error :: "string option"

datatype FFTWSMessage =
    ws_subscribe FFTStreamConfig
  | ws_unsubscribe
  | ws_set_frequency number
  | ws_fft_data FFTData
  | ws_subscribed FFTStreamConfig
  | ws_unsubscribed
  | ws_error string

section \<open>State\<close>

record session_data =
  sd_session :: RecordingSession
  sd_startTime :: date
  sd_durationSeconds :: number
  sd_status :: session_status
  sd_progress :: number

record http_request =
  hq_method :: http_method
  hq_path :: string
  hq_tune :: "TuneRequest option"
  hq_start :: "StartCaptureRequest option"
  hq_stop :: "StopCaptureRequest option"
  hq_signal :: "SignalCheckRequest option"

datatype payload =
    J_status SDRStatus | J_tune TuneResponse | J_start StartCaptureResponse | J_stop StopCaptureResponse
  | J_session CaptureSession | J_signal SignalCheckResponse | J_health sdr_mode | J_error string
  | Audio string | No_body

datatype relay_output = Reply nat nat payload | Send nat FFTWSMessage

datatype relay_task =
    StatusWait nat "CommandResult throwing" date
  | RecordWait nat string StartCaptureRequest
  | StopReplyWait nat string date
  | AutoStopWait string date
  | SignalWait nat SignalCheckRequest bool bool date

record relay =
  rl_fft :: fft_stream
  rl_subscribers :: "nat list"
  rl_sessions :: "(string, session_data) jsmap"
  rl_mode :: sdr_mode
  rl_tasks :: "relay_task list"
  rl_timers :: "string list"
  rl_out :: "relay_output list"

definition relay_initial :: relay where
  "relay_initial = \<lparr>rl_fft = fs_initial, rl_subscribers = [], rl_sessions = [], rl_mode = Mode_idle,
     rl_tasks = [], rl_timers = [], rl_out = []\<rparr>"

text \<open>
  What the relay runs on: processes, the package \<open>fft.js\<close>, the files, which sockets take
  a message at an instant, and the address the server was started with.
\<close>

record relay_env =
  re_env :: env
  re_lib :: fft_lib
  re_read :: "date \<Rightarrow> string \<Rightarrow> string option"
  re_open :: "date \<Rightarrow> nat \<Rightarrow> bool"
  re_port :: number
  re_host :: string

definition emit :: "relay_output \<Rightarrow> relay \<Rightarrow> relay" where
  "emit out s = s\<lparr>rl_out := rl_out s @ [out]\<rparr>"

definition jsonResponse :: "nat \<Rightarrow> payload \<Rightarrow> nat \<Rightarrow> relay \<Rightarrow> relay" where
  "jsonResponse rid data status s = emit (Reply rid status data) s"

definition suspend :: "relay_task \<Rightarrow> relay \<Rightarrow> relay" where
  "suspend task s = s\<lparr>rl_tasks := rl_tasks s @ [task]\<rparr>"

definition generateSessionId :: "date \<Rightarrow> string \<Rightarrow> string" where
  "generateSessionId now rnd = ''capture-'' @ show_int now @ ''-'' @ rnd"

section \<open>FFT subscribers\<close>

definition broadcastFFTData :: "(nat \<Rightarrow> bool) \<Rightarrow> FFTData \<Rightarrow> relay \<Rightarrow> relay" where
  "broadcastFFTData takes data s =
     fold (\<lambda>ws s. if takes ws then emit (Send ws (ws_fft_data data)) s
                  else s\<lparr>rl_subscribers := set_delete ws (rl_subscribers s)\<rparr>)
       (rl_subscribers s) s"

text \<open>
  The callback is number 0, \<open>broadcastFFTData\<close>.  \<open>startFFTStream\<close> returns a promise, which is
  never false, so the branch for a failed start is not taken.
\<close>

definition relay_start_fft :: "relay_env \<Rightarrow> bool \<Rightarrow> date \<Rightarrow> FFTStreamConfig \<Rightarrow> relay \<Rightarrow> relay" where
  "relay_start_fft re ok now config s = s\<lparr>rl_fft := startFFTStream (re_lib re) ok now config 0 (rl_fft s)\<rparr>"

definition stop_if_unused :: "date \<Rightarrow> relay \<Rightarrow> relay" where
  "stop_if_unused now s =
     (if rl_subscribers s = [] \<and> isFFTStreamRunning (rl_fft s)
      then s\<lparr>rl_fft := stopFFTStream now (rl_fft s), rl_mode := Mode_idle\<rparr> else s)"

definition retune :: "relay_env \<Rightarrow> bool \<Rightarrow> date \<Rightarrow> number \<Rightarrow> relay \<Rightarrow> relay" where
  "retune re ok now frequency s =
     (if isFFTStreamRunning (rl_fft s)
      then s\<lparr>rl_fft := snd (updateFFTFrequency (re_lib re) ok now frequency (rl_fft s))\<rparr> else s)"

fun handleFFTMessage :: "relay_env \<Rightarrow> bool \<Rightarrow> date \<Rightarrow> nat \<Rightarrow> FFTWSMessage \<Rightarrow> relay \<Rightarrow> relay" where
  "handleFFTMessage re ok now ws (ws_subscribe config) s =
     (if rl_mode s = Mode_recording then emit (Send ws (ws_error ''SDR is currently recording'')) s
      else let s = s\<lparr>rl_subscribers := set_add ws (rl_subscribers s)\<rparr>;
               s = (if \<not> isFFTStreamRunning (rl_fft s)
                    then (relay_start_fft re ok now config s)\<lparr>rl_mode := Mode_fft\<rparr> else s)
           in emit (Send ws (ws_subscribed config)) s)"
| "handleFFTMessage re ok now ws ws_unsubscribe s =
     stop_if_unused now
       (emit (Send ws ws_unsubscribed) (s\<lparr>rl_subscribers := set_delete ws (rl_subscribers s)\<rparr>))"
| "handleFFTMessage re ok now ws (ws_set_frequency frequency) s = retune re ok now frequency s"
| "handleFFTMessage re ok now ws _ s = emit (Send ws (ws_error ''Unknown message type'')) s"

definition ws_close :: "date \<Rightarrow> nat \<Rightarrow> relay \<Rightarrow> relay" where
  "ws_close now ws s = stop_if_unused now (s\<lparr>rl_subscribers := set_delete ws (rl_subscribers s)\<rparr>)"

section \<open>Device status\<close>

text \<open>\<open>/Using device \\d+: (.+)/\<close>, at the front of a string and anywhere in it.\<close>

definition device_at :: "string \<Rightarrow> string option" where
  "device_at s =
     (if \<not> js_startsWith s ''Using device '' then None
      else let r = drop 13 s; ds = takeWhile is_digit r; r' = dropWhile is_digit r
           in if ds = [] \<or> \<not> js_startsWith r' '': '' then None
              else let name = takeWhile (\<lambda>c. c \<noteq> NL \<and> c \<noteq> CHR 0x0D) (drop 2 r')
                   in if name = [] then None else Some name)"

fun deviceMatch :: "string \<Rightarrow> string option" where
  "deviceMatch [] = None"
| "deviceMatch (c # cs) = (case device_at (c # cs) of Some d \<Rightarrow> Some d | None \<Rightarrow> deviceMatch cs)"

definition getSDRStatus :: "CommandResult throwing \<Rightarrow> sdr_mode \<Rightarrow> SDRStatus" where
  "getSDRStatus r currentMode =
     (case r of
        Inr result \<Rightarrow>
          \<lparr>sdr_connected = (cmd_exitCode result = 0 \<or> js_includes (cmd_stderr result) ''Found''),
           sdr_device = deviceMatch (cmd_stderr result), sdr_mode_of = currentMode, sdr_error = None\<rparr>
      | Inl err \<Rightarrow>
          \<lparr>sdr_connected = False, sdr_device = None, sdr_mode_of = currentMode, sdr_error = Some err\<rparr>)"

section \<open>Captures\<close>

text \<open>\<open>x || y\<close> on an optional name and number\<close>

definition capture_satellite :: "StartCaptureRequest \<Rightarrow> SatelliteInfo" where
  "capture_satellite rq =
     \<lparr>sat_name = (case scr_satelliteName rq of None \<Rightarrow> ''Unknown'' | Some n \<Rightarrow> if n = [] then ''Unknown'' else n),
      sat_noradId = 0, sat_frequency = scr_frequency rq, sat_signalType = Lrpt,
      sat_signalConfig = \<lparr>sc_type = Lrpt, sc_bandwidth = 120000, sc_sampleRate = scr_sampleRate rq,
                          sc_demodulation = Fm\<rparr>,
      sat_enabled = True, sat_eventBased = None\<rparr>"

definition capture_config :: "relay_env \<Rightarrow> StartCaptureRequest \<Rightarrow> ReceiverConfig" where
  "capture_config re rq =
     \<lparr>rc_serviceMode = SdrRelay, rc_sdrRelay_url = None, rc_sdrRelay_port = re_port re, rc_sdrRelay_host = re_host re,
      rc_station = \<lparr>co_latitude = 0, co_longitude = 0, co_altitude = 0\<rparr>,
      rc_sdr_gain = scr_gain rq, rc_sdr_sampleRate = scr_sampleRate rq,
      rc_sdr_ppmCorrection = or_else (scr_ppmCorrection rq) 0,
      rc_minElevation = 0, rc_minSignalStrength = - 50, rc_skipSignalCheck = True,
      rc_recordingsDir = ''/tmp/sdr-relay'', rc_imagesDir = ''/tmp/sdr-relay/images'',
      rc_tle_updateIntervalHours = 24, rc_web_port = 3000, rc_web_host = ''0.0.0.0'',
      rc_database_path = ''/tmp/sdr-relay.db'', rc_logLevel = Info, rc_issSstvEnabled = False\<rparr>"

definition capture_start :: "date \<Rightarrow> nat \<Rightarrow> string \<Rightarrow> StartCaptureRequest \<Rightarrow> relay \<Rightarrow> relay" where
  "capture_start now rid rnd rq s =
     (if rl_mode s = Mode_recording
      then jsonResponse rid (J_start \<lparr>sca_sessionId = [], sca_success = False,
             sca_error = Some ''SDR is already recording''\<rparr>) 409 s
      else let s = (if isFFTStreamRunning (rl_fft s) then s\<lparr>rl_fft := stopFFTStream now (rl_fft s)\<rparr> else s);
               sessionId = generateSessionId now rnd
           in suspend (RecordWait rid sessionId rq) s)"

text \<open>After \<open>await startRecording\<close>.\<close>

definition capture_started :: "relay_env \<Rightarrow> date \<Rightarrow> nat \<Rightarrow> string \<Rightarrow> StartCaptureRequest \<Rightarrow> relay \<Rightarrow> relay" where
  "capture_started re now rid sessionId rq s =
     (case startRecording (re_env re) (capture_satellite rq) (capture_config re rq) now of
        Inl err \<Rightarrow>
          jsonResponse rid (J_start \<lparr>sca_sessionId = [], sca_success = False, sca_error = Some err\<rparr>) 500
            (s\<lparr>rl_mode := Mode_idle\<rparr>)
      | Inr session \<Rightarrow>
          jsonResponse rid (J_start \<lparr>sca_sessionId = sessionId, sca_success = True, sca_error = None\<rparr>) 200
            (s\<lparr>rl_mode := Mode_recording,
               rl_sessions := map_set sessionId
                 \<lparr>sd_session = session, sd_startTime = now, sd_durationSeconds = scr_durationSeconds rq,
                  sd_status = Session_recording, sd_progress = 0\<rparr> (rl_sessions s),
               rl_timers := rl_timers s @ [sessionId]\<rparr>))"

text \<open>When \<open>session.stop()\<close> called now resolves.\<close>

definition stop_due :: "env \<Rightarrow> date \<Rightarrow> date" where
  "stop_due e now = now + min (int (env_sox_ends e now)) 5000"

text \<open>
  The interval callback.  A tick comes a second after the start or later, so a duration of zero
  makes the quotient infinite and the progress 100.
\<close>

definition progress_of :: "number \<Rightarrow> number \<Rightarrow> number" where
  "progress_of elapsed duration = (if duration = 0 then 100 else min 100 (elapsed / duration * 100))"

definition progress_tick :: "relay_env \<Rightarrow> date \<Rightarrow> string \<Rightarrow> relay \<Rightarrow> relay" where
  "progress_tick re now sessionId s =
     (if sessionId \<notin> set (rl_timers s) then s
      else let stopped = s\<lparr>rl_timers := set_delete sessionId (rl_timers s)\<rparr>
           in case map_get (rl_sessions s) sessionId of
                None \<Rightarrow> stopped
              | Some d \<Rightarrow>
                  (if sd_status d \<noteq> Session_recording then stopped
                   else let elapsed = real_of_int (now - sd_startTime d) / 1000;
                            d = d\<lparr>sd_progress := progress_of elapsed (sd_durationSeconds d)\<rparr>;
                            upd = (\<lambda>s. s\<lparr>rl_sessions := map_set sessionId d (rl_sessions s)\<rparr>)
                        in if elapsed \<ge> sd_durationSeconds d
                           then suspend (AutoStopWait sessionId (stop_due (re_env re) now)) (upd stopped)
                           else upd s))"

definition complete_session :: "string \<Rightarrow> relay \<Rightarrow> relay" where
  "complete_session sessionId s =
     (case map_get (rl_sessions s) sessionId of
        None \<Rightarrow> s
      | Some d \<Rightarrow> s\<lparr>rl_sessions := map_set sessionId (d\<lparr>sd_status := Session_complete\<rparr>) (rl_sessions s),
                    rl_mode := Mode_idle\<rparr>)"

definition capture_stop :: "relay_env \<Rightarrow> date \<Rightarrow> nat \<Rightarrow> StopCaptureRequest \<Rightarrow> relay \<Rightarrow> relay" where
  "capture_stop re now rid rq s =
     (case map_get (rl_sessions s) (spr_sessionId rq) of
        None \<Rightarrow> jsonResponse rid (J_stop \<lparr>spa_success = False, spa_outputPath = None,
                  spa_error = Some ''Session not found''\<rparr>) 404 s
      | Some d \<Rightarrow> suspend (StopReplyWait rid (spr_sessionId rq) (stop_due (re_env re) now)) s)"

definition capture_stopped :: "nat \<Rightarrow> string \<Rightarrow> relay \<Rightarrow> relay" where
  "capture_stopped rid sessionId s =
     (case map_get (rl_sessions s) sessionId of
        None \<Rightarrow> s
      | Some d \<Rightarrow> jsonResponse rid (J_stop \<lparr>spa_success = True,
                    spa_outputPath = Some (ses_outputPath (sd_session d)), spa_error = None\<rparr>) 200
                    (complete_session sessionId s))"

definition session_of :: "string \<Rightarrow> session_data \<Rightarrow> CaptureSession" where
  "session_of sessionId d =
     \<lparr>cs_sessionId = sessionId, cs_frequency = sat_frequency (ses_satellite (sd_session d)),
      cs_startTime = js_toISOString (sd_startTime d), cs_durationSeconds = sd_durationSeconds d,
      cs_status = sd_status d, cs_progress = Some (sd_progress d),
      cs_outputPath = (if sd_status d = Session_complete then Some (ses_outputPath (sd_session d)) else None),
      cs_error = None\<rparr>"

definition capture_status :: "nat \<Rightarrow> string \<Rightarrow> relay \<Rightarrow> relay" where
  "capture_status rid sessionId s =
     (case map_get (rl_sessions s) sessionId of
        None \<Rightarrow> jsonResponse rid (J_error ''Session not found'') 404 s
      | Some d \<Rightarrow> jsonResponse rid (J_session (session_of sessionId d)) 200 s)"

definition capture_audio :: "relay_env \<Rightarrow> date \<Rightarrow> nat \<Rightarrow> string \<Rightarrow> relay \<Rightarrow> relay" where
  "capture_audio re now rid sessionId s =
     (let missing = jsonResponse rid (J_error ''Recording not complete or not found'') 404 s
      in case map_get (rl_sessions s) sessionId of
           None \<Rightarrow> missing
         | Some d \<Rightarrow>
             (if sd_status d \<noteq> Session_complete then missing
              else case re_read re now (ses_outputPath (sd_session d)) of
                     Some audioData \<Rightarrow> emit (Reply rid 200 (Audio audioData)) s
                   | None \<Rightarrow> jsonResponse rid (J_error ''Failed to read audio file'') 500 s))"

section \<open>Signal check\<close>

definition signal_check :: "relay_env \<Rightarrow> date \<Rightarrow> nat \<Rightarrow> SignalCheckRequest \<Rightarrow> relay \<Rightarrow> relay" where
  "signal_check re now rid rq s =
     (if rl_mode s = Mode_recording then jsonResponse rid (J_error ''SDR is currently recording'') 409 s
      else let wasFFTRunning = isFFTStreamRunning (rl_fft s);
               s = (if wasFFTRunning then s\<lparr>rl_fft := stopFFTStream now (rl_fft s)\<rparr> else s)
           in case verifySignalAtFrequency (env_os (re_env re)) (scq_frequency rq) (scq_gain rq) (- 30) now of
                None \<Rightarrow> s
              | Some (detected, due) \<Rightarrow> suspend (SignalWait rid rq wasFFTRunning detected due) s)"

definition signal_checked ::
  "relay_env \<Rightarrow> bool \<Rightarrow> date \<Rightarrow> nat \<Rightarrow> SignalCheckRequest \<Rightarrow> bool \<Rightarrow> bool \<Rightarrow> relay \<Rightarrow> relay" where
  "signal_checked re ok now rid rq wasFFTRunning detected s =
     (let response = \<lparr>sck_frequency = scq_frequency rq, sck_power = (if detected then - 20 else - 50),
                      sck_detected = detected, sck_timestamp = js_toISOString now\<rparr>;
          s = (if wasFFTRunning
               then (case getFFTStreamConfig (rl_fft s) of
                       None \<Rightarrow> s
                     | Some config \<Rightarrow> relay_start_fft re ok now config s)
               else s)
      in jsonResponse rid (J_signal response) 200 s)"

section \<open>Routing\<close>

datatype route =
    R_options | R_status | R_tune | R_start | R_stop | R_capture string | R_audio string | R_signal | R_health
  | R_not_found

definition is_word_char :: "char \<Rightarrow> bool" where
  "is_word_char c \<longleftrightarrow> is_digit c \<or> c = CHR ''_'' \<or>
     (97 :: nat) \<le> of_char (to_lower_char c) \<and> of_char (to_lower_char c) \<le> (122 :: nat)"

definition path_session :: "string \<Rightarrow> string" where
  "path_session path = or_else (elem_at (js_split (CHR ''/'') path) 3) []"

text \<open>\<open>/^\\/sdr\\/capture\\/[\\w-]+\\/audio$/\<close>\<close>

definition is_audio_path :: "string \<Rightarrow> bool" where
  "is_audio_path path \<longleftrightarrow>
     (let parts = js_split (CHR ''/'') path; sid = parts ! 3
      in length parts = 5 \<and> parts ! 0 = [] \<and> parts ! 1 = ''sdr'' \<and> parts ! 2 = ''capture'' \<and>
         sid \<noteq> [] \<and> list_all (\<lambda>x. is_word_char x \<or> x = CHR ''-'') sid \<and> parts ! 4 = ''audio'')"

definition relay_route :: "http_method \<Rightarrow> string \<Rightarrow> route" where
  "relay_route meth path =
     (if meth = OPTIONS then R_options
      else if path = ''/sdr/status'' \<and> meth = GET then R_status
      else if path = ''/sdr/tune'' \<and> meth = POST then R_tune
      else if path = ''/sdr/capture/start'' \<and> meth = POST then R_start
      else if path = ''/sdr/capture/stop'' \<and> meth = POST then R_stop
      else if js_startsWith path ''/sdr/capture/'' \<and> meth = GET then R_capture (path_session path)
      else if is_audio_path path \<and> meth = GET then R_audio (path_session path)
      else if path = ''/sdr/signal/check'' \<and> meth = POST then R_signal
      else if path = ''/health'' \<and> meth = GET then R_health
      else R_not_found)"

text \<open>A body that cannot be parsed ends in the outer \<open>catch\<close>.\<close>

definition readJsonBody :: "'a option \<Rightarrow> nat \<Rightarrow> ('a \<Rightarrow> relay \<Rightarrow> relay) \<Rightarrow> relay \<Rightarrow> relay" where
  "readJsonBody body rid k s =
     (case body of
        None \<Rightarrow> jsonResponse rid (J_error ''Unexpected token in JSON'') 500 s
      | Some b \<Rightarrow> k b s)"

definition handle_request :: "relay_env \<Rightarrow> bool \<Rightarrow> date \<Rightarrow> nat \<Rightarrow> string \<Rightarrow> http_request \<Rightarrow> relay \<Rightarrow> relay" where
  "handle_request re ok now rid rnd rq s =
     (case relay_route (hq_method rq) (hq_path rq) of
        R_options \<Rightarrow> emit (Reply rid 200 No_body) s
      | R_status \<Rightarrow>
          (case runCommand (env_os (re_env re)) now ''rtl_test'' [lit ''-t''] of
             None \<Rightarrow> s
           | Some (r, due) \<Rightarrow> suspend (StatusWait rid r due) s)
      | R_tune \<Rightarrow> readJsonBody (hq_tune rq) rid (\<lambda>tuneRequest s.
          jsonResponse rid (J_tune \<lparr>tur_success = True, tur_frequency = Some (tun_frequency tuneRequest),
              tur_error = None\<rparr>) 200
            (retune re ok now (tun_frequency tuneRequest) s)) s
      | R_start \<Rightarrow> readJsonBody (hq_start rq) rid (capture_start now rid rnd) s
      | R_stop \<Rightarrow> readJsonBody (hq_stop rq) rid (capture_stop re now rid) s
      | R_capture sessionId \<Rightarrow> capture_status rid sessionId s
      | R_audio sessionId \<Rightarrow> capture_audio re now rid sessionId s
      | R_signal \<Rightarrow> readJsonBody (hq_signal rq) rid (signal_check re now rid) s
      | R_health \<Rightarrow> jsonResponse rid (J_health (rl_mode s)) 200 s
      | R_not_found \<Rightarrow> jsonResponse rid (J_error ''Not found'') 404 s)"

definition accepts_upgrade :: "string \<Rightarrow> bool" where
  "accepts_upgrade pathname \<longleftrightarrow> pathname = ''/sdr/fft''"

section \<open>Events\<close>

definition drop_relay_task :: "nat \<Rightarrow> relay \<Rightarrow> relay" where
  "drop_relay_task k s = s\<lparr>rl_tasks := take k (rl_tasks s) @ drop (k + 1) (rl_tasks s)\<rparr>"

definition relay_resume :: "relay_env \<Rightarrow> bool \<Rightarrow> date \<Rightarrow> nat \<Rightarrow> relay \<Rightarrow> relay" where
  "relay_resume re ok now k s =
     (case elem_at (rl_tasks s) (int k) of
        None \<Rightarrow> s
      | Some (StatusWait rid r due) \<Rightarrow>
          (if now \<ge> due then jsonResponse rid (J_status (getSDRStatus r (rl_mode s))) 200 (drop_relay_task k s) else s)
      | Some (RecordWait rid sessionId rq) \<Rightarrow> capture_started re now rid sessionId rq (drop_relay_task k s)
      | Some (StopReplyWait rid sessionId due) \<Rightarrow>
          (if now \<ge> due then capture_stopped rid sessionId (drop_relay_task k s) else s)
      | Some (AutoStopWait sessionId due) \<Rightarrow>
          (if now \<ge> due then complete_session sessionId (drop_relay_task k s) else s)
      | Some (SignalWait rid rq wasFFTRunning detected due) \<Rightarrow>
          (if now \<ge> due then signal_checked re ok now rid rq wasFFTRunning detected (drop_relay_task k s) else s))"

datatype relay_event =
    Request nat string http_request
  | ResumeTask nat
  | ProgressTick string
  | WsMessage nat "FFTWSMessage option"
  | WsClose nat
  | FftEvent fs_event

definition fft_event :: "relay_env \<Rightarrow> bool \<Rightarrow> date \<Rightarrow> fs_event \<Rightarrow> relay \<Rightarrow> relay" where
  "fft_event re ok now ev s =
     (let fft = fs_step (re_lib re) (now, ok, ev) (rl_fft s);
          frames = drop (length (fsh_emitted (fs_shared (rl_fft s)))) (fsh_emitted (fs_shared fft))
      in fold (\<lambda>(cb, data). broadcastFFTData (re_open re now) data) frames (s\<lparr>rl_fft := fft\<rparr>))"

fun relay_step :: "relay_env \<Rightarrow> date \<times> bool \<times> relay_event \<Rightarrow> relay \<Rightarrow> relay" where
  "relay_step re (now, ok, Request rid rnd rq) s = handle_request re ok now rid rnd rq s"
| "relay_step re (now, ok, ResumeTask k) s = relay_resume re ok now k s"
| "relay_step re (now, ok, ProgressTick sessionId) s = progress_tick re now sessionId s"
| "relay_step re (now, ok, WsMessage ws m) s =
     (case m of None \<Rightarrow> emit (Send ws (ws_error ''Invalid message format'')) s
      | Some m \<Rightarrow> handleFFTMessage re ok now ws m s)"
| "relay_step re (now, ok, WsClose ws) s = ws_close now ws s"
| "relay_step re (now, ok, FftEvent ev) s = fft_event re ok now ev s"

section \<open>Invariant\<close>

definition sessions_ok :: "(string, session_data) jsmap \<Rightarrow> bool" where
  "sessions_ok m \<longleftrightarrow> (\<forall>sid d. map_get m sid = Some d \<longrightarrow> sd_status d \<noteq> Session_error \<and> sd_progress d \<le> 100)"

definition some_recording :: "(string, session_data) jsmap \<Rightarrow> bool" where
  "some_recording m \<longleftrightarrow> (\<exists>sid d. map_get m sid = Some d \<and> sd_status d = Session_recording)"

definition relay_inv :: "relay \<Rightarrow> bool" where
  "relay_inv s \<longleftrightarrow>
     (rl_mode s = Mode_recording \<longrightarrow> some_recording (rl_sessions s)) \<and> sessions_ok (rl_sessions s) \<and>
     distinct (rl_subscribers s)"

lemma relay_inv_frame:
  assumes "relay_inv s" "rl_sessions s' = rl_sessions s" "rl_mode s' = rl_mode s \<or> rl_mode s' \<noteq> Mode_recording"
    "distinct (rl_subscribers s) \<longrightarrow> distinct (rl_subscribers s')"
  shows "relay_inv s'"
  using assms by (auto simp: relay_inv_def)

lemma relay_frame_simps [simp]:
  "rl_sessions (emit x s) = rl_sessions s" "rl_mode (emit x s) = rl_mode s" "rl_subscribers (emit x s) = rl_subscribers s"
  "rl_tasks (emit x s) = rl_tasks s" "rl_timers (emit x s) = rl_timers s" "rl_fft (emit x s) = rl_fft s"
  "rl_out (emit x s) = rl_out s @ [x]"
  "rl_sessions (suspend t s) = rl_sessions s" "rl_mode (suspend t s) = rl_mode s" "rl_subscribers (suspend t s) = rl_subscribers s"
  "rl_tasks (suspend t s) = rl_tasks s @ [t]" "rl_timers (suspend t s) = rl_timers s" "rl_fft (suspend t s) = rl_fft s"
  "rl_out (suspend t s) = rl_out s"
  "rl_sessions (drop_relay_task k s) = rl_sessions s" "rl_mode (drop_relay_task k s) = rl_mode s"
  "rl_subscribers (drop_relay_task k s) = rl_subscribers s" "rl_fft (drop_relay_task k s) = rl_fft s"
  "rl_timers (drop_relay_task k s) = rl_timers s" "rl_out (drop_relay_task k s) = rl_out s"
  by (simp_all add: emit_def suspend_def drop_relay_task_def)

lemma relay_inv_reply [simp]: "relay_inv (jsonResponse rid d st s) = relay_inv s"
  "relay_inv (emit x s) = relay_inv s" "relay_inv (suspend t s) = relay_inv s" "relay_inv (drop_relay_task k s) = relay_inv s"
  by (simp_all add: relay_inv_def jsonResponse_def)

lemma fft_update_inv [simp]: "relay_inv (s\<lparr>rl_fft := f\<rparr>) = relay_inv s"
  by (simp add: relay_inv_def)

lemma stop_if_unused_inv: "relay_inv s \<Longrightarrow> relay_inv (stop_if_unused now s)"
  by (auto simp: stop_if_unused_def intro: relay_inv_frame)

lemma retune_inv: "relay_inv s \<Longrightarrow> relay_inv (retune re ok now f s)"
  by (auto simp: retune_def intro: relay_inv_frame)

lemma subscribers_inv: "relay_inv s \<Longrightarrow> distinct xs \<Longrightarrow> relay_inv (s\<lparr>rl_subscribers := xs\<rparr>)"
  by (simp add: relay_inv_def)

lemma handleFFTMessage_inv: "relay_inv s \<Longrightarrow> relay_inv (handleFFTMessage re ok now ws m s)"
proof (cases m)
  case (ws_subscribe c)
  then show "relay_inv s \<Longrightarrow> relay_inv (handleFFTMessage re ok now ws m s)"
    by (auto simp: Let_def relay_start_fft_def relay_inv_def)
next
  case ws_unsubscribe
  then show "relay_inv s \<Longrightarrow> relay_inv (handleFFTMessage re ok now ws m s)"
    by (auto intro!: stop_if_unused_inv subscribers_inv simp: relay_inv_def [of s])
qed (auto intro: retune_inv)

lemma ws_close_inv: "relay_inv s \<Longrightarrow> relay_inv (ws_close now ws s)"
  by (auto simp: ws_close_def relay_inv_def [of s] intro!: stop_if_unused_inv subscribers_inv)

lemma broadcast_inv: "relay_inv s \<Longrightarrow> relay_inv (broadcastFFTData takes data s)"
proof -
  have "relay_inv s \<Longrightarrow> relay_inv (fold (\<lambda>ws s. if takes ws then emit (Send ws (ws_fft_data data)) s
      else s\<lparr>rl_subscribers := set_delete ws (rl_subscribers s)\<rparr>) wss s)" for wss s
    by (induction wss arbitrary: s) (auto intro!: subscribers_inv simp: relay_inv_def)
  then show "relay_inv s \<Longrightarrow> relay_inv (broadcastFFTData takes data s)"
    by (simp add: broadcastFFTData_def)
qed

lemma fft_event_inv: "relay_inv s \<Longrightarrow> relay_inv (fft_event re ok now ev s)"
proof -
  have "relay_inv s \<Longrightarrow> relay_inv (fold (\<lambda>(cb, data). broadcastFFTData takes data) frames s)" for frames :: "(nat \<times> FFTData) list" and s takes
    by (induction frames arbitrary: s) (auto intro: broadcast_inv)
  then show "relay_inv s \<Longrightarrow> relay_inv (fft_event re ok now ev s)"
    by (simp add: fft_event_def Let_def)
qed

lemma progress_of_le: "progress_of e d \<le> 100"
  by (simp add: progress_of_def)

lemma capture_started_inv: "relay_inv s \<Longrightarrow> relay_inv (capture_started re now rid sid rq s)"
  by (auto simp: capture_started_def relay_inv_def sessions_ok_def some_recording_def jsonResponse_def map_get_set
      split: sum.splits)

lemma complete_session_inv: "relay_inv s \<Longrightarrow> relay_inv (complete_session sid s)"
  by (auto simp: complete_session_def relay_inv_def sessions_ok_def map_get_set split: option.splits)

lemma progress_update_inv:
  assumes "relay_inv s" "map_get (rl_sessions s) sid = Some d" "sd_status d = Session_recording"
    and "rl_sessions s' = map_set sid (d\<lparr>sd_progress := progress_of x y\<rparr>) (rl_sessions s)"
    and "rl_mode s' = rl_mode s" "rl_subscribers s' = rl_subscribers s"
  shows "relay_inv s'"
  using assms by (auto simp: relay_inv_def sessions_ok_def some_recording_def map_get_set progress_of_le)

lemma progress_tick_inv:
  assumes i: "relay_inv s"
  shows "relay_inv (progress_tick re now sid s)"
proof (cases "map_get (rl_sessions s) sid")
  case None
  then show ?thesis using i by (auto simp: progress_tick_def Let_def intro: relay_inv_frame)
next
  case (Some d)
  show ?thesis
  proof (cases "sd_status d = Session_recording")
    case True
    show ?thesis
      using i by (auto simp: progress_tick_def Let_def Some True intro: progress_update_inv [OF i Some True])
  next
    case False
    then show ?thesis using i Some by (auto simp: progress_tick_def Let_def intro: relay_inv_frame)
  qed
qed

lemma capture_start_inv: "relay_inv s \<Longrightarrow> relay_inv (capture_start now rid rnd rq s)"
  by (simp add: capture_start_def Let_def)

lemma capture_stop_inv: "relay_inv s \<Longrightarrow> relay_inv (capture_stop re now rid rq s)"
  by (simp add: capture_stop_def split: option.splits)

lemma capture_status_inv: "relay_inv s \<Longrightarrow> relay_inv (capture_status rid sid s)"
  by (simp add: capture_status_def split: option.splits)

lemma capture_audio_inv: "relay_inv s \<Longrightarrow> relay_inv (capture_audio re now rid sid s)"
  by (simp add: capture_audio_def Let_def split: option.splits)

lemma signal_check_inv: "relay_inv s \<Longrightarrow> relay_inv (signal_check re now rid rq s)"
  by (simp add: signal_check_def Let_def split: option.splits prod.splits)

lemma capture_stopped_inv: "relay_inv s \<Longrightarrow> relay_inv (capture_stopped rid sid s)"
  by (simp add: capture_stopped_def complete_session_inv split: option.splits)

lemma signal_checked_inv: "relay_inv s \<Longrightarrow> relay_inv (signal_checked re ok now rid rq was det s)"
  by (simp add: signal_checked_def relay_start_fft_def Let_def split: option.splits)

lemma readJsonBody_inv:
  "relay_inv s \<Longrightarrow> (\<And>b. relay_inv s \<Longrightarrow> relay_inv (k b s)) \<Longrightarrow> relay_inv (readJsonBody body rid k s)"
  by (simp add: readJsonBody_def split: option.splits)

lemmas relay_handlers_inv = capture_start_inv capture_stop_inv capture_status_inv capture_audio_inv signal_check_inv
  capture_started_inv capture_stopped_inv complete_session_inv signal_checked_inv retune_inv

lemma handle_request_inv:
  assumes "relay_inv s"
  shows "relay_inv (handle_request re ok now rid rnd rq s)"
  using assms by (cases "relay_route (hq_method rq) (hq_path rq)")
    (auto simp: handle_request_def intro!: readJsonBody_inv relay_handlers_inv split: option.splits)

lemma relay_resume_inv: "relay_inv s \<Longrightarrow> relay_inv (relay_resume re ok now k s)"
  by (cases "elem_at (rl_tasks s) (int k)")
    (auto simp: relay_resume_def split: relay_task.splits intro!: relay_handlers_inv)

interpretation relay_sys: handler_system "\<lambda>s. s = relay_initial" "\<lambda>_. True" "relay_step re" relay_inv for re
proof
  show "relay_inv s" if "s = relay_initial" for s
    using that by (simp add: relay_initial_def relay_inv_def sessions_ok_def)
  show "relay_inv (relay_step re e s)" if i: "relay_inv s" for e s
    using i by (cases "(re, e, s)" rule: relay_step.cases)
      (auto intro: handle_request_inv relay_resume_inv progress_tick_inv handleFFTMessage_inv ws_close_inv fft_event_inv
        split: option.splits)
qed

section \<open>An example relay\<close>

definition demo_relay_env :: relay_env where
  "demo_relay_env = \<lparr>re_env = demo_env, re_lib = \<lparr>fft_accepts = \<lambda>n. n = 2048, fft_transform = \<lambda>n xs. xs\<rparr>,
     re_read = \<lambda>t p. Some ''RIFF'', re_open = \<lambda>t ws. True, re_port = 3001, re_host = ''0.0.0.0''\<rparr>"

definition demo_start_request :: StartCaptureRequest where
  "demo_start_request = \<lparr>scr_frequency = 137900000, scr_durationSeconds = 600, scr_sampleRate = 48000, scr_gain = 40,
     scr_ppmCorrection = None, scr_satelliteName = Some ''METEOR-M N2-3''\<rparr>"

definition plain_request :: "http_method \<Rightarrow> string \<Rightarrow> http_request" where
  "plain_request m path = \<lparr>hq_method = m, hq_path = path, hq_tune = None, hq_start = None, hq_stop = None, hq_signal = None\<rparr>"

definition start_request :: "StartCaptureRequest \<Rightarrow> http_request" where
  "start_request rq = (plain_request POST ''/sdr/capture/start'')\<lparr>hq_start := Some rq\<rparr>"

definition stop_request :: "string \<Rightarrow> http_request" where
  "stop_request sid = (plain_request POST ''/sdr/capture/stop'')\<lparr>hq_stop := Some \<lparr>spr_sessionId = sid\<rparr>\<rparr>"

definition signal_request :: "SignalCheckRequest \<Rightarrow> http_request" where
  "signal_request rq = (plain_request POST ''/sdr/signal/check'')\<lparr>hq_signal := Some rq\<rparr>"

lemma handle_start [simp]:
  "handle_request re ok now rid rnd (start_request rq) s = capture_start now rid rnd rq s"
  by (simp add: handle_request_def start_request_def plain_request_def relay_route_def readJsonBody_def)

lemma handle_stop [simp]:
  "handle_request re ok now rid rnd (stop_request sid) s = capture_stop re now rid \<lparr>spr_sessionId = sid\<rparr> s"
  by (simp add: handle_request_def stop_request_def plain_request_def relay_route_def readJsonBody_def)

lemma handle_signal [simp]:
  "handle_request re ok now rid rnd (signal_request rq) s = signal_check re now rid rq s"
  by (simp add: handle_request_def signal_request_def plain_request_def relay_route_def readJsonBody_def)

section \<open>Properties\<close>

text \<open>C10: Whatever requests, socket messages, timers, process events and continuations the relay
  handles, in any order: while it says it is recording some session is, no session is ever in
  the error state, progress never exceeds 100, and a socket is subscribed at most once.\<close>

theorem relay_invariant:
  "let s = fold (relay_step re) es relay_initial in
    (rl_mode s = Mode_recording \<longrightarrow> (\<exists>sid d. map_get (rl_sessions s) sid = Some d \<and> sd_status d = Session_recording)) \<and>
    (\<forall>sid d. map_get (rl_sessions s) sid = Some d \<longrightarrow> sd_status d \<noteq> Session_error \<and> sd_progress d \<le> 100) \<and>
    distinct (rl_subscribers s)"
  using relay_sys.reachable_inv [of relay_initial es re]
  by (simp add: Let_def relay_inv_def some_recording_def sessions_ok_def list_all_iff)

theorem relay_invariant_witness:
  "distinct (rl_subscribers (fold (relay_step demo_relay_env)
     [(0, True, WsMessage 7 None), (1, True, Request 1 ''abc123'' (start_request demo_start_request)), (2, True, ResumeTask 0)] relay_initial))"
  using relay_invariant [of demo_relay_env
    "[(0, True, WsMessage 7 None), (1, True, Request 1 ''abc123'' (start_request demo_start_request)), (2, True, ResumeTask 0)]"]
  unfolding Let_def by blast

lemma audio_path_split:
  assumes "is_audio_path p"
  shows "js_startsWith p ''/sdr/capture/''"
proof -
  let ?parts = "js_split (CHR ''/'') p"
  have "length ?parts = Suc (Suc (Suc (Suc (Suc 0))))" using assms by (simp add: is_audio_path_def Let_def)
  then obtain a b c d e where parts: "?parts = [a, b, c, d, e]" by (auto simp: length_Suc_conv)
  have "a = [] \<and> b = ''sdr'' \<and> c = ''capture''" using assms parts by (simp add: is_audio_path_def Let_def)
  moreover have "p = js_join ''/'' [a, b, c, d, e]" using js_join_split [of "CHR ''/''" p] parts by simp
  ultimately show ?thesis by (simp add: js_startsWith_def)
qed

text \<open>The route for the audio of a recording is shadowed by the route for its status: a request
  for the audio of any known session, complete or not, is answered with the description of the
  session as JSON and status 200, never with the audio.\<close>

theorem audio_request_gets_status:
  assumes "is_audio_path path" "map_get (rl_sessions s) (path_session path) = Some d"
  shows "handle_request re ok now rid rnd (plain_request GET path) s =
      emit (Reply rid 200 (J_session (session_of (path_session path) d))) s \<and>
    (\<forall>meth p sid. relay_route meth p \<noteq> R_audio sid)"
proof
  have neq: "path \<noteq> ''/sdr/status''" using audio_path_split [OF assms(1)] by (auto simp: js_startsWith_def)
  show "handle_request re ok now rid rnd (plain_request GET path) s =
      emit (Reply rid 200 (J_session (session_of (path_session path) d))) s"
    using assms(2) audio_path_split [OF assms(1)] neq
    by (simp add: handle_request_def plain_request_def relay_route_def capture_status_def jsonResponse_def)
  show "\<forall>meth p sid. relay_route meth p \<noteq> R_audio sid"
    using audio_path_split by (auto simp: relay_route_def)
qed

definition demo_session :: "session_status \<Rightarrow> session_data" where
  "demo_session st = \<lparr>sd_session = \<lparr>ses_satellite = ISS, ses_outputPath = ''/tmp/sdr-relay/ISS.wav'', ses_startTime = 0,
       ses_rtl_args = [], ses_sox_args = []\<rparr>, sd_startTime = 0, sd_durationSeconds = 60, sd_status = st, sd_progress = 0\<rparr>"

theorem audio_request_gets_status_witness:
  "rl_out (handle_request demo_relay_env True 0 1 [] (plain_request GET ''/sdr/capture/a-1/audio'')
     (relay_initial\<lparr>rl_sessions := [(''a-1'', demo_session Session_complete)]\<rparr>)) =
   [Reply 1 200 (J_session (session_of ''a-1'' (demo_session Session_complete)))]"
proof -
  let ?s = "relay_initial\<lparr>rl_sessions := [(''a-1'', demo_session Session_complete)]\<rparr>"
  have p: "path_session ''/sdr/capture/a-1/audio'' = ''a-1''"
    by (simp add: path_session_def elem_at_def or_else_def)
  have a: "is_audio_path ''/sdr/capture/a-1/audio''"
    by (simp add: is_audio_path_def is_word_char_def is_digit_def to_lower_char_def)
  have g: "map_get (rl_sessions ?s) (path_session ''/sdr/capture/a-1/audio'') = Some (demo_session Session_complete)"
    by (simp add: p map_get_def)
  show ?thesis
    using audio_request_gets_status [OF a g, of demo_relay_env True 0 1 "[]"] by (simp add: p relay_initial_def)
qed

text \<open>C17: A capture asked for while the relay is not recording runs its course: once the directory
  exists the session is reported as recording and the relay refuses others; at the first tick
  after its duration the recording is stopped, and when \<open>sox\<close> has ended, or five seconds
  later, the relay is idle and reports the session as complete, with the path of the file and
  the frequency that was asked for.\<close>

theorem capture_lifecycle:
  assumes "rl_mode s \<noteq> Mode_recording" "rl_tasks s = []"
    and "os_mkdir (env_os (re_env re)) t1 ''/tmp/sdr-relay''"
    and "real_of_int t1 + scr_durationSeconds rq * 1000 \<le> real_of_int t2" "t2 + 5000 \<le> t3"
  shows "let sid = generateSessionId t0 rnd;
      s1 = fold (relay_step re) [(t0, True, Request 1 rnd (start_request rq)), (t1, True, ResumeTask 0)] s;
      s2 = fold (relay_step re) [(t2, True, ProgressTick sid), (t3, True, ResumeTask 0)] s1
    in rl_mode s1 = Mode_recording \<and> rl_out s1 = rl_out s @ [Reply 1 200 (J_start \<lparr>sca_sessionId = sid, sca_success = True, sca_error = None\<rparr>)] \<and>
      rl_mode s2 = Mode_idle \<and> rl_tasks s2 = [] \<and>
      (\<exists>d. map_get (rl_sessions s2) sid = Some d \<and>
        cs_status (session_of sid d) = Session_complete \<and> cs_frequency (session_of sid d) = scr_frequency rq \<and>
        cs_outputPath (session_of sid d) = Some (path_join [''/tmp/sdr-relay'', generateFilename t1 (sat_name (capture_satellite rq)) ''wav'']))"
proof -
  let ?sid = "generateSessionId t0 rnd"
  let ?s0 = "relay_step re (t0, True, Request 1 rnd (start_request rq)) s"
  obtain ses where ses: "startRecording (re_env re) (capture_satellite rq) (capture_config re rq) t1 = Inr ses"
    "ses_outputPath ses = path_join [''/tmp/sdr-relay'', generateFilename t1 (sat_name (capture_satellite rq)) ''wav'']"
    "ses_satellite ses = capture_satellite rq"
    using assms(3) by (simp add: startRecording_def capture_config_def Let_def)
  let ?d = "\<lparr>sd_session = ses, sd_startTime = t1, sd_durationSeconds = scr_durationSeconds rq,
      sd_status = Session_recording, sd_progress = 0\<rparr>"
  let ?s1 = "relay_step re (t1, True, ResumeTask 0) ?s0"
  have s0: "rl_tasks ?s0 = [RecordWait 1 ?sid rq]" "rl_out ?s0 = rl_out s"
    using assms(1,2) by (auto simp: capture_start_def Let_def)
  have s1: "rl_mode ?s1 = Mode_recording" "map_get (rl_sessions ?s1) ?sid = Some ?d" "?sid \<in> set (rl_timers ?s1)"
    "rl_tasks ?s1 = []" "rl_out ?s1 = rl_out s @ [Reply 1 200 (J_start \<lparr>sca_sessionId = ?sid, sca_success = True, sca_error = None\<rparr>)]"
    using s0 ses(1) by (simp_all add: relay_resume_def elem_at_def capture_started_def jsonResponse_def map_get_set drop_relay_task_def)
  have over: "scr_durationSeconds rq \<le> real_of_int (t2 - t1) / 1000" using assms(4) by simp
  let ?s2 = "relay_step re (t2, True, ProgressTick ?sid) ?s1" and
    ?d2 = "?d\<lparr>sd_progress := progress_of (real_of_int (t2 - t1) / 1000) (scr_durationSeconds rq)\<rparr>"
  have s2: "rl_tasks ?s2 = [AutoStopWait ?sid (stop_due (re_env re) t2)]" "map_get (rl_sessions ?s2) ?sid = Some ?d2"
    using s1 over by (simp_all add: progress_tick_def Let_def map_get_set del: relay_step.simps(1,2))
  let ?s3 = "relay_step re (t3, True, ResumeTask 0) ?s2"
  have "stop_due (re_env re) t2 \<le> t3" using assms(5) by (simp add: stop_due_def)
  then have s3: "rl_mode ?s3 = Mode_idle" "rl_tasks ?s3 = []" "map_get (rl_sessions ?s3) ?sid = Some (?d2\<lparr>sd_status := Session_complete\<rparr>)"
    using s2 by (simp_all add: relay_resume_def elem_at_def complete_session_def map_get_set drop_relay_task_def del: relay_step.simps(1,3))
  show ?thesis
    using s1 s3 ses(2,3) by (simp add: Let_def session_of_def capture_satellite_def del: relay_step.simps)
qed

theorem capture_lifecycle_witness:
  "rl_mode (fold (relay_step demo_relay_env) [(610000, True, ProgressTick (generateSessionId 0 ''abc123'')), (620000, True, ResumeTask 0)]
     (fold (relay_step demo_relay_env) [(0, True, Request 1 ''abc123'' (start_request demo_start_request)), (5, True, ResumeTask 0)] relay_initial))
   = Mode_idle"
  using capture_lifecycle [of relay_initial demo_relay_env 5 demo_start_request 610000 620000 0 "''abc123''"]
  by (simp add: Let_def relay_initial_def demo_relay_env_def demo_start_request_def del: relay_step.simps)

text \<open>A request to stop a session that has ended makes the relay idle although another session is
  recording; the next capture is then accepted, and two sessions record on one receiver.\<close>

theorem stale_stop_allows_two_recordings:
  assumes "map_get (rl_sessions s) A = Some dA" "sd_status dA = Session_complete"
    and "map_get (rl_sessions s) B = Some dB" "sd_status dB = Session_recording" "rl_tasks s = []"
    and "t0 + 5000 \<le> t1" "os_mkdir (env_os (re_env re)) t3 ''/tmp/sdr-relay''" "generateSessionId t2 rnd \<notin> {A, B}"
  shows "let s' = fold (relay_step re) [(t0, True, Request 1 [] (stop_request A)), (t1, True, ResumeTask 0),
        (t2, True, Request 2 rnd (start_request rq)), (t3, True, ResumeTask 0)] s
    in \<exists>sid d d'. sid \<noteq> B \<and> map_get (rl_sessions s') sid = Some d \<and> sd_status d = Session_recording \<and>
       map_get (rl_sessions s') B = Some d' \<and> sd_status d' = Session_recording"
proof -
  let ?C = "generateSessionId t2 rnd"
  let ?s1 = "relay_step re (t0, True, Request 1 [] (stop_request A)) s"
  let ?s2 = "relay_step re (t1, True, ResumeTask 0) ?s1"
  let ?s3 = "relay_step re (t2, True, Request 2 rnd (start_request rq)) ?s2"
  let ?s4 = "relay_step re (t3, True, ResumeTask 0) ?s3"
  have AB: "A \<noteq> B" using assms(1-4) by auto
  have due: "stop_due (re_env re) t0 \<le> t1" using assms(6) by (simp add: stop_due_def)
  have s2: "rl_mode ?s2 = Mode_idle" "map_get (rl_sessions ?s2) B = Some dB" "rl_tasks ?s2 = []"
    using assms(1,3,5) due AB
    by (simp_all add: capture_stop_def relay_resume_def elem_at_def capture_stopped_def complete_session_def
        jsonResponse_def map_get_set drop_relay_task_def)
  have s3: "rl_tasks ?s3 = [RecordWait 2 ?C rq]" "rl_sessions ?s3 = rl_sessions ?s2"
    using s2 by (auto simp: capture_start_def Let_def)
  obtain ses where ses: "startRecording (re_env re) (capture_satellite rq) (capture_config re rq) t3 = Inr ses"
    using assms(7) by (simp add: startRecording_def capture_config_def Let_def)
  have "rl_sessions ?s4 = map_set ?C \<lparr>sd_session = ses, sd_startTime = t3, sd_durationSeconds = scr_durationSeconds rq,
      sd_status = Session_recording, sd_progress = 0\<rparr> (rl_sessions ?s2)"
    using s3 ses by (simp add: relay_resume_def elem_at_def capture_started_def jsonResponse_def del: relay_step.simps(1))
  then show ?thesis
    using s2(2) assms(4,8) by (auto simp: Let_def map_get_set simp del: relay_step.simps intro!: exI [of _ ?C])
qed

theorem stale_stop_allows_two_recordings_witness:
  "\<exists>sid d d'. let s' = fold (relay_step demo_relay_env) [(0, True, Request 1 [] (stop_request ''a'')), (9000, True, ResumeTask 0),
        (9001, True, Request 2 ''xyz'' (start_request demo_start_request)), (9002, True, ResumeTask 0)]
        (relay_initial\<lparr>rl_mode := Mode_recording, rl_sessions := [(''a'', demo_session Session_complete), (''b'', demo_session Session_recording)]\<rparr>)
    in sid \<noteq> ''b'' \<and> map_get (rl_sessions s') sid = Some d \<and> sd_status d = Session_recording \<and>
       map_get (rl_sessions s') ''b'' = Some d' \<and> sd_status d' = Session_recording"
  using stale_stop_allows_two_recordings [of
      "relay_initial\<lparr>rl_mode := Mode_recording, rl_sessions := [(''a'', demo_session Session_complete), (''b'', demo_session Session_recording)]\<rparr>"
      "''a''" "demo_session Session_complete" "''b''" "demo_session Session_recording" 0 9000 demo_relay_env 9002 9001 "''xyz''" demo_start_request]
  by (simp add: Let_def relay_initial_def map_get_def demo_session_def demo_relay_env_def generateSessionId_def del: relay_step.simps)

lemma stop_resumed_simps [simp]:
  "fs_config (stop_resumed now f) = None" "fs_running (stop_resumed now f) = False" "fs_tasks (stop_resumed now f) = fs_tasks f"
  "fsh_emitted (fs_shared (stop_resumed now f)) = fsh_emitted (fs_shared f)"
  by (simp_all add: stop_resumed_def stop_tail_def)

text \<open>A signal check stops the FFT stream and does not start it again: it reads the
  configuration to restart with after the stop has cleared it.  The subscribers stay
  subscribed, the relay says it is streaming, and nothing streams.\<close>

theorem signal_check_loses_stream:
  assumes "rl_mode s = Mode_fft" "isFFTStreamRunning (rl_fft s)" "fs_tasks (rl_fft s) = []" "rl_tasks s = []"
    and "verifySignalAtFrequency (env_os (re_env re)) (scq_frequency rq) (scq_gain rq) (- 30) t0 = Some (detected, due)"
    and "t0 + 2000 \<le> t1" "due \<le> t2"
  shows "let s' = fold (relay_step re) [(t0, True, Request 1 [] (signal_request rq)), (t1, True, FftEvent (Resume 0)),
        (t2, True, ResumeTask 0)] s
    in \<not> isFFTStreamRunning (rl_fft s') \<and> fs_tasks (rl_fft s') = [] \<and> rl_tasks s' = [] \<and>
       rl_mode s' = Mode_fft \<and> rl_subscribers s' = rl_subscribers s"
proof -
  obtain pid where pid: "fs_proc (rl_fft s) = Some pid" "\<not> proc_killed (rl_fft s) pid"
    using assms(2) by (auto simp: isFFTStreamRunning_def split: option.splits)
  let ?s1 = "relay_step re (t0, True, Request 1 [] (signal_request rq)) s"
  let ?s2 = "relay_step re (t1, True, FftEvent (Resume 0)) ?s1"
  let ?s3 = "relay_step re (t2, True, ResumeTask 0) ?s2"
  have s1: "fs_tasks (rl_fft ?s1) = [StopWait pid (t0 + 2000)]" "rl_tasks ?s1 = [SignalWait 1 rq True detected due]"
    "rl_mode ?s1 = Mode_fft" "rl_subscribers ?s1 = rl_subscribers s"
    using assms pid by (simp_all add: signal_check_def stopFFTStream_def stop_begin_def)
  have s2: "rl_fft ?s2 = stop_resumed t1 (drop_task 0 (rl_fft ?s1))" "rl_tasks ?s2 = rl_tasks ?s1"
    "rl_mode ?s2 = rl_mode ?s1" "rl_subscribers ?s2 = rl_subscribers ?s1"
    using s1(1) assms(6) by (simp_all add: fft_event_def Let_def resume_def elem_at_def drop_task_def del: relay_step.simps(1))
  have s3: "rl_fft ?s3 = rl_fft ?s2" "rl_mode ?s3 = rl_mode ?s2" "rl_subscribers ?s3 = rl_subscribers ?s2" "rl_tasks ?s3 = []"
    using s2 s1(2) assms(7)
    by (simp_all add: relay_resume_def elem_at_def signal_checked_def Let_def getFFTStreamConfig_def jsonResponse_def
        drop_relay_task_def del: relay_step.simps(1,6))
  show ?thesis
    using s1 s2 s3 by (simp add: isFFTStreamRunning_def drop_task_def del: relay_step.simps)
qed

definition demo_streaming :: fft_stream where
  "demo_streaming = fs_initial\<lparr>fs_proc := Some 0, fs_running := True,
     fs_config := Some \<lparr>fc_frequency = 137900000, fc_bandwidth = 250000, fc_fftSize = 2048, fc_gain = 40, fc_updateRate = 4\<rparr>,
     fs_procs := [\<lparr>spr_local = \<lparr>fl_config = \<lparr>fc_frequency = 137900000, fc_bandwidth = 250000, fc_fftSize = 2048, fc_gain = 40, fc_updateRate = 4\<rparr>,
        fl_buffer = [], fl_lastUpdate = 0\<rparr>, spr_killed = False, spr_exited = False, spr_signals = []\<rparr>]\<rparr>"

lemma verifySignalAtFrequency_answers:
  assumes "os_settles sys"
  shows "verifySignalAtFrequency sys f g m now \<noteq> None"
proof -
  let ?run = "runCommand sys now ''rtl_power'' [lit ''-f'', [N (f / 1000000), T ''M:'', N (f / 1000000 + 1 / 10), T ''M:10k''],
            lit ''-g'', num g, lit ''-i'', lit ''1'', lit ''-e'', lit ''2s'', lit ''-'']"
  obtain r t where "?run = Some (r, t)" using runCommand_settles [OF assms] by (metis not_None_eq surj_pair)
  then show ?thesis by (cases r) (auto simp: verifySignalAtFrequency_def Let_def split: prod.splits)
qed

theorem signal_check_loses_stream_witness:
  "\<exists>due. let s' = fold (relay_step demo_relay_env)
        [(0, True, Request 1 [] (signal_request \<lparr>scq_frequency = 145800000, scq_bandwidth = None, scq_gain = 40\<rparr>)),
         (2000, True, FftEvent (Resume 0)), (due, True, ResumeTask 0)]
        (relay_initial\<lparr>rl_fft := demo_streaming, rl_mode := Mode_fft, rl_subscribers := [7]\<rparr>)
     in \<not> isFFTStreamRunning (rl_fft s') \<and> rl_mode s' = Mode_fft \<and> rl_subscribers s' = [7]"
proof -
  let ?s = "relay_initial\<lparr>rl_fft := demo_streaming, rl_mode := Mode_fft, rl_subscribers := [7]\<rparr>"
  let ?rq = "\<lparr>scq_frequency = 145800000, scq_bandwidth = None, scq_gain = 40\<rparr> :: SignalCheckRequest"
  obtain detected due where v: "verifySignalAtFrequency (env_os (re_env demo_relay_env)) (scq_frequency ?rq) (scq_gain ?rq) (- 30) 0 = Some (detected, due)"
    using verifySignalAtFrequency_answers [of "env_os (re_env demo_relay_env)" "scq_frequency ?rq" "scq_gain ?rq" "- 30" 0] demo_os_settles
    by (auto simp: demo_relay_env_def)
  have "isFFTStreamRunning demo_streaming" "fs_tasks demo_streaming = []"
    by (simp_all add: demo_streaming_def isFFTStreamRunning_def proc_killed_def fs_initial_def)
  then show ?thesis
    using signal_check_loses_stream [OF _ _ _ _ v, of ?s 2000 due]
    by (intro exI [of _ due]) (simp add: Let_def relay_initial_def del: relay_step.simps)
qed

end
