(* ===== verification/Sdr_Client.thy ===== *)
theory Sdr_Client
  imports Sdr_Relay
begin

text \<open>
  \<open>src/backend/sdr-client/index.ts\<close>, \<open>local-sdr-provider.ts\<close> and
  \<open>sdr-provider.ts\<close>: the client of the relay and the choice between the local receiver
  and the relay.  The network is a parameter: what a request sent at an instant is answered
  with and how long that takes, \<open>Inl\<close> when \<open>fetch\<close> rejects, \<open>None\<close> when there is
  never an answer.  A body is the value the relay sent.
\<close>

section \<open>The remote FFT stream\<close>

datatype ready_state = CONNECTING | OPEN | CLOSING | CLOSED

record socket =
  so_state :: ready_state
  so_config :: FFTStreamConfig
  so_sent :: "FFTWSMessage list"

text \<open>
  Sockets and timers are known by their place in the order of creation; of a timer the delay
  and whether it is still pending are kept.
\<close>

record remote_fft =
  rf_ws :: "nat option"
  rf_sockets :: "socket list"
  rf_callback :: "nat option"
  rf_config :: "FFTStreamConfig option"
  rf_running :: bool
  rf_attempts :: nat
  rf_timer :: "nat option"
  rf_timers :: "(nat \<times> bool) list"
  rf_delivered :: "(nat \<times> FFTData) list"

definition maxReconnectAttempts :: nat where
  "maxReconnectAttempts = 10"

definition rf_initial :: remote_fft where
  "rf_initial = \<lparr>rf_ws = None, rf_sockets = [], rf_callback = None, rf_config = None, rf_running = False,
     rf_attempts = 0, rf_timer = None, rf_timers = [], rf_delivered = []\<rparr>"

definition upd_socket :: "nat \<Rightarrow> (socket \<Rightarrow> socket) \<Rightarrow> remote_fft \<Rightarrow> remote_fft" where
  "upd_socket i f s =
     (if i < length (rf_sockets s) then s\<lparr>rf_sockets := (rf_sockets s)[i := f (rf_sockets s ! i)]\<rparr> else s)"

definition socket_state :: "remote_fft \<Rightarrow> nat \<Rightarrow> ready_state" where
  "socket_state s i = (if i < length (rf_sockets s) then so_state (rf_sockets s ! i) else CLOSED)"

text \<open>
  \<open>WebSocket.send\<close>: throws while connecting (nothing is sent), drops what is sent to a
  socket that is closing or closed.
\<close>

definition ws_send :: "nat \<Rightarrow> FFTWSMessage \<Rightarrow> remote_fft \<Rightarrow> remote_fft" where
  "ws_send i m s =
     (if socket_state s i = OPEN then upd_socket i (\<lambda>so. so\<lparr>so_sent := so_sent so @ [m]\<rparr>) s else s)"

text \<open>\<open>url_ok\<close>: whether the constructor of \<open>WebSocket\<close> accepts the address.\<close>

definition rf_connect :: "bool \<Rightarrow> FFTStreamConfig \<Rightarrow> remote_fft \<Rightarrow> bool \<times> remote_fft" where
  "rf_connect url_ok config s =
     (if url_ok
      then (True, s\<lparr>rf_ws := Some (length (rf_sockets s)),
                    rf_sockets := rf_sockets s @ [\<lparr>so_state = CONNECTING, so_config = config, so_sent = []\<rparr>]\<rparr>)
      else (False, s))"

definition rf_start :: "bool \<Rightarrow> FFTStreamConfig \<Rightarrow> nat \<Rightarrow> remote_fft \<Rightarrow> bool \<times> remote_fft" where
  "rf_start url_ok config callback s =
     rf_connect url_ok config (s\<lparr>rf_callback := Some callback, rf_config := Some config\<rparr>)"

definition on_open :: "nat \<Rightarrow> remote_fft \<Rightarrow> remote_fft" where
  "on_open i s =
     (if i < length (rf_sockets s) \<and> socket_state s i = CONNECTING
      then let s = upd_socket i (\<lambda>so. so\<lparr>so_state := OPEN\<rparr>) s;
               s = s\<lparr>rf_attempts := 0, rf_running := True\<rparr>
           in case rf_ws s of None \<Rightarrow> s | Some j \<Rightarrow> ws_send j (ws_subscribe (so_config (rf_sockets s ! i))) s
      else s)"

definition on_message :: "nat \<Rightarrow> FFTWSMessage option \<Rightarrow> remote_fft \<Rightarrow> remote_fft" where
  "on_message i m s =
     (case (m, rf_callback s) of
        (Some (ws_fft_data data), Some cb) \<Rightarrow> s\<lparr>rf_delivered := rf_delivered s @ [(cb, data)]\<rparr>
      | _ \<Rightarrow> s)"

definition reconnect_delay :: "nat \<Rightarrow> nat" where
  "reconnect_delay n = min (1000 * 2 ^ n) 30000"

definition on_close :: "nat \<Rightarrow> remote_fft \<Rightarrow> remote_fft" where
  "on_close i s =
     (if socket_state s i = CLOSED then s
      else let s = upd_socket i (\<lambda>so. so\<lparr>so_state := CLOSED\<rparr>) s;
               s = s\<lparr>rf_running := False\<rparr>
           in if rf_callback s \<noteq> None \<and> rf_attempts s < maxReconnectAttempts
              then let s = s\<lparr>rf_attempts := rf_attempts s + 1\<rparr>
                   in s\<lparr>rf_timer := Some (length (rf_timers s)),
                        rf_timers := rf_timers s @ [(reconnect_delay (rf_attempts s), True)]\<rparr>
              else s)"

definition timer_fires :: "bool \<Rightarrow> nat \<Rightarrow> remote_fft \<Rightarrow> remote_fft" where
  "timer_fires url_ok k s =
     (if k < length (rf_timers s) \<and> snd (rf_timers s ! k)
      then let s = s\<lparr>rf_timers := (rf_timers s)[k := (fst (rf_timers s ! k), False)]\<rparr>
           in case rf_config s of None \<Rightarrow> s | Some config \<Rightarrow> snd (rf_connect url_ok config s)
      else s)"

definition clear_timer :: "nat \<Rightarrow> remote_fft \<Rightarrow> remote_fft" where
  "clear_timer k s =
     (if k < length (rf_timers s) then s\<lparr>rf_timers := (rf_timers s)[k := (fst (rf_timers s ! k), False)]\<rparr> else s)"

definition rf_stop :: "remote_fft \<Rightarrow> remote_fft" where
  "rf_stop s =
     (let s = (case rf_timer s of None \<Rightarrow> s | Some k \<Rightarrow> (clear_timer k s)\<lparr>rf_timer := None\<rparr>);
          s = (case rf_ws s of
                 None \<Rightarrow> s
               | Some i \<Rightarrow> (upd_socket i (\<lambda>so. if so_state so = CLOSED then so else so\<lparr>so_state := CLOSING\<rparr>)
                              (ws_send i ws_unsubscribe s))\<lparr>rf_ws := None\<rparr>)
      in s\<lparr>rf_callback := None, rf_config := None, rf_running := False\<rparr>)"

definition rf_isRunning :: "remote_fft \<Rightarrow> bool" where
  "rf_isRunning s \<longleftrightarrow> rf_running s \<and> (case rf_ws s of None \<Rightarrow> False | Some i \<Rightarrow> socket_state s i = OPEN)"

definition rf_getConfig :: "remote_fft \<Rightarrow> FFTStreamConfig option" where
  "rf_getConfig s = rf_config s"

definition rf_updateFrequency :: "number \<Rightarrow> remote_fft \<Rightarrow> bool \<times> remote_fft" where
  "rf_updateFrequency frequency s =
     (case rf_ws s of
        None \<Rightarrow> (False, s)
      | Some i \<Rightarrow>
          (if socket_state s i \<noteq> OPEN then (False, s)
           else let s = ws_send i (ws_set_frequency frequency) s
                in (True, s\<lparr>rf_config := map_option (\<lambda>c. c\<lparr>fc_frequency := frequency\<rparr>) (rf_config s)\<rparr>)))"

datatype rf_event =
    RfStart FFTStreamConfig nat | RfStop | RfUpdate number
  | SockOpen nat | SockMessage nat "FFTWSMessage option" | SockClose nat | TimerFires nat

fun rf_step :: "bool \<times> rf_event \<Rightarrow> remote_fft \<Rightarrow> remote_fft" where
  "rf_step (ok, RfStart config cb) s = snd (rf_start ok config cb s)"
| "rf_step (ok, RfStop) s = rf_stop s"
| "rf_step (ok, RfUpdate f) s = snd (rf_updateFrequency f s)"
| "rf_step (ok, SockOpen i) s = on_open i s"
| "rf_step (ok, SockMessage i m) s = on_message i m s"
| "rf_step (ok, SockClose i) s = on_close i s"
| "rf_step (ok, TimerFires k) s = timer_fires ok k s"

section \<open>Requests\<close>

type_synonym relay_net = "date \<Rightarrow> http_request \<Rightarrow> ((nat \<times> payload) throwing \<times> nat) option"

definition response_ok :: "nat \<Rightarrow> bool" where
  "response_ok status \<longleftrightarrow> 200 \<le> status \<and> status < 300"

text \<open>The field \<open>error\<close> of a JSON body; a body that is no JSON makes \<open>json()\<close> throw.\<close>

fun payload_error :: "payload \<Rightarrow> string option throwing" where
  "payload_error (J_status x) = Inr (sdr_error x)"
| "payload_error (J_tune x) = Inr (tur_error x)"
| "payload_error (J_start x) = Inr (sca_error x)"
| "payload_error (J_stop x) = Inr (spa_error x)"
| "payload_error (J_session x) = Inr (cs_error x)"
| "payload_error (J_signal x) = Inr None"
| "payload_error (J_health x) = Inr None"
| "payload_error (J_error e) = Inr (Some e)"
| "payload_error (Audio x) = Inl ''Unexpected token''"
| "payload_error No_body = Inl ''Unexpected end of JSON input''"

text \<open>\<open>a || b\<close> on strings\<close>

definition or_text :: "string option \<Rightarrow> string \<Rightarrow> string" where
  "or_text a b = (case a of None \<Rightarrow> b | Some t \<Rightarrow> if t = [] then b else t)"

section \<open>The remote recorder\<close>

record client =
  cl_station :: station
  cl_files :: "(string, payload) jsmap"

definition cl_wait :: "nat \<Rightarrow> client \<Rightarrow> client" where
  "cl_wait took c = c\<lparr>cl_station := (cl_station c)\<lparr>w_now := w_now (cl_station c) + int took\<rparr>\<rparr>"

definition cl_sleep :: "env \<Rightarrow> nat \<Rightarrow> client \<Rightarrow> client" where
  "cl_sleep e ms c = c\<lparr>cl_station := st_sleep e ms (cl_station c)\<rparr>"

abbreviation cl_now :: "client \<Rightarrow> date" where
  "cl_now c \<equiv> w_now (cl_station c)"

definition session_request :: "string \<Rightarrow> http_request" where
  "session_request sessionId = plain_request GET (''/sdr/capture/'' @ sessionId)"

definition audio_request :: "string \<Rightarrow> http_request" where
  "audio_request sessionId = plain_request GET (''/sdr/capture/'' @ sessionId @ ''/audio'')"

definition remote_start_request :: "SatelliteInfo \<Rightarrow> int \<Rightarrow> ReceiverConfig \<Rightarrow> StartCaptureRequest" where
  "remote_start_request satellite durationSeconds config =
     \<lparr>scr_frequency = sat_frequency satellite, scr_durationSeconds = real_of_int durationSeconds,
      scr_sampleRate = rc_sdr_sampleRate config, scr_gain = rc_sdr_gain config,
      scr_ppmCorrection = Some (rc_sdr_ppmCorrection config), scr_satelliteName = Some (sat_name satellite)\<rparr>"

text \<open>The session identifier of the answer to the start request.\<close>

definition remote_start ::
  "relay_net \<Rightarrow> SatelliteInfo \<Rightarrow> int \<Rightarrow> ReceiverConfig \<Rightarrow> client \<Rightarrow> (string throwing \<times> client) option" where
  "remote_start net satellite durationSeconds config c =
     (case net (cl_now c) (start_request (remote_start_request satellite durationSeconds config)) of
        None \<Rightarrow> None
      | Some (Inl err, took) \<Rightarrow> Some (Inl err, cl_wait took c)
      | Some (Inr (status, body), took) \<Rightarrow>
          Some (if \<not> response_ok status
                then (case payload_error body of Inl err \<Rightarrow> Inl err | Inr e \<Rightarrow> Inl (or_text e ''Failed to start capture''))
                else (case body of
                        J_start r \<Rightarrow> if sca_sessionId r = [] then Inl ''No session ID returned from capture start''
                                     else Inr (sca_sessionId r)
                      | _ \<Rightarrow> Inl ''No session ID returned from capture start''),
                cl_wait took c))"

text \<open>One status request: whether to stop polling, or an error to throw.\<close>

definition poll_status :: "relay_net \<Rightarrow> string \<Rightarrow> client \<Rightarrow> (bool throwing \<times> client) option" where
  "poll_status net sessionId c =
     (case net (cl_now c) (session_request sessionId) of
        None \<Rightarrow> None
      | Some (Inl err, took) \<Rightarrow> Some (Inl err, cl_wait took c)
      | Some (Inr (status, body), took) \<Rightarrow>
          Some (if \<not> response_ok status then Inr False
                else (case body of
                        J_session session \<Rightarrow>
                          (case cs_status session of
                             Session_complete \<Rightarrow> Inr True
                           | Session_error \<Rightarrow> Inl (or_text (cs_error session) ''Capture failed'')
                           | Session_recording \<Rightarrow> Inr False)
                      | Audio x \<Rightarrow> Inl ''Unexpected token''
                      | No_body \<Rightarrow> Inl ''Unexpected end of JSON input''
                      | _ \<Rightarrow> Inr False),
                cl_wait took c))"

lemma poll_status_now: "poll_status net sid c = Some (r, c') \<Longrightarrow> cl_now c \<le> cl_now c'"
  by (auto simp: poll_status_def cl_wait_def split: option.splits prod.splits sum.splits)

lemma cl_sleep_now: "cl_now c + int ms \<le> cl_now (cl_sleep e ms c)"
  using st_sleep_now [of "cl_station c" ms e] by (simp add: cl_sleep_def)

definition cl_report :: "date \<Rightarrow> int \<Rightarrow> client \<Rightarrow> client" where
  "cl_report startTime durationSeconds c =
     c\<lparr>cl_station := report_progress ((cl_now c - startTime) div 1000) durationSeconds (cl_station c)\<rparr>"

lemma cl_report_simps [simp]: "cl_now (cl_report t d c) = cl_now c" "cl_files (cl_report t d c) = cl_files c"
  by (simp_all add: cl_report_def)

function poll_loop ::
  "env \<Rightarrow> relay_net \<Rightarrow> string \<Rightarrow> date \<Rightarrow> date \<Rightarrow> int \<Rightarrow> client \<Rightarrow> (unit throwing \<times> client) option" where
  "poll_loop e net sessionId startTime endTime durationSeconds c =
     (if cl_now c < endTime
      then (case poll_status net sessionId (cl_report startTime durationSeconds c) of
              None \<Rightarrow> None
            | Some (Inl err, c) \<Rightarrow> Some (Inl err, c)
            | Some (Inr True, c) \<Rightarrow> Some (Inr (), c)
            | Some (Inr False, c) \<Rightarrow>
                poll_loop e net sessionId startTime endTime durationSeconds (cl_sleep e 1000 c))
      else Some (Inr (), c))"
  by pat_completeness auto
termination
proof (relation "measure (\<lambda>(e, net, sid, s, t, d, c). nat (t - cl_now c))", goal_cases)
  case (2 e net sid s t d c x a c')
  then show ?case
    using poll_status_now [of net sid "cl_report s d c" "Inr False" c'] cl_sleep_now [of c' 1000 e] by auto
qed simp

declare poll_loop.simps [simp del]

definition remote_filename :: "date \<Rightarrow> SatelliteInfo \<Rightarrow> string" where
  "remote_filename now satellite = js_replace_ws ''_'' (sat_name satellite) @ ''_'' @ iso_stamp now @ ''.wav''"

definition remote_download ::
  "env \<Rightarrow> relay_net \<Rightarrow> string \<Rightarrow> string \<Rightarrow> SatelliteInfo \<Rightarrow> client \<Rightarrow> (string throwing \<times> client) option" where
  "remote_download e net localRecordingsDir sessionId satellite c =
     (case net (cl_now c) (audio_request sessionId) of
        None \<Rightarrow> None
      | Some (Inl err, took) \<Rightarrow> Some (Inl err, cl_wait took c)
      | Some (Inr (status, body), took) \<Rightarrow>
          (let c = cl_wait took c
           in Some (if \<not> response_ok status then (Inl ''Failed to download recording'', c)
                    else if \<not> os_mkdir (env_os e) (cl_now c) localRecordingsDir then (Inl ''mkdir'', c)
                    else let localPath = path_join [localRecordingsDir, remote_filename (cl_now c) satellite]
                         in (Inr localPath, c\<lparr>cl_files := map_set localPath body (cl_files c)\<rparr>))))"

definition remote_recordPass ::
  "env \<Rightarrow> relay_net \<Rightarrow> string \<Rightarrow> SatelliteInfo \<Rightarrow> int \<Rightarrow> ReceiverConfig \<Rightarrow> client \<Rightarrow> (string throwing \<times> client) option" where
  "remote_recordPass e net localRecordingsDir satellite durationSeconds config c =
     (case remote_start net satellite durationSeconds config c of
        None \<Rightarrow> None
      | Some (Inl err, c) \<Rightarrow> Some (Inl err, c)
      | Some (Inr sessionId, c) \<Rightarrow>
          (let startTime = cl_now c; endTime = startTime + durationSeconds * 1000
           in case poll_loop e net sessionId startTime endTime durationSeconds c of
                None \<Rightarrow> None
              | Some (Inl err, c) \<Rightarrow> Some (Inl err, c)
              | Some (Inr _, c) \<Rightarrow> remote_download e net localRecordingsDir sessionId satellite (cl_sleep e 2000 c)))"

section \<open>The remote signal checker\<close>

record SignalMeasurement =
  sme_frequency :: number
  sme_power :: number
  sme_timestamp :: string

definition remote_checkSignalStrength :: "relay_net \<Rightarrow> number \<Rightarrow> number \<Rightarrow> date \<Rightarrow> (SignalMeasurement option \<times> date) option" where
  "remote_checkSignalStrength net frequency gain now =
     (case net now (signal_request \<lparr>scq_frequency = frequency, scq_bandwidth = None, scq_gain = gain\<rparr>) of
        None \<Rightarrow> None
      | Some (Inl err, took) \<Rightarrow> Some (None, now + int took)
      | Some (Inr (status, body), took) \<Rightarrow>
          Some (if \<not> response_ok status then None
                else (case body of
                        J_signal data \<Rightarrow> Some \<lparr>sme_frequency = sck_frequency data, sme_power = sck_power data,
                                          sme_timestamp = sck_timestamp data\<rparr>
                      | _ \<Rightarrow> None), now + int took))"

definition remote_checkOnce :: "relay_net \<Rightarrow> number \<Rightarrow> number \<Rightarrow> number \<Rightarrow> date \<Rightarrow> (bool \<times> date) option" where
  "remote_checkOnce net frequency gain minStrength now =
     map_option (\<lambda>(measurement, now).
        (case measurement of None \<Rightarrow> False | Some m \<Rightarrow> sme_power m > minStrength, now))
       (remote_checkSignalStrength net frequency gain now)"

definition remote_verifySignal ::
  "os \<Rightarrow> relay_net \<Rightarrow> SatelliteInfo \<Rightarrow> number \<Rightarrow> number \<Rightarrow> nat \<Rightarrow> date \<Rightarrow> (bool \<times> date) option" where
  "remote_verifySignal sys net satellite gain minStrength attempts now =
     (case attempt_loop (remote_checkOnce net (sat_frequency satellite) gain minStrength) (js_sleep sys 2000) attempts now of
        None \<Rightarrow> None
      | Some (results, now) \<Rightarrow>
          (let successCount = length (filter (\<lambda>b. b) results)
           in Some (int successCount \<ge> \<lceil>real attempts / 2\<rceil>, now)))"

definition remote_verifySignalAtFrequency :: "relay_net \<Rightarrow> number \<Rightarrow> number \<Rightarrow> number \<Rightarrow> date \<Rightarrow> (bool \<times> date) option" where
  "remote_verifySignalAtFrequency net frequency gain minStrength now =
     (case net now (signal_request \<lparr>scq_frequency = frequency, scq_bandwidth = None, scq_gain = gain\<rparr>) of
        None \<Rightarrow> None
      | Some (Inl err, took) \<Rightarrow> Some (False, now + int took)
      | Some (Inr (status, body), took) \<Rightarrow>
          Some (if \<not> response_ok status then False
                else (case body of J_signal data \<Rightarrow> sck_detected data \<and> sck_power data > minStrength | _ \<Rightarrow> False),
                now + int took))"

interpretation remote_checker: signal_checker
  "remote_checkOnce net (sat_frequency satellite) gain minStrength" "js_sleep sys 2000"
  "remote_verifySignal sys net satellite gain minStrength" for sys net satellite gain minStrength
  by unfold_locales (simp add: remote_verifySignal_def Let_def split: option.splits prod.splits)

section \<open>Providers\<close>

definition disconnected :: "string \<Rightarrow> SDRStatus" where
  "disconnected err = \<lparr>sdr_connected = False, sdr_device = None, sdr_mode_of = Mode_idle, sdr_error = Some err\<rparr>"

definition remote_getStatus :: "relay_net \<Rightarrow> date \<Rightarrow> SDRStatus option" where
  "remote_getStatus net now =
     (case net now (plain_request GET ''/sdr/status'') of
        None \<Rightarrow> None
      | Some (Inl err, took) \<Rightarrow> Some (disconnected err)
      | Some (Inr (status, body), took) \<Rightarrow>
          (if \<not> response_ok status then Some (disconnected ''Failed to connect to SDR relay'')
           else (case body of J_status st \<Rightarrow> Some st | _ \<Rightarrow> Some (disconnected ''Unexpected token''))))"

text \<open>\<open>AbortSignal.timeout(5000)\<close>\<close>

definition remote_isAvailable :: "relay_net \<Rightarrow> date \<Rightarrow> bool" where
  "remote_isAvailable net now =
     (case net now (plain_request GET ''/health'') of
        Some (Inr (status, body), took) \<Rightarrow> took < 5000 \<and> response_ok status
      | _ \<Rightarrow> False)"

definition local_getStatus :: "os \<Rightarrow> fft_stream \<Rightarrow> date \<Rightarrow> SDRStatus option" where
  "local_getStatus sys fft now =
     (case runCommand sys now ''rtl_test'' [lit ''-t''] of
        None \<Rightarrow> None
      | Some (Inr result, t) \<Rightarrow>
          Some \<lparr>sdr_connected = (cmd_exitCode result = 0 \<or> js_includes (cmd_stderr result) ''Found''),
                sdr_device = deviceMatch (cmd_stderr result),
                sdr_mode_of = (if isFFTStreamRunning fft then Mode_fft else Mode_idle), sdr_error = None\<rparr>
      | Some (Inl err, t) \<Rightarrow> Some (disconnected err))"

definition local_isAvailable :: "os \<Rightarrow> fft_stream \<Rightarrow> date \<Rightarrow> bool option" where
  "local_isAvailable sys fft now = map_option sdr_connected (local_getStatus sys fft now)"

datatype provider = LocalSDRProvider | RemoteSDRProvider string string

text \<open>The three module variables: the two singletons and the current provider.\<close>

record providers =
  pr_local :: "provider option"
  pr_remote :: "provider option"
  pr_current :: "provider option"

definition getLocalSDRProvider :: "providers \<Rightarrow> provider \<times> providers" where
  "getLocalSDRProvider s =
     (case pr_local s of Some p \<Rightarrow> (p, s) | None \<Rightarrow> (LocalSDRProvider, s\<lparr>pr_local := Some LocalSDRProvider\<rparr>))"

definition relayUrl_of :: "provider \<Rightarrow> string" where
  "relayUrl_of p = (case p of RemoteSDRProvider url dir \<Rightarrow> url | LocalSDRProvider \<Rightarrow> [])"

definition getRemoteSDRProvider :: "string \<Rightarrow> string \<Rightarrow> providers \<Rightarrow> provider \<times> providers" where
  "getRemoteSDRProvider relayUrl recordingsDir s =
     (let p = RemoteSDRProvider relayUrl recordingsDir
      in case pr_remote s of
           Some q \<Rightarrow> if relayUrl_of q = relayUrl then (q, s) else (p, s\<lparr>pr_remote := Some p\<rparr>)
         | None \<Rightarrow> (p, s\<lparr>pr_remote := Some p\<rparr>))"

definition getSDRProvider :: "ReceiverConfig \<Rightarrow> providers \<Rightarrow> provider throwing \<times> providers" where
  "getSDRProvider config s =
     (case pr_current s of
        Some p \<Rightarrow> (Inr p, s)
      | None \<Rightarrow>
          (case rc_serviceMode config of
             Server \<Rightarrow>
               (case rc_sdrRelay_url config of
                  None \<Rightarrow> (Inl ''SDR_RELAY_URL must be set when SERVICE_MODE=server'', s)
                | Some url \<Rightarrow>
                    if url = [] then (Inl ''SDR_RELAY_URL must be set when SERVICE_MODE=server'', s)
                    else let (p, s) = getRemoteSDRProvider url (rc_recordingsDir config) s
                         in (Inr p, s\<lparr>pr_current := Some p\<rparr>))
           | _ \<Rightarrow> (let (p, s) = getLocalSDRProvider s in (Inr p, s\<lparr>pr_current := Some p\<rparr>))))"

definition resetSDRProvider :: "providers \<Rightarrow> providers" where
  "resetSDRProvider s = s\<lparr>pr_current := None\<rparr>"

section \<open>Reconnecting\<close>

definition rf_inv :: "remote_fft \<Rightarrow> bool" where
  "rf_inv s \<longleftrightarrow> rf_attempts s \<le> 10 \<and> (\<forall>(d, p) \<in> set (rf_timers s). 2000 \<le> d \<and> d \<le> 30000)"

lemma upd_socket_simps [simp]:
  "rf_attempts (upd_socket i f s) = rf_attempts s" "rf_timers (upd_socket i f s) = rf_timers s"
  "rf_callback (upd_socket i f s) = rf_callback s" "rf_config (upd_socket i f s) = rf_config s"
  "rf_ws (upd_socket i f s) = rf_ws s" "rf_timer (upd_socket i f s) = rf_timer s"
  "length (rf_sockets (upd_socket i f s)) = length (rf_sockets s)" "rf_running (upd_socket i f s) = rf_running s"
  by (simp_all add: upd_socket_def)

lemma ws_send_simps [simp]:
  "rf_attempts (ws_send i m s) = rf_attempts s" "rf_timers (ws_send i m s) = rf_timers s"
  "rf_callback (ws_send i m s) = rf_callback s" "rf_config (ws_send i m s) = rf_config s"
  "rf_ws (ws_send i m s) = rf_ws s" "rf_timer (ws_send i m s) = rf_timer s" "rf_running (ws_send i m s) = rf_running s"
  by (simp_all add: ws_send_def)

lemma rf_inv_cong: "rf_attempts s' = rf_attempts s \<Longrightarrow> rf_timers s' = rf_timers s \<Longrightarrow> rf_inv s' = rf_inv s"
  by (simp add: rf_inv_def)

lemma timers_update_subset:
  "k < length ts \<Longrightarrow> (d, p) \<in> set (ts[k := (fst (ts ! k), b)]) \<Longrightarrow> \<exists>q. (d, q) \<in> set ts"
  by (metis (no_types, lifting) Pair_inject in_set_conv_nth length_list_update nth_list_update prod.collapse)

lemma rf_inv_timers:
  assumes "rf_inv s" "k < length (rf_timers s)"
  shows "rf_inv (s\<lparr>rf_timers := (rf_timers s)[k := (fst (rf_timers s ! k), b)]\<rparr>)"
  using assms timers_update_subset [of k "rf_timers s"] unfolding rf_inv_def by fastforce

lemma rf_connect_inv: "rf_inv (snd (rf_connect ok c s)) = rf_inv s"
  by (simp add: rf_connect_def rf_inv_def)

lemma timer_fires_inv: "rf_inv s \<Longrightarrow> rf_inv (timer_fires ok k s)"
  using rf_inv_timers [of s k False] by (auto simp: timer_fires_def Let_def rf_connect_inv split: option.splits)

lemma clear_timer_inv: "rf_inv s \<Longrightarrow> rf_inv (clear_timer k s)"
  using rf_inv_timers [of s k False] by (auto simp: clear_timer_def)

lemma rf_stop_inv:
  assumes "rf_inv s"
  shows "rf_inv (rf_stop s)"
proof -
  let ?s1 = "case rf_timer s of None \<Rightarrow> s | Some k \<Rightarrow> (clear_timer k s)\<lparr>rf_timer := None\<rparr>"
  have "rf_inv ?s1"
    using assms clear_timer_inv [OF assms] by (auto simp: rf_inv_def split: option.splits)
  moreover have "rf_attempts (rf_stop s) = rf_attempts ?s1" "rf_timers (rf_stop s) = rf_timers ?s1"
    unfolding rf_stop_def Let_def by (cases "rf_ws ?s1"; simp)+
  ultimately show ?thesis by (simp add: rf_inv_def)
qed

lemma reconnect_delay_bounds: "0 < n \<Longrightarrow> 2000 \<le> reconnect_delay n \<and> reconnect_delay n \<le> 30000"
proof -
  assume "0 < n"
  then have "(2::nat) ^ 1 \<le> 2 ^ n" by (intro power_increasing) auto
  then show ?thesis by (auto simp: reconnect_delay_def)
qed

lemma on_close_inv: "rf_inv s \<Longrightarrow> rf_inv (on_close i s)"
  using reconnect_delay_bounds [of "Suc (rf_attempts s)"]
  by (auto simp: on_close_def Let_def rf_inv_def maxReconnectAttempts_def)

lemma on_open_inv: "rf_inv s \<Longrightarrow> rf_inv (on_open i s)"
  by (simp add: on_open_def Let_def rf_inv_def split: option.splits)

interpretation rf_sys: handler_system "\<lambda>s. s = rf_initial" "\<lambda>_. True" rf_step rf_inv
proof
  show "rf_inv s" if "s = rf_initial" for s
    using that by (simp add: rf_initial_def rf_inv_def)
  show "rf_inv (rf_step e s)" if i: "rf_inv s" for e s
  proof (cases "(e, s)" rule: rf_step.cases)
    case (1 ok c cb s')
    then show ?thesis using i by (simp add: rf_start_def rf_connect_def rf_inv_def)
  next
    case (3 ok f s')
    then show ?thesis
      using i by (auto simp: rf_updateFrequency_def Let_def rf_inv_def split: option.splits)
  next
    case (5 ok k m s')
    then show ?thesis using i
      by (auto simp: on_message_def rf_inv_def split: option.splits FFTWSMessage.splits)
  qed (use i in \<open>auto intro: rf_stop_inv on_open_inv on_close_inv timer_fires_inv\<close>)
qed

text \<open>The remote stream never makes more than ten attempts in a row without a connection, and
  whatever its sockets do every pause before an attempt is between two and thirty seconds.\<close>

theorem reconnect_bounded:
  "let s = fold rf_step es rf_initial
   in rf_attempts s \<le> 10 \<and> (\<forall>k < length (rf_timers s). 2000 \<le> fst (rf_timers s ! k) \<and> fst (rf_timers s ! k) \<le> 30000)"
proof -
  have "rf_inv (fold rf_step es rf_initial)" using rf_sys.reachable_inv [of rf_initial es] by (simp add: list_all_iff)
  then show ?thesis unfolding rf_inv_def Let_def by (metis (mono_tags, lifting) nth_mem prod.case_eq_if split_beta)
qed

text \<open>A relay that never answers: the connection fails and the timer fires, ten times.\<close>

definition failing_relay :: "FFTStreamConfig \<Rightarrow> nat \<Rightarrow> (bool \<times> rf_event) list" where
  "failing_relay config cb =
     (True, RfStart config cb) # concat (map (\<lambda>k. [(True, SockClose k), (True, TimerFires k)]) [0..<10]) @ [(True, SockClose 10)]"

lemma reconnect_gives_up:
  "let s = fold rf_step (failing_relay config cb) rf_initial
   in rf_timers s = map (\<lambda>d. (d, False)) [2000, 4000, 8000, 16000, 30000, 30000, 30000, 30000, 30000, 30000] \<and>
      rf_attempts s = 10"
  by (simp add: failing_relay_def upt_rec rf_start_def rf_connect_def rf_initial_def on_close_def timer_fires_def
      socket_state_def upd_socket_def Let_def maxReconnectAttempts_def reconnect_delay_def nth_append)

theorem reconnect_bounded_witness:
  "rf_attempts (fold rf_step (failing_relay \<lparr>fc_frequency = 137900000, fc_bandwidth = 250000, fc_fftSize = 2048, fc_gain = 40, fc_updateRate = 4\<rparr> 1) rf_initial) \<le> 10"
  using reconnect_bounded [of "failing_relay \<lparr>fc_frequency = 137900000, fc_bandwidth = 250000, fc_fftSize = 2048, fc_gain = 40, fc_updateRate = 4\<rparr> 1"]
  unfolding Let_def by blast

text \<open>Stopping the remote stream and starting it again leaves it broken: the end of the old socket,
  which comes after the new one has opened, makes the client think that it is not running, and
  it connects a second time.\<close>

theorem restart_reconnects_twice:
  assumes "rf_ws s = Some i" "i < length (rf_sockets s)" "so_state (rf_sockets s ! i) = OPEN"
  shows "let j = length (rf_sockets s);
      s' = fold rf_step [(True, RfStop), (True, RfStart config cb), (True, SockOpen j), (True, SockClose i)] s
    in rf_ws s' = Some j \<and> socket_state s' j = OPEN \<and> \<not> rf_isRunning s' \<and>
       rf_timers s' \<noteq> [] \<and> last (rf_timers s') = (2000, True)"
proof -
  let ?j = "length (rf_sockets s)"
  let ?s1 = "rf_stop s" and ?cl = "socket_state"
  let ?s2 = "snd (rf_start True config cb ?s1)"
  let ?s3 = "on_open ?j ?s2" and ?s4 = "on_close i (on_open ?j ?s2)"
  have len1: "length (rf_sockets ?s1) = ?j" and st1: "socket_state ?s1 i = CLOSING"
    using assms by (auto simp: rf_stop_def Let_def clear_timer_def ws_send_def upd_socket_def socket_state_def split: option.splits)
  have s2: "rf_ws ?s2 = Some ?j" "length (rf_sockets ?s2) = Suc ?j" "socket_state ?s2 ?j = CONNECTING"
    "socket_state ?s2 i = CLOSING" "rf_callback ?s2 = Some cb" "rf_timers ?s2 = rf_timers ?s1"
    using len1 st1 assms(2) by (auto simp: rf_start_def rf_connect_def socket_state_def nth_append)
  have s3: "rf_ws ?s3 = Some ?j" "length (rf_sockets ?s3) = Suc ?j" "socket_state ?s3 ?j = OPEN" "socket_state ?s3 i = CLOSING"
    "rf_callback ?s3 = Some cb" "rf_attempts ?s3 = 0"
    using s2 assms(2) by (auto simp: on_open_def Let_def ws_send_def upd_socket_def socket_state_def nth_list_update)
  have "rf_ws ?s4 = Some ?j" "socket_state ?s4 ?j = OPEN" "\<not> rf_running ?s4" "rf_timers ?s4 = rf_timers ?s3 @ [(2000, True)]"
    using s3 assms(2) by (auto simp: on_close_def Let_def upd_socket_def socket_state_def nth_list_update
        maxReconnectAttempts_def reconnect_delay_def)
  then show ?thesis by (simp add: Let_def rf_isRunning_def)
qed

theorem restart_reconnects_twice_witness:
  "\<not> rf_isRunning (fold rf_step
     [(True, RfStart \<lparr>fc_frequency = 1, fc_bandwidth = 2, fc_fftSize = 4, fc_gain = 8, fc_updateRate = 4\<rparr> 1), (True, SockOpen 0), (True, RfStop),
      (True, RfStart \<lparr>fc_frequency = 1, fc_bandwidth = 2, fc_fftSize = 4, fc_gain = 8, fc_updateRate = 4\<rparr> 1), (True, SockOpen 1), (True, SockClose 0)] rf_initial)"
proof -
  let ?c = "\<lparr>fc_frequency = 1, fc_bandwidth = 2, fc_fftSize = 4, fc_gain = 8, fc_updateRate = 4\<rparr> :: FFTStreamConfig"
  let ?s = "rf_step (True, SockOpen 0) (rf_step (True, RfStart ?c 1) rf_initial)"
  have "rf_ws ?s = Some 0" "length (rf_sockets ?s) = 1" "so_state (rf_sockets ?s ! 0) = OPEN"
    by (simp_all add: rf_start_def rf_connect_def rf_initial_def on_open_def socket_state_def upd_socket_def ws_send_def Let_def)
  then show ?thesis using restart_reconnects_twice [of ?s 0 ?c 1] by (simp add: Let_def del: rf_step.simps)
qed

section \<open>Recording through the relay\<close>

text \<open>What the relay's handler answers at once to a request.\<close>

definition relay_answers :: "relay_env \<Rightarrow> http_request \<Rightarrow> nat \<Rightarrow> payload \<Rightarrow> bool" where
  "relay_answers re rq st body \<longleftrightarrow>
     (\<exists>ok now rid rnd s. rl_out (handle_request re ok now rid rnd rq s) = rl_out s @ [Reply rid st body])"

lemma audio_answer:
  assumes "relay_answers re (audio_request sid) st body" "response_ok st"
  shows "\<exists>x. body = J_session x"
proof -
  have "relay_route GET (''/sdr/capture/'' @ sid @ ''/audio'') = R_capture (path_session (''/sdr/capture/'' @ sid @ ''/audio''))"
    by (simp add: relay_route_def js_startsWith_def)
  then have "handle_request re ok now rid rnd (audio_request sid) s = capture_status rid (path_session (''/sdr/capture/'' @ sid @ ''/audio'')) s"
    for ok now rid rnd s by (simp add: handle_request_def audio_request_def plain_request_def)
  with assms show ?thesis
    by (auto simp: relay_answers_def capture_status_def jsonResponse_def response_ok_def split: option.splits)
qed

lemma remote_download_saves:
  assumes "remote_download e net dir sid sat c = Some (Inr path, c')"
  shows "\<exists>st body took. net (cl_now c) (audio_request sid) = Some (Inr (st, body), took) \<and> response_ok st \<and>
    map_get (cl_files c') path = Some body"
  using assms by (auto simp: remote_download_def Let_def map_get_set split: option.splits prod.splits sum.splits if_splits)

text \<open>Recording through the relay never brings the recording home: when the relay answers the
  download, every pass recorded without an error is saved as the JSON description of its
  session under a name ending in \<open>.wav\<close>.\<close>

theorem remote_recording_is_json:
  assumes "\<forall>t sid st body took. net t (audio_request sid) = Some (Inr (st, body), took) \<longrightarrow> relay_answers re (audio_request sid) st body"
    and "remote_recordPass e net dir satellite durationSeconds config c = Some (Inr path, c')"
  shows "\<exists>x. map_get (cl_files c') path = Some (J_session x)"
proof -
  obtain sid c1 where "remote_download e net dir sid satellite (cl_sleep e 2000 c1) = Some (Inr path, c')"
    using assms(2) by (auto simp: remote_recordPass_def Let_def split: option.splits prod.splits sum.splits)
  from remote_download_saves [OF this] obtain st body took where
    "net (cl_now (cl_sleep e 2000 c1)) (audio_request sid) = Some (Inr (st, body), took)" "response_ok st"
    "map_get (cl_files c') path = Some body" by blast
  then show ?thesis using audio_answer [of re sid st body] assms(1) by blast
qed

definition demo_relay_state :: relay where
  "demo_relay_state = relay_initial\<lparr>rl_sessions := [(''a-1'', demo_session Session_complete)]\<rparr>"

definition demo_net :: relay_net where
  "demo_net t rq =
     (if hq_start rq \<noteq> None
      then Some (Inr (200, J_start \<lparr>sca_sessionId = ''a-1'', sca_success = True, sca_error = None\<rparr>), 10)
      else case last (rl_out (handle_request demo_relay_env True t 0 [] rq demo_relay_state)) of
             Reply rid st body \<Rightarrow> Some (Inr (st, body), 10)
           | Send ws m \<Rightarrow> None)"

lemma demo_net_start: "demo_net t (start_request rq) = Some (Inr (200, J_start \<lparr>sca_sessionId = ''a-1'', sca_success = True, sca_error = None\<rparr>), 10)"
  by (simp add: demo_net_def start_request_def)

lemma demo_net_capture:
  assumes "path = ''/sdr/capture/'' @ x"
  shows "demo_net t (plain_request GET path) = Some (Inr (case map_get (rl_sessions demo_relay_state) (path_session path) of
      None \<Rightarrow> (404, J_error ''Session not found'') | Some d \<Rightarrow> (200, J_session (session_of (path_session path) d))), 10)"
  using assms by (simp add: demo_net_def handle_request_def plain_request_def relay_route_def js_startsWith_def
      capture_status_def jsonResponse_def demo_relay_state_def relay_initial_def split: option.splits)

lemma demo_net_relays:
  "demo_net t (audio_request sid) = Some (Inr (st, body), took) \<longrightarrow> relay_answers demo_relay_env (audio_request sid) st body"
proof
  assume n: "demo_net t (audio_request sid) = Some (Inr (st, body), took)"
  have "rl_out (handle_request demo_relay_env True t 0 [] (audio_request sid) demo_relay_state) = rl_out demo_relay_state @ [Reply 0 st body]"
    using n by (simp add: demo_net_def audio_request_def handle_request_def plain_request_def relay_route_def js_startsWith_def
      capture_status_def jsonResponse_def demo_relay_state_def relay_initial_def split: option.splits)
  then show "relay_answers demo_relay_env (audio_request sid) st body" unfolding relay_answers_def by blast
qed

lemma demo_paths: "path_session ''/sdr/capture/a-1'' = ''a-1''" "path_session ''/sdr/capture/a-1/audio'' = ''a-1''"
  by (simp_all add: path_session_def elem_at_def or_else_def)

lemma demo_remote_recording:
  "\<exists>path c'. remote_recordPass demo_env demo_net ''/rec'' ISS 600 demo_rconfig \<lparr>cl_station = demo_station_at 0, cl_files = []\<rparr> = Some (Inr path, c')"
proof -
  let ?d = "J_session (session_of ''a-1'' (demo_session Session_complete))"
  have get: "map_get (rl_sessions demo_relay_state) ''a-1'' = Some (demo_session Session_complete)"
    by (simp add: demo_relay_state_def map_get_def)
  have st: "demo_net t (session_request ''a-1'') = Some (Inr (200, ?d), 10)" for t
    using demo_net_capture [of "''/sdr/capture/a-1''" "''a-1''" t] by (simp add: session_request_def demo_paths get)
  have au: "demo_net t (audio_request ''a-1'') = Some (Inr (200, ?d), 10)" for t
    using demo_net_capture [of "''/sdr/capture/a-1/audio''" "''a-1/audio''" t] by (simp add: audio_request_def demo_paths get)
  let ?c0 = "\<lparr>cl_station = demo_station_at 0, cl_files = []\<rparr> :: client"
  have "remote_start demo_net ISS 600 demo_rconfig ?c0 = Some (Inr ''a-1'', cl_wait 10 ?c0)"
    by (simp add: remote_start_def demo_net_start response_ok_def)
  moreover have "\<exists>c. poll_loop demo_env demo_net ''a-1'' t (t + 600000) 600 c0 = Some (Inr (), c)" if "cl_now c0 = t" for c0 t
    using that by (subst poll_loop.simps) (simp add: poll_status_def st response_ok_def session_of_def demo_session_def)
  then obtain c where "poll_loop demo_env demo_net ''a-1'' (cl_now (cl_wait 10 ?c0)) (cl_now (cl_wait 10 ?c0) + 600000) 600 (cl_wait 10 ?c0) = Some (Inr (), c)"
    by blast
  moreover have "\<exists>path c'. remote_download demo_env demo_net ''/rec'' ''a-1'' ISS (cl_sleep demo_env 2000 c) = Some (Inr path, c')"
    by (simp add: remote_download_def au response_ok_def Let_def)
  ultimately show ?thesis by (simp add: remote_recordPass_def Let_def)
qed

theorem remote_recording_is_json_witness:
  "\<exists>path c' x. remote_recordPass demo_env demo_net ''/rec'' ISS 600 demo_rconfig \<lparr>cl_station = demo_station_at 0, cl_files = []\<rparr> = Some (Inr path, c') \<and>
     map_get (cl_files c') path = Some (J_session x)"
proof -
  obtain path c' where r: "remote_recordPass demo_env demo_net ''/rec'' ISS 600 demo_rconfig \<lparr>cl_station = demo_station_at 0, cl_files = []\<rparr> = Some (Inr path, c')"
    using demo_remote_recording by blast
  have "\<exists>x. map_get (cl_files c') path = Some (J_session x)"
    using demo_net_relays by (intro remote_recording_is_json [OF _ r, of demo_relay_env]) blast
  with r show ?thesis by blast
qed

lemma poll_loop_returns:
  "(\<And>t rq. net t rq \<noteq> None) \<Longrightarrow> poll_loop e net sid s t d c \<noteq> None"
proof (induction e net sid s t d c rule: poll_loop.induct)
  case (1 e net sid s t d c)
  have "poll_status net sid (cl_report s d c) \<noteq> None"
    using "1.prems" [of "cl_now c" "session_request sid"]
    by (auto simp: poll_status_def split: option.splits sum.splits prod.splits)
  then show ?case
    using 1 by (subst poll_loop.simps) (auto split: option.splits sum.splits prod.splits bool.splits)
qed

lemma remote_recordPass_returns:
  assumes net: "\<And>t rq. net t rq \<noteq> None"
  shows "remote_recordPass e net dir satellite d config c \<noteq> None"
proof -
  have "remote_start net satellite d config c \<noteq> None" for c
    using net by (auto simp: remote_start_def split: option.splits sum.splits prod.splits)
  then obtain r c1 where r: "remote_start net satellite d config c = Some (r, c1)" by (metis not_None_eq surj_pair)
  show ?thesis
  proof (cases r)
    case (Inl err)
    then show ?thesis using r by (simp add: remote_recordPass_def)
  next
    case (Inr sid)
    have "poll_loop e net sid (cl_now c1) (cl_now c1 + d * 1000) d c1 \<noteq> None" using net by (rule poll_loop_returns)
    then obtain u c2 where u: "poll_loop e net sid (cl_now c1) (cl_now c1 + d * 1000) d c1 = Some (u, c2)" by auto
    have dl: "remote_download e net dir sid satellite c \<noteq> None" for c
      using net by (auto simp: remote_download_def Let_def split: option.splits sum.splits prod.splits)
    show ?thesis
    proof (cases u)
      case (Inl err)
      then show ?thesis using r Inr u by (simp add: remote_recordPass_def Let_def)
    next
      case ok: (Inr x)
      then show ?thesis using r Inr u dl by (simp add: remote_recordPass_def Let_def)
    qed
  qed
qed

section \<open>Signal checks through the relay\<close>

text \<open>What the relay answers when its check is over.\<close>

definition relay_signal_answers :: "relay_env \<Rightarrow> SignalCheckRequest \<Rightarrow> nat \<Rightarrow> payload \<Rightarrow> bool" where
  "relay_signal_answers re rq st body \<longleftrightarrow>
     (\<exists>ok now rid was detected s. rl_out (signal_checked re ok now rid rq was detected s) = rl_out s @ [Reply rid st body])"

lemma relay_signal_power:
  "relay_signal_answers re rq st (J_signal r) \<Longrightarrow> sck_power r = (if sck_detected r then - 20 else - 50)"
  by (auto simp: relay_signal_answers_def signal_checked_def relay_start_fft_def jsonResponse_def Let_def
      split: option.splits if_splits)

text \<open>The relay answers a signal check with one of two made-up powers, so the client's threshold
  does not measure anything: at \<open>-20\<close> dB or above no signal passes, and below \<open>-50\<close> dB
  every answered check does.\<close>

theorem remote_threshold_is_coarse:
  assumes "\<forall>t rq st r took. net t (signal_request rq) = Some (Inr (st, J_signal r), took) \<longrightarrow> relay_signal_answers re rq st (J_signal r)"
    and "remote_verifySignal sys net satellite gain minStrength attempts now = Some (passed, later)"
  shows "(minStrength \<ge> - 20 \<and> 0 < attempts \<longrightarrow> \<not> passed) \<and>
    (minStrength < - 50 \<and> (\<forall>t. \<exists>r took. net t (signal_request \<lparr>scq_frequency = sat_frequency satellite, scq_bandwidth = None, scq_gain = gain\<rparr>)
        = Some (Inr (200, J_signal r), took)) \<longrightarrow> passed)"
proof (intro conjI impI)
  assume m: "minStrength \<ge> - 20 \<and> 0 < attempts"
  show "\<not> passed"
  proof
    assume passed
    then obtain u v where o: "remote_checkOnce net (sat_frequency satellite) gain minStrength u = Some (True, v)"
      using remote_checker.verify_needs_a_positive_check [of sys net satellite gain minStrength attempts now later] assms(2) m
      by auto
    then obtain st r took where "net u (signal_request \<lparr>scq_frequency = sat_frequency satellite, scq_bandwidth = None, scq_gain = gain\<rparr>)
        = Some (Inr (st, J_signal r), took)" "sck_power r > minStrength"
      by (auto simp: remote_checkOnce_def remote_checkSignalStrength_def split: option.splits sum.splits prod.splits if_splits payload.splits)
    then show False using assms(1) m relay_signal_power [of re _ st r] by (fastforce split: if_splits)
  qed
next
  assume m: "minStrength < - 50 \<and> (\<forall>t. \<exists>r took. net t (signal_request \<lparr>scq_frequency = sat_frequency satellite, scq_bandwidth = None, scq_gain = gain\<rparr>)
        = Some (Inr (200, J_signal r), took))"
  have once: "b" if o: "remote_checkOnce net (sat_frequency satellite) gain minStrength u = Some (b, v)" for u b v
  proof -
    obtain r took where n: "net u (signal_request \<lparr>scq_frequency = sat_frequency satellite, scq_bandwidth = None, scq_gain = gain\<rparr>)
        = Some (Inr (200, J_signal r), took)" using m by blast
    then have "sck_power r \<ge> - 50" using assms(1) relay_signal_power [of re _ 200 r] by fastforce
    then show ?thesis using o n m
      by (auto simp: remote_checkOnce_def remote_checkSignalStrength_def response_ok_def)
  qed
  obtain bs where bs: "attempt_loop (remote_checkOnce net (sat_frequency satellite) gain minStrength) (js_sleep sys 2000) attempts now = Some (bs, later)"
    using assms(2) by (auto simp: remote_verifySignal_def split: option.splits)
  have "filter (\<lambda>b. \<not> b) bs = []" using attempt_loop_results [OF bs] once by (auto simp: filter_empty_conv)
  then show passed using remote_checker.verify_iff [OF bs] assms(2) by simp
qed

definition demo_signal_net :: relay_net where
  "demo_signal_net t rq =
     (case hq_signal rq of
        None \<Rightarrow> None
      | Some q \<Rightarrow> Some (Inr (200, J_signal \<lparr>sck_frequency = scq_frequency q, sck_power = - 20, sck_detected = True,
                                           sck_timestamp = js_toISOString t\<rparr>), 3000))"

lemma demo_signal_net_relays:
  "demo_signal_net t (signal_request rq) = Some (Inr (st, J_signal r), took) \<longrightarrow> relay_signal_answers demo_relay_env rq st (J_signal r)"
proof
  assume n: "demo_signal_net t (signal_request rq) = Some (Inr (st, J_signal r), took)"
  have "rl_out (signal_checked demo_relay_env False t 0 rq False True relay_initial) = rl_out relay_initial @ [Reply 0 st (J_signal r)]"
    using n by (auto simp: demo_signal_net_def signal_request_def signal_checked_def jsonResponse_def Let_def)
  then show "relay_signal_answers demo_relay_env rq st (J_signal r)" unfolding relay_signal_answers_def by blast
qed

theorem remote_threshold_is_coarse_witness:
  "\<exists>later. remote_verifySignal demo_os demo_signal_net ISS 40 (- 20) 3 0 = Some (False, later)"
proof -
  have "remote_checkOnce demo_signal_net f g m t \<noteq> None" for f g m t
    by (simp add: remote_checkOnce_def remote_checkSignalStrength_def demo_signal_net_def signal_request_def)
  then have "remote_verifySignal demo_os demo_signal_net ISS 40 (- 20) 3 0 \<noteq> None"
    by (intro remote_checker.verify_answers) blast
  then obtain passed later where v: "remote_verifySignal demo_os demo_signal_net ISS 40 (- 20) 3 0 = Some (passed, later)" by auto
  have "\<not> passed"
    using remote_threshold_is_coarse [OF _ v, of demo_relay_env] demo_signal_net_relays by simp
  with v show ?thesis by simp
qed

section \<open>Choosing a provider\<close>

text \<open>The provider of a fresh process: remote exactly in the server mode, which needs an address.\<close>

lemma getSDRProvider_fresh:
  "fst (getSDRProvider config \<lparr>pr_local = None, pr_remote = None, pr_current = None\<rparr>) =
     (if rc_serviceMode config \<noteq> Server then Inr LocalSDRProvider
      else if rc_sdrRelay_url config \<in> {None, Some []} then Inl ''SDR_RELAY_URL must be set when SERVICE_MODE=server''
      else Inr (RemoteSDRProvider (the (rc_sdrRelay_url config)) (rc_recordingsDir config)))"
  by (auto simp: getSDRProvider_def getLocalSDRProvider_def getRemoteSDRProvider_def Let_def
      split: ServiceMode.splits option.splits)

lemma getSDRProvider_kept: "getSDRProvider config s = (Inr p, s') \<Longrightarrow> getSDRProvider config' s' = (Inr p, s')"
  by (auto simp: getSDRProvider_def split: option.splits ServiceMode.splits prod.splits if_splits)

end
