(* ===== verification/Sdr_Provider.thy ===== *)
theory Sdr_Provider
  imports Sdr_Client Scheduler
begin

text \<open>
  The two providers of \<open>src/backend/capture/sdr-interfaces.ts\<close> behind one interface.  The
  classes of \<open>local-sdr-provider.ts\<close> forward to the stream, the recorder and the signal checks of
  this process; the remote ones are in \<open>Sdr_Client\<close>.  The locale \<open>fft_source\<close> is what a
  client of \<open>IFFTStream\<close> may rely on once it has stopped a stream.
\<close>

section \<open>The local classes\<close>

definition local_fft_start :: "fft_lib \<Rightarrow> bool \<Rightarrow> FFTStreamConfig \<Rightarrow> nat \<Rightarrow> station \<Rightarrow> station" where
  "local_fft_start lib spawn_ok config cb w = w\<lparr>w_fft := startFFTStream lib spawn_ok (w_now w) config cb (w_fft w)\<rparr>"

definition local_fft_stop :: "env \<Rightarrow> station \<Rightarrow> station" where
  "local_fft_stop e w = st_stopFFT e w"

definition local_fft_isRunning :: "station \<Rightarrow> bool" where
  "local_fft_isRunning w = isFFTStreamRunning (w_fft w)"

definition local_fft_getConfig :: "station \<Rightarrow> FFTStreamConfig option" where
  "local_fft_getConfig w = getFFTStreamConfig (w_fft w)"

text \<open>The answer is \<open>None\<close> while the restart it awaits is under way.\<close>

definition local_fft_updateFrequency :: "fft_lib \<Rightarrow> bool \<Rightarrow> number \<Rightarrow> station \<Rightarrow> bool option \<times> station" where
  "local_fft_updateFrequency lib spawn_ok frequency w =
     (let (r, s) = updateFFTFrequency lib spawn_ok (w_now w) frequency (w_fft w) in (r, w\<lparr>w_fft := s\<rparr>))"

definition local_recordPass :: "env \<Rightarrow> SatelliteInfo \<Rightarrow> int \<Rightarrow> ReceiverConfig \<Rightarrow> station \<Rightarrow> string throwing \<times> station" where
  "local_recordPass e satellite durationSeconds config w = recordPass e satellite durationSeconds config w"

definition local_checkSignalStrength :: "os \<Rightarrow> SatelliteInfo \<Rightarrow> number \<Rightarrow> date \<Rightarrow> (SignalStrength option \<times> date) option" where
  "local_checkSignalStrength sys satellite gain now = checkSignalStrength sys satellite gain now"

definition local_verifySignal :: "os \<Rightarrow> SatelliteInfo \<Rightarrow> number \<Rightarrow> number \<Rightarrow> nat option \<Rightarrow> date \<Rightarrow> (bool \<times> date) option" where
  "local_verifySignal sys satellite gain minStrength attempts now =
     verifySignal sys satellite gain minStrength (case attempts of None \<Rightarrow> 3 | Some n \<Rightarrow> n) now"

definition local_verifySignalAtFrequency :: "os \<Rightarrow> number \<Rightarrow> number \<Rightarrow> number \<Rightarrow> date \<Rightarrow> (bool \<times> date) option" where
  "local_verifySignalAtFrequency sys frequency gain minStrength now = verifySignalAtFrequency sys frequency gain minStrength now"

section \<open>A stream that was stopped\<close>

locale fft_source =
  fixes stop :: "'s \<Rightarrow> 's" and update_frequency :: "number \<Rightarrow> 's \<Rightarrow> bool option \<times> 's"
    and is_running :: "'s \<Rightarrow> bool" and get_config :: "'s \<Rightarrow> FFTStreamConfig option"
  assumes stop_stops: "\<not> is_running (stop s)"
    and stop_forgets: "get_config (stop s) = None"
    and update_refused: "update_frequency f (stop s) = (Some False, stop s)"
begin

text \<open>Only a start brings a stopped stream back: changes of the frequency are refused, however many.\<close>

lemma updates_refused: "fold (\<lambda>f. snd \<circ> update_frequency f) fs (stop s) = stop s"
  by (induction fs) (simp_all add: update_refused)

lemma stays_stopped:
  "\<not> is_running (fold (\<lambda>f. snd \<circ> update_frequency f) fs (stop s)) \<and> get_config (fold (\<lambda>f. snd \<circ> update_frequency f) fs (stop s)) = None"
  by (simp add: updates_refused stop_stops stop_forgets)

end

lemma stopped_stream: "fs_config (w_fft (st_stopFFT e w)) = None"
  by (auto simp: st_stopFFT_def stop_tail_def stop_resumed_def Let_def split: prod.splits option.splits)

interpretation local_fft: fft_source "local_fft_stop e" "local_fft_updateFrequency lib spawn_ok" local_fft_isRunning local_fft_getConfig
  for e lib spawn_ok
  by unfold_locales
    (simp_all add: local_fft_stop_def local_fft_isRunning_def st_stopFFT_stopped local_fft_getConfig_def getFFTStreamConfig_def
      stopped_stream local_fft_updateFrequency_def updateFFTFrequency_def)

interpretation remote_fft_source: fft_source rf_stop "\<lambda>f s. map_prod Some id (rf_updateFrequency f s)" rf_isRunning rf_getConfig
  by unfold_locales
    (auto simp: rf_stop_def rf_isRunning_def rf_getConfig_def rf_updateFrequency_def Let_def ws_send_def upd_socket_def clear_timer_def
      split: option.splits)

text \<open>
  So a client need not know which provider it has: a stream it stopped stays stopped, with no
  configuration, whatever frequencies it asks for.
\<close>

lemma stopped_streams_stay_stopped:
  "\<not> local_fft_isRunning (fold (\<lambda>f. snd \<circ> local_fft_updateFrequency lib spawn_ok f) fs (local_fft_stop e w))"
  "\<not> rf_isRunning (fold (\<lambda>f. snd \<circ> rf_updateFrequency f) fs (rf_stop s))"
  using local_fft.stays_stopped remote_fft_source.stays_stopped [of fs s] by (simp_all add: comp_def)

end
