(* ===== verification/Config.thy ===== *)
theory Config
  imports Signal_Check
begin

text \<open>
  \<open>src/backend/config/config.ts\<close>: the configuration from the environment variables.
  The schema is written with the package \<open>zod\<close>, a parameter: what
  \<open>z.coerce.number()\<close> makes of a variable, and the checks of \<open>min\<close>,
  \<open>max\<close> and \<open>enum\<close>.  \<open>default\<close> replaces a missing variable, and
  \<open>safeParse\<close> yields the issues of every field.  \<open>env\<close> is \<open>process.env\<close>.
\<close>

section \<open>The schema\<close>

type_synonym process_env = "string \<Rightarrow> string option"

text \<open>A coercion yields \<open>None\<close> where the package reports an issue.\<close>

record zod =
  z_coerce_number :: "string option \<Rightarrow> number option"
  z_min :: "number \<Rightarrow> number \<Rightarrow> bool"
  z_max :: "number \<Rightarrow> number \<Rightarrow> bool"
  z_enum :: "string list \<Rightarrow> string \<Rightarrow> bool"

text \<open>
  Documented of the package: a variable that is not set is no number, the limits are inclusive,
  and an enumeration takes its members.
\<close>

definition zod_documented :: "zod \<Rightarrow> bool" where
  "zod_documented z \<longleftrightarrow>
     z_coerce_number z None = None \<and> (\<forall>lo x. z_min z lo x \<longleftrightarrow> lo \<le> x) \<and> (\<forall>hi x. z_max z hi x \<longleftrightarrow> x \<le> hi) \<and>
     (\<forall>vs t. z_enum z vs t \<longleftrightarrow> t \<in> set vs)"

text \<open>A field of the schema: its value, or an issue under its name.\<close>

type_synonym 'a field = "string list + 'a"

definition coerce_number :: "zod \<Rightarrow> process_env \<Rightarrow> string \<Rightarrow> (number \<Rightarrow> bool) list \<Rightarrow> number option \<Rightarrow> number field" where
  "coerce_number z env name checks dflt =
     (case (env name, dflt) of
        (None, Some d) \<Rightarrow> Inr d
      | (raw, _) \<Rightarrow>
          (case z_coerce_number z raw of
             None \<Rightarrow> Inl [name]
           | Some x \<Rightarrow> if list_all (\<lambda>ok. ok x) checks then Inr x else Inl [name]))"

definition text_field :: "process_env \<Rightarrow> string \<Rightarrow> string \<Rightarrow> string field" where
  "text_field env name dflt = Inr (or_else (env name) dflt)"

definition flag_field :: "process_env \<Rightarrow> string \<Rightarrow> string \<Rightarrow> bool field" where
  "flag_field env name dflt = Inr (or_else (env name) dflt = ''true'')"

definition enum_field :: "zod \<Rightarrow> process_env \<Rightarrow> string \<Rightarrow> (string \<times> 'a) list \<Rightarrow> 'a \<Rightarrow> 'a field" where
  "enum_field z env name choices dflt =
     (case env name of
        None \<Rightarrow> Inr dflt
      | Some text \<Rightarrow>
          (if z_enum z (map fst choices) text
           then case map_of choices text of None \<Rightarrow> Inl [name] | Some v \<Rightarrow> Inr v
           else Inl [name]))"

record parsed_env =
  pe_SERVICE_MODE :: "ServiceMode field"
  pe_SDR_RELAY_URL :: "string option"
  pe_SDR_RELAY_PORT :: "number field"
  pe_SDR_RELAY_HOST :: "string field"
  pe_STATION_LATITUDE :: "number field"
  pe_STATION_LONGITUDE :: "number field"
  pe_STATION_ALTITUDE :: "number field"
  pe_SDR_GAIN :: "number field"
  pe_SDR_SAMPLE_RATE :: "number field"
  pe_SDR_PPM_CORRECTION :: "number field"
  pe_MIN_ELEVATION :: "number field"
  pe_MIN_SIGNAL_STRENGTH :: "number field"
  pe_SKIP_SIGNAL_CHECK :: "bool field"
  pe_RECORDINGS_DIR :: "string field"
  pe_IMAGES_DIR :: "string field"
  pe_TLE_UPDATE_INTERVAL_HOURS :: "number field"
  pe_LOG_LEVEL :: "LogLevel field"
  pe_WEB_PORT :: "number field"
  pe_WEB_HOST :: "string field"
  pe_DATABASE_PATH :: "string field"
  pe_ISS_SSTV_ENABLED :: "bool field"

definition envSchema :: "zod \<Rightarrow> process_env \<Rightarrow> parsed_env" where
  "envSchema z env =
     \<lparr>pe_SERVICE_MODE = enum_field z env ''SERVICE_MODE''
        [(''full'', Full), (''sdr-relay'', SdrRelay), (''server'', Server)] Full,
      pe_SDR_RELAY_URL = env ''SDR_RELAY_URL'',
      pe_SDR_RELAY_PORT = coerce_number z env ''SDR_RELAY_PORT'' [] (Some 3001),
      pe_SDR_RELAY_HOST = text_field env ''SDR_RELAY_HOST'' ''0.0.0.0'',
      pe_STATION_LATITUDE = coerce_number z env ''STATION_LATITUDE'' [z_min z (- 90), z_max z 90] None,
      pe_STATION_LONGITUDE = coerce_number z env ''STATION_LONGITUDE'' [z_min z (- 180), z_max z 180] None,
      pe_STATION_ALTITUDE = coerce_number z env ''STATION_ALTITUDE'' [] (Some 0),
      pe_SDR_GAIN = coerce_number z env ''SDR_GAIN'' [z_min z 0, z_max z 50] (Some 45),
      pe_SDR_SAMPLE_RATE = coerce_number z env ''SDR_SAMPLE_RATE'' [] (Some 48000),
      pe_SDR_PPM_CORRECTION = coerce_number z env ''SDR_PPM_CORRECTION'' [] (Some 0),
      pe_MIN_ELEVATION = coerce_number z env ''MIN_ELEVATION'' [z_min z 0, z_max z 90] (Some 20),
      pe_MIN_SIGNAL_STRENGTH = coerce_number z env ''MIN_SIGNAL_STRENGTH'' [] (Some (- 30)),
      pe_SKIP_SIGNAL_CHECK = flag_field env ''SKIP_SIGNAL_CHECK'' ''false'',
      pe_RECORDINGS_DIR = text_field env ''RECORDINGS_DIR'' ''./recordings'',
      pe_IMAGES_DIR = text_field env ''IMAGES_DIR'' ''./images'',
      pe_TLE_UPDATE_INTERVAL_HOURS = coerce_number z env ''TLE_UPDATE_INTERVAL_HOURS'' [] (Some 24),
      pe_LOG_LEVEL = enum_field z env ''LOG_LEVEL''
        [(''debug'', Debug), (''info'', Info), (''warn'', Warn), (''error'', Error)] Info,
      pe_WEB_PORT = coerce_number z env ''WEB_PORT'' [] (Some 3000),
      pe_WEB_HOST = text_field env ''WEB_HOST'' ''0.0.0.0'',
      pe_DATABASE_PATH = text_field env ''DATABASE_PATH'' ''./data/captures.db'',
      pe_ISS_SSTV_ENABLED = flag_field env ''ISS_SSTV_ENABLED'' ''true''\<rparr>"

definition issues :: "'a field \<Rightarrow> string list" where
  "issues f = (case f of Inl names \<Rightarrow> names | Inr _ \<Rightarrow> [])"

definition env_issues :: "parsed_env \<Rightarrow> string list" where
  "env_issues p = issues (pe_SERVICE_MODE p) @ issues (pe_SDR_RELAY_PORT p) @ issues (pe_SDR_RELAY_HOST p) @
     issues (pe_STATION_LATITUDE p) @ issues (pe_STATION_LONGITUDE p) @ issues (pe_STATION_ALTITUDE p) @
     issues (pe_SDR_GAIN p) @ issues (pe_SDR_SAMPLE_RATE p) @ issues (pe_SDR_PPM_CORRECTION p) @
     issues (pe_MIN_ELEVATION p) @ issues (pe_MIN_SIGNAL_STRENGTH p) @ issues (pe_SKIP_SIGNAL_CHECK p) @
     issues (pe_RECORDINGS_DIR p) @ issues (pe_IMAGES_DIR p) @ issues (pe_TLE_UPDATE_INTERVAL_HOURS p) @
     issues (pe_LOG_LEVEL p) @ issues (pe_WEB_PORT p) @ issues (pe_WEB_HOST p) @ issues (pe_DATABASE_PATH p) @
     issues (pe_ISS_SSTV_ENABLED p)"

text \<open>The message of each issue is the package's; its path starts the line.\<close>

definition parseEnv :: "zod \<Rightarrow> process_env \<Rightarrow> parsed_env throwing" where
  "parseEnv z env =
     (let result = envSchema z env; errors = env_issues result
      in if errors \<noteq> []
         then Inl (''Environment validation failed:'' @ [NL] @ js_join [NL] (map (\<lambda>e. ''  '' @ e @ '': '') errors))
         else Inr result)"

definition val :: "'a field \<Rightarrow> 'a \<Rightarrow> 'a" where
  "val f d = (case f of Inl _ \<Rightarrow> d | Inr v \<Rightarrow> v)"

definition loadConfig :: "zod \<Rightarrow> process_env \<Rightarrow> ReceiverConfig throwing" where
  "loadConfig z env =
     (case parseEnv z env of
        Inl err \<Rightarrow> Inl err
      | Inr p \<Rightarrow>
          Inr \<lparr>rc_serviceMode = val (pe_SERVICE_MODE p) Full, rc_sdrRelay_url = pe_SDR_RELAY_URL p,
               rc_sdrRelay_port = val (pe_SDR_RELAY_PORT p) 0, rc_sdrRelay_host = val (pe_SDR_RELAY_HOST p) [],
               rc_station = \<lparr>co_latitude = val (pe_STATION_LATITUDE p) 0, co_longitude = val (pe_STATION_LONGITUDE p) 0,
                             co_altitude = val (pe_STATION_ALTITUDE p) 0\<rparr>,
               rc_sdr_gain = val (pe_SDR_GAIN p) 0, rc_sdr_sampleRate = val (pe_SDR_SAMPLE_RATE p) 0,
               rc_sdr_ppmCorrection = val (pe_SDR_PPM_CORRECTION p) 0, rc_minElevation = val (pe_MIN_ELEVATION p) 0,
               rc_minSignalStrength = val (pe_MIN_SIGNAL_STRENGTH p) 0, rc_skipSignalCheck = val (pe_SKIP_SIGNAL_CHECK p) False,
               rc_recordingsDir = val (pe_RECORDINGS_DIR p) [], rc_imagesDir = val (pe_IMAGES_DIR p) [],
               rc_tle_updateIntervalHours = val (pe_TLE_UPDATE_INTERVAL_HOURS p) 0, rc_web_port = val (pe_WEB_PORT p) 0,
               rc_web_host = val (pe_WEB_HOST p) [], rc_database_path = val (pe_DATABASE_PATH p) [],
               rc_logLevel = val (pe_LOG_LEVEL p) Info, rc_issSstvEnabled = val (pe_ISS_SSTV_ENABLED p) False\<rparr>)"

section \<open>What a configuration guarantees\<close>

lemma issues_simps [simp]: "issues (Inl ns) = ns" "issues (Inr v) = []"
  by (simp_all add: issues_def)

lemma coerce_number_range:
  assumes "zod_documented z" "issues (coerce_number z env name [z_min z lo, z_max z hi] dflt) = []"
    and "\<And>d. dflt = Some d \<Longrightarrow> lo \<le> d \<and> d \<le> hi"
  shows "lo \<le> val (coerce_number z env name [z_min z lo, z_max z hi] dflt) v \<and>
    val (coerce_number z env name [z_min z lo, z_max z hi] dflt) v \<le> hi"
  using assms by (auto simp: coerce_number_def val_def zod_documented_def split: option.splits if_splits)

lemma no_issue_fields [simp]: "issues (text_field env n d) = []" "issues (flag_field env n d) = []"
  by (simp_all add: text_field_def flag_field_def)

lemma parseEnv_ok: "parseEnv z env = Inr p \<Longrightarrow> p = envSchema z env \<and> env_issues p = []"
  by (auto simp: parseEnv_def Let_def split: if_splits)


definition demo_zod :: zod where
  "demo_zod = \<lparr>z_coerce_number = \<lambda>t. Option.bind t js_parseFloat, z_min = \<lambda>lo x. lo \<le> x, z_max = \<lambda>hi x. x \<le> hi,
     z_enum = \<lambda>vs t. t \<in> set vs\<rparr>"

definition demo_process_env :: process_env where
  "demo_process_env = map_of [(''STATION_LATITUDE'', ''51.5''), (''STATION_LONGITUDE'', ''-0.12'')]"

lemma demo_numbers: "js_parseFloat ''51.5'' = Some (103 / 2)" "js_parseFloat ''-0.12'' = Some (- 3 / 25)"
  by (simp_all add: js_trim_def is_ws_def take_sign_def is_digit_def js_parseFloat_def exponent_scale_def parse_digits_def
      digit_value_def Let_def)

lemma demo_zod_documented: "zod_documented demo_zod"
  by (simp add: zod_documented_def demo_zod_def)

lemma demo_config_loads: "\<exists>c. loadConfig demo_zod demo_process_env = Inr c"
proof -
  have "env_issues (envSchema demo_zod demo_process_env) = []"
    by (simp add: env_issues_def envSchema_def coerce_number_def enum_field_def demo_process_env_def demo_zod_def demo_numbers)
  then show ?thesis by (simp add: loadConfig_def parseEnv_def Let_def)
qed


end
