(* ===== verification/Passes.thy ===== *)
theory Passes
  imports Orbit Doppler
begin

text \<open>
  \<open>src/backend/prediction/passes.ts\<close>: choosing the element set of a satellite,
  predicting and ordering its passes, filtering them by quality, and the positions and
  Doppler curve of a pass.  Functions with loops return an option, \<open>None\<close> being a
  loop that never ends; that they always return is proved below.
\<close>

section \<open>Matching element sets to satellites\<close>

definition normalise_name :: "string \<Rightarrow> string" where
  "normalise_name s = js_replace_ws [] (js_toLowerCase s)"

text \<open>The first group of \<open>/^1\\s+(\\d+)/\<close>, as a number.\<close>

definition norad_of_line1 :: "string \<Rightarrow> int option" where
  "norad_of_line1 line1 =
     (case line1 of
        [] \<Rightarrow> None
      | c # rest \<Rightarrow>
          (let afterWs = dropWhile is_ws rest;
               digits = takeWhile is_digit afterWs
           in if c = CHR ''1'' \<and> afterWs \<noteq> rest \<and> digits \<noteq> []
              then Some (int (parse_digits digits)) else None))"

definition tle_matches :: "SatelliteInfo \<Rightarrow> TwoLineElement \<Rightarrow> bool" where
  "tle_matches sat t =
     (let tleName = normalise_name (tle_name t);
          satName = normalise_name (sat_name sat)
      in tleName = satName \<or>
         norad_of_line1 (tle_line1 t) = Some (sat_noradId sat) \<or>
         js_includes tleName (take 8 satName) \<or> js_includes satName (take 8 tleName))"

section \<open>Prediction\<close>

definition js_trunc :: "number \<Rightarrow> int" where
  "js_trunc x = (if 0 \<le> x then \<lfloor>x\<rfloor> else \<lceil>x\<rceil>)"

definition prediction_end :: "date \<Rightarrow> number \<Rightarrow> date" where
  "prediction_end startTime hoursAhead = js_trunc (of_int startTime + hoursAhead * 60 * 60 * 1000)"

definition predict_satellite ::
  "('satrec, 'eci, 'ecf) satellite_js \<Rightarrow> TwoLineElement list \<Rightarrow> GeodeticLocation \<Rightarrow> date \<Rightarrow> date
     \<Rightarrow> number \<Rightarrow> SatelliteInfo \<Rightarrow> SatellitePass list option"
where
  "predict_satellite lib tles observer startTime endTime minElevation sat =
     (case find (tle_matches sat) tles of
        None \<Rightarrow> Some []
      | Some tle \<Rightarrow>
          (case findPasses lib tle sat observer startTime endTime minElevation 60 of
             None \<Rightarrow> None
           | Some passes \<Rightarrow> those (map (\<lambda>p. refinePassTiming lib tle p observer minElevation) passes)))"

definition predictPasses ::
  "('satrec, 'eci, 'ecf) satellite_js \<Rightarrow> SatelliteInfo list \<Rightarrow> TwoLineElement list \<Rightarrow> Coordinates
     \<Rightarrow> date \<Rightarrow> number \<Rightarrow> number \<Rightarrow> SatellitePass list option"
where
  "predictPasses lib satellites tles station startTime hoursAhead minElevation =
     (let endTime = prediction_end startTime hoursAhead;
          observer = createObserver station;
          allPasses = map_option concat
            (those (map (predict_satellite lib tles observer startTime endTime minElevation) satellites))
      in map_option (sort_key pass_aos) allPasses)"

definition high_quality :: "number \<Rightarrow> SatellitePass \<Rightarrow> bool" where
  "high_quality minElevation pass \<longleftrightarrow>
     (if pass_maxElevation pass \<ge> 40 then True
      else if pass_maxElevation pass \<ge> minElevation \<and> pass_duration pass \<ge> 360 then True
      else False)"

definition filterHighQualityPasses :: "SatellitePass list \<Rightarrow> number \<Rightarrow> SatellitePass list" where
  "filterHighQualityPasses passes minElevation = filter (high_quality minElevation) passes"

text \<open>The status column of \<open>formatPassesTable\<close>.\<close>

definition table_status :: "date \<Rightarrow> SatellitePass \<Rightarrow> string" where
  "table_status now pass =
     (if now \<ge> pass_aos pass \<and> now \<le> pass_los pass then ''Active''
      else if now > pass_los pass then ''Passed''
      else ''Pending'')"

section \<open>Positions along a pass, over a store of Date objects\<close>

text \<open>
  \<open>getPassPositions\<close> moves one \<open>Date\<close> object through the pass and every
  position keeps a reference to it.  The store maps references to the objects'
  current values; \<open>new Date\<close> allocates at its end.
\<close>

type_synonym date_store = "date list"
type_synonym date_ref = nat

partial_function (option) positions_loop ::
  "(date \<Rightarrow> date_ref \<Rightarrow> date_ref SatellitePosition option) \<Rightarrow> int \<Rightarrow> date \<Rightarrow> date_ref \<Rightarrow> date_store
     \<Rightarrow> date_ref SatellitePosition list \<Rightarrow> (date_store \<times> date_ref SatellitePosition list) option"
where
  "positions_loop look stepSeconds los current store positions =
     (if store ! current \<le> los
      then positions_loop look stepSeconds los current
             (store[current := setSeconds_add (store ! current) stepSeconds])
             (case look (store ! current) current of
                None \<Rightarrow> positions
              | Some position \<Rightarrow> positions @ [position])
      else Some (store, positions))"

definition getPassPositions ::
  "('satrec, 'eci, 'ecf) satellite_js \<Rightarrow> TwoLineElement \<Rightarrow> SatellitePass \<Rightarrow> Coordinates \<Rightarrow> int
     \<Rightarrow> date_store \<Rightarrow> (date_store \<times> date_ref SatellitePosition list) option"
where
  "getPassPositions lib tle pass station stepSeconds store =
     (let observer = createObserver station;
          current = length store;
          store = store @ [pass_aos pass]
      in positions_loop (getSatellitePosition lib tle observer) stepSeconds (pass_los pass) current store [])"

definition doppler_tle :: "TwoLineElement list \<Rightarrow> SatellitePass \<Rightarrow> TwoLineElement option" where
  "doppler_tle tles pass =
     find (\<lambda>t. js_includes (tle_name t) (sat_name (pass_satellite pass)) \<or>
               js_includes (tle_name t) (js_replace_first (CHR '' '') ''-'' (sat_name (pass_satellite pass)))) tles"

fun predictions_with_doppler ::
  "('satrec, 'eci, 'ecf) satellite_js \<Rightarrow> TwoLineElement list \<Rightarrow> Coordinates \<Rightarrow> SatellitePass list
     \<Rightarrow> date_store \<Rightarrow> (date_store \<times> date_ref PassPrediction list) option"
where
  "predictions_with_doppler lib tles station [] store = Some (store, [])"
| "predictions_with_doppler lib tles station (pass # passes) store =
     (case doppler_tle tles pass of
        None \<Rightarrow>
          map_option (\<lambda>(store, ps).
              (store, \<lparr>pp_pass = pass, pp_positions = [], pp_doppler = None\<rparr> # ps))
            (predictions_with_doppler lib tles station passes store)
      | Some tle \<Rightarrow>
          (case getPassPositions lib tle pass station 10 store of
             None \<Rightarrow> None
           | Some (store, positions) \<Rightarrow>
               (let doppler = calculateDopplerShift (\<lambda>r. store ! r) (sat_frequency (pass_satellite pass)) positions
                in map_option (\<lambda>(store, ps).
                       (store, \<lparr>pp_pass = pass, pp_positions = positions, pp_doppler = Some doppler\<rparr> # ps))
                     (predictions_with_doppler lib tles station passes store))))"

definition predictPassesWithDoppler ::
  "('satrec, 'eci, 'ecf) satellite_js \<Rightarrow> SatelliteInfo list \<Rightarrow> TwoLineElement list \<Rightarrow> Coordinates
     \<Rightarrow> date \<Rightarrow> number \<Rightarrow> number \<Rightarrow> date_store \<Rightarrow> (date_store \<times> date_ref PassPrediction list) option"
where
  "predictPassesWithDoppler lib satellites tles station startTime hoursAhead minElevation store =
     (case predictPasses lib satellites tles station startTime hoursAhead minElevation of
        None \<Rightarrow> None
      | Some passes \<Rightarrow> predictions_with_doppler lib tles station passes store)"

section \<open>Lemmas on prediction\<close>

text \<open>The window a refined pass keeps of the coarse one it comes from.\<close>

definition widened :: "SatellitePass \<Rightarrow> SatellitePass \<Rightarrow> bool" where
  "widened p q \<longleftrightarrow>
     pass_satellite q = pass_satellite p \<and>
     pass_aos p - 178000 \<le> pass_aos q \<and> pass_aos q \<le> pass_aos p \<and>
     pass_los p \<le> pass_los q \<and> pass_los q \<le> pass_los p + 178000 \<and>
     pass_duration q = of_int (pass_los q - pass_aos q) / 1000"

lemma refined_widened:
  "\<exists>q. refinePassTiming lib tle p obs m = Some q \<and> widened p q"
  using refinePassTiming_returns [of lib tle p obs m]
    refineTime_back [where look = "look_from lib tle obs"]
    refineTime_forth [where look = "look_from lib tle obs"]
  unfolding widened_def by metis

lemma list_all2_set2: "list_all2 P xs ys \<Longrightarrow> y \<in> set ys \<Longrightarrow> \<exists>x \<in> set xs. P x y"
  by (induction rule: list_all2_induct) auto

lemma those_map_total:
  "(\<And>x. x \<in> set xs \<Longrightarrow> \<exists>y. f x = Some y \<and> P x y) \<Longrightarrow>
    \<exists>ys. those (map f xs) = Some ys \<and> list_all2 P xs ys"
proof (induction xs)
  case (Cons x xs)
  then obtain y ys where "f x = Some y" "P x y" "those (map f xs) = Some ys" "list_all2 P xs ys"
    by (metis list.set_intros)
  then show ?case by simp
qed simp

text \<open>A pass of the prediction: refined from a coarse pass of a listed satellite.\<close>

definition predicted_from ::
  "('satrec, 'eci, 'ecf) satellite_js \<Rightarrow> TwoLineElement list \<Rightarrow> GeodeticLocation \<Rightarrow> date \<Rightarrow> date \<Rightarrow> number
     \<Rightarrow> SatelliteInfo \<Rightarrow> SatellitePass \<Rightarrow> bool" where
  "predicted_from lib tles obs st e m sat q \<longleftrightarrow>
     (\<exists>tle p. find (tle_matches sat) tles = Some tle \<and>
        pass_ok (look_from lib tle obs) sat m st e 60000 p \<and>
        refinePassTiming lib tle p obs m = Some q \<and> widened p q)"

lemma predict_satellite_returns:
  "\<exists>ps. predict_satellite lib tles obs st e m sat = Some ps \<and>
     (\<forall>q \<in> set ps. predicted_from lib tles obs st e m sat q)"
proof (cases "find (tle_matches sat) tles")
  case None
  then show ?thesis by (simp add: predict_satellite_def)
next
  case (Some tle)
  obtain raw where raw: "findPasses lib tle sat obs st e m 60 = Some raw"
    by (simp add: findPasses_fold)
  have ok: "pass_ok (look_from lib tle obs) sat m st e 60000 p" if "p \<in> set raw" for p
    using findPasses_ok [OF _ raw] that by simp
  obtain ps where ps: "those (map (\<lambda>p. refinePassTiming lib tle p obs m) raw) = Some ps"
    "list_all2 (\<lambda>p q. refinePassTiming lib tle p obs m = Some q \<and> widened p q) raw ps"
    using those_map_total [of raw "\<lambda>p. refinePassTiming lib tle p obs m"
        "\<lambda>p q. refinePassTiming lib tle p obs m = Some q \<and> widened p q"] refined_widened by blast
  have "predicted_from lib tles obs st e m sat q" if q: "q \<in> set ps" for q
  proof -
    obtain p where "p \<in> set raw" "refinePassTiming lib tle p obs m = Some q" "widened p q"
      using list_all2_set2 [OF ps(2) q] by blast
    then show ?thesis using Some ok by (auto simp: predicted_from_def)
  qed
  then show ?thesis
    using Some raw ps(1) by (simp add: predict_satellite_def)
qed

lemma positions_loop_grid:
  assumes "0 < step" "r < length store"
  shows "\<exists>t. positions_loop look step los r store acc =
    Some (store[r := t], acc @ List.map_filter (\<lambda>t. look t r) (grid (step * 1000) los (store ! r)))"
  using assms
proof (induction "step * 1000" los "store ! r" arbitrary: store acc rule: grid.induct)
  case (1 los)
  show ?case
  proof (cases "store ! r \<le> los")
    case True
    let ?store = "store[r := setSeconds_add (store ! r) step]"
    let ?acc = "case look (store ! r) r of None \<Rightarrow> acc | Some p \<Rightarrow> acc @ [p]"
    have nth: "?store ! r = store ! r + step * 1000"
      using "1.prems" by (simp add: setSeconds_add_def)
    obtain t where "positions_loop look step los r ?store ?acc =
        Some (?store[r := t], ?acc @ List.map_filter (\<lambda>t. look t r) (grid (step * 1000) los (?store ! r)))"
      using "1.hyps" [of ?store ?acc] True "1.prems" nth by auto
    then show ?thesis
      using True "1.prems" nth
      by (auto simp: positions_loop.simps [of look step los r store acc] grid_Cons
          List.map_filter_simps split: option.splits)
  next
    case False
    then show ?thesis
      by (auto simp: positions_loop.simps [of look step los r store acc] grid_Nil
          List.map_filter_simps intro: exI [of _ "store ! r"])
  qed
qed

lemma map_filter_set: "x \<in> set (List.map_filter f ts) \<longleftrightarrow> (\<exists>t \<in> set ts. f t = Some x)"
  by (induction ts) (auto simp: List.map_filter_simps split: option.splits)

text \<open>Every position of a pass refers to the same \<open>Date\<close> object.\<close>

lemma getPassPositions_shared:
  assumes "0 < step"
  shows "\<exists>store' ps. getPassPositions lib tle pass station step store = Some (store', ps) \<and>
    (\<forall>p \<in> set ps. pos_timestamp p = length store)"
proof -
  let ?look = "getSatellitePosition lib tle (createObserver station)"
  obtain t where run: "getPassPositions lib tle pass station step store =
      Some ((store @ [pass_aos pass])[length store := t],
        List.map_filter (\<lambda>u. ?look u (length store)) (grid (step * 1000) (pass_los pass) (pass_aos pass)))"
    using positions_loop_grid [OF assms, of "length store" "store @ [pass_aos pass]" ?look "pass_los pass" "[]"]
    by (auto simp: getPassPositions_def Let_def)
  have "pos_timestamp p = r" if "?look u r = Some p" for u r p
    using that by (auto simp: getSatellitePosition_def computeLookAngles_def Let_def split: option.splits)
  then show ?thesis using run by (auto simp: map_filter_set)
qed

text \<open>
  So the finite differences divide by nothing and every Doppler shift is zero.
\<close>

definition flat_doppler :: "'d PassPrediction \<Rightarrow> bool" where
  "flat_doppler pr \<longleftrightarrow>
     (case pp_doppler pr of None \<Rightarrow> True | Some d \<Rightarrow>
        (\<forall>pt \<in> set (dd_points d). dp_shift pt = 0) \<and> dd_maxShift d = 0 \<and> dd_minShift d = 0)"

lemma calculateDopplerShift_same_time:
  assumes "\<And>p. p \<in> set ps \<Longrightarrow> getTime (pos_timestamp p) = t"
  shows "flat_doppler \<lparr>pp_pass = pass, pp_positions = ps, pp_doppler = Some (calculateDopplerShift getTime f ps)\<rparr>"
proof -
  have zero: "dp_shift (doppler_point getTime f ps i) = 0" if "i < length ps" for i
    using velocity_at_same_time [of ps getTime t i] assms that by (simp add: doppler_point_def Let_def)
  then have pts: "\<forall>pt \<in> set (dd_points (calculateDopplerShift getTime f ps)). dp_shift pt = 0"
    by (auto simp: calculateDopplerShift_def Let_def)
  show ?thesis
  proof (cases "ps = []")
    case False
    then have ne: "dd_points (calculateDopplerShift getTime f ps) \<noteq> []"
      using doppler_points_length [of getTime f ps] by auto
    have "dp_shift ` set (dd_points (calculateDopplerShift getTime f ps)) = {0}"
      using pts ne by (auto simp: image_iff) (metis list.set_sel(1))
    with pts False show ?thesis by (simp add: flat_doppler_def doppler_extrema)
  qed (simp add: flat_doppler_def calculateDopplerShift_def)
qed

lemma predictions_with_doppler_flat:
  "\<exists>store' prs. predictions_with_doppler lib tles station passes store = Some (store', prs) \<and>
     (\<forall>pr \<in> set prs. flat_doppler pr) \<and> map pp_pass prs = passes"
proof (induction passes arbitrary: store)
  case (Cons pass passes)
  show ?case
  proof (cases "doppler_tle tles pass")
    case None
    then show ?thesis using Cons [of store] by (auto simp: flat_doppler_def)
  next
    case (Some tle)
    obtain store1 ps where run: "getPassPositions lib tle pass station 10 store = Some (store1, ps)"
      and sh: "\<forall>p \<in> set ps. pos_timestamp p = length store"
      using getPassPositions_shared [of 10 lib tle pass station store] by auto
    have "flat_doppler \<lparr>pp_pass = pass, pp_positions = ps,
        pp_doppler = Some (calculateDopplerShift (\<lambda>r. store1 ! r) (sat_frequency (pass_satellite pass)) ps)\<rparr>"
      by (rule calculateDopplerShift_same_time [of _ _ "store1 ! length store"]) (use sh in simp)
    then show ?thesis
      using Some run Cons [of store1] by (auto simp: Let_def)
  qed
qed simp

lemma those_mem:
  assumes "those (map f xs) = Some ys" "x \<in> set xs"
  shows "\<exists>y \<in> set ys. f x = Some y"
  using assms
proof (induction xs arbitrary: ys)
  case (Cons z zs)
  then show ?case by (auto split: option.splits)
qed simp

lemma filterHighQualityPasses_mem:
  "p \<in> set (filterHighQualityPasses ps m) \<longleftrightarrow> p \<in> set ps \<and>
     (40 \<le> pass_maxElevation p \<or> m \<le> pass_maxElevation p \<and> 360 \<le> pass_duration p)"
  by (auto simp: filterHighQualityPasses_def high_quality_def)

lemma filterHighQualityPasses_sorted:
  "sorted (map pass_aos ps) \<Longrightarrow> sorted (map pass_aos (filterHighQualityPasses ps m))"
  by (simp add: filterHighQualityPasses_def sorted_filter)

section \<open>Properties of prediction\<close>

text \<open>C16: Prediction always returns.  The passes come in order of their start; each is the refinement
  of a coarse pass of one of the satellites, computed with the first matching element
  set, and its window contains the coarse window and exceeds it by at most 178 seconds
  on each side; and every coarse pass of every satellite with a matching element set is there.\<close>

theorem predictPasses_spec:
  "\<exists>ps. predictPasses lib satellites tles station st hours m = Some ps \<and>
    sorted (map pass_aos ps) \<and>
    (\<forall>q \<in> set ps. \<exists>sat \<in> set satellites. predicted_from lib tles (createObserver station) st (prediction_end st hours) m sat q) \<and>
    (\<forall>sat \<in> set satellites. \<forall>tle raw p.
       find (tle_matches sat) tles = Some tle \<and> findPasses lib tle sat (createObserver station) st (prediction_end st hours) m 60 = Some raw \<and> p \<in> set raw \<longrightarrow>
       (\<exists>q \<in> set ps. refinePassTiming lib tle p (createObserver station) m = Some q))"
proof -
  let ?obs = "createObserver station" and ?e = "prediction_end st hours"
  obtain pss where pss: "those (map (predict_satellite lib tles ?obs st ?e m) satellites) = Some pss"
    and from1: "list_all2 (\<lambda>sat ps. \<forall>q \<in> set ps. predicted_from lib tles ?obs st ?e m sat q) satellites pss"
    using those_map_total [of satellites "predict_satellite lib tles ?obs st ?e m"
        "\<lambda>sat ps. \<forall>q \<in> set ps. predicted_from lib tles ?obs st ?e m sat q"] predict_satellite_returns by blast
  have run: "predictPasses lib satellites tles station st hours m = Some (sort_key pass_aos (concat pss))"
    using pss by (simp add: predictPasses_def Let_def)
  have sound: "\<exists>sat \<in> set satellites. predicted_from lib tles ?obs st ?e m sat q" if "q \<in> set (concat pss)" for q
    using that list_all2_set2 [OF from1] by fastforce
  have compl: "\<exists>q \<in> set (concat pss). refinePassTiming lib tle p ?obs m = Some q"
    if sat: "sat \<in> set satellites" and ex: "find (tle_matches sat) tles = Some tle"
       "findPasses lib tle sat ?obs st ?e m 60 = Some raw" "p \<in> set raw" for sat tle raw p
  proof -
    obtain ps where "predict_satellite lib tles ?obs st ?e m sat = Some ps" "ps \<in> set pss"
      using those_mem [OF pss sat] by blast
    moreover from this ex obtain q where "q \<in> set ps" "refinePassTiming lib tle p ?obs m = Some q"
      using those_mem [of "\<lambda>p. refinePassTiming lib tle p ?obs m" raw ps p]
      by (auto simp: predict_satellite_def)
    ultimately show ?thesis by auto
  qed
  show ?thesis
    using run sound compl by (intro exI [of _ "sort_key pass_aos (concat pss)"]) auto
qed

theorem predictPasses_spec_witness:
  "\<exists>ps. predictPasses demo_lib WEATHER_SATELLITES [demo_tle, demo_tle4] demo_station 0 1 20 = Some ps \<and>
    sorted (map pass_aos ps) \<and>
    (\<forall>q \<in> set ps. \<exists>sat \<in> set WEATHER_SATELLITES.
       predicted_from demo_lib [demo_tle, demo_tle4] (createObserver demo_station) 0 3600000 20 sat q)"
  using predictPasses_spec [of demo_lib WEATHER_SATELLITES "[demo_tle, demo_tle4]" demo_station 0 1 20]
  by (auto simp: prediction_end_def js_trunc_def)

text \<open>Which element set is used: an element set whose name contains the first eight
  letters of the satellite's name is taken as soon as it is met, before any catalogue
  number is compared, so with a METEOR element set in front both METEOR satellites are
  predicted from it.\<close>

theorem first_meteor_elements_win:
  assumes "js_includes (normalise_name (tle_name t)) ''meteor-m''"
  shows "find (tle_matches METEOR_M_N2_3) (t # ts) = Some t \<and> find (tle_matches METEOR_M_N2_4) (t # ts) = Some t"
proof -
  have n: "take 8 (normalise_name (sat_name METEOR_M_N2_3)) = ''meteor-m''"
      "take 8 (normalise_name (sat_name METEOR_M_N2_4)) = ''meteor-m''"
    by code_simp+
  show ?thesis using assms by (simp add: tle_matches_def Let_def n)
qed

theorem first_meteor_elements_win_witness:
  "norad_of_line1 (tle_line1 demo_tle4) = Some (sat_noradId METEOR_M_N2_4) \<and>
   norad_of_line1 (tle_line1 demo_tle) \<noteq> Some (sat_noradId METEOR_M_N2_4) \<and>
   find (tle_matches METEOR_M_N2_4) [demo_tle, demo_tle4] = Some demo_tle"
proof -
  have "js_includes (normalise_name (tle_name demo_tle)) ''meteor-m''" by code_simp
  from first_meteor_elements_win [OF this, of "[demo_tle4]"]
  have "find (tle_matches METEOR_M_N2_4) [demo_tle, demo_tle4] = Some demo_tle" by simp
  moreover have "norad_of_line1 (tle_line1 demo_tle4) = Some (sat_noradId METEOR_M_N2_4)"
    "norad_of_line1 (tle_line1 demo_tle) \<noteq> Some (sat_noradId METEOR_M_N2_4)"
    by (simp_all add: norad_of_line1_def demo_tle_def demo_tle4_def METEOR_M_N2_4_def is_ws_def
        is_digit_def parse_digits_def digit_value_def)
  ultimately show ?thesis by simp
qed

text \<open>The Doppler curve of every predicted pass is flat: the positions of a pass share one
  \<open>Date\<close> object, so their time stamps are equal when the velocities are computed
  and every shift, the largest and the smallest included, is zero.\<close>

theorem predicted_doppler_is_flat:
  "\<exists>store' prs. predictPassesWithDoppler lib satellites tles station st hours m store = Some (store', prs) \<and>
     (\<forall>pr \<in> set prs. flat_doppler pr) \<and>
     Some (map pp_pass prs) = predictPasses lib satellites tles station st hours m"
proof -
  obtain ps where "predictPasses lib satellites tles station st hours m = Some ps"
    using predict_satellite_returns [of lib tles "createObserver station" st "prediction_end st hours" m]
      those_map_total [of satellites "predict_satellite lib tles (createObserver station) st
        (prediction_end st hours) m" "\<lambda>_ _. True"]
    unfolding predictPasses_def Let_def by blast
  then show ?thesis
    using predictions_with_doppler_flat [of lib tles station ps store]
    by (auto simp: predictPassesWithDoppler_def)
qed

theorem predicted_doppler_is_flat_witness:
  "\<exists>store' prs. predictPassesWithDoppler demo_lib [METEOR_M_N2_3] [demo_tle\<lparr>tle_name := ''METEOR-M N2-3''\<rparr>] demo_station 0 1 20 [] = Some (store', prs) \<and>
     (\<forall>pr \<in> set prs. flat_doppler pr)"
  using predicted_doppler_is_flat [of demo_lib "[METEOR_M_N2_3]" "[demo_tle\<lparr>tle_name := ''METEOR-M N2-3''\<rparr>]" demo_station 0 1 20 "[]"]
  by blast

end
