(* ===== verification/Daemon.thy ===== *)
theory Daemon
  imports Config Passes Tle Scheduler
begin

text \<open>
  \<open>src/backend/cli/commands/run.ts\<close>: the start of the daemon and its capture loop.  The
  web server and the globe service it starts are the theories \<open>Web_Server\<close> and
  \<open>Globe_Service\<close>; they act on the same state through the state manager.  \<open>fetch\<close>
  is what the network answers at an instant.
\<close>

section \<open>Start\<close>

definition REQUIRED_COMMANDS :: "string list" where
  "REQUIRED_COMMANDS = [''rtl_fm'', ''rtl_power'', ''sox'']"

definition OPTIONAL_COMMANDS :: "string list" where
  "OPTIONAL_COMMANDS = [''satdump'', ''sstv'']"

text \<open>An exception, \<open>process.exit(1)\<close> with the commands it names, or the capture loop.\<close>

datatype startup = Refused string | Missing "string list" | Started ReceiverConfig

definition missing_commands :: "(string, bool) jsmap \<Rightarrow> string list" where
  "missing_commands deps = map fst (filter (\<lambda>(cmd, exists). \<not> exists) deps)"

definition daemon_start :: "zod \<Rightarrow> process_env \<Rightarrow> env \<Rightarrow> station \<Rightarrow> (startup \<times> station) option" where
  "daemon_start z vars e w =
     (case loadConfig z vars of
        Inl err \<Rightarrow> Some (Refused err, w)
      | Inr config \<Rightarrow>
          (let sys = env_os e;
               w = (if rc_issSstvEnabled config then w\<lparr>w_sstv := setManualSstvEnabled True (w_sstv w)\<rparr> else w)
           in if \<not> os_mkdir sys (w_now w) (rc_recordingsDir config) then Some (Refused ''mkdir'', w)
              else if \<not> os_mkdir sys (w_now w) (rc_imagesDir config) then Some (Refused ''mkdir'', w)
              else case initializeDatabase (os_mkdir sys (w_now w)) (rc_database_path config) (w_db w) of
                     (Inl err, d) \<Rightarrow> Some (Refused err, w\<lparr>w_db := d\<rparr>)
                   | (Inr _, d) \<Rightarrow>
                       (case checkDependencies sys (w_now w) REQUIRED_COMMANDS of
                          None \<Rightarrow> None
                        | Some (deps, t) \<Rightarrow>
                            (let w = w\<lparr>w_db := d, w_now := t\<rparr>; missing = missing_commands deps
                             in if length missing > 0 then Some (Missing missing, w)
                                else case checkDependencies sys (w_now w) OPTIONAL_COMMANDS of
                                       None \<Rightarrow> None
                                     | Some (optionalDeps, t) \<Rightarrow> Some (Started config, w\<lparr>w_now := t\<rparr>)))))"

section \<open>The capture loop\<close>

definition active_satellites :: "date \<Rightarrow> SstvModule \<Rightarrow> SatelliteInfo list" where
  "active_satellites now sstv =
     filter (is_active_satellite (isSstvActive now sstv)) SATELLITES"

definition idle_for :: "env \<Rightarrow> nat \<Rightarrow> station \<Rightarrow> station" where
  "idle_for e ms w = st_sleep e ms (st_call (SetStatus Idle) w)"

text \<open>One round of the loop; an exception in it, of which \<open>getTles\<close> is the source, is caught.\<close>

definition capture_round ::
  "env \<Rightarrow> ('satrec, 'eci, 'ecf) satellite_js \<Rightarrow> (date \<Rightarrow> network) \<Rightarrow> ReceiverConfig \<Rightarrow> station \<times> tle_files
     \<Rightarrow> (station \<times> tle_files) option"
where
  "capture_round e lib fetch config s =
     (case s of (w, files) \<Rightarrow>
        (let activeSatellites = active_satellites (w_now w) (w_sstv w)
         in if activeSatellites = [] then Some (idle_for e (60 * 1000) w, files)
            else case getTles (fetch (w_now w)) (w_now w) activeSatellites (rc_tle_updateIntervalHours config) files of
                   (Inl err, files) \<Rightarrow> Some (idle_for e (5 * 60 * 1000) w, files)
                 | (Inr tles, files) \<Rightarrow>
                     (case predictPasses lib activeSatellites tles (rc_station config) (w_now w) 24 (rc_minElevation config) of
                        None \<Rightarrow> None
                      | Some allPasses \<Rightarrow>
                          (if allPasses = [] then Some (idle_for e (60 * 60 * 1000) (st_call (UpdatePasses []) w), files)
                           else let passes = filterHighQualityPasses allPasses (rc_minElevation config);
                                    w = st_call (UpdatePasses passes) w
                                in if passes = [] then Some (idle_for e (60 * 60 * 1000) w, files)
                                   else case runScheduler e passes config w of
                                          None \<Rightarrow> None
                                        | Some (results, w) \<Rightarrow> Some (idle_for e 5000 w, files)))))"

fun capture_rounds ::
  "nat \<Rightarrow> env \<Rightarrow> ('satrec, 'eci, 'ecf) satellite_js \<Rightarrow> (date \<Rightarrow> network) \<Rightarrow> ReceiverConfig \<Rightarrow> station \<times> tle_files
     \<Rightarrow> (station \<times> tle_files) option"
where
  "capture_rounds 0 e lib fetch config s = Some s"
| "capture_rounds (Suc n) e lib fetch config s =
     (case capture_round e lib fetch config s of
        None \<Rightarrow> None
      | Some s \<Rightarrow> capture_rounds n e lib fetch config s)"

section \<open>Every round ends\<close>

lemma predictPasses_returns: "\<exists>ps. predictPasses lib sats tles obs now hours m = Some ps"
proof -
  have "\<exists>pss. those (map (predict_satellite lib tles (createObserver obs) now (prediction_end now hours) m) sats) = Some pss"
    using those_map_total [of sats "predict_satellite lib tles (createObserver obs) now (prediction_end now hours) m" "\<lambda>_ _. True"]
      predict_satellite_returns by blast
  then show ?thesis by (auto simp: predictPasses_def Let_def)
qed

lemma saveResult_instance: "dm_instance (w_db (saveResultToDatabase r p w)) = dm_instance (w_db w)"
  by (simp add: saveResultToDatabase_def put_db_def split: option.splits sum.splits prod.splits)

lemma capturePass_instance:
  assumes "os_settles (env_os e)" "capturePass e pass config w = Some (r, w')"
  shows "dm_instance (w_db w') = dm_instance (w_db w)"
proof -
  obtain v where v: "captured pass v r w'" "v = (st_call (StartPass pass) (release_device e w))\<lparr>w_now := w_now v\<rparr>"
    using capturePass_captured [OF assms(1), of pass config w] assms(2) by auto
  then have "w_db v = w_db w" by (metis release_device_simps(1) st_call_simps(2) station.select_convs(4) station.surjective station.update_convs(1))
  then show ?thesis using v(1) saveResult_instance by (auto simp: captured_def)
qed

lemma runScheduler_instance:
  "os_settles (env_os e) \<Longrightarrow> runScheduler e passes config w = Some (rs, w') \<Longrightarrow> dm_instance (w_db w') = dm_instance (w_db w)"
proof (induction e passes config w arbitrary: rs rule: runScheduler.induct)
  case (2 e pass passes config w)
  obtain scan w1 where wp: "waitForPass e pass w = (scan, w1)" by fastforce
  show ?case
    using 2 wp waitForPass_keeps(4) [OF wp] capturePass_instance [OF "2.prems"(1), of pass config w1]
    by (auto split: if_splits option.splits prod.splits)
qed simp

text \<open>What a round keeps and how it ends.\<close>

definition round_ok :: "station \<Rightarrow> station \<Rightarrow> bool" where
  "round_ok w w' \<longleftrightarrow>
     w_now w + 5000 \<le> w_now w' \<and> st_status (w_state w') = Idle \<and> recordings_ok w' \<and>
     dm_instance (w_db w') = dm_instance (w_db w)"

lemma idle_for_ok:
  assumes "recordings_ok v" "w_now w \<le> w_now v" "dm_instance (w_db v) = dm_instance (w_db w)" "5000 \<le> ms"
  shows "round_ok w (idle_for e ms v)"
proof -
  have "w_now v + int ms \<le> w_now (idle_for e ms v)"
    using js_sleep_ge [of "w_now v" ms "env_os e"] by (simp add: idle_for_def st_sleep_def)
  then show ?thesis
    using assms by (fastforce simp: round_ok_def recordings_ok_def idle_for_def setStatus_def Let_def)
qed

lemma capture_round_ok:
  assumes "os_settles (env_os e)" "recordings_ok w"
  shows "\<exists>w' files'. capture_round e lib fetch config (w, files) = Some (w', files') \<and> round_ok w w'"
proof -
  let ?sats = "active_satellites (w_now w) (w_sstv w)"
  obtain tl fs where g: "getTles (fetch (w_now w)) (w_now w) ?sats (rc_tle_updateIntervalHours config) files = (tl, fs)" by fastforce
  have up: "recordings_ok (st_call c w)" "w_now w \<le> w_now (st_call c w)" "dm_instance (w_db (st_call c w)) = dm_instance (w_db w)" for c
    using assms(2) by (simp_all add: recordings_ok_def)
  have idle: "round_ok w (idle_for e ms (st_call c w))" "round_ok w (idle_for e ms w)" if "5000 \<le> ms" for ms c
    using idle_for_ok [OF up that] idle_for_ok [OF assms(2) _ _ that, of w] by simp_all
  consider "?sats = []" | err where "?sats \<noteq> []" "tl = Inl err" | tles where "?sats \<noteq> []" "tl = Inr tles" by (cases tl) auto
  then show ?thesis
  proof cases
    case 3
    obtain ps where ps: "predictPasses lib ?sats tles (rc_station config) (w_now w) 24 (rc_minElevation config) = Some ps"
      using predictPasses_returns by blast
    let ?q = "filterHighQualityPasses ps (rc_minElevation config)" and ?w = "st_call (UpdatePasses (filterHighQualityPasses ps (rc_minElevation config))) w"
    obtain rs w' where s: "runScheduler e ?q config ?w = Some (rs, w')" "recordings_ok w'" "w_now ?w \<le> w_now w'"
      using runScheduler_spec [OF assms(1) up(1)] by blast
    have "round_ok w (idle_for e 5000 w')"
      using s runScheduler_instance [OF assms(1) s(1)] by (intro idle_for_ok) simp_all
    then show ?thesis using 3 g ps s(1) idle by (simp add: capture_round_def Let_def)
  qed (use g idle in \<open>simp_all add: capture_round_def Let_def\<close>)
qed

lemma round_ok_trans: "round_ok w v \<Longrightarrow> w_now v + d \<le> w_now u \<Longrightarrow> w_now w + (5000 + d) \<le> w_now u"
  by (simp add: round_ok_def)

lemma capture_rounds_ok:
  assumes "os_settles (env_os e)" "recordings_ok w"
  shows "\<exists>w' files'. capture_rounds n e lib fetch config (w, files) = Some (w', files') \<and>
    w_now w + 5000 * int n \<le> w_now w' \<and> recordings_ok w' \<and> dm_instance (w_db w') = dm_instance (w_db w) \<and>
    (0 < n \<longrightarrow> st_status (w_state w') = Idle)"
  using assms(2)
proof (induction n arbitrary: w files)
  case (Suc n)
  obtain v fs where v: "capture_round e lib fetch config (w, files) = Some (v, fs)" "round_ok w v"
    using capture_round_ok [OF assms(1) Suc.prems] by blast
  then obtain w' fs' where w': "capture_rounds n e lib fetch config (v, fs) = Some (w', fs')"
    "w_now v + 5000 * int n \<le> w_now w'" "recordings_ok w'" "dm_instance (w_db w') = dm_instance (w_db v)"
    "0 < n \<longrightarrow> st_status (w_state w') = Idle"
    using Suc.IH [of v fs] by (auto simp: round_ok_def)
  have "st_status (w_state w') = Idle" using w'(1,5) v(2) by (cases n) (auto simp: round_ok_def)
  then show ?case using v w' round_ok_trans [OF v(2) w'(2)] by (auto simp: round_ok_def)
qed simp



section \<open>What a start has checked\<close>

definition found :: "os \<Rightarrow> bool \<Rightarrow> string \<Rightarrow> bool" where
  "found sys b cmd \<longleftrightarrow> (\<exists>t t'. commandExists sys t cmd = Some (b, t'))"

lemma check_commands_found:
  "check_commands sys now cmds m = Some (m', later) \<Longrightarrow> (\<forall>(c, b) \<in> set m. found sys b c) \<Longrightarrow> (\<forall>(c, b) \<in> set m'. found sys b c)"
proof (induction sys now cmds m rule: check_commands.induct)
  case (2 sys now cmd cmds results)
  obtain b t where b: "commandExists sys now cmd = Some (b, t)" "check_commands sys t cmds (map_set cmd b results) = Some (m', later)"
    using "2.prems"(1) by (auto split: option.splits)
  have "set (map_set cmd b results) \<subseteq> insert (cmd, b) (set results)"
    by (induction cmd b results rule: map_set.induct) auto
  moreover have "found sys b cmd" using b(1) by (auto simp: found_def)
  ultimately have "\<forall>(c, b) \<in> set (map_set cmd b results). found sys b c"
    using "2.prems"(2) by blast
  then show ?case using "2.IH" b by blast
qed simp

lemma initializeDatabase_opens: "initializeDatabase ok path m = (Inr p, m') \<Longrightarrow> dm_instance m' \<noteq> None"
  by (auto simp: initializeDatabase_def Let_def split: option.splits if_splits prod.splits sum.splits)

lemma required_found:
  assumes "checkDependencies sys now REQUIRED_COMMANDS = Some (deps, t)"
  shows "cmd \<in> set (missing_commands deps) \<Longrightarrow> cmd \<in> set REQUIRED_COMMANDS \<and> found sys False cmd"
    "missing_commands deps = [] \<Longrightarrow> cmd \<in> set REQUIRED_COMMANDS \<Longrightarrow> found sys True cmd"
proof -
  have f: "found sys b c" if "(c, b) \<in> set deps" for c b
    using check_commands_found [of sys now REQUIRED_COMMANDS "[]" deps t] assms that by (auto simp: checkDependencies_def)
  have k: "fst ` set deps = set REQUIRED_COMMANDS" by (rule checkDependencies_keys [OF assms])
  show "cmd \<in> set REQUIRED_COMMANDS \<and> found sys False cmd" if m: "cmd \<in> set (missing_commands deps)"
  proof -
    obtain b where "(cmd, b) \<in> set deps" "\<not> b" using m by (auto simp: missing_commands_def)
    then have "(cmd, False) \<in> set deps" by simp
    then show ?thesis using f k by (metis fst_conv image_eqI)
  qed
  show "found sys True cmd" if m: "missing_commands deps = []" and c: "cmd \<in> set REQUIRED_COMMANDS"
  proof -
    obtain b where b: "(cmd, b) \<in> set deps" using c k by (metis fst_conv imageE surj_pair)
    then have "b" using m by (auto simp: missing_commands_def filter_empty_conv)
    then show ?thesis using b f by simp
  qed
qed

text \<open>C33: The daemon enters its capture loop only with a configuration that loaded, an open database
  and every required program found; when it exits for missing programs, it names only required
  programs that were looked for and not found.\<close>

theorem daemon_start_checked:
  assumes "daemon_start z vars e w = Some (r, w')"
  shows "(case r of
      Refused err \<Rightarrow> True
    | Missing cmds \<Rightarrow> cmds \<noteq> [] \<and> (\<forall>cmd \<in> set cmds. cmd \<in> set REQUIRED_COMMANDS \<and> found (env_os e) False cmd)
    | Started config \<Rightarrow> loadConfig z vars = Inr config \<and> dm_instance (w_db w') \<noteq> None \<and>
        (\<forall>cmd \<in> set REQUIRED_COMMANDS. found (env_os e) True cmd))"
proof (cases "loadConfig z vars")
  case (Inr config)
  show ?thesis
  proof (cases r)
    case (Missing cmds)
    then show ?thesis using assms Inr
      by (auto simp: daemon_start_def Let_def dest: required_found(1) split: if_splits sum.splits prod.splits option.splits)
  next
    case (Started c)
    then show ?thesis using assms Inr
      by (auto simp: daemon_start_def Let_def dest: required_found(2) initializeDatabase_opens
          split: if_splits sum.splits prod.splits option.splits)
  qed simp
qed (use assms in \<open>auto simp: daemon_start_def\<close>)

lemma demo_which: "commandExists demo_os t cmd = Some (True, t + 5000)"
  by (simp add: commandExists_def demo_run)

theorem daemon_start_checked_witness:
  "\<exists>c w'. daemon_start demo_zod demo_process_env demo_env (demo_station_at 0) = Some (Started c, w') \<and>
     dm_instance (w_db w') \<noteq> None"
proof -
  obtain c where c: "loadConfig demo_zod demo_process_env = Inr c" using demo_config_loads by blast
  have "\<exists>w'. daemon_start demo_zod demo_process_env demo_env (demo_station_at 0) = Some (Started c, w')"
    by (simp add: daemon_start_def c Let_def initializeDatabase_def newCaptureDatabase_def demo_station_at_def
        checkDependencies_def REQUIRED_COMMANDS_def OPTIONAL_COMMANDS_def demo_which missing_commands_def)
  then show ?thesis using daemon_start_checked [of demo_zod demo_process_env demo_env "demo_station_at 0" "Started c"] by auto
qed

end
