(* ===== verification/Command_Line.thy ===== *)
theory Command_Line
  imports Daemon Requests
begin

text \<open>
  The command line: \<open>src/backend/cli/main.ts\<close>, the commands \<open>predict\<close>,
  \<open>status\<close> and \<open>serve\<close>, the table of \<open>src/backend/prediction/passes.ts\<close>
  and \<open>src/backend/utils/logger.ts\<close>.  \<open>paint\<close> is the package that colours a text and
  \<open>time\<close> the runtime's format of dates.  What goes to the log is not modelled, but for the logger itself.
\<close>

section \<open>Table of passes\<close>

text \<open>The length of a string in JavaScript, of its UTF-8 bytes: the units of UTF-16.\<close>

definition js_length :: "string \<Rightarrow> nat" where
  "js_length s = length (filter (\<lambda>c. (of_char c :: nat) < 128 \<or> 192 \<le> (of_char c :: nat)) s) +
     length (filter (\<lambda>c. 240 \<le> (of_char c :: nat)) s)"

definition js_padEnd :: "nat \<Rightarrow> string \<Rightarrow> string" where
  "js_padEnd n s = s @ replicate (n - js_length s) (CHR '' '')"

text \<open>A character of the box-drawing block, by the last byte of its three.\<close>

definition box :: "char \<Rightarrow> string" where
  "box c = [CHR 0xE2, CHR 0x94, c]"

definition table_border :: "char \<Rightarrow> char \<Rightarrow> char \<Rightarrow> string" where
  "table_border l m r =
     (let bar = (\<lambda>n. concat (replicate n (box (CHR 0x80))))
      in box l @ bar 13 @ box m @ bar 21 @ box m @ bar 10 @ box m @ bar 11 @ box m @ bar 10 @ box r)"

definition table_line :: "string list \<Rightarrow> string" where
  "table_line cells = concat (map (\<lambda>c. box (CHR 0x82) @ '' '' @ c @ '' '') cells) @ box (CHR 0x82)"

definition table_cells :: "(date \<Rightarrow> string) \<Rightarrow> date \<Rightarrow> SatellitePass \<Rightarrow> string list" where
  "table_cells time now pass =
     [js_padEnd 11 (sat_name (pass_satellite pass)), js_padEnd 19 (time (pass_aos pass)),
      js_padEnd 8 (show_int (js_round (pass_duration pass / 60)) @ ''min''),
      js_padEnd 9 (js_toFixed 1 (pass_maxElevation pass) @ degree), js_padEnd 8 (table_status now pass)]"

definition formatPassesTable_lines :: "(date \<Rightarrow> string) \<Rightarrow> date \<Rightarrow> SatellitePass list \<Rightarrow> string list" where
  "formatPassesTable_lines time now passes =
     [table_border (CHR 0x8C) (CHR 0xAC) (CHR 0x90),
      table_line [''Satellite  '', ''Start Time         '', ''Duration'', ''Max Elev '', ''Status  ''],
      table_border (CHR 0x9C) (CHR 0xBC) (CHR 0xA4)] @
     map (\<lambda>pass. table_line (table_cells time now pass)) passes @ [table_border (CHR 0x94) (CHR 0xB4) (CHR 0x98)]"

definition formatPassesTable :: "(date \<Rightarrow> string) \<Rightarrow> date \<Rightarrow> SatellitePass list \<Rightarrow> string" where
  "formatPassesTable time now passes = js_join [NL] (formatPassesTable_lines time now passes)"

definition arrow :: string where
  "arrow = [CHR 0xE2, CHR 0x86, CHR 0x92]"

definition formatPass :: "(date \<Rightarrow> string) \<Rightarrow> (date \<Rightarrow> string) \<Rightarrow> SatellitePass \<Rightarrow> string" where
  "formatPass date_time time pass =
     sat_name (pass_satellite pass) @ '': '' @ date_time (pass_aos pass) @ '' '' @ arrow @ '' '' @ time (pass_los pass) @
     '' ('' @ show_int (js_round (pass_duration pass / 60)) @ ''min, max '' @ js_toFixed 1 (pass_maxElevation pass) @ degree @ '')''"

section \<open>Commands\<close>

datatype cli_command = Cli_run | Cli_predict "string list" | Cli_status | Cli_serve | Cli_help | Cli_unknown string

text \<open>The arguments after the script; an absent or empty command is \<open>run\<close>.\<close>

definition cli_main :: "string list \<Rightarrow> cli_command" where
  "cli_main argv =
     (let command = (case argv of [] \<Rightarrow> ''run'' | c # _ \<Rightarrow> if c = [] then ''run'' else c); args = drop 1 argv
      in if command = ''run'' \<or> command = ''start'' then Cli_run
         else if command = ''predict'' then Cli_predict args
         else if command = ''status'' then Cli_status
         else if command = ''serve'' then Cli_serve
         else if command = ''help'' \<or> command = ''--help'' \<or> command = ''-h'' then Cli_help
         else Cli_unknown command)"

definition exit_code :: "cli_command \<Rightarrow> nat option" where
  "exit_code c = (case c of Cli_unknown command \<Rightarrow> Some 1 | _ \<Rightarrow> None)"

text \<open>\<open>Number(args[0]) || 24\<close>, where \<open>js_number\<close> is \<open>None\<close> for NaN.\<close>

definition predict_hours :: "(string \<Rightarrow> number option) \<Rightarrow> string list \<Rightarrow> number" where
  "predict_hours js_number args = (case args of [] \<Rightarrow> 24 | a # _ \<Rightarrow> or_num (js_number a) 24)"

datatype predicted = Predict_failed string | No_passes | Predicted number "SatellitePass list"

definition predictCommand ::
  "zod \<Rightarrow> process_env \<Rightarrow> (string \<Rightarrow> number option) \<Rightarrow> network \<Rightarrow> ('satrec, 'eci, 'ecf) satellite_js \<Rightarrow> date \<Rightarrow> string list
     \<Rightarrow> tle_files \<Rightarrow> (predicted \<times> tle_files) option"
where
  "predictCommand z vars js_number fetch lib now args files =
     (case loadConfig z vars of
        Inl err \<Rightarrow> Some (Predict_failed err, files)
      | Inr config \<Rightarrow>
          (let hoursAhead = predict_hours js_number args; sats = filter sat_enabled SATELLITES
           in case getTles fetch now sats (rc_tle_updateIntervalHours config) files of
                (Inl err, files) \<Rightarrow> Some (Predict_failed err, files)
              | (Inr tles, files) \<Rightarrow>
                  (case predictPasses lib sats tles (rc_station config) now hoursAhead (rc_minElevation config) of
                     None \<Rightarrow> None
                   | Some passes \<Rightarrow> Some (if passes = [] then No_passes else Predicted hoursAhead passes, files))))"

definition predict_output ::
  "(number \<Rightarrow> string) \<Rightarrow> (string \<Rightarrow> string \<Rightarrow> string) \<Rightarrow> (date \<Rightarrow> string) \<Rightarrow> (date \<Rightarrow> string) \<Rightarrow> date \<Rightarrow> predicted \<Rightarrow> string list" where
  "predict_output str paint date_time time now r =
     (case r of
        Predicted hoursAhead passes \<Rightarrow>
          [paint ''bold'' (NL # ''  Passes in next '' @ str hoursAhead @ '' hours:'' @ [NL]), formatPassesTable date_time now passes,
           paint ''bold'' (NL # ''  Details:'' @ [NL])] @
          map (\<lambda>pass. ''  '' @ formatPass date_time time pass) passes @
          [NL # paint ''gray'' (''Total: '' @ show_nat (length passes) @ '' passes'') @ [NL]]
      | _ \<Rightarrow> [])"

section \<open>status\<close>

definition status_color :: "string \<Rightarrow> string" where
  "status_color st =
     or_else (map_of [(''idle'', ''gray''), (''waiting'', ''yellow''), (''capturing'', ''blue''), (''decoding'', ''green'')] st) ''white''"

definition status_lines ::
  "(number \<Rightarrow> string) \<Rightarrow> (string \<Rightarrow> string \<Rightarrow> string) \<Rightarrow> (date \<Rightarrow> string) \<Rightarrow> SystemState \<Rightarrow> string list" where
  "status_lines str paint time st =
     [''  Status: '' @ paint (status_color (status_text (st_status st))) (js_toUpperCase (status_text (st_status st))),
      ''  Last Update: '' @ time (st_lastUpdate st)] @
     (case st_currentPass st of
        Some p \<Rightarrow> [paint ''bold'' (NL # ''  Current Pass:''), ''    Satellite: '' @ sat_name (pass_satellite p),
                  ''    Progress: '' @ str (st_captureProgress st) @ ''%'']
      | None \<Rightarrow> []) @
     (case st_nextPass st of
        Some p \<Rightarrow> [paint ''bold'' (NL # ''  Next Pass:''), ''    Satellite: '' @ sat_name (pass_satellite p),
                  ''    Time: '' @ time (pass_aos p), ''    Max Elevation: '' @ js_toFixed 1 (pass_maxElevation p) @ degree]
      | None \<Rightarrow> []) @
     [NL # ''  Upcoming Passes: '' @ show_nat (length (st_upcomingPasses st))]"

definition summary_lines :: "(string \<Rightarrow> string \<Rightarrow> string) \<Rightarrow> capture_summary \<Rightarrow> string list" where
  "summary_lines paint c =
     [paint ''bold'' (NL # ''  Statistics:''), ''    Total Captures: '' @ show_nat (cs_total c),
      ''    Successful: '' @ paint ''green'' (show_nat (cs_successful c)), ''    Failed: '' @ paint ''red'' (show_nat (cs_failed c))]"

definition not_running :: "(string \<Rightarrow> string \<Rightarrow> string) \<Rightarrow> string list" where
  "not_running paint =
     [paint ''yellow'' ''  Server is not running.'', ''  Start the daemon with: '' @ paint ''cyan'' ''bun start'' @ [NL]]"

text \<open>
  The two requests, \<open>None\<close> where the server cannot be reached; an answer that is not the JSON
  expected fails as well.  What was printed before a failure stays.
\<close>

definition statusCommand ::
  "(number \<Rightarrow> string) \<Rightarrow> (string \<Rightarrow> string \<Rightarrow> string) \<Rightarrow> (date \<Rightarrow> string) \<Rightarrow> string \<Rightarrow> fetched option \<Rightarrow> fetched option \<Rightarrow> string list" where
  "statusCommand str paint time baseUrl statusResponse summaryResponse =
     paint ''bold.cyan'' (NL # ''  System Status'' @ [NL]) #
     (case statusResponse of
        Some (Response n (P_state st)) \<Rightarrow>
          if \<not> (200 \<le> n \<and> n \<le> 299) then not_running paint
          else status_lines str paint time st @
               (case summaryResponse of
                  Some (Response m p) \<Rightarrow>
                    if \<not> (200 \<le> m \<and> m \<le> 299) then [NL # ''  Web Dashboard: '' @ paint ''cyan'' baseUrl @ [NL]]
                    else (case p of P_summary c \<Rightarrow> summary_lines paint c @ [NL # ''  Web Dashboard: '' @ paint ''cyan'' baseUrl @ [NL]]
                          | _ \<Rightarrow> not_running paint)
                | _ \<Rightarrow> not_running paint)
      | _ \<Rightarrow> not_running paint)"

section \<open>serve\<close>

datatype serving = Serve_failed string | Serving ReceiverConfig

text \<open>The directory of images, the database, the web server and the globe service, in this order.\<close>

definition serveCommand ::
  "zod \<Rightarrow> process_env \<Rightarrow> (string \<Rightarrow> bool) \<Rightarrow> ('satrec, 'eci, 'ecf) satellite_js \<Rightarrow> date \<Rightarrow> TwoLineElement list throwing
     \<Rightarrow> db_module \<Rightarrow> globe_service \<Rightarrow> SystemState \<Rightarrow> (serving \<times> db_module \<times> globe_service \<times> SystemState) option"
where
  "serveCommand z vars mkdir_ok lib now tles d g s =
     (case loadConfig z vars of
        Inl err \<Rightarrow> Some (Serve_failed err, d, g, s)
      | Inr config \<Rightarrow>
          (if \<not> mkdir_ok (rc_imagesDir config) then Some (Serve_failed ''mkdir'', d, g, s)
           else case initializeDatabase mkdir_ok (rc_database_path config) d of
                  (Inl err, d) \<Rightarrow> Some (Serve_failed err, d, g, s)
                | (Inr _, d) \<Rightarrow>
                    (case startGlobeService lib now tles (rc_station config) g s of
                       None \<Rightarrow> None
                     | Some (Inl err, ev, g, s) \<Rightarrow> Some (Serve_failed err, d, g, s)
                     | Some (Inr _, ev, g, s) \<Rightarrow> Some (Serving config, d, g, s))))"

definition serve_shutdown :: "db_module \<Rightarrow> globe_service \<Rightarrow> db_module \<times> globe_service" where
  "serve_shutdown d g = (closeDatabase d, stopGlobeService g)"

section \<open>Log\<close>

datatype log_call =
    Log_debug_call string "string list" | Log_info_call string "string list" | Log_warn_call string "string list"
  | Log_error_call string "string list" | Log_satellite string string | Log_pass string | Log_capture string | Log_image string

definition pinoLevelMap :: "LogLevel \<Rightarrow> string" where
  "pinoLevelMap l = (case l of Debug \<Rightarrow> ''debug'' | Info \<Rightarrow> ''info'' | Warn \<Rightarrow> ''warn'' | Error \<Rightarrow> ''error'')"

text \<open>The method of the package that is called, the fields that go with the message, and the message.\<close>

definition pino_call :: "log_call \<Rightarrow> LogLevel \<times> (string \<times> string list) list \<times> string" where
  "pino_call c =
     (let with_args = (\<lambda>l m args. (l, if args = [] then [] else [(''args'', args)], m))
      in case c of
           Log_debug_call m args \<Rightarrow> with_args Debug m args
         | Log_info_call m args \<Rightarrow> with_args Info m args
         | Log_warn_call m args \<Rightarrow> with_args Warn m args
         | Log_error_call m args \<Rightarrow> with_args Error m args
         | Log_satellite name m \<Rightarrow> (Info, [(''satellite'', [name])], m)
         | Log_pass m \<Rightarrow> (Info, [(''type'', [''pass''])], m)
         | Log_capture m \<Rightarrow> (Info, [(''type'', [''capture''])], m)
         | Log_image m \<Rightarrow> (Info, [(''type'', [''image''])], m))"

section \<open>The table is as wide as its cells\<close>

lemma js_length_append [simp]: "js_length (a @ b) = js_length a + js_length b"
  by (simp add: js_length_def)

lemma js_length_Nil [simp]: "js_length [] = 0"
  by (simp add: js_length_def)

lemma js_length_spaces: "js_length (replicate n (CHR '' '')) = n"
  by (simp add: js_length_def filter_replicate)

lemma js_length_padEnd: "js_length (js_padEnd n s) = max n (js_length s)"
  by (simp add: js_padEnd_def js_length_spaces)

lemma js_length_box: "128 \<le> (of_char c :: nat) \<Longrightarrow> (of_char c :: nat) < 192 \<Longrightarrow> js_length (box c) = 1"
  by (simp add: js_length_def box_def)

lemma js_length_bars: "js_length (concat (replicate n (box (CHR 0x80)))) = n"
  by (induction n) (simp_all add: js_length_box)

lemma table_border_width:
  "js_length (table_border (CHR 0x8C) (CHR 0xAC) (CHR 0x90)) = 71" "js_length (table_border (CHR 0x9C) (CHR 0xBC) (CHR 0xA4)) = 71"
  "js_length (table_border (CHR 0x94) (CHR 0xB4) (CHR 0x98)) = 71"
  by (simp_all add: table_border_def Let_def js_length_bars js_length_box)

lemma js_length_char: "(of_char c :: nat) < 128 \<Longrightarrow> js_length (c # s) = Suc (js_length s)"
  by (simp add: js_length_def)

lemma table_line_width: "js_length (table_line cells) = sum_list (map (\<lambda>c. js_length c + 3) cells) + 1"
proof -
  have "js_length '' '' = 1" by (simp add: js_length_def)
  then have "js_length (concat (map (\<lambda>c. box (CHR 0x82) @ '' '' @ c @ '' '') cells)) = sum_list (map (\<lambda>c. js_length c + 3) cells)"
    by (induction cells) (simp_all add: js_length_box js_length_char)
  then show ?thesis by (simp add: table_line_def js_length_box)
qed

lemma table_status_width: "max 8 (js_length (table_status now pass)) = 8"
  by (simp add: table_status_def js_length_def)

text \<open>A row of the table of passes is as wide as its borders, 71 characters, plus what its name, time, duration and
  elevation have in excess of their columns.  The names of both METEOR satellites have two characters
  more than theirs, so that the rows of the satellites the station predicts never line up.\<close>

theorem passes_table_width:
  "list_all (\<lambda>l. js_length l = 71) (formatPassesTable_lines time now []) \<and>
   js_length (table_line (table_cells time now pass)) =
     71 + (js_length (sat_name (pass_satellite pass)) - 11) + (js_length (time (pass_aos pass)) - 19) +
     (js_length (show_int (js_round (pass_duration pass / 60)) @ ''min'') - 8) +
     (js_length (js_toFixed 1 (pass_maxElevation pass) @ degree) - 9) \<and>
   map (\<lambda>s. js_length (sat_name s)) (filter sat_enabled SATELLITES) = [13, 13]"
proof (intro conjI)
  have head: "js_length (table_line [''Satellite  '', ''Start Time         '', ''Duration'', ''Max Elev '', ''Status  '']) = 71"
    unfolding table_line_width by (simp add: js_length_def)
  then show "list_all (\<lambda>l. js_length l = 71) (formatPassesTable_lines time now [])"
    unfolding formatPassesTable_lines_def by (simp add: table_border_width)
  show "js_length (table_line (table_cells time now pass)) =
     71 + (js_length (sat_name (pass_satellite pass)) - 11) + (js_length (time (pass_aos pass)) - 19) +
     (js_length (show_int (js_round (pass_duration pass / 60)) @ ''min'') - 8) +
     (js_length (js_toFixed 1 (pass_maxElevation pass) @ degree) - 9)"
    unfolding table_line_width table_cells_def by (simp only: list.map sum_list.Cons sum_list.Nil js_length_padEnd table_status_width)
  show "map (\<lambda>s. js_length (sat_name s)) (filter sat_enabled SATELLITES) = [13, 13]"
    by (simp add: SATELLITES_def ISS_def METEOR_M_N2_3_def METEOR_M_N2_4_def js_length_def)
qed

section \<open>The status command and the server\<close>

lemma get_exchange:
  "exchange we decode ok now rid (api_get ''/api/status'') s = (wemit (HttpReply rid 200 (P_state (wb_state s))) s, Some (Response 200 (P_state (wb_state s))))"
  "exchange we decode ok now rid (api_get ''/api/summary'') s =
     (let c = (case getDatabase (wb_db s) of Inl err \<Rightarrow> \<lparr>cs_total = 0, cs_successful = 0, cs_failed = 0\<rparr> | Inr d \<Rightarrow> getCaptureSummary d)
      in (wemit (HttpReply rid 200 (P_summary c)) s, Some (Response 200 (P_summary c))))"
  by (simp_all add: exchange_def Let_def web_handle_request_def api_get_def js_startsWith_def jsonResponseNode_def api_summary_def wemit_def)

text \<open>Run against a server that answers, the status command prints the server's status, its passes and the
  summary of its database, and the address of the dashboard; the server's state does not change.\<close>

theorem status_reports_server:
  "let (s1, r1) = exchange we decode ok now rid (api_get ''/api/status'') s;
       (s2, r2) = exchange we decode ok now' rid' (api_get ''/api/summary'') s1;
       c = (case getDatabase (wb_db s) of Inl err \<Rightarrow> \<lparr>cs_total = 0, cs_successful = 0, cs_failed = 0\<rparr> | Inr d \<Rightarrow> getCaptureSummary d)
   in statusCommand str paint time url r1 r2 =
        paint ''bold.cyan'' (NL # ''  System Status'' @ [NL]) # status_lines str paint time (wb_state s) @ summary_lines paint c @
        [NL # ''  Web Dashboard: '' @ paint ''cyan'' url @ [NL]] \<and>
      wb_state s2 = wb_state s \<and> wb_db s2 = wb_db s"
  unfolding get_exchange Let_def by (simp add: statusCommand_def wemit_def)

lemma status_unreachable: "statusCommand str paint time url None r = paint ''bold.cyan'' (NL # ''  System Status'' @ [NL]) # not_running paint"
  by (simp add: statusCommand_def)

section \<open>The other commands\<close>

text \<open>The prediction always ends; what it lists comes from the satellites that are enabled, which the space station is not.\<close>

lemma predictCommand_returns: "\<exists>r files'. predictCommand z vars js_number fetch lib now args files = Some (r, files')"
proof (cases "loadConfig z vars")
  case (Inr config)
  obtain tl fs where "getTles fetch now (filter sat_enabled SATELLITES) (rc_tle_updateIntervalHours config) files = (tl, fs)" by fastforce
  with Inr predictPasses_returns [of lib "filter sat_enabled SATELLITES" _ "rc_station config" now "predict_hours js_number args" "rc_minElevation config"]
  show ?thesis by (cases tl) (auto simp: predictCommand_def Let_def split: option.splits)
qed (simp add: predictCommand_def)

lemma predicts_meteor_only: "map sat_name (filter sat_enabled SATELLITES) = [''METEOR-M N2-3'', ''METEOR-M N2-4'']"
  by (simp add: SATELLITES_def ISS_def METEOR_M_N2_3_def METEOR_M_N2_4_def)

lemma serve_shutdown_closes: "dm_instance (fst (serve_shutdown d g)) = None" "\<not> gv_positionInterval (snd (serve_shutdown d g))"
  "\<not> gv_groundTrackInterval (snd (serve_shutdown d g))"
  by (simp_all add: serve_shutdown_def closeDatabase_def stopGlobeService_def)

lemma ground_tracks_station:
  "track_loop lib now sats g = Some (r, g') \<Longrightarrow> gv_station g' = gv_station g"
  by (induction lib now sats g rule: track_loop.induct) (auto split: option.splits sum.splits)

lemma start_station: "updateGroundTracks lib now (updateTles tles (g\<lparr>gv_station := st\<rparr>)) = Some (r, g') \<Longrightarrow> gv_station g' = st"
  using ground_tracks_station by (fastforce simp: updateGroundTracks_def updateTles_def split: sum.splits)

lemma serve_opens_database:
  assumes "serveCommand z vars mkdir_ok lib now tles d g s = Some (Serving config, d', g', s')"
  shows "dm_instance d' \<noteq> None" "gv_station g' = Some (rc_station config)"
  using assms
  by (auto simp: serveCommand_def initializeDatabase_def startGlobeService_def Let_def dest: start_station
      split: sum.splits option.splits prod.splits if_splits)

text \<open>An unknown command is the only one that ends with an error of its own.\<close>

lemma exit_code_unknown: "exit_code (cli_main argv) = Some n \<longleftrightarrow> n = 1 \<and> (\<exists>c. cli_main argv = Cli_unknown c)"
  by (auto simp: exit_code_def split: cli_command.splits)

text \<open>The calls for satellites, passes, captures and images are shown whenever plain information is.\<close>

lemma info_calls: "fst (pino_call (Log_satellite n m)) = fst (pino_call (Log_info_call m' a))"
  "fst (pino_call (Log_pass m)) = fst (pino_call (Log_info_call m' a))" "fst (pino_call (Log_capture m)) = fst (pino_call (Log_info_call m' a))"
  "fst (pino_call (Log_image m)) = fst (pino_call (Log_info_call m' a))"
  by (simp_all add: pino_call_def Let_def)

end
