(* ===== verification/Maintenance.thy ===== *)
theory Maintenance
  imports Config Scheduler
begin

text \<open>
  \<open>src/backend/cli/commands/maintenance.ts\<close>: decoding recordings after the fact and
  deleting failed ones.  The directory, the sizes of its files and the outcome of deleting one
  are parameters, as is the zone of the machine: \<open>me_local\<close> takes a wall-clock time,
  counted in milliseconds as if it were UTC, to its instant.
\<close>

section \<open>Names of recordings\<close>

record maint_env =
  me_readdir :: "string \<Rightarrow> string list throwing"
  me_size :: "string \<Rightarrow> int throwing"
  me_unlink :: "string \<Rightarrow> bool"
  me_local :: "int \<Rightarrow> date"
  me_sql :: sqlite
  me_os :: os

text \<open>The pattern of the time stamp; \<open>d\<close> stands for a digit.\<close>

definition stamp_pattern :: string where
  "stamp_pattern = ''dddd-dd-ddTdd-dd-dd''"

definition matches :: "string \<Rightarrow> string \<Rightarrow> bool" where
  "matches pat s \<longleftrightarrow> list_all2 (\<lambda>p c. if p = CHR ''d'' then is_digit c else c = p) pat s"

text \<open>
  \<open>new Date\<close> on a stamp with colons and no zone: local time; \<open>None\<close> is an invalid date.
\<close>

definition stamp_date :: "(int \<Rightarrow> date) \<Rightarrow> string \<Rightarrow> date option" where
  "stamp_date local s =
     (let num = (\<lambda>i n. int (parse_digits (take n (drop i s))));
          y = num 0 4; mo = num 5 2; d = num 8 2; h = num 11 2; mi = num 14 2; sec = num 17 2
      in if 1 \<le> mo \<and> mo \<le> 12 \<and> 1 \<le> d \<and> d \<le> 31 \<and> (h < 24 \<or> h = 24 \<and> mi = 0 \<and> sec = 0) \<and> mi < 60 \<and> sec < 60
         then Some (local ((days_of_civil \<lparr>cv_year = y, cv_month = mo, cv_day = d\<rparr> * 86400 + h * 3600 + mi * 60 + sec) * 1000))
         else None)"

text \<open>
  The stamp and the extension have fixed lengths, so the lazy group takes all that stands before
  them; it takes no line break.
\<close>

definition parseWavFilename :: "(int \<Rightarrow> date) \<Rightarrow> string \<Rightarrow> (string \<times> date option) option" where
  "parseWavFilename local filename =
     (let k = length filename - 24;
          satellite = take k filename; dateStr = take 19 (drop (k + 1) filename)
      in if 24 < length filename \<and> list_all (\<lambda>c. c \<noteq> NL \<and> c \<noteq> CHR 0x0D) satellite \<and> filename ! k = CHR ''_'' \<and>
            matches stamp_pattern dateStr \<and> drop (k + 20) filename = ''.wav''
         then Some (satellite, stamp_date local dateStr) else None)"

section \<open>Scanning the directory\<close>

record WavFileInfo =
  wf_path :: string
  wf_name :: string
  wf_size :: int
  wf_satellite :: string
  wf_timestamp :: "date option"

fun scan_files :: "maint_env \<Rightarrow> string \<Rightarrow> string list \<Rightarrow> WavFileInfo list throwing" where
  "scan_files me dir [] = Inr []"
| "scan_files me dir (file # files) =
     (let filePath = path_join [dir, file]
      in case me_size me filePath of
           Inl err \<Rightarrow> Inl err
         | Inr bytes \<Rightarrow>
             (case scan_files me dir files of
                Inl err \<Rightarrow> Inl err
              | Inr infos \<Rightarrow>
                  (case parseWavFilename (me_local me) file of
                     None \<Rightarrow> Inr infos
                   | Some (satellite, timestamp) \<Rightarrow>
                       Inr (\<lparr>wf_path = filePath, wf_name = file, wf_size = bytes, wf_satellite = satellite,
                             wf_timestamp = timestamp\<rparr> # infos))))"

definition scanRecordings :: "maint_env \<Rightarrow> string \<Rightarrow> WavFileInfo list" where
  "scanRecordings me recordingsDir =
     (case me_readdir me recordingsDir of
        Inl err \<Rightarrow> []
      | Inr files \<Rightarrow>
          (case scan_files me recordingsDir (filter (\<lambda>f. js_endsWith f ''.wav'') files) of
             Inl err \<Rightarrow> []
           | Inr infos \<Rightarrow> infos))"

section \<open>Recordings and captures\<close>

definition capture_of :: "sqlite \<Rightarrow> db \<Rightarrow> string \<Rightarrow> CaptureHistoryEntry option" where
  "capture_of sql d name =
     find (\<lambda>c. case che_recordingPath c of None \<Rightarrow> False | Some p \<Rightarrow> js_includes p name) (getRecentCaptures sql 1000 0 d)"

definition findMissingRecordings :: "sqlite \<Rightarrow> db \<Rightarrow> WavFileInfo list \<Rightarrow> WavFileInfo list" where
  "findMissingRecordings sql d recordings =
     filter (\<lambda>r. \<not> wf_size r < 1000000 \<and> capture_of sql d (wf_name r) = None) recordings"

definition findUndecodedRecordings :: "sqlite \<Rightarrow> db \<Rightarrow> WavFileInfo list \<Rightarrow> WavFileInfo list" where
  "findUndecodedRecordings sql d recordings =
     filter (\<lambda>r. \<not> wf_size r < 1000000 \<and>
               (case capture_of sql d (wf_name r) of None \<Rightarrow> False | Some c \<Rightarrow> length (che_imagePaths c) = 0)) recordings"

definition retro_decode :: "os \<Rightarrow> WavFileInfo \<Rightarrow> string \<Rightarrow> (bool \<times> string list) async" where
  "retro_decode sys recording imagesDir =
     async_catch
       (let signalType = (if js_startsWith (wf_satellite recording) ''METEOR'' then Lrpt else Sstv)
        in case getDecoder signalType (decoderRegistry sys) of
             None \<Rightarrow> async_return (False, [])
           | Some decoder \<Rightarrow>
               async_bind (dec_decode decoder (wf_path recording) imagesDir) (\<lambda>result.
                 async_return (case result of
                                 None \<Rightarrow> (False, [])
                               | Some r \<Rightarrow> if length (dr_outputPaths r) > 0 then (True, dr_outputPaths r) else (False, []))))
       (False, [])"

definition addImagesToDatabase :: "sqlite \<Rightarrow> date \<Rightarrow> string \<Rightarrow> string list \<Rightarrow> db \<Rightarrow> unit throwing \<times> db" where
  "addImagesToDatabase sql now recordingName imagePaths d =
     (case capture_of sql d recordingName of
        None \<Rightarrow> (Inr (), d)
      | Some capture \<Rightarrow> saveImages now (che_id capture) imagePaths d)"

fun decode_all ::
  "maint_env \<Rightarrow> string \<Rightarrow> WavFileInfo list \<Rightarrow> db \<Rightarrow> date \<Rightarrow> (unit throwing \<times> db \<times> date) option" where
  "decode_all me imagesDir [] d now = Some (Inr (), d, now)"
| "decode_all me imagesDir (r # rs) d now =
     (case retro_decode (me_os me) r imagesDir now of
        None \<Rightarrow> None
      | Some (Inl err, t) \<Rightarrow> Some (Inl err, d, t)
      | Some (Inr (success, imagePaths), t) \<Rightarrow>
          (case (if success \<and> length imagePaths > 0
                 then addImagesToDatabase (me_sql me) t (wf_name r) imagePaths d else (Inr (), d)) of
             (Inl err, d) \<Rightarrow> Some (Inl err, d, t)
           | (Inr _, d) \<Rightarrow> decode_all me imagesDir rs d t))"

section \<open>Deleting\<close>

text \<open>The paths that were deleted; one that cannot be is passed over.\<close>

definition cleanupFailedRecordings :: "maint_env \<Rightarrow> WavFileInfo list \<Rightarrow> string list" where
  "cleanupFailedRecordings me recordings =
     map wf_path (filter (\<lambda>r. wf_size r \<le> 10000 \<and> me_unlink me (wf_path r)) recordings)"

section \<open>The command\<close>

text \<open>
  \<open>initializeDatabase\<close> is not awaited: \<open>ready\<close> says whether it has finished when the
  database is first asked for.
\<close>

definition decode_stage ::
  "maint_env \<Rightarrow> ReceiverConfig \<Rightarrow> WavFileInfo list \<Rightarrow> bool \<Rightarrow> db_module \<Rightarrow> date
     \<Rightarrow> (unit throwing \<times> db_module \<times> date) option" where
  "decode_stage me config recordings ready m now =
     (let opened = snd (initializeDatabase (\<lambda>dir. os_mkdir (me_os me) now dir) (rc_database_path config) m)
      in case (dm_instance (if ready then opened else m), getDatabase (if ready then opened else m)) of
           (Some path, Inr d) \<Rightarrow>
             (case decode_all me (rc_imagesDir config) (findUndecodedRecordings (me_sql me) d recordings) d now of
                None \<Rightarrow> None
              | Some (r, d, t) \<Rightarrow> Some (r, opened\<lparr>dm_files := map_set path d (dm_files opened)\<rparr>, t))
         | (_, Inl err) \<Rightarrow> Some (Inl err, opened, now)
         | (None, Inr d) \<Rightarrow> Some (Inr (), opened, now))"

definition runMaintenance ::
  "maint_env \<Rightarrow> zod \<Rightarrow> process_env \<Rightarrow> bool \<Rightarrow> bool \<Rightarrow> bool \<Rightarrow> db_module \<Rightarrow> date
     \<Rightarrow> (string list throwing \<times> db_module \<times> date) option" where
  "runMaintenance me z vars decode cleanup ready m now =
     (case loadConfig z vars of
        Inl err \<Rightarrow> Some (Inl err, m, now)
      | Inr config \<Rightarrow>
          (let recordings = scanRecordings me (rc_recordingsDir config);
               opened = snd (initializeDatabase (\<lambda>dir. os_mkdir (me_os me) now dir) (rc_database_path config) m)
           in case (if decode then decode_stage me config recordings ready m now else Some (Inr (), opened, now)) of
                None \<Rightarrow> None
              | Some (Inl err, m, t) \<Rightarrow> Some (Inl err, m, t)
              | Some (Inr _, m, t) \<Rightarrow>
                  Some (Inr (if cleanup
                             then cleanupFailedRecordings me (filter (\<lambda>r. wf_size r \<le> 10000) recordings) else []), m, t)))"

section \<open>Names are read back\<close>

lemma matches_append: "length ps = length xs \<Longrightarrow> matches (ps @ qs) (xs @ ys) \<longleftrightarrow> matches ps xs \<and> matches qs ys"
  by (simp add: matches_def list_all2_append)

lemma matches_pad: "length (pad w n) = w \<Longrightarrow> matches (replicate w (CHR ''d'')) (pad w n)"
  by (auto simp: matches_def list_all2_conv_all_nth intro!: pad_digits [OF nth_mem])

lemma replace_ws_no_ws: "c \<in> set (js_replace_ws ''-'' s) \<Longrightarrow> \<not> is_ws c"
  by (induction "''-''" s rule: js_replace_ws.induct) (auto simp: is_ws_def split: if_splits)

lemma iso_stamp_parts:
  assumes "four_digit_year t" "date_fields t = (y, mo, d, h, mi, s, ms)"
  shows "matches stamp_pattern (iso_stamp t)" "take 4 (iso_stamp t) = pad 4 y" "take 2 (drop 5 (iso_stamp t)) = pad 2 mo"
    "take 2 (drop 8 (iso_stamp t)) = pad 2 d" "take 2 (drop 11 (iso_stamp t)) = pad 2 h"
    "take 2 (drop 14 (iso_stamp t)) = pad 2 mi" "take 2 (drop 17 (iso_stamp t)) = pad 2 s"
proof -
  note r = date_fields_ranges [OF assms(2)]
  have y: "0 \<le> y" "y \<le> 9999" using assms by (auto simp: four_digit_year_def date_fields_def Let_def)
  have len: "length (pad 4 y) = 4" "length (pad 2 mo) = 2" "length (pad 2 d) = 2" "length (pad 2 h) = 2"
    "length (pad 2 mi) = 2" "length (pad 2 s) = 2"
    using y r by (auto intro!: pad_length)
  note e = iso_stamp_eq [OF assms]
  have p: "stamp_pattern = replicate 4 (CHR ''d'') @ ''-'' @ replicate 2 (CHR ''d'') @ ''-'' @ replicate 2 (CHR ''d'') @ ''T'' @
      replicate 2 (CHR ''d'') @ ''-'' @ replicate 2 (CHR ''d'') @ ''-'' @ replicate 2 (CHR ''d'')"
    by (simp add: stamp_pattern_def numeral_eq_Suc)
  have sep: "matches ''-'' ''-''" "matches ''T'' ''T''" by (simp_all add: matches_def)
  show "matches stamp_pattern (iso_stamp t)"
    unfolding e p using len sep by (simp only: matches_append length_replicate matches_pad list.size)
  show "take 4 (iso_stamp t) = pad 4 y" "take 2 (drop 5 (iso_stamp t)) = pad 2 mo"
    "take 2 (drop 8 (iso_stamp t)) = pad 2 d" "take 2 (drop 11 (iso_stamp t)) = pad 2 h"
    "take 2 (drop 14 (iso_stamp t)) = pad 2 mi" "take 2 (drop 17 (iso_stamp t)) = pad 2 s"
    unfolding e by (simp_all add: len)
qed

lemma stamp_date_stamp:
  assumes "four_digit_year t"
  shows "stamp_date local (iso_stamp t) = Some (local (t div 1000 * 1000))"
proof -
  obtain y mo d h mi s ms where f: "date_fields t = (y, mo, d, h, mi, s, ms)" by (metis prod_cases7)
  note r = date_fields_ranges [OF f] and p = iso_stamp_parts [OF assms f]
  have y: "0 \<le> y" using assms f by (auto simp: four_digit_year_def date_fields_def Let_def)
  let ?v = "civil_of_days (t div 1000 div 86400)" and ?w = "t div 1000 mod 86400"
  have e: "y = cv_year ?v" "mo = cv_month ?v" "d = cv_day ?v" "h = ?w div 3600" "mi = ?w div 60 mod 60" "s = ?w mod 60"
    using f unfolding date_fields_eq Let_def prod.inject by blast+
  have "\<lparr>cv_year = y, cv_month = mo, cv_day = d\<rparr> = ?v" using e by simp
  then have days: "days_of_civil \<lparr>cv_year = y, cv_month = mo, cv_day = d\<rparr> = t div 1000 div 86400"
    by (simp add: days_of_civil_of_days)
  have "t div 1000 div 86400 * 86400 + h * 3600 + mi * 60 + s = t div 1000"
    using seconds_of_day [of ?w] div_mult_mod_eq [of "t div 1000" 86400] unfolding e by linarith
  then show ?thesis
    using r y by (simp add: stamp_date_def p parse_pad days)
qed



section \<open>Only failed recordings are deleted\<close>

lemma scan_files_sound:
  assumes "scan_files me dir files = Inr infos" "r \<in> set infos"
  shows "wf_name r \<in> set files \<and> wf_path r = path_join [dir, wf_name r] \<and> me_size me (wf_path r) = Inr (wf_size r) \<and>
    parseWavFilename (me_local me) (wf_name r) = Some (wf_satellite r, wf_timestamp r)"
  using assms
proof (induction me dir files arbitrary: infos rule: scan_files.induct)
  case (2 me dir f fs)
  then show ?case by (fastforce simp: Let_def split: sum.splits option.splits prod.splits)
qed simp

lemma scanRecordings_sound:
  assumes "r \<in> set (scanRecordings me dir)"
  shows "\<exists>files. me_readdir me dir = Inr files \<and> wf_name r \<in> set files \<and> wf_path r = path_join [dir, wf_name r] \<and>
    me_size me (wf_path r) = Inr (wf_size r) \<and>
    parseWavFilename (me_local me) (wf_name r) = Some (wf_satellite r, wf_timestamp r)"
proof (cases "me_readdir me dir")
  case (Inr files)
  then obtain infos where "scan_files me dir (filter (\<lambda>f. js_endsWith f ''.wav'') files) = Inr infos" "r \<in> set infos"
    using assms by (cases "scan_files me dir (filter (\<lambda>f. js_endsWith f ''.wav'') files)") (auto simp: scanRecordings_def)
  from scan_files_sound [OF this] Inr show ?thesis by auto
qed (use assms in \<open>simp add: scanRecordings_def\<close>)


definition demo_maint :: maint_env where
  "demo_maint = \<lparr>me_readdir = \<lambda>dir. Inr [''ISS_2026-02-03T07-05-39.wav'', ''notes.txt''], me_size = \<lambda>p. Inr 44,
     me_unlink = \<lambda>p. True, me_local = \<lambda>t. t, me_sql = stable_sqlite, me_os = demo_os\<rparr>"

lemma demo_parse: "\<exists>ts. parseWavFilename local ''ISS_2026-02-03T07-05-39.wav'' = Some (''ISS'', ts)"
  by (simp add: parseWavFilename_def matches_def stamp_pattern_def is_digit_def NL_def Let_def)

lemma demo_wav: "js_endsWith ''ISS_2026-02-03T07-05-39.wav'' ''.wav''" "\<not> js_endsWith ''notes.txt'' ''.wav''"
  by code_simp+


section \<open>Decoding after the fact\<close>

lemma getRecent_same_rows:
  assumes "db_captures d' = db_captures d"
  obtains rows where "getRecentCaptures sql l ofs d = map (history_entry sql d) rows"
    "getRecentCaptures sql l ofs d' = map (history_entry sql d') rows"
    "set rows \<subseteq> set (sq_order sql (db_captures d))"
proof -
  let ?rows = "sql_limit l ofs (sq_order sql (db_captures d))"
  have "set ?rows \<subseteq> set (sq_order sql (db_captures d))"
    by (auto simp: sql_limit_def Let_def dest: in_set_takeD in_set_dropD)
  then show thesis using that [of ?rows] assms by (simp add: getRecentCaptures_def)
qed

lemma find_map_some: "find P (map f xs) = Some y \<Longrightarrow> \<exists>x \<in> set xs. y = f x \<and> find (\<lambda>x. P (f x)) xs = Some x"
  by (induction xs) (auto split: if_splits)

lemma find_map_of: "find (\<lambda>x. P (f x)) xs = Some x \<Longrightarrow> find P (map f xs) = Some (f x)"
  by (induction xs) (auto split: if_splits)

lemma capture_of_same_rows:
  assumes "capture_of sql d name = Some c" "db_captures d' = db_captures d" "sqlite_ok sql"
  shows "\<exists>row \<in> set (db_captures d). c = history_entry sql d row \<and> capture_of sql d' name = Some (history_entry sql d' row)"
proof -
  let ?P = "\<lambda>c. case che_recordingPath c of None \<Rightarrow> False | Some p \<Rightarrow> js_includes p name"
  obtain rows where rows: "getRecentCaptures sql 1000 0 d = map (history_entry sql d) rows"
    "getRecentCaptures sql 1000 0 d' = map (history_entry sql d') rows" "set rows \<subseteq> set (sq_order sql (db_captures d))"
    by (rule getRecent_same_rows [OF assms(2)])
  obtain row where row: "row \<in> set rows" "c = history_entry sql d row" "find (\<lambda>x. ?P (history_entry sql d x)) rows = Some row"
    using find_map_some [OF assms(1) [unfolded capture_of_def rows(1)]] by auto
  have "?P (history_entry sql d x) = ?P (history_entry sql d' x)" for x by (simp add: history_entry_def)
  then have "find (\<lambda>x. ?P (history_entry sql d' x)) rows = Some row" using row(3) by simp
  then have "capture_of sql d' name = Some (history_entry sql d' row)"
    unfolding capture_of_def rows(2) by (rule find_map_of)
  moreover have "set (sq_order sql (db_captures d)) = set (db_captures d)"
    using assms(3) by (metis mset_eq_setD sqlite_ok_def)
  ultimately show ?thesis using row(1,2) rows(3) by blast
qed

text \<open>C31: A recording whose capture has no images yet and which decodes gets them: afterwards the
  history shows exactly the decoded images under its capture, no capture was added or changed, and
  a second run finds nothing left to decode for it.\<close>

theorem retroactive_decoding_fills_images:
  assumes "sqlite_ok (me_sql me)" "capture_of (me_sql me) d (wf_name r) = Some c"
    and "\<forall>i \<in> set (db_images d). img_capture_id i \<noteq> che_id c"
    and "retro_decode (me_os me) r imagesDir now = Some (Inr (True, paths), t)" "paths \<noteq> []"
    and "\<forall>p \<in> set paths. p \<noteq> [] \<and> CHR '','' \<notin> set p"
  shows "\<exists>d' e. decode_all me imagesDir [r] d now = Some (Inr (), d', t) \<and> db_captures d' = db_captures d \<and>
    capture_of (me_sql me) d' (wf_name r) = Some e \<and> che_id e = che_id c \<and> che_passId e = che_passId c \<and>
    mset (che_imagePaths e) = mset paths \<and> findUndecodedRecordings (me_sql me) d' [r] = []"
proof -
  obtain x d' where s: "saveImages t (che_id c) paths d = (x, d')" by fastforce
  obtain row0 where row0: "row0 \<in> set (db_captures d)" "c = history_entry (me_sql me) d row0"
    using capture_of_same_rows [OF assms(2) refl assms(1)] by blast
  then have "che_id c \<in> cap_id ` set (db_captures d)" by (simp add: history_entry_def)
  from saveImages_appends [OF this s] obtain new where new: "x = Inr ()" "db_captures d' = db_captures d"
    "db_images d' = db_images d @ new" "map img_file_path new = paths" "\<forall>i \<in> set new. img_capture_id i = che_id c" by blast
  obtain row where row: "c = history_entry (me_sql me) d row"
    "capture_of (me_sql me) d' (wf_name r) = Some (history_entry (me_sql me) d' row)"
    using capture_of_same_rows [OF assms(2) new(2) assms(1)] by blast
  have id: "cap_id row = che_id c" using row(1) by (simp add: history_entry_def)
  have "filter (\<lambda>k. img_capture_id k = cap_id row) (db_images d') = new"
    using new(3,5) assms(3) by (simp add: id filter_id_conv)
  then have m: "mset (che_imagePaths (history_entry (me_sql me) d' row)) = mset paths"
    using history_images [OF assms(1), of row d' paths] new(4) assms(6) by simp
  then have "che_imagePaths (history_entry (me_sql me) d' row) \<noteq> []" using assms(5) by auto
  then have "findUndecodedRecordings (me_sql me) d' [r] = []" by (simp add: findUndecodedRecordings_def row(2))
  moreover have "decode_all me imagesDir [r] d now = Some (Inr (), d', t)"
    using assms(2,4,5) s new(1) by (simp add: addImagesToDatabase_def)
  moreover have "che_id (history_entry (me_sql me) d' row) = che_id c" "che_passId (history_entry (me_sql me) d' row) = che_passId c"
    unfolding row(1) by (simp_all add: history_entry_def)
  ultimately show ?thesis using row(2) m new(2) by blast
qed

definition demo_capture :: "date \<Rightarrow> db" where
  "demo_capture t = snd (saveCapture 0 ((demo_result t)\<lparr>cr_recordingPath := ''rec/ISS_1.wav''\<rparr>) (demo_pass t) empty_db)"

definition demo_wav_info :: WavFileInfo where
  "demo_wav_info = \<lparr>wf_path = ''rec/ISS_1.wav'', wf_name = ''ISS_1.wav'', wf_size = 2000000, wf_satellite = ''ISS'',
     wf_timestamp = None\<rparr>"

lemma demo_capture_of:
  "\<exists>c. capture_of stable_sqlite (demo_capture 500) ''ISS_1.wav'' = Some c \<and> che_id c = 1" "db_images (demo_capture 500) = []"
proof -
  have "sublist ''ISS_1.wav'' ''rec/ISS_1.wav''" by code_simp
  then show "\<exists>c. capture_of stable_sqlite (demo_capture 500) ''ISS_1.wav'' = Some c \<and> che_id c = 1"
    "db_images (demo_capture 500) = []"
    by (simp_all add: capture_of_def getRecentCaptures_def demo_capture_def saveCapture_def empty_db_def Let_def stable_sqlite_def
        sql_limit_def history_entry_def capture_row_of_def nonempty_or_null_def js_includes_def)
qed

lemma demo_retro_decode:
  "\<exists>t. retro_decode demo_os demo_wav_info ''img'' 0 = Some (Inr (True, [''img/ISS_1-sstv.png'']), t)"
proof -
  have "js_startsWith ''ISS'' ''METEOR'' = False" "js_basename ''rec/ISS_1.wav'' ''.wav'' = ''ISS_1''"
    "path_join [''img'', ''ISS_1-sstv.png''] = ''img/ISS_1-sstv.png''" by code_simp+
  then show ?thesis
    by (simp add: retro_decode_def demo_wav_info_def getDecoder_registered sstvDecoder_def decodeWithSstv_def async_bind_def
        async_catch_def async_return_def async_throw_def run_cmd_def demo_run file_exists_def ensure_dir_def Let_def)
qed

theorem retroactive_decoding_fills_images_witness:
  "\<exists>d' e t. decode_all (demo_maint\<lparr>me_os := demo_os\<rparr>) ''img'' [demo_wav_info] (demo_capture 500) 0 = Some (Inr (), d', t) \<and>
     capture_of stable_sqlite d' ''ISS_1.wav'' = Some e \<and> che_id e = 1 \<and> mset (che_imagePaths e) = {#''img/ISS_1-sstv.png''#}"
proof -
  let ?me = "demo_maint\<lparr>me_os := demo_os\<rparr>"
  obtain c where c: "capture_of stable_sqlite (demo_capture 500) ''ISS_1.wav'' = Some c" "che_id c = 1" using demo_capture_of(1) by blast
  obtain t where t: "retro_decode demo_os demo_wav_info ''img'' 0 = Some (Inr (True, [''img/ISS_1-sstv.png'']), t)"
    using demo_retro_decode by blast
  have me: "me_sql ?me = stable_sqlite" "me_os ?me = demo_os" "wf_name demo_wav_info = ''ISS_1.wav''"
    by (simp_all add: demo_maint_def demo_wav_info_def)
  have "\<exists>d' e. decode_all ?me ''img'' [demo_wav_info] (demo_capture 500) 0 = Some (Inr (), d', t) \<and> db_captures d' = db_captures (demo_capture 500) \<and>
      capture_of (me_sql ?me) d' (wf_name demo_wav_info) = Some e \<and> che_id e = che_id c \<and> che_passId e = che_passId c \<and>
      mset (che_imagePaths e) = mset [''img/ISS_1-sstv.png''] \<and> findUndecodedRecordings (me_sql ?me) d' [demo_wav_info] = []"
    using c t stable_sqlite_ok by (intro retroactive_decoding_fills_images) (simp_all only: me, simp_all add: demo_capture_of(2))
  then show ?thesis using c(2) unfolding me by auto
qed

end
