(* ===== verification/Files.thy ===== *)
theory Files
  imports Shell
begin

text \<open>
  The file functions of \<open>src/backend/utils/fs.ts\<close> and \<open>node-compat.ts\<close>, over what they
  use of \<open>node:fs\<close>: a tree of directories and files without links, where a location is the list
  of the names from the root, and \<open>fs_denied\<close> the locations at which nothing may be created or
  written.  Errors are the codes of the system.  Other theories take single answers of these functions
  (whether a file is there, whether a directory can be made) as parameters.
\<close>

section \<open>Locations\<close>

datatype fs_entry = Directory | File string

record file_system =
  fs_cwd :: string
  fs_entries :: "(string list, fs_entry) jsmap"
  fs_denied :: "string list \<Rightarrow> bool"

definition location :: "file_system \<Rightarrow> string \<Rightarrow> string list" where
  "location fs p =
     normalize_segs True [] ((if js_startsWith p ''/'' then [] else js_split (CHR ''/'') (fs_cwd fs)) @ js_split (CHR ''/'') p)"

definition fs_at :: "file_system \<Rightarrow> string list \<Rightarrow> fs_entry option" where
  "fs_at fs l = (if l = [] then Some Directory else map_get (fs_entries fs) l)"

definition fs_put :: "string list \<Rightarrow> fs_entry \<Rightarrow> file_system \<Rightarrow> file_system" where
  "fs_put l x fs = fs\<lparr>fs_entries := map_set l x (fs_entries fs)\<rparr>"

section \<open>What is used of \<open>node:fs\<close>\<close>

fun make_dirs :: "string list list \<Rightarrow> file_system \<Rightarrow> unit throwing \<times> file_system" where
  "make_dirs [] fs = (Inr (), fs)"
| "make_dirs (l # ls) fs =
     (case fs_at fs l of
        Some Directory \<Rightarrow> make_dirs ls fs
      | Some (File _) \<Rightarrow> (Inl (if ls = [] then ''EEXIST'' else ''ENOTDIR''), fs)
      | None \<Rightarrow> if fs_denied fs l then (Inl ''EACCES'', fs) else make_dirs ls (fs_put l Directory fs))"

definition mkdir_recursive :: "string list \<Rightarrow> file_system \<Rightarrow> unit throwing \<times> file_system" where
  "mkdir_recursive l fs = make_dirs (map (\<lambda>n. take n l) [1..<length l + 1]) fs"

definition fs_read :: "string list \<Rightarrow> file_system \<Rightarrow> string throwing" where
  "fs_read l fs =
     (case fs_at fs l of None \<Rightarrow> Inl ''ENOENT'' | Some Directory \<Rightarrow> Inl ''EISDIR'' | Some (File content) \<Rightarrow> Inr content)"

definition fs_write :: "string list \<Rightarrow> string \<Rightarrow> file_system \<Rightarrow> unit throwing \<times> file_system" where
  "fs_write l content fs =
     (if fs_at fs l = Some Directory then (Inl ''EISDIR'', fs)
      else case fs_at fs (butlast l) of
             None \<Rightarrow> (Inl ''ENOENT'', fs)
           | Some (File _) \<Rightarrow> (Inl ''ENOTDIR'', fs)
           | Some Directory \<Rightarrow> if fs_denied fs l then (Inl ''EACCES'', fs) else (Inr (), fs_put l (File content) fs))"

section \<open>\<open>fs.ts\<close>\<close>

definition ensureDir :: "string \<Rightarrow> file_system \<Rightarrow> unit throwing \<times> file_system" where
  "ensureDir path fs = mkdir_recursive (location fs path) fs"

definition ensureParentDir :: "string \<Rightarrow> file_system \<Rightarrow> unit throwing \<times> file_system" where
  "ensureParentDir filePath fs = ensureDir (js_dirname filePath) fs"

definition fileExists :: "string \<Rightarrow> file_system \<Rightarrow> bool" where
  "fileExists path fs \<longleftrightarrow> fs_at fs (location fs path) \<noteq> None"

text \<open>A string is the list of its UTF-8 bytes.\<close>

definition readTextFile :: "string \<Rightarrow> file_system \<Rightarrow> string throwing" where
  "readTextFile path fs = fs_read (location fs path) fs"

definition writeTextFile :: "string \<Rightarrow> string \<Rightarrow> file_system \<Rightarrow> unit throwing \<times> file_system" where
  "writeTextFile path content fs =
     (case ensureParentDir path fs of
        (Inl err, fs) \<Rightarrow> (Inl err, fs)
      | (Inr _, fs) \<Rightarrow> fs_write (location fs path) content fs)"

section \<open>\<open>node-compat.ts\<close>\<close>

definition compat_readFileText :: "string \<Rightarrow> file_system \<Rightarrow> string throwing" where
  "compat_readFileText path fs = fs_read (location fs path) fs"

text \<open>A buffer is a view of a pool that other buffers may share.\<close>

record buffer =
  buf_pool :: string
  buf_byteOffset :: nat
  buf_byteLength :: nat

definition buf_bytes :: "buffer \<Rightarrow> string" where
  "buf_bytes b = take (buf_byteLength b) (drop (buf_byteOffset b) (buf_pool b))"

definition pool_slice :: "string \<Rightarrow> nat \<Rightarrow> nat \<Rightarrow> string" where
  "pool_slice pool a b = drop a (take b pool)"

definition compat_readFileBuffer :: "(string \<Rightarrow> buffer) \<Rightarrow> string \<Rightarrow> file_system \<Rightarrow> string throwing" where
  "compat_readFileBuffer alloc path fs =
     (case fs_read (location fs path) fs of
        Inl err \<Rightarrow> Inl err
      | Inr content \<Rightarrow>
          (let b = alloc content in Inr (pool_slice (buf_pool b) (buf_byteOffset b) (buf_byteOffset b + buf_byteLength b))))"

datatype file_data = ArrayBuffer string | Uint8Array buffer | StringData "string"

definition compat_writeFile :: "string \<Rightarrow> file_data \<Rightarrow> file_system \<Rightarrow> unit throwing \<times> file_system" where
  "compat_writeFile path data fs =
     fs_write (location fs path) (case data of ArrayBuffer bs \<Rightarrow> bs | Uint8Array b \<Rightarrow> buf_bytes b | StringData s \<Rightarrow> s) fs"

definition compat_fileExists :: "string \<Rightarrow> file_system \<Rightarrow> bool" where
  "compat_fileExists path fs \<longleftrightarrow> fs_at fs (location fs path) \<noteq> None"

definition getDirname :: "(string \<Rightarrow> string) \<Rightarrow> string \<Rightarrow> string" where
  "getDirname fileURLToPath importMetaUrl = js_dirname (fileURLToPath importMetaUrl)"

section \<open>What is written is read back\<close>

lemma fs_put_simps [simp]:
  "fs_cwd (fs_put l x fs) = fs_cwd fs" "fs_denied (fs_put l x fs) = fs_denied fs" "location (fs_put l x fs) p = location fs p"
  by (simp_all add: fs_put_def location_def)

lemma fs_at_put: "fs_at (fs_put l x fs) k = (if k = [] then Some Directory else if k = l then Some x else fs_at fs k)"
  by (simp add: fs_at_def fs_put_def map_get_set)

lemma fs_at_root [simp]: "fs_at fs [] = Some Directory"
  by (simp add: fs_at_def)

text \<open>Making directories moves nothing: what is there stays, and only directories are added.\<close>

lemma make_dirs_keeps:
  "make_dirs ls fs = (r, fs') \<Longrightarrow>
   fs_cwd fs' = fs_cwd fs \<and> fs_denied fs' = fs_denied fs \<and> (\<forall>k. fs_at fs' k = fs_at fs k \<or> k \<in> set ls \<and> fs_at fs k = None \<and> fs_at fs' k = Some Directory) \<and>
   (r = Inr () \<longrightarrow> (\<forall>l \<in> set ls. fs_at fs' l = Some Directory))"
proof (induction ls fs rule: make_dirs.induct)
  case (2 l ls fs)
  show ?case
  proof (cases "fs_at fs l")
    case None
    then have "l \<noteq> []" by auto
    have step: "fs_at (fs_put l Directory fs) k = (if k = l then Some Directory else fs_at fs k)" for k
      by (auto simp: fs_at_put)
    show ?thesis
    proof (cases "fs_denied fs l")
      case True
      then show ?thesis using 2 None by auto
    next
      case False
      then have "make_dirs ls (fs_put l Directory fs) = (r, fs')" using 2 None by simp
      from "2.IH"(1) [OF None False this] show ?thesis
        using None step by (auto split: if_splits)
    qed
  next
    case (Some x)
    then show ?thesis using 2 by (cases x) (auto, metis option.distinct(1) option.inject)
  qed
qed auto

lemma ensureDir_keeps:
  assumes "ensureDir path fs = (r, fs')"
  shows "fs_cwd fs' = fs_cwd fs" "fs_denied fs' = fs_denied fs" "location fs' p = location fs p"
    "fs_at fs' k = fs_at fs k \<or> length k \<le> length (location fs path) \<and> fs_at fs k = None \<and> fs_at fs' k = Some Directory"
    "r = Inr () \<Longrightarrow> fs_at fs' (location fs path) = Some Directory"
proof -
  let ?l = "location fs path"
  note k = make_dirs_keeps [OF assms [unfolded ensureDir_def mkdir_recursive_def]]
  show "fs_cwd fs' = fs_cwd fs" "fs_denied fs' = fs_denied fs" "location fs' p = location fs p"
    "fs_at fs' k = fs_at fs k \<or> length k \<le> length ?l \<and> fs_at fs k = None \<and> fs_at fs' k = Some Directory"
    using k by (auto simp: location_def)
  show "fs_at fs' ?l = Some Directory" if "r = Inr ()"
  proof (cases "?l = []")
    case False
    then have "?l \<in> set (map (\<lambda>n. take n ?l) [1..<length ?l + 1])" by (auto intro!: image_eqI [of _ _ "length ?l"] simp: Suc_le_eq)
    then show ?thesis using k that by blast
  qed simp
qed

lemma fs_write_reads:
  assumes "fs_write l content fs = (Inr (), fs')"
  shows "fs_read l fs' = Inr content" "k \<noteq> l \<Longrightarrow> fs_read k fs' = fs_read k fs" "location fs' p = location fs p"
proof -
  have l: "l \<noteq> []" "fs' = fs_put l (File content) fs"
    using assms by (auto simp: fs_write_def split: if_splits option.splits fs_entry.splits)
  then show "fs_read l fs' = Inr content" "k \<noteq> l \<Longrightarrow> fs_read k fs' = fs_read k fs" "location fs' p = location fs p"
    by (simp_all add: fs_read_def fs_at_put)
qed

text \<open>A name in a directory, as \<open>join\<close> makes it.\<close>

definition plain_name :: "string \<Rightarrow> bool" where
  "plain_name n \<longleftrightarrow> n \<notin> {[], ''.'', ''..''} \<and> CHR ''/'' \<notin> set n"

lemma dirname_of_child:
  assumes "plain_name n" "dir \<noteq> []" "last dir \<noteq> CHR ''/''"
  shows "js_dirname (dir @ CHR ''/'' # n) = dir"
proof -
  have n: "rev n \<noteq> []" "\<forall>c \<in> set (rev n). c \<noteq> CHR ''/''" using assms(1) by (auto simp: plain_name_def)
  have "dropWhile (\<lambda>c. c = CHR ''/'') (rev n @ CHR ''/'' # rev dir) = rev n @ CHR ''/'' # rev dir"
    using n by (cases "rev n") auto
  moreover have "dropWhile (\<lambda>c. c \<noteq> CHR ''/'') (rev n @ CHR ''/'' # rev dir) = CHR ''/'' # rev dir"
    using n(2) by (subst dropWhile_append2) auto
  moreover have "\<not> (hd dir = CHR ''/'' \<and> length dir = 1)" using assms(2,3) by (cases dir) auto
  ultimately show ?thesis using assms(2) by (auto simp: js_dirname_def Let_def)
qed

lemma normalize_child: "plain_name n \<Longrightarrow> normalize_segs b acc (xs @ [n]) = normalize_segs b acc xs @ [n]"
  by (induction b acc xs rule: normalize_segs.induct) (auto simp: plain_name_def split: list.splits)

lemma location_of_child:
  assumes "plain_name n" "dir \<noteq> []"
  shows "location fs (dir @ CHR ''/'' # n) = location fs dir @ [n]"
proof -
  have "js_split (CHR ''/'') n = [n]" using assms(1) by (simp add: plain_name_def js_split_no_sep)
  then have "js_split (CHR ''/'') (dir @ CHR ''/'' # n) = js_split (CHR ''/'') dir @ [n]"
    by (induction dir) (auto split: list.splits)
  moreover have "js_startsWith (dir @ CHR ''/'' # n) ''/'' = js_startsWith dir ''/''" using assms(2) by (cases dir) (simp_all add: js_startsWith_def)
  ultimately show ?thesis using normalize_child [OF assms(1)] by (simp add: location_def flip: append_assoc)
qed

text \<open>C38: A text file written under a directory is written whenever the directory can be made, nothing else
  has its name and writing is allowed, is read back with the same content by every function that reads
  files, and every other file is read as before.\<close>

theorem written_file_reads_back:
  assumes "plain_name n" "dir \<noteq> []" "last dir \<noteq> CHR ''/''" "path = dir @ CHR ''/'' # n"
    and "fst (ensureDir dir fs) = Inr ()" "fs_at fs (location fs path) \<noteq> Some Directory" "\<not> fs_denied fs (location fs path)"
    and "\<And>bs. buf_bytes (alloc bs) = bs"
  shows "\<exists>fs'. writeTextFile path content fs = (Inr (), fs') \<and> readTextFile path fs' = Inr content \<and>
    compat_readFileBuffer alloc path fs' = Inr content \<and> fileExists path fs' \<and>
    (\<forall>q. location fs q \<noteq> location fs path \<longrightarrow> (\<forall>c. readTextFile q fs = Inr c \<longrightarrow> readTextFile q fs' = Inr c))"
proof -
  obtain fs1 where d: "ensureDir dir fs = (Inr (), fs1)" using assms(5) by (metis prod.collapse)
  note k = ensureDir_keeps [OF d]
  let ?l = "location fs path"
  have l: "?l = location fs dir @ [n]" using location_of_child [OF assms(1,2)] assms(4) by simp
  have free: "fs_at fs1 ?l \<noteq> Some Directory" "\<not> fs_denied fs1 ?l" "location fs1 q = location fs q" for q
    using k(2) k(3) [of q] k(4) [of ?l] assms(6,7) l by auto
  have "fs_at fs1 (butlast ?l) = Some Directory" using k(5) l by simp
  then obtain fs' where w: "fs_write ?l content fs1 = (Inr (), fs')" using free(1,2) by (simp add: fs_write_def)
  note rd = fs_write_reads [OF w]
  have read: "readTextFile q fs' = fs_read (location fs q) fs'" for q using rd(3) [of q] free(3) by (simp add: readTextFile_def)
  have "writeTextFile path content fs = (Inr (), fs')"
    using d w free(3) dirname_of_child [OF assms(1-3)] assms(4) by (simp add: writeTextFile_def ensureParentDir_def)
  moreover have "compat_readFileBuffer alloc path fs' = Inr content"
    using read [of path] rd(1) assms(8) [of content]
    by (simp add: compat_readFileBuffer_def readTextFile_def pool_slice_def buf_bytes_def Let_def take_drop add.commute)
  moreover have "fileExists path fs'"
    using read [of path] rd(1) by (auto simp: fileExists_def readTextFile_def fs_read_def split: option.splits)
  moreover have "readTextFile q fs' = Inr c" if "location fs q \<noteq> ?l" "readTextFile q fs = Inr c" for q c
  proof -
    have "fs_at fs (location fs q) = Some (File c)"
      using that(2) by (auto simp: readTextFile_def fs_read_def split: option.splits fs_entry.splits)
    then have "fs_read (location fs q) fs1 = Inr c" using k(4) [of "location fs q"] by (auto simp: fs_read_def)
    then show ?thesis using read [of q] rd(2) [OF that(1)] by simp
  qed
  ultimately show ?thesis using read [of path] rd(1) by (intro exI [of _ fs']) simp
qed

definition demo_fs :: file_system where
  "demo_fs = \<lparr>fs_cwd = ''/app'', fs_entries = [([''app''], Directory)], fs_denied = \<lambda>l. False\<rparr>"

theorem written_file_reads_back_witness:
  "\<exists>fs'. writeTextFile ''data/cache.json'' ''[]'' demo_fs = (Inr (), fs') \<and> readTextFile ''data/cache.json'' fs' = Inr ''[]''"
proof -
  have "fst (ensureDir ''data'' demo_fs) = Inr ()" "fs_at demo_fs (location demo_fs ''data/cache.json'') \<noteq> Some Directory"
    by code_simp+
  then show ?thesis
    using written_file_reads_back [of "''cache.json''" "''data''" "''data/cache.json''" demo_fs
        "\<lambda>bs. \<lparr>buf_pool = ''pool'' @ bs, buf_byteOffset = 4, buf_byteLength = length bs\<rparr>" "''[]''"]
    by (auto simp: plain_name_def buf_bytes_def demo_fs_def)
qed

text \<open>A directory counts as existing as well: what \<open>fileExists\<close> finds need not be readable.\<close>

lemma directory_exists: "fileExists path (snd (ensureDir path fs)) \<or> fst (ensureDir path fs) \<noteq> Inr ()"
  using ensureDir_keeps(3,5) [OF prod.collapse [symmetric], of path fs] by (auto simp: fileExists_def)

end
