(* ===== verification/Entry_Points.thy ===== *)
theory Entry_Points
  imports Command_Line Maintenance Files
begin

text \<open>
  The programs besides the commands of \<open>cli/main.ts\<close>: the single session of
  \<open>src/backend/index.ts\<close>, the prediction of \<open>src/backend/cli/predict.ts\<close>, the arguments of the
  maintenance script, the shutdown of the daemon, and \<open>scripts/generate-version.ts\<close>, which writes the
  version the dashboard shows.
\<close>

section \<open>One session\<close>

definition SESSION_COMMANDS :: "string list" where
  "SESSION_COMMANDS = [''rtl_fm'', ''rtl_power'', ''sox'', ''satdump'']"

datatype session = Session_failed string | Session_missing "string list" | Session_empty | Session_complete "CaptureResult list"

definition index_main ::
  "zod \<Rightarrow> process_env \<Rightarrow> env \<Rightarrow> ('satrec, 'eci, 'ecf) satellite_js \<Rightarrow> (date \<Rightarrow> network) \<Rightarrow> station \<Rightarrow> tle_files
     \<Rightarrow> (session \<times> station \<times> tle_files) option"
where
  "index_main z vars e lib fetch w files =
     (case loadConfig z vars of
        Inl err \<Rightarrow> Some (Session_failed err, w, files)
      | Inr config \<Rightarrow>
          (let sys = env_os e; sats = filter sat_enabled SATELLITES
           in if \<not> os_mkdir sys (w_now w) (rc_recordingsDir config) then Some (Session_failed ''mkdir'', w, files)
              else if \<not> os_mkdir sys (w_now w) (rc_imagesDir config) then Some (Session_failed ''mkdir'', w, files)
              else case checkDependencies sys (w_now w) SESSION_COMMANDS of
                     None \<Rightarrow> None
                   | Some (deps, t) \<Rightarrow>
                       (let w = w\<lparr>w_now := t\<rparr>; missing = missing_commands deps
                        in if length missing > 0 then Some (Session_missing missing, w, files)
                           else case getTles (fetch (w_now w)) (w_now w) sats (rc_tle_updateIntervalHours config) files of
                                  (Inl err, files) \<Rightarrow> Some (Session_failed err, w, files)
                                | (Inr tles, files) \<Rightarrow>
                                    (case predictPasses lib sats tles (rc_station config) (w_now w) 24 (rc_minElevation config) of
                                       None \<Rightarrow> None
                                     | Some allPasses \<Rightarrow>
                                         if allPasses = [] then Some (Session_empty, w, files)
                                         else case runScheduler e (filterHighQualityPasses allPasses (rc_minElevation config)) config w of
                                                None \<Rightarrow> None
                                              | Some (results, w) \<Rightarrow> Some (Session_complete results, w, files)))))"

definition session_exit :: "session \<Rightarrow> nat" where
  "session_exit s = (case s of Session_failed err \<Rightarrow> 1 | Session_missing cmds \<Rightarrow> 1 | _ \<Rightarrow> 0)"

definition session_summary :: "CaptureResult list \<Rightarrow> string" where
  "session_summary results =
     (let successful = length (filter cr_success results)
      in ''Session complete: '' @ show_nat successful @ ''/'' @ show_nat (length results) @ '' captures successful'')"

section \<open>Prediction\<close>

text \<open>The satellite, the calendar and the clipboard of the headings are given by their bytes.\<close>

definition predict_main ::
  "zod \<Rightarrow> process_env \<Rightarrow> (string \<Rightarrow> number option) \<Rightarrow> network \<Rightarrow> ('satrec, 'eci, 'ecf) satellite_js \<Rightarrow> date \<Rightarrow> string list
     \<Rightarrow> tle_files \<Rightarrow> (predicted \<times> tle_files) option"
where
  "predict_main z vars js_number fetch lib now argv files =
     (case loadConfig z vars of
        Inl err \<Rightarrow> Some (Predict_failed err, files)
      | Inr config \<Rightarrow>
          (let hoursAhead = (case elem_at argv 2 of None \<Rightarrow> 24 | Some a \<Rightarrow> or_num (js_number a) 24); sats = filter sat_enabled SATELLITES
           in case getTles fetch now sats (rc_tle_updateIntervalHours config) files of
                (Inl err, files) \<Rightarrow> Some (Predict_failed err, files)
              | (Inr tles, files) \<Rightarrow>
                  (case predictPasses lib sats tles (rc_station config) now hoursAhead (rc_minElevation config) of
                     None \<Rightarrow> None
                   | Some passes \<Rightarrow> Some (if passes = [] then No_passes else Predicted hoursAhead passes, files))))"

definition predict_main_output ::
  "(number \<Rightarrow> string) \<Rightarrow> (string \<Rightarrow> string \<Rightarrow> string) \<Rightarrow> (date \<Rightarrow> string) \<Rightarrow> (date \<Rightarrow> string) \<Rightarrow> date \<Rightarrow> predicted \<Rightarrow> string list" where
  "predict_main_output str paint date_time time now r =
     (case r of
        Predicted hoursAhead passes \<Rightarrow>
          [paint ''bold'' (NL # [CHR 0xF0, CHR 0x9F, CHR 0x93, CHR 0x85] @ '' Passes in next '' @ str hoursAhead @ '' hours:'' @ [NL]),
           formatPassesTable date_time now passes,
           paint ''bold'' (NL # [CHR 0xF0, CHR 0x9F, CHR 0x93, CHR 0x8B] @ '' Details:'' @ [NL])] @
          map (\<lambda>pass. ''  '' @ formatPass date_time time pass) passes @
          [NL # paint ''gray'' (''Total: '' @ show_nat (length passes) @ '' passes'') @ [NL]]
      | _ \<Rightarrow> [])"

section \<open>Help\<close>

definition HELP_COMMANDS :: "(string \<times> string) list" where
  "HELP_COMMANDS =
     [(''run'', ''       Start the capture daemon with web dashboard (default)''), (''predict'', ''   Show upcoming satellite passes''),
      (''status'', ''    Query current system status''), (''serve'', ''     Start web server only (no capture)''),
      (''help'', ''      Show this help message'')]"

definition HELP_TEXT :: "(string \<Rightarrow> string \<Rightarrow> string) \<Rightarrow> string" where
  "HELP_TEXT paint =
     js_join [NL]
       ([[], paint ''bold.cyan'' ''NOAA Satellite Capture System'', [], paint ''bold'' ''Usage:'',
         ''  bun run src/cli/main.ts <command> [options]'', [], paint ''bold'' ''Commands:''] @
        map (\<lambda>(c, text). ''  '' @ paint ''green'' c @ text) HELP_COMMANDS @
        [[], paint ''bold'' ''Examples:'',
         ''  bun start                    Start capture daemon'',
         ''  bun run predict              Show passes for next 24 hours'',
         ''  bun run predict 48           Show passes for next 48 hours'',
         ''  bun run serve                Start web dashboard only'',
         ''  bun run status               Check system status'', [], paint ''bold'' ''Environment:'',
         ''  Configure via .env file (see .env.example)'', []])"

section \<open>Maintenance\<close>

datatype maintenance_call = Maintenance_usage | Maintenance_run bool bool

definition maintenance_main :: "string list \<Rightarrow> maintenance_call" where
  "maintenance_main args =
     (let shouldDecode = (''--decode'' \<in> set args \<or> ''--all'' \<in> set args);
          shouldCleanup = (''--cleanup'' \<in> set args \<or> ''--all'' \<in> set args)
      in if \<not> shouldDecode \<and> \<not> shouldCleanup then Maintenance_usage else Maintenance_run shouldDecode shouldCleanup)"

text \<open>\<open>None\<close> for one that never ends.\<close>

definition maintenance_exit :: "maint_env \<Rightarrow> zod \<Rightarrow> process_env \<Rightarrow> bool \<Rightarrow> db_module \<Rightarrow> date \<Rightarrow> maintenance_call \<Rightarrow> nat option" where
  "maintenance_exit me z vars ready m now c =
     (case c of
        Maintenance_usage \<Rightarrow> Some 1
      | Maintenance_run decode cleanup \<Rightarrow>
          (case runMaintenance me z vars decode cleanup ready m now of
             None \<Rightarrow> None
           | Some (Inl err, x) \<Rightarrow> Some 1
           | Some (Inr deleted, x) \<Rightarrow> Some 0))"

section \<open>Shutdown of the daemon\<close>

definition run_shutdown :: "db_module \<Rightarrow> globe_service \<Rightarrow> db_module \<times> globe_service" where
  "run_shutdown d g = (let g = stopGlobeService g in (closeDatabase d, g))"

section \<open>The logger\<close>

text \<open>The instance of the package \<open>pino\<close> the module holds: its level, its bindings and its transport.\<close>

record pino_logger =
  pn_level :: string
  pn_bindings :: "(string \<times> string) list"
  pn_target :: string
  pn_options :: "(string \<times> string) list"

definition createLogger :: "string \<Rightarrow> pino_logger" where
  "createLogger level = \<lparr>pn_level = level, pn_bindings = [], pn_target = ''pino-pretty'',
     pn_options = [(''colorize'', ''true''), (''translateTime'', ''HH:MM:ss''), (''ignore'', ''pid,hostname'')]\<rparr>"

text \<open>A new instance takes the place of the old one; a child belongs to the instance it was made from.\<close>

definition logger_setLevel :: "LogLevel \<Rightarrow> pino_logger \<Rightarrow> pino_logger" where
  "logger_setLevel level p = createLogger (pinoLevelMap level)"

definition logger_child :: "(string \<times> string) list \<Rightarrow> pino_logger \<Rightarrow> pino_logger" where
  "logger_child bindings p = p\<lparr>pn_bindings := pn_bindings p @ bindings\<rparr>"

text \<open>The levels of the package, in their order; a message below the level of its logger is not written.\<close>

definition pino_levels :: "string list" where
  "pino_levels = [''trace'', ''debug'', ''info'', ''warn'', ''error'', ''fatal'']"

definition logged :: "pino_logger \<Rightarrow> log_call \<Rightarrow> bool" where
  "logged p c \<longleftrightarrow> pinoLevelMap (fst (pino_call c)) \<in> set (dropWhile (\<lambda>l. l \<noteq> pn_level p) pino_levels)"

section \<open>Files of the dashboard\<close>

text \<open>\<open>exists\<close> is \<open>fileExists\<close> of the compatibility layer.\<close>

definition getStaticDir :: "(string \<Rightarrow> bool) \<Rightarrow> string \<Rightarrow> string" where
  "getStaticDir exists dir =
     (let reactDir = path_resolve dir ''static-react''; legacyDir = path_resolve dir ''static''
      in if exists (reactDir @ ''/index.html'') then reactDir else legacyDir)"

section \<open>Version\<close>

definition getGitCommit :: "process_env \<Rightarrow> string throwing \<Rightarrow> string" where
  "getGitCommit vars git_rev_parse =
     (case vars ''GIT_COMMIT'' of
        Some commit \<Rightarrow> if commit \<noteq> [] then commit else (case git_rev_parse of Inl err \<Rightarrow> ''unknown'' | Inr out \<Rightarrow> js_trim out)
      | None \<Rightarrow> (case git_rev_parse of Inl err \<Rightarrow> ''unknown'' | Inr out \<Rightarrow> js_trim out))"

definition build_version :: "date \<Rightarrow> string" where
  "build_version now =
     (let (year, month, day, h, mi, s, ms) = date_fields now in ''2.0.'' @ show_int year @ pad 2 month @ pad 2 day)"

text \<open>\<open>JSON.stringify\<close> of a string, by its bytes.\<close>

definition json_escape :: "char \<Rightarrow> string" where
  "json_escape c =
     (let n = of_char c :: nat; hex = (\<lambda>d. ''0123456789abcdef'' ! d)
      in if n = 34 \<or> n = 92 then [CHR 92, c]
         else if n = 8 then CHR 92 # ''b'' else if n = 9 then CHR 92 # ''t'' else if n = 10 then CHR 92 # ''n''
         else if n = 12 then CHR 92 # ''f'' else if n = 13 then CHR 92 # ''r''
         else if n < 32 then CHR 92 # ''u00'' @ [hex (n div 16), hex (n mod 16)]
         else [c])"

definition json_string :: "string \<Rightarrow> string" where
  "json_string s = [CHR 34] @ concat (map json_escape s) @ [CHR 34]"

definition version_json :: "VersionInfo \<Rightarrow> string" where
  "version_json v =
     ''{'' @ json_string ''version'' @ '':'' @ json_string (vi_version v) @ '','' @ json_string ''commit'' @ '':'' @
     json_string (vi_commit v) @
     (case vi_buildTime v of None \<Rightarrow> [] | Some t \<Rightarrow> '','' @ json_string ''buildTime'' @ '':'' @ json_string t) @ ''}''"

text \<open>The clock is read twice: for the version and for the build time.\<close>

definition version_main ::
  "(string \<Rightarrow> string) \<Rightarrow> string \<Rightarrow> process_env \<Rightarrow> string throwing \<Rightarrow> date \<Rightarrow> date \<Rightarrow> file_system
     \<Rightarrow> VersionInfo \<times> unit throwing \<times> file_system"
where
  "version_main fileURLToPath url vars git_rev_parse now later fs =
     (let info = \<lparr>vi_version = build_version now, vi_commit = getGitCommit vars git_rev_parse,
                  vi_buildTime = Some (js_toISOString later)\<rparr>;
          outputPath = path_join [getDirname fileURLToPath url, ''..'', ''version.json'']
      in (info, fs_write (location fs outputPath) (version_json info @ [NL]) fs))"

section \<open>A session keeps nothing in the database\<close>

lemma saveResult_closed: "dm_instance (w_db w) = None \<Longrightarrow> saveResultToDatabase r p w = w"
  by (simp add: saveResultToDatabase_def)

lemma capturePass_unsaved:
  assumes "os_settles (env_os e)" "dm_instance (w_db w) = None" "capturePass e pass config w = Some (r, w')"
  shows "w_db w' = w_db w"
proof -
  obtain v where v: "captured pass v r w'" "v = (st_call (StartPass pass) (release_device e w))\<lparr>w_now := w_now v\<rparr>"
    using capturePass_captured [OF assms(1), of pass config w] assms(3) by auto
  have "w_db v = w_db w" by (subst v(2)) simp
  then show ?thesis using v(1) assms(2) by (auto simp: captured_def saveResult_closed)
qed

lemma runScheduler_unsaved:
  "os_settles (env_os e) \<Longrightarrow> dm_instance (w_db w) = None \<Longrightarrow> runScheduler e passes config w = Some (rs, w') \<Longrightarrow> w_db w' = w_db w"
proof (induction e passes config w arbitrary: rs rule: runScheduler.induct)
  case (2 e pass passes config w)
  obtain scan w1 where wp: "waitForPass e pass w = (scan, w1)" by fastforce
  show ?case
    using 2 wp waitForPass_keeps(4) [OF wp] capturePass_unsaved [OF "2.prems"(1), of w1 pass config]
    by (auto split: if_splits option.splits prod.splits)
qed simp

lemma check_commands_returns: "os_settles sys \<Longrightarrow> \<exists>m' t. check_commands sys now cmds m = Some (m', t)"
proof (induction sys now cmds m rule: check_commands.induct)
  case (2 sys now cmd cmds results)
  have "commandExists sys now cmd \<noteq> None"
    using runCommand_settles [OF "2.prems", of now "''which''" "[lit cmd]"]
    by (auto simp: commandExists_def split: option.splits sum.splits)
  then show ?case using 2 by fastforce
qed simp

lemma checkDependencies_returns:
  assumes "os_settles sys"
  obtains deps t where "checkDependencies sys now cmds = Some (deps, t)"
  using check_commands_returns [OF assms, of now cmds "[]"] by (auto simp: checkDependencies_def)

lemma recordings_ok_empty: "w_recordings w = [] \<Longrightarrow> recordings_ok w"
  by (simp add: recordings_ok_def)

text \<open>The capture list of a session that reached the scheduler.\<close>

lemma session_schedule:
  assumes "os_settles (env_os e)" "dm_instance (w_db w) = None" "w_recordings w = []"
  obtains rs w' where "runScheduler e passes config w = Some (rs, w')" "w_db w' = w_db w"
    "cr_satellite ` set rs \<subseteq> pass_satellite ` set passes"
proof -
  obtain rs w' taken where s: "runScheduler e passes config w = Some (rs, w')" "subseq taken passes"
    "map cr_satellite rs = map pass_satellite taken"
    using runScheduler_spec [OF assms(1) recordings_ok_empty [OF assms(3)]] by blast
  have "set taken \<subseteq> set passes" using list_emb_set [OF s(2)] by blast
  then have "cr_satellite ` set rs \<subseteq> pass_satellite ` set passes"
    using arg_cong [OF s(3), of set] by auto
  then show ?thesis using that s(1) runScheduler_unsaved [OF assms(1,2) s(1)] by blast
qed

text \<open>C37: A session of \<open>src/backend/index.ts\<close> ends when every process does, whatever the
  configuration, the network and the passes: it exits with 0 exactly when it found no pass or worked
  through them.  It never opens the database, so that every result it reports, with its pictures, is
  lost with the process: the database is what it was before the session.\<close>

theorem session_saves_nothing:
  assumes "os_settles (env_os e)" "dm_instance (w_db w) = None" "w_recordings w = []"
  shows "\<exists>s w' files'. index_main z vars e lib fetch w files = Some (s, w', files') \<and> w_db w' = w_db w \<and>
    (session_exit s = 0 \<longleftrightarrow> s = Session_empty \<or> (\<exists>results. s = Session_complete results))"
proof (cases "loadConfig z vars")
  case (Inr config)
  obtain deps t where d: "checkDependencies (env_os e) (w_now w) SESSION_COMMANDS = Some (deps, t)"
    by (rule checkDependencies_returns [OF assms(1)])
  let ?w = "w\<lparr>w_now := t\<rparr>" and ?sats = "filter sat_enabled SATELLITES"
  obtain tl fs where g: "getTles (fetch t) t ?sats (rc_tle_updateIntervalHours config) files = (tl, fs)" by fastforce
  have "\<exists>s w' files'. index_main z vars e lib fetch w files = Some (s, w', files') \<and> w_db w' = w_db w"
  proof (cases tl)
    case tles: (Inr tles)
    obtain ps where ps: "predictPasses lib ?sats tles (rc_station config) t 24 (rc_minElevation config) = Some ps"
      using predictPasses_returns by blast
    obtain rs w' where "runScheduler e (filterHighQualityPasses ps (rc_minElevation config)) config ?w = Some (rs, w')" "w_db w' = w_db ?w"
      by (rule session_schedule [of e ?w]) (use assms in auto)
    then show ?thesis using Inr d g tles ps by (simp add: index_main_def Let_def)
  qed (use Inr d g in \<open>simp add: index_main_def Let_def\<close>)
  then show ?thesis by (auto simp: session_exit_def split: session.splits)
qed (simp add: index_main_def session_exit_def)

theorem session_saves_nothing_witness:
  "\<exists>s w' files'. index_main demo_zod demo_process_env demo_env demo_lib (\<lambda>_ _. None) (demo_station_at 0)
     \<lparr>tf_cache = None, tf_weather = None, tf_cache_writable = True, tf_weather_writable = True\<rparr> = Some (s, w', files') \<and>
     w_db w' = w_db (demo_station_at 0)"
  using session_saves_nothing [of demo_env "demo_station_at 0" demo_zod demo_process_env demo_lib "\<lambda>_ _. None"
      "\<lparr>tf_cache = None, tf_weather = None, tf_cache_writable = True, tf_weather_writable = True\<rparr>"] demo_env_settles
  by (auto simp: demo_station_at_def)

section \<open>The other programs\<close>

text \<open>The two prediction programs compute the same.\<close>

lemma predict_main_is_command:
  "predict_main z vars js_number fetch lib now argv files = predictCommand z vars js_number fetch lib now (drop 2 argv) files"
proof -
  have "(case elem_at argv 2 of None \<Rightarrow> 24 | Some a \<Rightarrow> or_num (js_number a) 24) = predict_hours js_number (drop 2 argv)"
    by (cases argv; cases "tl argv"; cases "tl (tl argv)") (auto simp: predict_hours_def elem_at_def)
  then show ?thesis unfolding predict_main_def predictCommand_def by (rule ssubst) (rule refl)
qed

lemma help_lists_commands: "c \<in> fst ` set HELP_COMMANDS \<Longrightarrow> cli_main (c # args) \<noteq> Cli_unknown c'"
  by (auto simp: HELP_COMMANDS_def cli_main_def)

lemma maintenance_all: "''--all'' \<in> set args \<Longrightarrow> maintenance_main args = Maintenance_run True True"
  by (simp add: maintenance_main_def)

lemma maintenance_usage_iff:
  "maintenance_main args = Maintenance_usage \<longleftrightarrow> set args \<inter> {''--decode'', ''--cleanup'', ''--all''} = {}"
  by (auto simp: maintenance_main_def Let_def)

lemma run_shutdown_closes: "dm_instance (fst (run_shutdown d g)) = None" "\<not> gv_positionInterval (snd (run_shutdown d g))"
  using serve_shutdown_closes [of d g] by (simp_all add: run_shutdown_def serve_shutdown_def Let_def)

text \<open>Errors are written at every level, and a child made before the level was set keeps the level it had.\<close>

lemma errors_logged: "logged (logger_setLevel l p) (Log_error_call m args)" "logged (createLogger ''info'') (Log_error_call m args)"
  by (cases l) (simp_all add: logged_def logger_setLevel_def createLogger_def pinoLevelMap_def pino_call_def pino_levels_def Let_def)

lemma debug_logged: "logged (logger_setLevel l p) (Log_debug_call m args) \<longleftrightarrow> l = Debug"
  by (cases l) (simp_all add: logged_def logger_setLevel_def createLogger_def pinoLevelMap_def pino_call_def pino_levels_def Let_def)

lemma child_keeps_level: "logged (logger_child bs p) c = logged p c"
  by (simp add: logged_def logger_child_def)

section \<open>A version for every day\<close>

lemma same_length_suffix: "a @ b = c @ d \<Longrightarrow> length b = length d \<Longrightarrow> a = c \<and> b = d"
  by (simp add: append_eq_append_conv)

text \<open>Two builds have the same version exactly when they were made on the same day, in UTC.\<close>

lemma build_version_day: "build_version t = build_version t' \<longleftrightarrow> t div day_ms = t' div day_ms"
proof
  assume eq: "build_version t = build_version t'"
  let ?c = "civil_of_days (t div day_ms)" and ?c' = "civil_of_days (t' div day_ms)"
  note r = civil_ranges [of "t div day_ms"] civil_ranges [of "t' div day_ms"]
  have l: "length (pad 2 n) = 2" if "1 \<le> n" "n \<le> 31" for n
    using that by (intro pad_length) auto
  have "show_int (cv_year ?c) @ pad 2 (cv_month ?c) @ pad 2 (cv_day ?c) = show_int (cv_year ?c') @ pad 2 (cv_month ?c') @ pad 2 (cv_day ?c')"
    using eq by (simp add: build_version_def date_fields_def Let_def)
  then have "show_int (cv_year ?c) = show_int (cv_year ?c') \<and> pad 2 (cv_month ?c) @ pad 2 (cv_day ?c) = pad 2 (cv_month ?c') @ pad 2 (cv_day ?c')"
    using r l by (intro same_length_suffix) auto
  moreover from this have "pad 2 (cv_month ?c) = pad 2 (cv_month ?c') \<and> pad 2 (cv_day ?c) = pad 2 (cv_day ?c')"
    using r l by (intro same_length_suffix) auto
  ultimately have "cv_year ?c = cv_year ?c'" "cv_month ?c = cv_month ?c'" "cv_day ?c = cv_day ?c'"
    using r by (simp_all add: show_int_inj pad_eq_iff)
  then have "?c = ?c'" by simp
  then show "t div day_ms = t' div day_ms" by (metis days_of_civil_of_days)
qed (simp add: build_version_def date_fields_def Let_def)

lemma version_commit_given:
  "vars ''GIT_COMMIT'' = Some c \<Longrightarrow> c \<noteq> [] \<Longrightarrow> vi_commit (fst (version_main conv url vars git now later fs)) = c"
  by (simp add: version_main_def getGitCommit_def Let_def)

text \<open>A string in the file ends at its first bare quotation mark, and only there.\<close>

fun json_end :: "string \<Rightarrow> string" where
  "json_end [] = []"
| "json_end (c # s) = (if c = CHR 34 then s else if c = CHR 92 then json_end (tl s) else json_end s)"

lemma json_end_escape: "json_end (json_escape c @ s) = json_end s"
proof -
  have h: "''0123456789abcdef'' ! d \<notin> {CHR 34, CHR 92}" if "d < 16" for d
  proof -
    have "list_all (\<lambda>c. c \<notin> {CHR 34, CHR 92}) ''0123456789abcdef''" by simp
    then show ?thesis using that by (auto simp: list_all_length)
  qed
  have "(of_char c :: nat) \<noteq> 34 \<Longrightarrow> c \<noteq> CHR 34" "(of_char c :: nat) \<noteq> 92 \<Longrightarrow> c \<noteq> CHR 92" by auto
  then show ?thesis
    using h [of "of_char c div 16"] h [of "of_char c mod 16"] by (auto simp: json_escape_def Let_def)
qed

lemma json_string_ends: "json_end (tl (json_string s) @ rest) = rest"
proof -
  have "json_end (concat (map json_escape s) @ CHR 34 # rest) = rest" by (induction s) (simp_all add: json_end_escape)
  then show ?thesis by (simp add: json_string_def)
qed

end
