(* ===== verification/Canvas_Views.thy ===== *)
theory Canvas_Views
  imports Dashboard Formats
begin

text \<open>
  What the dashboard draws: \<open>WaterfallView.tsx\<close>, the sky view and the spectrum of
  \<open>SatelliteTracking.tsx\<close> and the icon of \<open>useFavicon.ts\<close>.  A drawing is the list of
  the calls on the canvas, in order.
\<close>

section \<open>Canvas\<close>

datatype canvas_op =
    FillStyle string | StrokeStyle string | LineWidth number | Font string | TextAlign string
  | FillRect number number number number | ClearRect number number number number | FillText string number number
  | BeginPath | MoveTo number number | LineTo number number | Arc number number number | ClosePath
  | Stroke | Fill | SetLineDash "number list" | FillGradient number number "(number \<times> string) list"
  | Shadow number string

definition stroke_line :: "number \<Rightarrow> number \<Rightarrow> number \<Rightarrow> number \<Rightarrow> canvas_op list" where
  "stroke_line x1 y1 x2 y2 = [BeginPath, MoveTo x1 y1, LineTo x2 y2, Stroke]"

section \<open>History of spectra\<close>

definition last_n :: "nat \<Rightarrow> 'a list \<Rightarrow> 'a list" where
  "last_n n xs = drop (length xs - n) xs"

text \<open>The rows the drawing takes, and the spectrum that was processed last.\<close>

record wf_state =
  wf_history :: "FFTData list"
  wf_config :: "(number \<times> number) option"
  wf_lastData :: "FFTData option"
  wf_lastTimestamp :: date

definition wf_initial :: wf_state where
  "wf_initial = \<lparr>wf_history = [], wf_config = None, wf_lastData = None, wf_lastTimestamp = 0\<rparr>"

definition push_row :: "nat \<Rightarrow> FFTData \<Rightarrow> FFTData list \<Rightarrow> FFTData list" where
  "push_row max_rows d prev =
     (let newHistory = prev @ [d]
      in if length newHistory > max_rows then drop (length newHistory - max_rows) newHistory else newHistory)"

definition waterfall_effect :: "FFTData option \<Rightarrow> wf_state \<Rightarrow> wf_state" where
  "waterfall_effect latest w =
     (case latest of
        None \<Rightarrow> w
      | Some d \<Rightarrow>
          if fd_timestamp d = wf_lastTimestamp w then w
          else w\<lparr>wf_lastTimestamp := fd_timestamp d, wf_lastData := Some d, wf_config := Some (fd_centerFreq d, 200000),
                 wf_history := push_row 150 d (wf_history w)\<rparr>)"

definition spectrum_effect :: "FFTData option \<Rightarrow> wf_state \<Rightarrow> wf_state" where
  "spectrum_effect latest w =
     (case latest of
        None \<Rightarrow> w
      | Some d \<Rightarrow>
          if fd_timestamp d = wf_lastTimestamp w then w
          else w\<lparr>wf_lastTimestamp := fd_timestamp d, wf_history := push_row 100 d (wf_history w)\<rparr>)"

section \<open>Colours\<close>

text \<open>The three components of a colour.\<close>

definition waterfall_rgb :: "number \<Rightarrow> int \<times> int \<times> int" where
  "waterfall_rgb normalized =
     (if normalized < 2 / 10 then let t = normalized / (2 / 10) in (0, 0, \<lfloor>30 + t * 170\<rfloor>)
      else if normalized < 4 / 10
      then let t = (normalized - 2 / 10) / (2 / 10) in (0, \<lfloor>t * 200\<rfloor>, \<lfloor>200 - t * 50\<rfloor>)
      else if normalized < 6 / 10
      then let t = (normalized - 4 / 10) / (2 / 10) in (\<lfloor>t * 200\<rfloor>, \<lfloor>200 + t * 55\<rfloor>, \<lfloor>150 - t * 150\<rfloor>)
      else if normalized < 8 / 10
      then let t = (normalized - 6 / 10) / (2 / 10) in (\<lfloor>200 + t * 55\<rfloor>, \<lfloor>255 - t * 100\<rfloor>, 0)
      else let t = (normalized - 8 / 10) / (2 / 10) in (255, \<lfloor>155 - t * 155\<rfloor>, 0))"

definition css_rgb :: "int \<times> int \<times> int \<Rightarrow> string" where
  "css_rgb c = (case c of (r, g, b) \<Rightarrow> ''rgb('' @ show_int r @ '', '' @ show_int g @ '', '' @ show_int b @ '')'')"

text \<open>\<open>None\<close> is NaN, which is below no bound.\<close>

definition getWaterfallColor :: "number option \<Rightarrow> string" where
  "getWaterfallColor normalized = (case normalized of Some n \<Rightarrow> css_rgb (waterfall_rgb n) | None \<Rightarrow> ''rgb(255, NaN, 0)'')"

definition getColor :: "number option \<Rightarrow> string" where
  "getColor normalized = (case normalized of Some n \<Rightarrow> css_rgb (waterfall_rgb n) | None \<Rightarrow> ''rgb(255, NaN, 0)'')"

text \<open>\<open>Math.max(0, Math.min(1, (power - refMin) / (refMax - refMin)))\<close>, also where the two bounds are the same.\<close>

definition normalized_power :: "number \<Rightarrow> number \<Rightarrow> number \<Rightarrow> number option" where
  "normalized_power refMin refMax p =
     (if refMax = refMin then if p = refMin then None else Some (if p > refMin then 1 else 0)
      else Some (max 0 (min 1 ((p - refMin) / (refMax - refMin)))))"

section \<open>Scale of the waterfall\<close>

definition measured_range :: "FFTData list \<Rightarrow> number \<times> number" where
  "measured_range rows =
     fold (\<lambda>row (lo, hi).
         (if fd_minPower row > -150 \<and> fd_minPower row < 0 then min lo (fd_minPower row) else lo,
          if fd_maxPower row > -150 \<and> fd_maxPower row < 0 then max hi (fd_maxPower row) else hi)) rows (0, -150)"

definition waterfall_range :: "FFTData list \<Rightarrow> number \<times> number" where
  "waterfall_range history =
     (let (allMin, allMax) = (-80, -40)
      in if history = [] then (allMin, allMax)
         else let (measuredMin, measuredMax) = measured_range (last_n 30 history);
                  (allMin, allMax) =
                    (if measuredMin < -10 \<and> measuredMax < 0 then (measuredMin - 5, measuredMax + 10) else (allMin, allMax));
                  (allMin, allMax) =
                    (if allMax - allMin < 30 then let mid = (allMin + allMax) / 2 in (mid - 20, mid + 15) else (allMin, allMax))
              in (max allMin (-120), min allMax (-10)))"

text \<open>A cell of the picture: a bin of a row.\<close>

definition waterfall_cells ::
  "(number option \<Rightarrow> string) \<Rightarrow> number \<Rightarrow> number \<Rightarrow> number \<Rightarrow> number \<times> number \<Rightarrow> FFTData list \<Rightarrow> canvas_op list" where
  "waterfall_cells color width y0 rowHeight refs history =
     concat (map (\<lambda>rowIndex.
       let row = history ! rowIndex; y = y0 + real rowIndex * rowHeight; binWidth = width / real (length (fd_bins row))
       in concat (map (\<lambda>binIndex.
            let x = real binIndex * binWidth; normalized = normalized_power (fst refs) (snd refs) (fd_bins row ! binIndex)
            in [FillStyle (color normalized), FillRect x y (binWidth + 1) (rowHeight + 1)]) [0..<length (fd_bins row)]))
       [0..<length history])"

section \<open>Waterfall\<close>

record wf_props =
  wp_frequency :: "number option"
  wp_frequencyName :: "string option"
  wp_isActive :: bool
  wp_isScanning :: bool
  wp_fftRunning :: bool
  wp_fftError :: "string option"

text \<open>An absent or empty text counts as absent.\<close>

definition truthy_text :: "string option \<Rightarrow> string option" where
  "truthy_text t = (case t of Some x \<Rightarrow> if x = [] then None else Some x | None \<Rightarrow> None)"

definition satellite_antenna :: string where
  "satellite_antenna = [CHR 0xF0, CHR 0x9F, CHR 0x93, CHR 0xA1]"

definition capture_message :: "string \<Rightarrow> canvas_op list \<Rightarrow> string \<Rightarrow> number \<Rightarrow> number \<Rightarrow> number \<Rightarrow> number \<Rightarrow> canvas_op list" where
  "capture_message font1 align font2 width height dy1 dy2 =
     [FillStyle ''#22c55e'', Font font1] @ align @
     [FillText (satellite_antenna @ '' Capturing Satellite Signal'') (width / 2) (height / 2 - dy1),
      FillStyle ''#94a3b8'', Font font2, FillText ''Waterfall paused during signal reception'' (width / 2) (height / 2 - dy2),
      Font ''12px sans-serif'', FillStyle ''#64748b'', FillText ''SDR device is exclusively recording the pass'' (width / 2) (height / 2 + 25)]"

definition frequency_labels :: "number \<Rightarrow> number \<Rightarrow> number \<Rightarrow> number \<Rightarrow> canvas_op list" where
  "frequency_labels width y centerFreqMHz bandwidthMHz =
     concat (map (\<lambda>i. let x = width / 4 * real i; freqOffset = (real i / 4 - 1 / 2) * bandwidthMHz
        in FillText (js_toFixed 3 (centerFreqMHz + freqOffset)) x (y + 20) # stroke_line x y x (y + 5)) [0..<5])"

definition waterfall_status :: "wf_props \<Rightarrow> string" where
  "waterfall_status pr =
     (if wp_fftRunning pr then if wp_isActive pr then ''RECEIVING'' else if wp_isScanning pr then ''SCANNING'' else ''MONITORING''
      else ''OFFLINE'')"

definition waterfall_footer :: "number \<Rightarrow> number \<Rightarrow> wf_props \<Rightarrow> wf_state \<Rightarrow> canvas_op list" where
  "waterfall_footer width historyHeight pr w =
     (let centerFreqMHz = or_num (map_option fst (wf_config w)) (or_num (wp_frequency pr) 137500000) / 1000000;
          bandwidthMHz = or_num (map_option snd (wf_config w)) 50000 / 1000000;
          centerLabel = (case truthy_text (wp_frequencyName pr) of
             Some name \<Rightarrow> js_toFixed 3 centerFreqMHz @ '' MHz - '' @ name
           | None \<Rightarrow> ''Center: '' @ js_toFixed 3 centerFreqMHz @ '' MHz'')
      in [FillStyle ''#1a2332'', FillRect 0 historyHeight width 60, StrokeStyle ''#334155'', LineWidth 1] @
         stroke_line 0 historyHeight width historyHeight @
         [FillStyle ''#94a3b8'', Font ''11px monospace'', TextAlign ''center''] @
         frequency_labels width historyHeight centerFreqMHz bandwidthMHz @
         [FillStyle (if wp_isScanning pr then ''#8b5cf6'' else ''#22c55e''), Font ''bold 12px monospace'',
          FillText centerLabel (width / 2) (historyHeight + 40),
          FillStyle (if wp_fftRunning pr then if wp_isScanning pr then ''#8b5cf6'' else ''#22c55e'' else ''#64748b''),
          Font ''11px sans-serif'', TextAlign ''left'', FillText (waterfall_status pr) 10 (historyHeight + 40)] @
         (case wf_lastData w of
            Some d \<Rightarrow> [FillStyle ''#94a3b8'', TextAlign ''right'',
              FillText (''Peak: '' @ js_toFixed 1 (fd_maxPower d) @ '' dB'') (width - 10) (historyHeight + 40)]
          | None \<Rightarrow> []))"

definition drawWaterfall :: "number \<Rightarrow> number \<Rightarrow> wf_props \<Rightarrow> wf_state \<Rightarrow> canvas_op list" where
  "drawWaterfall width height pr w =
     (let historyHeight = height - 60
      in [FillStyle ''#1a2332'', FillRect 0 0 width height] @
         (case truthy_text (wp_fftError pr) of
            Some err \<Rightarrow>
              [FillStyle ''#ef4444'', Font ''bold 14px sans-serif'', TextAlign ''center'',
               FillText ''SDR Hardware Not Found'' (width / 2) (height / 2 - 30), FillStyle ''#94a3b8'', Font ''12px sans-serif'',
               FillText err (width / 2) (height / 2), FillText ''Connect an RTL-SDR device and refresh'' (width / 2) (height / 2 + 25)]
          | None \<Rightarrow>
              if wf_history w = [] then
                [FillStyle ''#64748b'', Font ''14px sans-serif'', TextAlign ''center''] @
                (if wp_isActive pr \<and> \<not> wp_fftRunning pr then capture_message ''bold 16px sans-serif'' [] ''13px sans-serif'' width height 30 0
                 else [FillText (if wp_fftRunning pr then ''Waiting for FFT data...'' else ''FFT stream not running'') (width / 2) (height / 2 - 20),
                       Font ''12px sans-serif'', FillText ''Click to start waterfall'' (width / 2) (height / 2 + 10)])
              else
                let rowHeight = max 1 (historyHeight / real (max (length (wf_history w)) 50))
                in waterfall_cells getWaterfallColor width 0 rowHeight (waterfall_range (wf_history w)) (wf_history w) @
                   waterfall_footer width historyHeight pr w @
                   (if wp_isActive pr \<and> \<not> wp_fftRunning pr
                    then [FillStyle ''rgba(26, 35, 50, 0.85)'', FillRect 0 0 width historyHeight] @
                         capture_message ''bold 18px sans-serif'' [TextAlign ''center''] ''14px sans-serif'' width height 35 5
                    else [])))"

definition waterfall_badge :: "wf_props \<Rightarrow> string \<times> string" where
  "waterfall_badge pr =
     (if truthy_text (wp_fftError pr) \<noteq> None then (''bg-red-500'', ''No Hardware'')
      else if wp_fftRunning pr
      then if wp_isActive pr then (''bg-success animate-pulse'', ''Signal Active'')
           else if wp_isScanning pr then (''bg-purple animate-pulse'', ''Scanning'') else (''bg-accent'', ''Monitoring'')
      else (''bg-text-muted'', ''Offline''))"

section \<open>Spectrum\<close>

definition spectrum_range :: "FFTData list \<Rightarrow> number \<times> number" where
  "spectrum_range history =
     (if history = [] then (-100, -20)
      else let (refMin, refMax) = fold (\<lambda>row (lo, hi).
                 (if fd_minPower row > -120 then min lo (fd_minPower row) else lo, max hi (fd_maxPower row)))
                 (last_n 20 history) (-100, -20);
               refMin = max (refMin - 5) (-110); refMax = min (refMax + 5) 0
           in if refMax - refMin < 20 then let mid = (refMin + refMax) / 2 in (mid - 15, mid + 15) else (refMin, refMax))"

definition spectrum_line :: "number \<Rightarrow> number \<times> number \<Rightarrow> FFTData \<Rightarrow> canvas_op list" where
  "spectrum_line width refs d =
     (let n = length (fd_bins d)
      in [BeginPath, StrokeStyle ''#8b5cf6'', LineWidth 2] @
         map (\<lambda>i. let x = real i / real n * width;
                       y = 80 - or_else (normalized_power (fst refs) (snd refs) (fd_bins d ! i)) 0 * 80
                   in if i = 0 then MoveTo x y else LineTo x y) [0..<n] @
         [Stroke, LineTo width 80, LineTo 0 80, ClosePath,
          FillGradient 0 80 [(0, ''rgba(139, 92, 246, 0.4)''), (1, ''rgba(139, 92, 246, 0.05)'')], Fill])"

definition filled_circle :: string where
  "filled_circle = [CHR 0xE2, CHR 0x97, CHR 0x8F]"

definition open_circle :: string where
  "open_circle = [CHR 0xE2, CHR 0x97, CHR 0x8B]"

definition drawSpectrum ::
  "number \<Rightarrow> number \<Rightarrow> number \<Rightarrow> string option \<Rightarrow> bool \<Rightarrow> bool \<Rightarrow> FFTData option \<Rightarrow> FFTData list \<Rightarrow> canvas_op list" where
  "drawSpectrum width height frequency frequencyName isScanning fftRunning latest history =
     (let waterfallHeight = height - 80 - 40; refs = spectrum_range history; scaleY = height - 40
      in [FillStyle ''#0f1419'', FillRect 0 0 width height] @
         (if history = [] then []
          else waterfall_cells getColor width 80 (max 1 (waterfallHeight / real (min (length history) 100))) refs history) @
         [FillStyle ''rgba(15, 20, 25, 0.85)'', FillRect 0 0 width 80, StrokeStyle ''#1e293b'', LineWidth 1] @
         concat (map (\<lambda>i. stroke_line 0 (80 / 4 * real i) width (80 / 4 * real i)) [0..<5]) @
         [FillStyle ''#64748b'', Font ''9px monospace'', TextAlign ''right''] @
         map (\<lambda>i. FillText (js_toFixed 0 (snd refs - real i * (snd refs - fst refs) / 4)) 25 (80 / 4 * real i + 4)) [0..<5] @
         (case latest of Some d \<Rightarrow> if fd_bins d = [] then [] else spectrum_line width refs d | None \<Rightarrow> []) @
         [FillStyle ''#0f1419'', FillRect 0 scaleY width 40, StrokeStyle ''#334155''] @ stroke_line 0 scaleY width scaleY @
         [FillStyle ''#94a3b8'', Font ''11px monospace'', TextAlign ''center''] @
         frequency_labels width scaleY (frequency / 1000000) (2 / 10) @
         [StrokeStyle ''#8b5cf6'', LineWidth 2, SetLineDash [4, 4]] @ stroke_line (width / 2) 0 (width / 2) scaleY @ [SetLineDash []] @
         [FillStyle (if isScanning then ''#8b5cf6'' else if fftRunning then ''#22c55e'' else ''#64748b''),
          Font ''bold 11px sans-serif'', TextAlign ''left'',
          FillText (if isScanning then filled_circle @ '' SCANNING'' else if fftRunning then filled_circle @ '' MONITORING''
                    else open_circle @ '' OFFLINE'') 10 (scaleY + 35)] @
         (case truthy_text frequencyName of
            Some name \<Rightarrow> [FillStyle ''#8b5cf6'', Font ''10px sans-serif'', FillText name 100 (scaleY + 35)] | None \<Rightarrow> []) @
         [FillStyle ''#94a3b8'', TextAlign ''right''] @
         (case latest of
            Some d \<Rightarrow> [FillText (''Peak: '' @ js_toFixed 1 (fd_maxPower d) @ '' dB'') (width - 10) (scaleY + 35)] | None \<Rightarrow> []))"

section \<open>Sky\<close>

text \<open>\<open>Math.atan2(y, x)\<close>\<close>

definition js_atan2 :: "number \<Rightarrow> number \<Rightarrow> number" where
  "js_atan2 y x = Arg (Complex x y)"

definition sky_grid :: "number \<Rightarrow> number \<Rightarrow> number \<Rightarrow> number \<Rightarrow> number \<Rightarrow> canvas_op list" where
  "sky_grid width height centerX centerY radius =
     [FillStyle ''#1a2332'', FillRect 0 0 width height, StrokeStyle ''#334155'', LineWidth 1] @
     concat (map (\<lambda>elev. let r = radius * (1 - real elev / 90)
        in [BeginPath, Arc centerX centerY r, Stroke] @
           (if elev > 0 \<and> elev < 90
            then [FillStyle ''#64748b'', Font ''9px sans-serif'', FillText (show_nat elev @ degree) (centerX + 3) (centerY - r + 10)]
            else [])) [0, 30, 60, 90]) @
     [StrokeStyle ''#334155'', LineWidth 1, BeginPath, MoveTo centerX (centerY - radius), LineTo centerX (centerY + radius),
      MoveTo (centerX - radius) centerY, LineTo (centerX + radius) centerY, Stroke,
      FillStyle ''#94a3b8'', Font ''bold 10px sans-serif'', TextAlign ''center'', FillText ''N'' centerX (centerY - radius - 3),
      FillText ''S'' centerX (centerY + radius + 10), FillText ''E'' (centerX + radius + 8) (centerY + 3),
      FillText ''W'' (centerX - radius - 8) (centerY + 3),
      StrokeStyle ''#22c55e'', LineWidth 2, BeginPath, Arc centerX centerY radius, Stroke,
      FillStyle ''#22c55e'', BeginPath, Arc centerX centerY 4, Fill]"

text \<open>Where a satellite is drawn, or \<open>None\<close> if it is too far away.\<close>

definition sky_position ::
  "number \<times> number \<Rightarrow> number \<Rightarrow> number \<Rightarrow> number \<Rightarrow> SatelliteGeolocation \<Rightarrow> (number \<times> number) option" where
  "sky_position station centerX centerY radius sat =
     (let latDiff = geo_latitude sat - fst station; lonDiff = geo_longitude sat - snd station;
          dist = sqrt (latDiff * latDiff + lonDiff * lonDiff)
      in if dist > 40 then None
         else let elevation = max 0 (90 - dist * 3); azimuth = js_atan2 lonDiff latDiff; r = radius * (1 - elevation / 90)
              in Some (centerX + r * sin azimuth, centerY - r * cos azimuth))"

definition drawSkyView :: "number \<Rightarrow> number \<Rightarrow> GlobeState option \<Rightarrow> canvas_op list" where
  "drawSkyView width height globeState =
     (case globeState of
        None \<Rightarrow> []
      | Some g \<Rightarrow>
          let centerX = width / 2; centerY = height / 2; radius = min width height / 2 - 15
          in sky_grid width height centerX centerY radius @
             concat (map (\<lambda>sat. case sky_position (gs_station g) centerX centerY radius sat of
                None \<Rightarrow> []
              | Some (x, y) \<Rightarrow>
                  [FillStyle (if geo_signalType sat = Sstv then ''#8b5cf6'' else ''#3b82f6''), BeginPath, Arc x y 6, Fill,
                   FillStyle ''#f1f5f9'', Font ''9px sans-serif'', TextAlign ''center'', FillText (geo_name sat) x (y - 10)])
               (gs_satellites g)))"

section \<open>Icon\<close>

definition favicon_color :: "string \<Rightarrow> string \<times> bool" where
  "favicon_color st =
     (if st = ''recording'' \<or> st = ''scanning'' then (''#22c55e'', True)
      else if st = ''decoding'' then (''#3b82f6'', False)
      else if st = ''waiting'' then (''#f59e0b'', False)
      else (''#64748b'', False))"

definition useFavicon :: "string \<Rightarrow> canvas_op list" where
  "useFavicon st =
     (let (color, pulseEffect) = favicon_color st
      in [ClearRect 0 0 64 64, StrokeStyle color, LineWidth 3, BeginPath, Arc 32 32 24, Stroke, LineWidth 2] @
         concat (map (\<lambda>r. [BeginPath, Arc 32 32 r, Stroke]) [8, 12, 16]) @
         [FillStyle color, BeginPath, Arc 32 32 4, Fill] @
         (if pulseEffect then [Shadow 10 color, StrokeStyle color, LineWidth 2, BeginPath, Arc 32 32 (24 + 4), Stroke] else []))"

section \<open>Tracking panel\<close>

definition SSTV_2M_FREQUENCIES :: "(number \<times> string) list" where
  "SSTV_2M_FREQUENCIES = [(144500000, ''144.500''), (145500000, ''145.500'')]"

text \<open>\<open>currentPass\<close>, \<open>systemStatus\<close> and the frequency of a scan are those of the dashboard's copy of the state.\<close>

definition getCurrentFrequency :: "WaterfallMode \<Rightarrow> nat \<Rightarrow> ui_system option \<Rightarrow> number" where
  "getCurrentFrequency mode sstvFreqIndex st =
     (if mode = Mode_satellite
      then (case Option.bind st us_currentPass of Some p \<Rightarrow> sat_frequency (pass_satellite p) | None \<Rightarrow> 137500000)
      else let isScanning = map_option us_status st = Some ''scanning''; f = Option.bind st us_scanningFrequency
           in if isScanning \<and> f \<notin> {None, Some 0} then the f
              else case elem_at SSTV_2M_FREQUENCIES (int sstvFreqIndex) of Some (f, label) \<Rightarrow> f | None \<Rightarrow> 145500000)"

definition spectrum_name :: "nat \<Rightarrow> ui_system option \<Rightarrow> string option" where
  "spectrum_name sstvFreqIndex st =
     (if map_option us_status st = Some ''scanning'' then Option.bind st us_scanningFrequencyName
      else map_option snd (elem_at SSTV_2M_FREQUENCIES (int sstvFreqIndex)))"

text \<open>The effect that follows the frequency: the old subscription ends before the new one begins.\<close>

definition frequency_effect :: "bool \<Rightarrow> number \<Rightarrow> number \<Rightarrow> client_message list" where
  "frequency_effect ready old_freq new_freq =
     (if new_freq = old_freq then []
      else List.map_filter (\<lambda>m. m) [unsubscribeFFT ready, subscribeFFT ready (Some new_freq)])"

section \<open>The rows of a waterfall\<close>

text \<open>The spectra that are not a repetition of the one before.\<close>

fun new_rows :: "date \<Rightarrow> FFTData list \<Rightarrow> FFTData list" where
  "new_rows t [] = []"
| "new_rows t (d # ds) = (if fd_timestamp d = t then new_rows t ds else d # new_rows (fd_timestamp d) ds)"

lemma last_n_length: "length (last_n n xs) \<le> n"
  by (simp add: last_n_def)

lemma last_n_short: "length xs \<le> n \<Longrightarrow> last_n n xs = xs"
  by (simp add: last_n_def)

lemma push_row_last_n: "push_row n d (last_n n xs) = last_n n (xs @ [d])"
  by (cases "length xs < n") (auto simp: push_row_def last_n_def Let_def Suc_diff_le)

lemma effects_push:
  "wf_history w = last_n 150 rows \<Longrightarrow>
   wf_history (fold (\<lambda>d. waterfall_effect (Some d)) ds w) = last_n 150 (rows @ new_rows (wf_lastTimestamp w) ds)"
  "wf_history w = last_n 100 rows \<Longrightarrow>
   wf_history (fold (\<lambda>d. spectrum_effect (Some d)) ds w) = last_n 100 (rows @ new_rows (wf_lastTimestamp w) ds)"
  by (induction ds arbitrary: w rows) (auto simp: waterfall_effect_def spectrum_effect_def push_row_last_n)

lemma waterfall_history:
  "wf_history (fold (\<lambda>d. waterfall_effect (Some d)) ds wf_initial) = last_n 150 (new_rows 0 ds)"
  "wf_history (fold (\<lambda>d. spectrum_effect (Some d)) ds wf_initial) = last_n 100 (new_rows 0 ds)"
  using effects_push(1) [of wf_initial "[]" ds] effects_push(2) [of wf_initial "[]" ds]
  by (simp_all add: wf_initial_def last_n_def)

text \<open>C27: The two waterfalls keep exactly the latest spectra they were given, 150 and 100 of them, in order,
  without those that repeat the time stamp of the one before.\<close>

theorem waterfall_keeps_latest:
  "wf_history (fold (\<lambda>d. waterfall_effect (Some d)) ds wf_initial) = last_n 150 (new_rows 0 ds) \<and>
   wf_history (fold (\<lambda>d. spectrum_effect (Some d)) ds wf_initial) = last_n 100 (new_rows 0 ds)"
  by (simp add: waterfall_history)

section \<open>The scale and the colours\<close>

definition is_byte :: "int \<Rightarrow> bool" where
  "is_byte c \<longleftrightarrow> 0 \<le> c \<and> c \<le> 255"

lemma waterfall_rgb_bytes:
  assumes "0 \<le> n" "n \<le> 1" "waterfall_rgb n = (r, g, b)"
  shows "is_byte r \<and> is_byte g \<and> is_byte b"
  using assms by (auto simp: waterfall_rgb_def Let_def is_byte_def split: if_splits)

lemma measured_range_bounds:
  "fold (\<lambda>row (lo, hi).
         (if fd_minPower row > -150 \<and> fd_minPower row < 0 then min lo (fd_minPower row) else lo,
          if fd_maxPower row > -150 \<and> fd_maxPower row < 0 then max hi (fd_maxPower row) else hi)) rows (lo, hi) = (m, M) \<Longrightarrow>
   m \<le> lo \<and> hi \<le> M \<and> (lo > -150 \<longrightarrow> m > -150) \<and> (hi < 0 \<longrightarrow> M < 0) \<and>
   (\<forall>row \<in> set rows. -150 < fd_maxPower row \<longrightarrow> fd_maxPower row < 0 \<longrightarrow> fd_maxPower row \<le> M) \<and>
   (\<forall>row \<in> set rows. -150 < fd_minPower row \<longrightarrow> fd_minPower row < 0 \<longrightarrow> m \<le> fd_minPower row)"
proof (induction rows arbitrary: lo hi)
  case (Cons row rows)
  from Cons.IH [OF Cons.prems [simplified]] show ?case by (auto split: if_splits)
qed auto

lemma measured_below_zero: "measured_range rows = (m, M) \<Longrightarrow> -150 < m \<and> m \<le> 0 \<and> -150 \<le> M \<and> M < 0"
  using measured_range_bounds [of rows 0 "-150" m M] by (simp add: measured_range_def)

text \<open>
  The scale of the waterfall: the floor is below the ceiling and both are in the range of the
  labels, as soon as one recent spectrum peaks above -130 dB and below zero.
\<close>

lemma scale_proper:
  fixes m M :: number
  assumes "-130 < M" "M < 0" "m \<le> 0"
    and "(lo, hi) = (if m < -10 \<and> M < 0 then (m - 5, M + 10) else (-80, -40))"
    and "(lo', hi') = (if hi - lo < 30 then ((lo + hi) / 2 - 20, (lo + hi) / 2 + 15) else (lo, hi))"
  shows "max lo' (-120) < min hi' (-10)"
  using assms by (auto split: if_splits simp: field_simps)

lemma waterfall_range_proper:
  assumes "row \<in> set (last_n 30 history)" "-130 < fd_maxPower row" "fd_maxPower row < 0" "waterfall_range history = (lo, hi)"
  shows "-120 \<le> lo \<and> lo < hi \<and> hi \<le> -10"
proof -
  obtain m M where mM: "measured_range (last_n 30 history) = (m, M)" by (cases "measured_range (last_n 30 history)")
  have "fd_maxPower row \<le> M" "m \<le> 0" "M < 0"
    using measured_range_bounds [OF mM [unfolded measured_range_def]] assms(1-3) by auto
  then have M: "-130 < M" "M < 0" "m \<le> 0" using assms(2) by auto
  have ne: "history \<noteq> []" using assms(1) by (auto simp: last_n_def)
  obtain a b where ab: "(a, b) = (if m < -10 \<and> M < 0 then (m - 5, M + 10) else (-80, -40))"
    by (metis surj_pair)
  obtain c d where cd: "(c, d) = (if b - a < 30 then ((a + b) / 2 - 20, (a + b) / 2 + 15) else (a, b))"
    by (metis surj_pair)
  have "waterfall_range history = (max c (-120), min d (-10))"
    unfolding waterfall_range_def Let_def using ne mM ab [symmetric] cd [symmetric] by (simp split del: if_split)
  then show ?thesis using scale_proper [OF M ab cd] assms(4) by auto
qed

lemma spectrum_range_proper:
  assumes "history \<noteq> []" "spectrum_range history = (lo, hi)"
  shows "-110 \<le> lo \<and> lo \<le> -105 \<and> -15 \<le> hi \<and> hi \<le> 0"
proof -
  let ?f = "\<lambda>row (lo, hi). (if fd_minPower row > -120 then min lo (fd_minPower row) else lo, max hi (fd_maxPower row))"
  have f: "fold ?f rows (l, h) = (a, b) \<Longrightarrow> a \<le> l \<and> h \<le> b" for rows l h a b
    by (induction rows arbitrary: l h) (fastforce split: if_splits)+
  obtain a b where ab: "fold ?f (last_n 20 history) (-100, -20) = (a, b)" by (cases "fold ?f (last_n 20 history) (-100, -20)")
  then have "a \<le> -100" "-20 \<le> b" using f by blast+
  moreover from this have "\<not> min (b + 5) 0 - max (a - 5) (-110) < 20" by (auto simp: min_def max_def)
  ultimately show ?thesis using assms ab unfolding spectrum_range_def Let_def by auto
qed

text \<open>A cell lies between \<open>y0\<close> and \<open>y1\<close>, up to the pixel by which neighbours overlap, in a colour of three bytes.\<close>

definition cell_ok :: "number \<Rightarrow> number \<Rightarrow> number \<Rightarrow> canvas_op \<Rightarrow> bool" where
  "cell_ok width y0 y1 c \<longleftrightarrow>
     (case c of
        FillStyle st \<Rightarrow> \<exists>r g b. st = css_rgb (r, g, b) \<and> is_byte r \<and> is_byte g \<and> is_byte b
      | FillRect x y w h \<Rightarrow> 0 \<le> x \<and> x + w \<le> width + 1 \<and> y0 \<le> y \<and> y + h \<le> y1 + 1
      | _ \<Rightarrow> False)"

lemma color_cell_ok:
  assumes "lo < hi"
  shows "cell_ok width y0 y1 (FillStyle (getWaterfallColor (normalized_power lo hi p)))" "cell_ok width y0 y1 (FillStyle (getColor (normalized_power lo hi p)))"
proof -
  let ?n = "max 0 (min 1 ((p - lo) / (hi - lo)))"
  obtain r g b where c: "waterfall_rgb ?n = (r, g, b)" by (metis prod_cases3)
  then have "is_byte r \<and> is_byte g \<and> is_byte b" by (intro waterfall_rgb_bytes [of ?n]) auto
  moreover have "normalized_power lo hi p = Some ?n" using assms by (simp add: normalized_power_def)
  ultimately show "cell_ok width y0 y1 (FillStyle (getWaterfallColor (normalized_power lo hi p)))"
    "cell_ok width y0 y1 (FillStyle (getColor (normalized_power lo hi p)))"
    using c by (auto simp: cell_ok_def getWaterfallColor_def getColor_def)
qed

lemma cell_rect_ok:
  assumes "i < n" "k < m" "0 \<le> width" "0 \<le> rowHeight" "y0 + real n * rowHeight \<le> y1"
  shows "cell_ok width y0 y1 (FillRect (real k * (width / real m)) (y0 + real i * rowHeight) (width / real m + 1) (rowHeight + 1))"
proof -
  have "real k * (width / real m) + width / real m = real (k + 1) * (width / real m)" by (simp add: distrib_right add_divide_distrib)
  also have "\<dots> \<le> real m * (width / real m)" using assms(2,3) by (intro mult_right_mono) auto
  also have "\<dots> = width" using assms(2) by simp
  finally have x: "real k * (width / real m) + (width / real m + 1) \<le> width + 1" by simp
  have "real i * rowHeight + rowHeight = real (i + 1) * rowHeight" by (simp add: distrib_right)
  also have "\<dots> \<le> real n * rowHeight" using assms(1,4) by (intro mult_right_mono) auto
  finally have "y0 + real i * rowHeight + (rowHeight + 1) \<le> y1 + 1" using assms(5) by simp
  with x show ?thesis using assms(3,4) by (simp add: cell_ok_def)
qed

lemma cells_ok:
  assumes "fst refs < snd refs" "0 \<le> width" "0 \<le> rowHeight" "y0 + real (length history) * rowHeight \<le> y1"
    and "color = getWaterfallColor \<or> color = getColor"
  shows "list_all (cell_ok width y0 y1) (waterfall_cells color width y0 rowHeight refs history)"
    "length (waterfall_cells color width y0 rowHeight refs history) = 2 * sum_list (map (length \<circ> fd_bins) history)"
proof -
  show "list_all (cell_ok width y0 y1) (waterfall_cells color width y0 rowHeight refs history)"
    using assms(5) color_cell_ok [OF assms(1)] cell_rect_ok [OF _ _ assms(2-4)]
    by (auto simp: waterfall_cells_def Let_def list_all_iff)
  have "map (length \<circ> fd_bins) history = map (\<lambda>i. length (fd_bins (history ! i))) [0..<length history]"
    by (rule nth_equalityI) simp_all
  then show "length (waterfall_cells color width y0 rowHeight refs history) = 2 * sum_list (map (length \<circ> fd_bins) history)"
    by (simp add: waterfall_cells_def Let_def length_concat comp_def sum_list_triv mult_2 flip: sum_list_addf)
qed

text \<open>While spectra come in, the waterfall is drawn inside its part of the canvas: one cell per bin of
  every row kept, none of them reaching below the scale of frequencies, each in a colour whose
  components are bytes, if one of the last thirty spectra peaks between -130 and 0 dB.\<close>

theorem waterfall_inside_picture:
  assumes "w = fold (\<lambda>d. waterfall_effect (Some d)) ds wf_initial" "truthy_text (wp_fftError pr) = None" "wp_fftRunning pr"
    and "row \<in> set (last_n 30 (wf_history w))" "-130 < fd_maxPower row" "fd_maxPower row < 0"
  shows "\<exists>cells. drawWaterfall 600 350 pr w = [FillStyle ''#1a2332'', FillRect 0 0 600 350] @ cells @ waterfall_footer 600 290 pr w \<and>
    list_all (cell_ok 600 0 290) cells \<and> length cells = 2 * sum_list (map (length \<circ> fd_bins) (wf_history w))"
proof -
  let ?h = "wf_history w"
  let ?cells = "waterfall_cells getWaterfallColor 600 0 (max 1 (290 / real (max (length ?h) 50))) (waterfall_range ?h) ?h"
  have n: "length ?h \<le> 150" using waterfall_history(1) [of ds] last_n_length assms(1) by simp
  have ne: "?h \<noteq> []" using assms(4) by (auto simp: last_n_def)
  have "fst (waterfall_range ?h) < snd (waterfall_range ?h)"
    using waterfall_range_proper [OF assms(4-6)] by (cases "waterfall_range ?h") auto
  moreover have "0 + real (length ?h) * max 1 (290 / real (max (length ?h) 50)) \<le> 290"
  proof -
    have "real (length ?h) * (290 / real (max (length ?h) 50)) \<le> real (max (length ?h) 50) * (290 / real (max (length ?h) 50))"
      by (intro mult_right_mono) auto
    then have "real (length ?h) * (290 / real (max (length ?h) 50)) \<le> 290" by simp
    then show ?thesis using n by (simp add: max_def)
  qed
  ultimately have "list_all (cell_ok 600 0 290) ?cells" "length ?cells = 2 * sum_list (map (length \<circ> fd_bins) ?h)"
    using cells_ok [of "waterfall_range ?h" 600 "max 1 (290 / real (max (length ?h) 50))" 0 ?h 290 getWaterfallColor] by auto
  moreover have "drawWaterfall 600 350 pr w = [FillStyle ''#1a2332'', FillRect 0 0 600 350] @ ?cells @ waterfall_footer 600 290 pr w"
    using assms(2,3) ne by (simp add: drawWaterfall_def Let_def)
  ultimately show ?thesis by blast
qed

definition demo_row :: FFTData where
  "demo_row = \<lparr>fd_timestamp = 1, fd_centerFreq = 137900000, fd_bins = [-70, -50], fd_minPower = -70, fd_maxPower = -50\<rparr>"

definition demo_props :: wf_props where
  "demo_props = \<lparr>wp_frequency = None, wp_frequencyName = None, wp_isActive = False, wp_isScanning = False, wp_fftRunning = True,
     wp_fftError = None\<rparr>"

theorem waterfall_inside_picture_witness:
  "\<exists>cells. drawWaterfall 600 350 demo_props (waterfall_effect (Some demo_row) wf_initial) =
     [FillStyle ''#1a2332'', FillRect 0 0 600 350] @ cells @ waterfall_footer 600 290 demo_props (waterfall_effect (Some demo_row) wf_initial) \<and>
     list_all (cell_ok 600 0 290) cells \<and> length cells = 4"
proof -
  let ?w = "waterfall_effect (Some demo_row) wf_initial"
  have h: "wf_history ?w = [demo_row]"
    by (simp add: waterfall_effect_def wf_initial_def demo_row_def push_row_def)
  show ?thesis
    using waterfall_inside_picture [of ?w "[demo_row]" demo_props demo_row] h
    by (simp add: demo_props_def truthy_text_def last_n_def) (simp add: demo_row_def)
qed

text \<open>
  Where no recent spectrum peaks in that range the scale is of no use.  A peak at zero or above is
  left out of the scale, and the noise floor itself is then drawn at its top; with peaks just above
  the lower limit the two ends of the scale meet, and a colour is not a number.
\<close>

lemma overload_saturates:
  assumes "0 \<le> fd_maxPower d" "fd_minPower d = -60" "-60 \<le> p"
  shows "waterfall_range [d] = (-120, -175 / 2)"
    "normalized_power (fst (waterfall_range [d])) (snd (waterfall_range [d])) p = Some 1"
proof -
  show r: "waterfall_range [d] = (-120, -175 / 2)"
    using assms by (simp add: waterfall_range_def measured_range_def last_n_def)
  show "normalized_power (fst (waterfall_range [d])) (snd (waterfall_range [d])) p = Some 1"
    unfolding r using assms(3) by (simp add: normalized_power_def min_def)
qed

lemma ends_of_scale_meet:
  assumes "fd_minPower d = -140" "fd_maxPower d = -135"
  shows "waterfall_range [d] = (-120, -120)" "getWaterfallColor (normalized_power (-120) (-120) (-120)) = ''rgb(255, NaN, 0)''"
  using assms by (simp_all add: waterfall_range_def measured_range_def last_n_def normalized_power_def getWaterfallColor_def)

text \<open>The spectrum of the two-metre band has a scale of at least ninety decibels, so it is always inside.\<close>

lemma spectrum_inside_picture:
  assumes "length history \<le> 100" "history \<noteq> []"
  shows "list_all (cell_ok 1200 80 360)
    (waterfall_cells getColor 1200 80 (max 1 (280 / real (min (length history) 100))) (spectrum_range history) history)"
proof -
  obtain lo hi where r: "spectrum_range history = (lo, hi)" by (cases "spectrum_range history")
  then have "lo < hi" using spectrum_range_proper [OF assms(2)] by fastforce
  moreover have "80 + real (length history) * max 1 (280 / real (min (length history) 100)) \<le> 360"
    using assms by (simp add: max_def min_def)
  ultimately show ?thesis by (intro cells_ok(1)) (simp_all add: r)
qed

section \<open>The sky\<close>

lemma sky_position_cases:
  assumes "dla = geo_latitude sat - fst station" "dlo = geo_longitude sat - snd station" "d = sqrt (dla * dla + dlo * dlo)"
    and "r = radius * (1 - max 0 (90 - d * 3) / 90)" "d \<le> 40"
  shows "\<exists>k. sky_position station cx cy radius sat = Some (cx + k * dlo, cy - k * dla) \<and> k * d = r"
proof (cases "d = 0")
  case True
  then have "dla = 0" "dlo = 0" using assms(3) by (simp_all add: real_sqrt_eq_zero_cancel_iff sum_squares_eq_zero_iff)
  moreover have "r = 0" using True assms(4) by simp
  ultimately show ?thesis
    using assms True by (intro exI [of _ 0]) (auto simp: sky_position_def Let_def)
next
  case False
  let ?z = "Complex dla dlo"
  have n: "norm ?z = d" by (simp add: cmod_def assms(3) power2_eq_square)
  then have "?z \<noteq> 0" using False by auto
  then have "sin (js_atan2 dlo dla) = dlo / d" "cos (js_atan2 dlo dla) = dla / d"
    using n by (simp_all add: js_atan2_def sin_Arg cos_Arg)
  then have "sky_position station cx cy radius sat = Some (cx + r * (dlo / d), cy - r * (dla / d))"
    using assms unfolding sky_position_def Let_def by auto
  then show ?thesis using False by (intro exI [of _ "r / d"]) (simp add: field_simps)
qed

text \<open>The sky view draws a satellite inside its circle and in the direction of its difference in
  longitude and latitude, north up and east to the right: at the centre when it stands above the
  station, at the rim when it is thirty degrees or more away, and not at all beyond forty.\<close>

theorem sky_view_direction:
  assumes "dla = geo_latitude sat - fst station" "dlo = geo_longitude sat - snd station" "d = sqrt (dla * dla + dlo * dlo)" "0 \<le> radius"
  shows "case sky_position station cx cy radius sat of
      None \<Rightarrow> d > 40
    | Some (x, y) \<Rightarrow> d \<le> 40 \<and> (x - cx)\<^sup>2 + (y - cy)\<^sup>2 = (if d \<ge> 30 then radius else radius * d / 30)\<^sup>2 \<and>
        (d = 0 \<or> (x - cx) * d = (if d \<ge> 30 then radius else radius * d / 30) * dlo \<and>
                 (cy - y) * d = (if d \<ge> 30 then radius else radius * d / 30) * dla)"
proof (cases "d \<le> 40")
  case False
  then have "sky_position station cx cy radius sat = None" using assms by (simp add: sky_position_def Let_def)
  then show ?thesis using False by simp
next
  case True
  define r where "r = radius * (1 - max 0 (90 - d * 3) / 90)"
  have r: "r = (if d \<ge> 30 then radius else radius * d / 30)" by (simp add: r_def max_def field_simps)
  obtain k where k: "sky_position station cx cy radius sat = Some (cx + k * dlo, cy - k * dla)" "k * d = r"
    using sky_position_cases [OF assms(1-3) r_def True] by blast
  have d: "d\<^sup>2 = dla\<^sup>2 + dlo\<^sup>2" using assms(3) by (simp add: power2_eq_square)
  have "(k * dlo)\<^sup>2 + (k * dla)\<^sup>2 = (k * d)\<^sup>2" by (simp add: power_mult_distrib d algebra_simps)
  then show ?thesis using True unfolding k(1) r [symmetric] k(2) [symmetric] by (simp add: algebra_simps)
qed

definition demo_geo :: SatelliteGeolocation where
  "demo_geo = \<lparr>geo_noradId = 25544, geo_name = ''ISS'', geo_latitude = 50, geo_longitude = 0, geo_altitude = 420, geo_signalType = Sstv\<rparr>"

theorem sky_view_direction_witness:
  "case sky_position (40, 0) 175 175 160 demo_geo of None \<Rightarrow> False | Some (x, y) \<Rightarrow> x = 175 \<and> 175 - y = 160 / 3"
proof -
  have "(10 :: real) = sqrt (10 * 10 + 0 * 0)" by simp
  from sky_view_direction [OF _ _ this, of demo_geo "(40, 0)" 160 175 175] show ?thesis
    by (auto simp: demo_geo_def split: option.splits prod.splits)
qed

text \<open>The difference of longitudes is not reduced: a satellite one degree away across the date line is not drawn.\<close>

lemma date_line_hides_satellite:
  assumes "geo_latitude sat = 0" "geo_longitude sat = -1795 / 10"
  shows "sky_position (0, 1795 / 10) cx cy radius sat = None"
  using assms by (simp add: sky_position_def Let_def)

section \<open>Changing the frequency\<close>

lemma retune_messages: "new_freq \<noteq> old_freq \<Longrightarrow> frequency_effect True old_freq new_freq = [C_fft_unsubscribe, C_fft_subscribe (Some new_freq)]"
  by (simp add: frequency_effect_def unsubscribeFFT_def subscribeFFT_def List.map_filter_def)

text \<open>C28: When the frequency of the panel changes, the dashboard drops its subscription and asks for the new
  frequency.  The server keeps the subscriber and forgets the pending stop; it tunes to the new
  frequency only if the stream does not run, and otherwise goes on with the old one, although the
  dashboard writes the new frequency under the middle of the spectrum.\<close>

theorem retune_ignored_while_running:
  assumes "new_freq \<noteq> old_freq" "new_freq \<noteq> 0" "\<not> capture_in_progress (wb_state s)" "st_status (wb_state s) \<noteq> Scanning"
    and "s' = fold (\<lambda>m. ws_message now ws (Some m)) (frequency_effect True old_freq new_freq) s"
  shows "ws \<in> set (wb_subscribers s') \<and> wb_pendingStop s' = None \<and> wb_fft s' = wb_fft s \<and>
    wb_pendingStart s' = (if isFFTStreamRunning (wb_fft s) then wb_pendingStart s else Some (new_freq, now + FFT_START_DEBOUNCE_MS)) \<and>
    FillText (js_toFixed 3 (new_freq / 1000000)) 600 380 \<in> set (drawSpectrum 1200 400 new_freq name scanning running latest history)"
proof -
  have "FillText (js_toFixed 3 (new_freq / 1000000)) 600 380 \<in> set (frequency_labels 1200 360 (new_freq / 1000000) (2 / 10))"
    by (simp add: frequency_labels_def Let_def upt_rec)
  then have "FillText (js_toFixed 3 (new_freq / 1000000)) 600 380 \<in> set (drawSpectrum 1200 400 new_freq name scanning running latest history)"
    unfolding drawSpectrum_def Let_def by simp
  then show ?thesis
    using assms by (auto simp: retune_messages fft_subscribe_def fft_unsubscribe_def debouncedFFTStart_def wemit_def set_add_def or_num_def Let_def)
qed

definition demo_streaming :: web where
  "demo_streaming = demo_web\<lparr>wb_fft := (wb_fft demo_web)\<lparr>fs_running := True, fs_proc := Some 0\<rparr>\<rparr>"

theorem retune_ignored_while_running_witness:
  "isFFTStreamRunning (wb_fft demo_streaming) \<and>
   wb_pendingStart (fold (\<lambda>m. ws_message 5 1 (Some m)) (frequency_effect True 137500000 145500000) demo_streaming) = None"
proof -
  have "isFFTStreamRunning (wb_fft demo_streaming)" "wb_pendingStart demo_streaming = None"
    "\<not> capture_in_progress (wb_state demo_streaming)" "st_status (wb_state demo_streaming) \<noteq> Scanning"
    by (simp_all add: demo_streaming_def demo_web_def web_initial_def isFFTStreamRunning_def proc_killed_def fs_initial_def
        initialState_def capture_in_progress_def)
  then show ?thesis
    using retune_ignored_while_running [of 145500000 137500000 demo_streaming _ 5 1 None False False None "[]", OF _ _ _ _ refl]
    by simp
qed

end
