(* ===== verification/Dashboard_View.thy ===== *)
theory Dashboard_View
  imports Canvas_Views Requests
begin

text \<open>
  The texts, positions and classes of the dashboard's components: \<open>App.tsx\<close>,
  \<open>PassTimeline.tsx\<close>, \<open>Header.tsx\<close>, \<open>StatusBar.tsx\<close>, \<open>StatusCards.tsx\<close>,
  \<open>ProgressSection.tsx\<close>, \<open>PassesTable.tsx\<close>, \<open>DopplerChart.tsx\<close>,
  \<open>CaptureGallery.tsx\<close>, \<open>Footer.tsx\<close>, \<open>DiagnosticsPanel.tsx\<close> and
  \<open>usePageTitle.ts\<close>.  The browser's formats of dates are a parameter.
\<close>

section \<open>Header line of the application\<close>

definition app_status :: "ui_system option \<Rightarrow> string" where
  "app_status st = (case st of None \<Rightarrow> ''idle'' | Some x \<Rightarrow> if us_status x = [] then ''idle'' else us_status x)"

definition showProgress :: "ui_system option \<Rightarrow> bool" where
  "showProgress st \<longleftrightarrow> map_option us_status st \<in> {Some ''recording'', Some ''decoding''}"

definition getStatusColor :: "string \<Rightarrow> string" where
  "getStatusColor st =
     (if st = ''recording'' then ''bg-accent animate-pulse'' else if st = ''decoding'' then ''bg-success''
      else if st = ''waiting'' then ''bg-warning'' else if st = ''scanning'' then ''bg-purple animate-pulse'' else ''bg-text-muted'')"

definition getStatusText :: "string \<Rightarrow> string" where
  "getStatusText st =
     (if st = ''idle'' then ''IDLE'' else if st = ''waiting'' then ''WAIT'' else if st = ''recording'' then ''REC''
      else if st = ''decoding'' then ''DEC'' else if st = ''scanning'' then ''SCAN'' else ''???'')"

text \<open>\<open>sdrConnected\<close> is a field of the state that no message of the server carries.\<close>

definition getSdrStatus :: "string \<Rightarrow> bool option \<Rightarrow> string \<times> string" where
  "getSdrStatus st sdrConnected =
     (if st = ''recording'' \<or> st = ''scanning'' then (''ACT'', ''bg-success shadow-[0_0_6px_var(--success)]'')
      else if or_else sdrConnected False then (''RDY'', ''bg-success'') else (''OFF'', ''bg-warning''))"

definition app_formatCountdown :: "date \<Rightarrow> SatellitePass list \<Rightarrow> string" where
  "app_formatCountdown now passes =
     (case first passes of
        None \<Rightarrow> ''--:--:--''
      | Some p \<Rightarrow>
          let msUntil = pass_aos p - now
          in if msUntil \<le> 0 then ''00:00:00''
             else let hours = msUntil div 3600000; mins = msUntil mod 3600000 div 60000; secs = msUntil mod 60000 div 1000
                  in two_digits hours @ '':'' @ two_digits mins @ '':'' @ two_digits secs)"

definition app_formatFrequency :: "number option \<Rightarrow> string" where
  "app_formatFrequency freq = (case freq of None \<Rightarrow> ''---'' | Some f \<Rightarrow> if f = 0 then ''---'' else js_toFixed 3 (f / 1000000))"

text \<open>The frequency that is shown and what it is of.\<close>

definition current_frequency :: "ui_system option \<Rightarrow> number option \<Rightarrow> WaterfallMode \<Rightarrow> string \<times> string" where
  "current_frequency st currentFreq mode =
     (let f = Option.bind st us_scanningFrequency
      in if app_status st = ''scanning'' \<and> f \<notin> {None, Some 0}
         then (app_formatFrequency f @ '' MHz'', or_else (truthy_text (Option.bind st us_scanningFrequencyName)) ''2M'')
         else (app_formatFrequency currentFreq @ '' MHz'', if mode = Mode_sstv_2m then ''2M'' else ''SAT''))"

definition app_versionText :: "VersionInfo option \<Rightarrow> string" where
  "app_versionText v = (case v of None \<Rightarrow> ''-.-.-'' | Some x \<Rightarrow> if vi_version x = [] then ''-.-.-'' else vi_version x)"

definition chip_class :: "bool \<Rightarrow> bool \<Rightarrow> string \<Rightarrow> string" where
  "chip_class enabled loading color =
     cn [Some ''px-1.5 py-0.5 rounded text-[10px] font-medium transition-all'',
         Some (if enabled then color @ '' text-white'' else ''bg-bg-tertiary text-text-muted''),
         if loading then Some ''opacity-50 cursor-wait'' else None, if \<not> loading then Some ''hover:opacity-80'' else None]"

section \<open>Title of the page\<close>

definition sat_icon :: string where
  "sat_icon = [CHR 0xF0, CHR 0x9F, CHR 0x9B, CHR 0xB0]"

definition usePageTitle :: "string \<Rightarrow> string option \<Rightarrow> string" where
  "usePageTitle st satelliteName =
     (let named = (\<lambda>icon verb plain. case truthy_text satelliteName of
              Some n \<Rightarrow> icon @ verb @ n @ '' - Night Watch'' | None \<Rightarrow> icon @ plain @ '' - Night Watch'')
      in if st = ''recording'' then named (sat_icon @ [CHR 0xEF, CHR 0xB8, CHR 0x8F]) '' Recording '' '' Recording''
         else if st = ''decoding'' then named [CHR 0xF0, CHR 0x9F, CHR 0x94, CHR 0x84] '' Decoding '' '' Decoding''
         else if st = ''scanning'' then satellite_antenna @ '' Scanning SSTV - Night Watch''
         else if st = ''waiting'' then named [CHR 0xE2, CHR 0x8F, CHR 0xB3] '' Waiting for '' '' Waiting''
         else ''Night Watch - Satellite Signal Capture Station'')"

text \<open>The name the application gives it.\<close>

definition title_satellite :: "ui_system option \<Rightarrow> string option" where
  "title_satellite st =
     (case truthy_text (map_option (\<lambda>p. sat_name (pass_satellite p)) (Option.bind st us_currentPass)) of
        Some n \<Rightarrow> Some n
      | None \<Rightarrow> map_option (\<lambda>p. sat_name (pass_satellite p)) (Option.bind st us_nextPass))"

section \<open>Timeline\<close>

definition getShortName :: "string \<Rightarrow> string" where
  "getShortName name =
     (if js_includes name ''NOAA''
      then let num = takeWhile is_digit (dropWhile (\<lambda>c. \<not> is_digit c) name) in if num = [] then ''N??'' else ''N'' @ num
      else if name = ''ISS'' then ''ISS''
      else if js_includes name ''METEOR'' then ''MET''
      else js_toUpperCase (take 3 name))"

definition getSatIcon :: "string \<Rightarrow> string" where
  "getSatIcon name =
     (if js_includes name ''NOAA'' \<or> js_includes name ''METEOR'' then sat_icon
      else if name = ''ISS'' then [CHR 0xF0, CHR 0x9F, CHR 0x9A, CHR 0x80] else satellite_antenna)"

definition timeline_end :: "date \<Rightarrow> int \<Rightarrow> date" where
  "timeline_end now hoursAhead = now + hoursAhead * 60 * 60 * 1000"

definition visiblePasses :: "date \<Rightarrow> int \<Rightarrow> SatellitePass list \<Rightarrow> SatellitePass list" where
  "visiblePasses now hoursAhead passes =
     filter (\<lambda>p. pass_los p \<ge> now \<and> pass_aos p \<le> timeline_end now hoursAhead) passes"

definition getPassStartPos :: "date \<Rightarrow> int \<Rightarrow> SatellitePass \<Rightarrow> number" where
  "getPassStartPos now hoursAhead p =
     (let timeRange = timeline_end now hoursAhead - now; aosTime = max (pass_aos p) now
      in of_int (aosTime - now) / of_int timeRange * 100)"

definition getPassWidth :: "date \<Rightarrow> int \<Rightarrow> SatellitePass \<Rightarrow> number" where
  "getPassWidth now hoursAhead p =
     (let timeRange = timeline_end now hoursAhead - now; aosTime = max (pass_aos p) now;
          losTime = min (pass_los p) (timeline_end now hoursAhead)
      in of_int (losTime - aosTime) / of_int timeRange * 100)"

definition getElevationOpacity :: "number \<Rightarrow> number" where
  "getElevationOpacity elevation = 4 / 10 + elevation / 90 * (6 / 10)"

definition getPassColor :: "SatellitePass \<Rightarrow> string \<times> string \<times> string" where
  "getPassColor p =
     (if sat_signalType (pass_satellite p) = Sstv then (''bg-purple'', ''text-purple'', ''border-purple'')
      else (''bg-accent'', ''text-accent'', ''border-accent''))"

text \<open>JavaScript's remainder has the sign of the number that is divided.\<close>

definition js_irem :: "int \<Rightarrow> int \<Rightarrow> int" where
  "js_irem a m = (if a < 0 then - (- a mod m) else a mod m)"

definition pass_formatDuration :: "date \<Rightarrow> date \<Rightarrow> string" where
  "pass_formatDuration aos los =
     (let durationMs = los - aos; mins = durationMs div 60000; secs = js_irem durationMs 60000 div 1000
      in show_int mins @ ''m '' @ show_int secs @ ''s'')"

definition timeline_formatCountdown :: "int \<Rightarrow> string" where
  "timeline_formatCountdown ms =
     (if ms \<le> 0 then ''NOW''
      else let hours = ms div 3600000; mins = ms mod 3600000 div 60000; secs = ms mod 60000 div 1000
           in if hours > 0 then show_int hours @ ''h '' @ two_digits mins @ ''m''
              else show_int mins @ '':'' @ two_digits secs)"

definition hourMarkers :: "int \<Rightarrow> (int \<times> number) list" where
  "hourMarkers hoursAhead = map (\<lambda>h. (h, of_int h / of_int hoursAhead * 100)) (filter (\<lambda>h. h mod 2 = 0) [2..hoursAhead - 1])"

text \<open>The panel of the next pass: its icon, name and countdown, and whether it is under way.\<close>

definition timeline_next :: "date \<Rightarrow> int \<Rightarrow> SatellitePass list \<Rightarrow> (string \<times> string \<times> string \<times> bool) option" where
  "timeline_next now hoursAhead passes =
     map_option (\<lambda>p. (getSatIcon (sat_name (pass_satellite p)), getShortName (sat_name (pass_satellite p)),
        timeline_formatCountdown (pass_aos p - now), pass_aos p - now \<le> 0)) (first (visiblePasses now hoursAhead passes))"

text \<open>A bar: left end, width, opacity, name, and the elevation where there is room for it.\<close>

definition timeline_bar :: "date \<Rightarrow> int \<Rightarrow> SatellitePass \<Rightarrow> number \<times> number \<times> number \<times> string \<times> string option" where
  "timeline_bar now hoursAhead p =
     (let width = getPassWidth now hoursAhead p
      in (getPassStartPos now hoursAhead p, width, getElevationOpacity (pass_maxElevation p),
          getShortName (sat_name (pass_satellite p)),
          if width > 3 then Some (js_toFixed 0 (pass_maxElevation p) @ degree) else None))"

definition timeline_bars :: "date \<Rightarrow> int \<Rightarrow> SatellitePass list \<Rightarrow> (number \<times> number \<times> number \<times> string \<times> string option) list" where
  "timeline_bars now hoursAhead passes = map (timeline_bar now hoursAhead) (visiblePasses now hoursAhead passes)"

section \<open>Status in words\<close>

definition header_getStatusText :: "string option \<Rightarrow> string \<Rightarrow> string" where
  "header_getStatusText statusMessage st =
     (case truthy_text statusMessage of
        Some m \<Rightarrow> m
      | None \<Rightarrow>
          if st = ''idle'' then ''Standby'' else if st = ''waiting'' then ''Waiting for Pass'' else if st = ''recording'' then ''Recording''
          else if st = ''decoding'' then ''Decoding'' else if st = ''scanning'' then ''Scanning 2m SSTV'' else ''Unknown'')"

definition header_getStatusTooltip :: "string \<Rightarrow> string" where
  "header_getStatusTooltip st =
     (if st = ''idle'' then ''System is idle, waiting for next scheduled pass or SSTV scan''
      else if st = ''waiting'' then ''Satellite pass approaching, preparing to capture''
      else if st = ''recording'' then ''Actively recording RF signal from satellite''
      else if st = ''decoding'' then ''Processing recorded audio into weather images''
      else if st = ''scanning'' then ''Monitoring 2M frequencies for SSTV transmissions'' else ''System status unknown'')"

definition bar_getStatusMessage :: "string \<Rightarrow> SatellitePass option \<Rightarrow> string" where
  "bar_getStatusMessage st next =
     (if st = ''waiting''
      then (case next of Some p \<Rightarrow> ''Waiting for '' @ sat_name (pass_satellite p) | None \<Rightarrow> ''Waiting for Pass'')
      else if st = ''recording'' then ''Recording Signal'' else if st = ''decoding'' then ''Decoding Image''
      else if st = ''scanning'' then ''Scanning 2m SSTV'' else ''Night Watch - Satellite Signal Capture Station'')"

definition bar_getSdrStatus :: "string \<Rightarrow> bool \<Rightarrow> string \<times> string" where
  "bar_getSdrStatus st sdrConnected =
     (if st = ''recording'' \<or> st = ''scanning'' then (''SDR: Active'', ''bg-success shadow-[0_0_6px_var(--success)]'')
      else if sdrConnected then (''SDR: Ready'', ''bg-success'') else (''SDR: Standby'', ''bg-warning animate-pulse''))"

text \<open>\<open>build\<close> is the browser's text of the time of the build.\<close>

definition bar_versionText :: "(string \<Rightarrow> string) \<Rightarrow> VersionInfo option \<Rightarrow> string" where
  "bar_versionText build v =
     (let commitShort = (case v of None \<Rightarrow> ''---'' | Some x \<Rightarrow> if take 7 (vi_commit x) = [] then ''---'' else take 7 (vi_commit x));
          buildDateTime = (case truthy_text (Option.bind v vi_buildTime) of None \<Rightarrow> [] | Some t \<Rightarrow> build t)
      in ''v'' @ app_versionText v @ '' ('' @ commitShort @ '')'' @ (if buildDateTime = [] then [] else '' - '' @ buildDateTime))"

definition cards_status :: "string \<Rightarrow> string" where
  "cards_status st =
     (if st = ''idle'' then ''Standby'' else if st = ''waiting'' then ''Waiting for Pass'' else if st = ''recording'' then ''Recording''
      else if st = ''decoding'' then ''Decoding'' else if st = ''scanning'' then ''Scanning 2m SSTV'' else [])"

definition footer_versionText :: "VersionInfo option \<Rightarrow> string" where
  "footer_versionText v =
     ''Night Watch '' @ (case v of None \<Rightarrow> [] | Some x \<Rightarrow> ''v'' @ vi_version x) @ '' '' @
     (case v of
        None \<Rightarrow> []
      | Some x \<Rightarrow>
          let commitShort = (if vi_commit x = [] then ''unknown'' else take 7 (vi_commit x))
          in if commitShort \<noteq> ''unknown'' then ''('' @ commitShort @ '')'' else [])"

definition footer_buildDate :: "(string \<Rightarrow> string option) \<Rightarrow> VersionInfo option \<Rightarrow> string" where
  "footer_buildDate build v =
     (case truthy_text (Option.bind v vi_buildTime) of None \<Rightarrow> ''Unknown'' | Some t \<Rightarrow> or_else (build t) ''Unknown'')"

definition bullet :: string where
  "bullet = [CHR 0xE2, CHR 0x80, CHR 0xA2]"

definition footer_tooltip :: "(string \<Rightarrow> string option) \<Rightarrow> VersionInfo option \<Rightarrow> string" where
  "footer_tooltip build v =
     (case v of
        None \<Rightarrow> ''Version information unavailable''
      | Some x \<Rightarrow> ''Build: '' @ footer_buildDate build v @ '' UTC '' @ bullet @ '' Commit: '' @ vi_commit x)"

section \<open>Progress and Doppler shift\<close>

definition SATELLITE_INFO :: "(string \<times> string) list" where
  "SATELLITE_INFO =
     [(''NOAA-15'', ''Weather satellite transmitting APT images at 137.62 MHz. Launched in 1998.''),
      (''NOAA-18'', ''Weather satellite transmitting APT images at 137.9125 MHz. Launched in 2005.''),
      (''NOAA-19'', ''Weather satellite transmitting APT images at 137.1 MHz. Launched in 2009.''),
      (''ISS'', ''International Space Station. Occasionally transmits SSTV images at 145.8 MHz.''),
      (''METEOR-M N2-3'', ''Russian weather satellite transmitting LRPT images at 137.9 MHz. High-resolution digital imagery.''),
      (''METEOR-M N2-4'', ''Russian weather satellite transmitting LRPT images at 137.9 MHz. High-resolution digital imagery.'')]"

record progress_view =
  pv_title :: string
  pv_signal :: string
  pv_description :: "string option"
  pv_pass :: "(string \<times> string) option"
  pv_percentage :: "int option"
  pv_remaining :: string

text \<open>A total of zero gives a percentage that is not an integer.\<close>

definition ProgressSection :: "(number \<Rightarrow> string) \<Rightarrow> (number \<times> number \<times> number) option \<Rightarrow> bool \<Rightarrow> SatellitePass option \<Rightarrow> progress_view option" where
  "ProgressSection str progress visible currentPass =
     (case progress of
        None \<Rightarrow> None
      | Some (percentage, elapsed, tot) \<Rightarrow>
          if \<not> visible then None
          else let satName = or_else (truthy_text (map_option (\<lambda>p. sat_name (pass_satellite p)) currentPass)) ''Unknown'';
                   signalType = (case currentPass of Some p \<Rightarrow> js_toUpperCase (signal_type_name (sat_signalType (pass_satellite p))) | None \<Rightarrow> ''RF'');
                   frequency = (case currentPass of Some p \<Rightarrow> sat_frequency (pass_satellite p) | None \<Rightarrow> 0)
               in Some \<lparr>pv_title = ''Capturing: '' @ satName, pv_signal = signalType @ '' signal at '' @ ui_formatFrequency str frequency,
                    pv_description = map_of SATELLITE_INFO satName,
                    pv_pass = map_option (\<lambda>p. (js_toFixed 1 (pass_maxElevation p) @ degree, ui_formatDuration str (pass_duration p))) currentPass,
                    pv_percentage = (if tot = 0 then None else Some (js_round (elapsed / tot * 100))),
                    pv_remaining = ui_formatDuration str (tot - elapsed) @ '' remaining''\<rparr>)"

definition normalizedCurrent :: "number \<Rightarrow> number \<Rightarrow> number \<Rightarrow> number" where
  "normalizedCurrent current mn mx = (let rng = mx - mn in if rng > 0 then (current - mn) / rng * 100 else 50)"

text \<open>The texts of the chart and the position of its marker.\<close>

definition DopplerChart :: "number \<Rightarrow> number \<Rightarrow> number \<Rightarrow> bool \<Rightarrow> (string \<times> string \<times> number) option" where
  "DopplerChart current mn mx visible =
     (if \<not> visible then None
      else Some (''Current: '' @ js_toFixed 0 current @ '' Hz'', ''Range: '' @ js_toFixed 0 mn @ '' to '' @ js_toFixed 0 mx @ '' Hz'',
                 normalizedCurrent current mn mx * 6))"

section \<open>Tables\<close>

definition getSignalBadgeClass :: "string \<Rightarrow> string" where
  "getSignalBadgeClass signalType =
     (if signalType = ''apt'' then ''bg-accent/20 text-accent'' else if signalType = ''sstv'' then ''bg-purple/20 text-purple''
      else ''bg-text-muted/20 text-text-muted'')"

definition passes_row :: "(number \<Rightarrow> string) \<Rightarrow> (date \<Rightarrow> string) \<Rightarrow> SatellitePass \<Rightarrow> string list \<times> string \<times> string" where
  "passes_row str time p =
     (let sat = pass_satellite p; signalType = signal_type_name (sat_signalType sat)
      in ([sat_name sat, signalType, js_toFixed 3 (sat_frequency sat / 1000000) @ '' MHz'', time (pass_aos p),
           ui_formatDuration str (pass_duration p), js_toFixed 1 (pass_maxElevation p) @ degree],
          getSignalBadgeClass signalType,
          if pass_maxElevation p \<ge> 45 then ''text-success'' else if pass_maxElevation p \<ge> 20 then ''text-warning'' else ''text-text-muted''))"

definition PassesTable :: "(number \<Rightarrow> string) \<Rightarrow> (date \<Rightarrow> string) \<Rightarrow> SatellitePass list \<Rightarrow> string + (string list \<times> string \<times> string) list" where
  "PassesTable str time passes = (if passes = [] then Inl ''No upcoming passes scheduled'' else Inr (map (passes_row str time) passes))"

section \<open>Quality of a capture\<close>

definition getSignalQuality :: "number option \<Rightarrow> string \<times> string \<times> string" where
  "getSignalQuality signal =
     (case signal of
        None \<Rightarrow> (''Unknown'', ''bg-text-muted'', ''Signal strength not recorded'')
      | Some v \<Rightarrow>
          if v \<ge> -20 then (''Excellent'', ''bg-success'', ''Very strong signal'')
          else if v \<ge> -25 then (''Good'', ''bg-accent'', ''Good signal quality'')
          else if v \<ge> -30 then (''Fair'', ''bg-warning'', ''Usable signal, may have artifacts'')
          else (''Weak'', ''bg-error'', ''Poor signal quality, likely degraded''))"

definition getElevationQuality :: "number \<Rightarrow> string \<times> string" where
  "getElevationQuality elevation =
     (let e = js_toFixed 1 elevation @ degree
      in if elevation \<ge> 60 then (''Excellent pass'', e @ '' - Nearly overhead'')
         else if elevation \<ge> 40 then (''Good pass'', e @ '' - High elevation'')
         else if elevation \<ge> 25 then (''Fair pass'', e @ '' - Moderate elevation'')
         else (''Low pass'', e @ '' - Near horizon''))"

text \<open>The dot of a capture that succeeded, or the note of one that failed.\<close>

definition card_badge :: "web_capture \<Rightarrow> string \<times> string" where
  "card_badge c =
     (let e = wc_entry c
      in if che_success e
         then (snd (snd (getSignalQuality (che_maxSignalStrength e))) @ '' '' @ bullet @ '' '' @ snd (getElevationQuality (che_maxElevation e)),
               fst (snd (getSignalQuality (che_maxSignalStrength e))))
         else (or_else (truthy_text (che_errorMessage e)) ''Capture failed - check signal strength and antenna positioning'', ''Failed''))"

section \<open>Diagnostics\<close>

datatype log_level = Log_info | Log_warn | Log_error | Log_debug

text \<open>The identifier is made of the clock and of random characters.\<close>

record LogEntry =
  le_id :: string
  le_timestamp :: date
  le_level :: log_level
  le_message :: string

record diagnostics =
  dg_logs :: "LogEntry list"
  dg_isResizing :: bool

definition addLog :: "string \<Rightarrow> date \<Rightarrow> log_level \<Rightarrow> string \<Rightarrow> diagnostics \<Rightarrow> diagnostics" where
  "addLog random now level message g =
     g\<lparr>dg_logs := last_n 100 (dg_logs g) @
       [\<lparr>le_id = show_int now @ ''-'' @ random, le_timestamp = now, le_level = level, le_message = message\<rparr>]\<rparr>"

text \<open>The effects of a change of the connection and of the state.\<close>

definition connection_effect :: "string \<Rightarrow> date \<Rightarrow> ws_state \<Rightarrow> diagnostics \<Rightarrow> diagnostics" where
  "connection_effect random now ws g =
     (if wv_connected ws then addLog random now Log_info ''WebSocket connected'' g
      else case truthy_text (wv_error ws) of Some e \<Rightarrow> addLog random now Log_error (''WebSocket error: '' @ e) g | None \<Rightarrow> g)"

definition state_effect :: "string \<Rightarrow> date \<Rightarrow> ui_system option \<Rightarrow> diagnostics \<Rightarrow> diagnostics" where
  "state_effect random now st g =
     (case st of Some x \<Rightarrow> addLog random now Log_debug (''Status changed: '' @ us_status x) g | None \<Rightarrow> g)"

definition resize_start :: "diagnostics \<Rightarrow> diagnostics" where
  "resize_start g = g\<lparr>dg_isResizing := True\<rparr>"

definition resize_move :: "number \<Rightarrow> diagnostics \<Rightarrow> UIState \<Rightarrow> UIState" where
  "resize_move clientY g st =
     (if \<not> dg_isResizing g then st else setDiagnosticsPanelHeight (max 150 (min 500 (clientY - 68))) st)"

definition resize_end :: "diagnostics \<Rightarrow> diagnostics" where
  "resize_end g = g\<lparr>dg_isResizing := False\<rparr>"

definition diag_formatCountdown :: "date \<Rightarrow> date \<Rightarrow> string" where
  "diag_formatCountdown now aos =
     (let msUntil = aos - now
      in if msUntil \<le> 0 then ''NOW''
         else let hours = msUntil div 3600000; mins = msUntil mod 3600000 div 60000
              in if hours > 0 then show_int hours @ ''h '' @ show_int mins @ ''m'' else show_int mins @ ''m'')"

definition log_class :: "log_level \<Rightarrow> string" where
  "log_class l = (case l of Log_error \<Rightarrow> ''text-error'' | Log_warn \<Rightarrow> ''text-warning'' | Log_debug \<Rightarrow> ''text-text-muted'' | Log_info \<Rightarrow> ''text-accent'')"

definition sdr_tab_status :: "ui_system option \<Rightarrow> string \<times> string" where
  "sdr_tab_status st =
     (let s = map_option us_status st; sdrActive = s \<in> {Some ''recording'', Some ''scanning'', Some ''decoding''};
          sdrReady = s \<in> {Some ''idle'', Some ''waiting''}
      in (if sdrActive then ''Active'' else if sdrReady then ''Ready'' else ''Unknown'',
          if sdrActive then ''bg-success shadow-[0_0_6px_var(--success)]'' else if sdrReady then ''bg-success'' else ''bg-warning''))"

definition sdr_tab_lines :: "(number \<Rightarrow> string) \<Rightarrow> ui_system option \<Rightarrow> (number \<times> number \<times> number) option \<Rightarrow> string list" where
  "sdr_tab_lines str st progress =
     [''Status: '' @ or_else (truthy_text (map_option us_status st)) ''Unknown''] @
     (case Option.bind st us_currentPass of
        Some p \<Rightarrow> [''Satellite: '' @ sat_name (pass_satellite p),
                  ''Frequency: '' @ js_toFixed 3 (sat_frequency (pass_satellite p) / 1000000) @ '' MHz'',
                  ''Max Elevation: '' @ js_toFixed 1 (pass_maxElevation p) @ degree]
      | None \<Rightarrow> []) @
     (let f = Option.bind st us_scanningFrequency
      in if map_option us_status st = Some ''scanning'' \<and> f \<notin> {None, Some 0}
         then [''Mode: 2M SSTV Scanning'',
               ''Frequency: '' @ js_toFixed 3 (the f / 1000000) @ '' MHz ('' @
                 or_else (truthy_text (Option.bind st us_scanningFrequencyName)) ''Unknown'' @ '')'']
         else []) @
     (case progress of
        Some (p, e, t) \<Rightarrow> [''Progress: '' @ str p @ ''% ('' @ str e @ ''s / '' @ str t @ ''s)''] | None \<Rightarrow> [])"

definition network_tab_lines :: "string \<Rightarrow> string \<Rightarrow> ws_state \<Rightarrow> string list" where
  "network_tab_lines protocol host ws =
     [''WebSocket: '' @ (if wv_connected ws then ''Connected'' else ''Disconnected'')] @
     (case truthy_text (wv_error ws) of Some e \<Rightarrow> [''Error: '' @ e] | None \<Rightarrow> []) @
     [''URL: '' @ (if protocol = ''https:'' then ''wss:'' else ''ws:'') @ ''//'' @ host @ ''/ws'',
      ''Reconnect Attempts: '' @ show_nat (wv_reconnectAttempts ws)]"

text \<open>\<open>day\<close> and \<open>time\<close> are the browser's formats.\<close>

definition passes_tab_row :: "date \<Rightarrow> (date \<Rightarrow> string) \<Rightarrow> (date \<Rightarrow> string) \<Rightarrow> SatellitePass \<Rightarrow> string list" where
  "passes_tab_row now day time p =
     [sat_name (pass_satellite p), day (pass_aos p), time (pass_aos p), time (pass_los p), pass_formatDuration (pass_aos p) (pass_los p),
      js_toFixed 0 (pass_maxElevation p) @ degree, js_toFixed 3 (sat_frequency (pass_satellite p) / 1000000),
      diag_formatCountdown now (pass_aos p)]"

section \<open>Bars of the timeline\<close>

lemma timeline_range: "0 < h \<Longrightarrow> timeline_end now h - now = h * 3600000" "0 < h \<Longrightarrow> now < timeline_end now h"
  by (simp_all add: timeline_end_def)

lemma timeline_bar_inside:
  assumes "0 < h" "pass_aos p \<le> pass_los p" "now \<le> pass_los p" "pass_aos p \<le> timeline_end now h"
  shows "0 \<le> getPassStartPos now h p" "0 \<le> getPassWidth now h p" "getPassStartPos now h p + getPassWidth now h p \<le> 100"
proof -
  define R where "R = real_of_int (timeline_end now h - now)"
  have R: "0 < R" using timeline_range(2) [OF assms(1)] by (simp add: R_def)
  define a where "a = max (pass_aos p) now" define l where "l = min (pass_los p) (timeline_end now h)"
  have o: "now \<le> a" "a \<le> l" "l \<le> timeline_end now h"
    using assms timeline_range(2) [OF assms(1), of now] by (auto simp: a_def l_def)
  have e: "getPassStartPos now h p = of_int (a - now) / R * 100" "getPassWidth now h p = of_int (l - a) / R * 100"
    by (simp_all add: getPassStartPos_def getPassWidth_def Let_def a_def l_def R_def)
  show "0 \<le> getPassStartPos now h p" "0 \<le> getPassWidth now h p" unfolding e using o R by simp_all
  have "of_int (l - now) \<le> R" using o(3) by (simp add: R_def)
  then have "of_int (l - now) / R * 100 \<le> 100" using R by (simp add: divide_le_eq)
  moreover have "of_int (a - now) / R * 100 + of_int (l - a) / R * 100 = of_int (l - now) / R * 100"
    by (simp add: add_divide_distrib [symmetric])
  ultimately show "getPassStartPos now h p + getPassWidth now h p \<le> 100" unfolding e by simp
qed



section \<open>Words for the server's status\<close>

definition status_word :: "SystemStatus \<Rightarrow> string" where
  "status_word st = (case st of Idle \<Rightarrow> ''IDLE'' | Waiting \<Rightarrow> ''WAIT'' | Capturing \<Rightarrow> ''REC'' | Decoding \<Rightarrow> ''DEC'' | Scanning \<Rightarrow> ''SCAN'')"

lemma follows_word:
  assumes "follows u s" "st_status s \<noteq> Capturing"
  shows "getStatusText (app_status (ui_state u)) = status_word (st_status s)"
  using assms by (auto simp: follows_def status_agrees_def app_status_def getStatusText_def status_word_def status_text_def
      split: option.splits SystemStatus.splits)

text \<open>
  A dashboard that was open when the pass started says that it is recorded.  One that is opened
  during the pass is sent the server's own word for it, which none of the components knows.
\<close>

lemma started_while_open:
  "ui_state u \<noteq> None \<Longrightarrow> getStatusText (app_status (ui_state (ui_on_message (M_event (pass_start p)) u))) = ''REC''"
  "ui_state u \<noteq> None \<Longrightarrow> showProgress (ui_state (ui_on_message (M_event (pass_start p)) u))"
  by (auto simp: ui_on_message_def Let_def upd_system_def app_status_def getStatusText_def showProgress_def)

lemma opened_during_capture:
  assumes "st_status s = Capturing" "u' = ui_on_message (M_init s g r c n e) u"
  shows "getStatusText (app_status (ui_state u')) = ''???''" "\<not> showProgress (ui_state u')" "cards_status (app_status (ui_state u')) = []"
    "header_getStatusText None (app_status (ui_state u')) = ''Unknown''" "fst (sdr_tab_status (ui_state u')) = ''Unknown''"
    "favicon_color (app_status (ui_state u')) = (''#64748b'', False)" "follows u' s"
  using assms by (simp_all add: ui_on_message_def Let_def of_system_def status_text_def app_status_def getStatusText_def showProgress_def
      cards_status_def header_getStatusText_def truthy_text_def sdr_tab_status_def favicon_color_def follows_def status_agrees_def)

text \<open>The receiver is never shown as ready, since the state says nothing of it.\<close>

lemma receiver_never_ready: "fst (getSdrStatus st None) \<in> {''ACT'', ''OFF''}"
  by (simp add: getSdrStatus_def)

section \<open>Panels\<close>

text \<open>The log has at most 101 entries and ends with the latest.\<close>

lemma addLog_bound: "length (dg_logs (addLog x now l m g)) \<le> 101" "le_message (last (dg_logs (addLog x now l m g))) = m"
  using last_n_length [of 100 "dg_logs g"] by (simp_all add: addLog_def)

lemma resize_height:
  assumes "150 \<le> uis_diagnosticsPanelHeight st" "uis_diagnosticsPanelHeight st \<le> 500"
  shows "150 \<le> uis_diagnosticsPanelHeight (resize_move y g st) \<and> uis_diagnosticsPanelHeight (resize_move y g st) \<le> 500"
  using assms by (simp add: resize_move_def setDiagnosticsPanelHeight_def)

lemma marker_in_chart: "mn \<le> cur \<Longrightarrow> cur \<le> mx \<Longrightarrow> 0 \<le> normalizedCurrent cur mn mx * 6 \<and> normalizedCurrent cur mn mx * 6 \<le> 600"
  by (auto simp: normalizedCurrent_def Let_def divide_le_eq)

lemma progress_percentage:
  assumes "0 \<le> e" "e \<le> t" "0 < t" "ProgressSection str (Some (p, e, t)) True pass = Some v"
  shows "\<exists>n. pv_percentage v = Some n \<and> 0 \<le> n \<and> n \<le> 100"
proof -
  have "of_int 0 \<le> e / t * 100" "e / t * 100 \<le> of_int 100" using assms(1-3) by (simp_all add: divide_le_eq)
  from js_round_mono [OF this(1)] js_round_mono [OF this(2)]
  have "0 \<le> js_round (e / t * 100) \<and> js_round (e / t * 100) \<le> 100" unfolding js_round_of_int by blast
  moreover have "pv_percentage v = Some (js_round (e / t * 100))" using assms(3,4) by (auto simp: ProgressSection_def Let_def)
  ultimately show ?thesis by blast
qed

text \<open>A signal is called weak exactly when it is below the default limit of a recording.\<close>

lemma weak_below_limit: "fst (getSignalQuality (Some v)) = ''Weak'' \<longleftrightarrow> v < -30"
  by (simp add: getSignalQuality_def)

text \<open>Every satellite of the station has a description but METEOR passes get the badge of an unknown signal.\<close>

lemma satellites_described: "list_all (\<lambda>s. map_of SATELLITE_INFO (sat_name s) \<noteq> None) SATELLITES"
  by (simp add: SATELLITES_def SATELLITE_INFO_def ISS_def METEOR_M_N2_3_def METEOR_M_N2_4_def)

lemma lrpt_badge_unknown: "getSignalBadgeClass (signal_type_name Lrpt) = getSignalBadgeClass ''unknown''"
  by (simp add: getSignalBadgeClass_def signal_type_name_def)

end
