(* ===== verification/Markup.thy ===== *)
theory Markup
  imports Dashboard_View
begin

text \<open>
  What the components of \<open>frontend/src/components/\<close> return: a tree of elements with attributes,
  event handlers and texts.  A component that may return \<open>null\<close> yields a list.  This theory has
  \<open>Tooltip.tsx\<close>, \<open>Footer.tsx\<close>, \<open>Header.tsx\<close>, \<open>StatusBar.tsx\<close>,
  \<open>ProgressSection.tsx\<close>, \<open>DopplerChart.tsx\<close>, \<open>PassesTable.tsx\<close>,
  \<open>StatusCards.tsx\<close> and \<open>SstvToggle.tsx\<close>.
\<close>

section \<open>Elements\<close>

datatype tag =
    T_div | T_span | T_p | T_h1 | T_h2 | T_h3 | T_h4 | T_button | T_a | T_svg | T_path | T_title | T_header | T_footer
  | T_main | T_nav | T_strong | T_pre | T_table | T_thead | T_tbody | T_tr | T_th | T_td | T_img | T_canvas | T_line
  | T_circle | T_text

datatype dom_event = E_click | E_mouseenter | E_mouseleave | E_mousemove | E_mousedown | E_keydown | E_focus | E_blur

datatype 'a attr =
    A_class string | A_key string | A_type string | A_title string | A_href string | A_target string | A_rel string
  | A_src string | A_alt string | A_role string | A_testid string | A_style "(string \<times> string) list" | A_disabled bool
  | A_on dom_event 'a | A_other string string

datatype 'a node = Txt string | El tag "'a attr list" "'a node list"

text \<open>What a handler does.  \<open>If_key\<close> looks at the key of the event first.\<close>

datatype ui_action =
    Tip_show string | Tip_hide string | Noaa_click | Iss_click | Ground_click | Sstv_click | Scan_click
  | Toggle_diagnostics | Close_diagnostics | Select_tab DiagnosticsTab | Start_resize | Select_mode WaterfallMode
  | Select_frequency nat | Select_capture web_capture | Close_image | Stop_propagation | Hover SatellitePass | Unhover
  | Track_mouse | No_action | If_key "string list" ui_action

type_synonym markup = "ui_action node"

text \<open>The browser's formats of numbers and dates, its location, and \<open>JSON.stringify\<close> of the values the
  diagnostics show.\<close>

record browser =
  br_str :: "number \<Rightarrow> string"
  br_time :: "date \<Rightarrow> string"
  br_day :: "date \<Rightarrow> string"
  br_clock :: "date \<Rightarrow> string"
  br_locale :: "date \<Rightarrow> string"
  br_stamp_day :: "string \<Rightarrow> string"
  br_stamp_time :: "string \<Rightarrow> string"
  br_build :: "string \<Rightarrow> string option"
  br_encode :: "string \<Rightarrow> string"
  br_protocol :: string
  br_host :: string
  br_dump_system :: "ui_system option \<Rightarrow> string"
  br_dump_sstv :: "SSTVStatus option \<Rightarrow> string"
  br_dump_progress :: "(number \<times> number \<times> number) option \<Rightarrow> string"
  br_dump_passes :: "(string \<times> date \<times> number) list \<Rightarrow> string"
  br_dump_globe :: "((number \<times> number) \<times> nat \<times> nat) option \<Rightarrow> string"

section \<open>Events\<close>

text \<open>React does not call the mouse handlers of a disabled button.\<close>

definition is_disabled :: "tag \<Rightarrow> 'a attr list \<Rightarrow> bool" where
  "is_disabled t as \<longleftrightarrow> t = T_button \<and> A_disabled True \<in> set as"

fun handlers :: "dom_event \<Rightarrow> 'a attr list \<Rightarrow> 'a list" where
  "handlers ev [] = []"
| "handlers ev (A_on x a # as) = (if x = ev then a # handlers ev as else handlers ev as)"
| "handlers ev (x # as) = handlers ev as"

definition own_handlers :: "dom_event \<Rightarrow> tag \<Rightarrow> 'a attr list \<Rightarrow> 'a list" where
  "own_handlers ev t as = (if is_disabled t as \<and> ev \<noteq> E_keydown then [] else handlers ev as)"

text \<open>
  An event at the node of a path: the handlers from there up to the root, until one stops it.
  \<open>None\<close> for a path that leads nowhere.
\<close>

fun dispatch :: "dom_event \<Rightarrow> nat list \<Rightarrow> markup \<Rightarrow> ui_action list option" where
  "dispatch ev [] (Txt s) = Some []"
| "dispatch ev [] (El t as ns) = Some (own_handlers ev t as)"
| "dispatch ev (i # path) (Txt s) = None"
| "dispatch ev (i # path) (El t as ns) =
     (if i < length ns
      then map_option (\<lambda>acts. if Stop_propagation \<in> set acts then acts else acts @ own_handlers ev t as) (dispatch ev path (ns ! i))
      else None)"

text \<open>Everything a click anywhere in the tree may do.\<close>

fun clicks :: "markup \<Rightarrow> ui_action list" where
  "clicks (Txt s) = []"
| "clicks (El t as ns) = own_handlers E_click t as @ concat (map clicks ns)"

text \<open>The text of an element, as it is read.\<close>

fun text_of :: "'a node \<Rightarrow> string" where
  "text_of (Txt s) = s"
| "text_of (El t as ns) = concat (map text_of ns)"

fun keyed :: "string \<Rightarrow> 'a node \<Rightarrow> 'a node" where
  "keyed k (Txt s) = Txt s"
| "keyed k (El t as ns) = El t (A_key k # as) ns"

section \<open>Tooltip\<close>

datatype tip_position = Pos_top | Pos_bottom | Pos_left | Pos_right

fun positionClasses :: "tip_position \<Rightarrow> string" where
  "positionClasses Pos_top = ''bottom-full left-1/2 -translate-x-1/2 mb-2''"
| "positionClasses Pos_bottom = ''top-full left-1/2 -translate-x-1/2 mt-2''"
| "positionClasses Pos_left = ''right-full top-1/2 -translate-y-1/2 mr-2''"
| "positionClasses Pos_right = ''left-full top-1/2 -translate-y-1/2 ml-2''"

fun arrowClasses :: "tip_position \<Rightarrow> string" where
  "arrowClasses Pos_top = ''top-full left-1/2 -translate-x-1/2 border-t-bg-tertiary border-x-transparent border-b-transparent''"
| "arrowClasses Pos_bottom = ''bottom-full left-1/2 -translate-x-1/2 border-b-bg-tertiary border-x-transparent border-t-transparent''"
| "arrowClasses Pos_left = ''left-full top-1/2 -translate-y-1/2 border-l-bg-tertiary border-y-transparent border-r-transparent''"
| "arrowClasses Pos_right = ''right-full top-1/2 -translate-y-1/2 border-r-bg-tertiary border-y-transparent border-l-transparent''"

text \<open>The state of each tooltip is its own; it is given a name here.\<close>

definition Tooltip :: "(string \<Rightarrow> bool) \<Rightarrow> string \<Rightarrow> string \<Rightarrow> tip_position \<Rightarrow> string
  option \<Rightarrow> markup list \<Rightarrow> markup" where
  "Tooltip tips ident content position className children =
    El T_div [A_class (cn [Some ''relative inline-flex'', className]), A_on E_mouseenter (Tip_show ident),
        A_on E_mouseleave (Tip_hide ident), A_on E_focus (Tip_show ident), A_on E_blur (Tip_hide ident)]
      ((children) @
       (if tips ident then
         [El T_div [A_class (cn [Some
           ''absolute z-50 px-2 py-1.5 text-xs text-text-primary bg-bg-tertiary rounded shadow-lg whitespace-nowrap pointer-events-none'',
           Some (positionClasses position)]),
              A_role ''tooltip'']
            [Txt content,
             El T_div [A_class (cn [Some ''absolute w-0 h-0 border-4'', Some (arrowClasses position)]), A_other ''aria-hidden'' ''true'']
               []]] else []))"

section \<open>Footer, header and status bar\<close>

definition footer_commit :: "VersionInfo option \<Rightarrow> markup list" where
  "footer_commit version =
     (case version of
        None \<Rightarrow> []
      | Some v \<Rightarrow>
          let commitShort = (if vi_commit v = [] then ''unknown'' else take 7 (vi_commit v))
          in if commitShort \<noteq> ''unknown'' then [Txt (''('' @ commitShort @ '')'')] else [])"

definition Footer :: "(string \<Rightarrow> string option) \<Rightarrow> (string \<Rightarrow> bool) \<Rightarrow> VersionInfo option
  \<Rightarrow> markup" where
  "Footer build tips version =
    El T_footer [A_class
      ''fixed bottom-0 left-0 right-0 h-8 bg-bg-secondary border-t border-border px-4 flex items-center justify-between text-xs z-50'']
      [El T_div [A_class ''flex items-center gap-4'']
         [El T_a [A_href ''https://github.com/milesburton/night-watch'', A_target ''_blank'', A_rel ''noopener noreferrer'',
              A_class ''flex items-center gap-1.5 text-text-secondary hover:text-accent transition-colors'']
            [El T_svg [A_class ''w-4 h-4'', A_other ''fill'' ''currentColor'', A_other ''viewBox'' ''0 0 24 24'',
                 A_other ''aria-hidden'' ''true'']
               [El T_path [A_other ''fillRule'' ''evenodd'',
                    A_other ''d''
                      ''M12 2C6.477 2 2 6.484 2 12.017c0 4.425 2.865 8.18 6.839 9.504.5.092.682-.217.682-.483 0-.237-.008-.868-.013-1.703-2.782.605-3.369-1.343-3.369-1.343-.454-1.158-1.11-1.466-1.11-1.466-.908-.62.069-.608.069-.608 1.003.07 1.531 1.032 1.531 1.032.892 1.53 2.341 1.088 2.91.832.092-.647.35-1.088.636-1.338-2.22-.253-4.555-1.113-4.555-4.951 0-1.093.39-1.988 1.029-2.688-.103-.253-.446-1.272.098-2.65 0 0 .84-.27 2.75 1.026A9.564 9.564 0 0112 6.844c.85.004 1.705.115 2.504.337 1.909-1.296 2.747-1.027 2.747-1.027.546 1.379.202 2.398.1 2.651.64.7 1.028 1.595 1.028 2.688 0 3.848-2.339 4.695-4.566 4.943.359.309.678.92.678 1.855 0 1.338-.012 2.419-.012 2.747 0 .268.18.58.688.482A10.019 10.019 0 0022 12.017C22 6.484 17.522 2 12 2z'',
                    A_other ''clipRule'' ''evenodd'']
                  []],
             El T_span [] [Txt ''GitHub'']],
          El T_a [A_href ''https://github.com/milesburton/night-watch/blob/main/docs/API.md'', A_target ''_blank'',
              A_rel ''noopener noreferrer'', A_class ''text-text-secondary hover:text-accent transition-colors'']
            [Txt ''API Docs'']],
       Tooltip tips ''version'' (footer_tooltip build version) Pos_top None
         [El T_span [A_class ''text-text-muted cursor-help'']
            ([Txt ''Night Watch '', Txt (case version of None \<Rightarrow> [] | Some v \<Rightarrow> ''v'' @ vi_version v), Txt '' ''] @
             (footer_commit version))],
       El T_span [A_class ''text-text-muted''] [Txt ''MIT License'']]"

definition header_status_class :: "string \<Rightarrow> string" where
  "header_status_class st =
     cn [Some ''px-3 py-1 rounded-full text-sm font-medium cursor-help'',
         if st = ''idle'' then Some ''bg-text-secondary/20 text-text-secondary'' else None,
         if st = ''waiting'' then Some ''bg-warning/20 text-warning'' else None,
         if st = ''recording'' then Some ''bg-accent/20 text-accent animate-pulse'' else None,
         if st = ''decoding'' then Some ''bg-success/20 text-success'' else None,
         if st = ''scanning'' then Some ''bg-purple/20 text-purple animate-pulse'' else None]"

definition Header :: "(string \<Rightarrow> bool) \<Rightarrow> string \<Rightarrow> string option \<Rightarrow> bool \<Rightarrow> markup" where
  "Header tips st statusMessage online =
    El T_header [A_class ''bg-bg-secondary px-8 py-4 flex justify-between items-center border-b border-border'']
      [El T_h1 [A_class ''text-2xl font-semibold''] [Txt ''RFCapture''],
       El T_div [A_class ''flex items-center gap-4'']
         [Tooltip tips ''status'' (header_getStatusTooltip st) Pos_bottom None
            [El T_span [A_class (header_status_class st)] [Txt (header_getStatusText statusMessage st)]],
          Tooltip tips ''connection'' (if online then ''WebSocket connection to server is active''
            else ''Lost connection to server, attempting to reconnect'') Pos_bottom None
            [El T_div [A_class (cn [Some ''px-3 py-1 rounded-full text-xs font-medium uppercase cursor-help'',
              Some (if online then ''bg-success/20 text-success'' else ''bg-error/20 text-error'')])]
               [Txt (if online then ''Connected'' else ''Disconnected'')]]]]"

definition StatusBar ::
  "(string \<Rightarrow> string) \<Rightarrow> string \<Rightarrow> SatellitePass option \<Rightarrow> bool \<Rightarrow> VersionInfo option
    \<Rightarrow> bool \<Rightarrow> bool \<Rightarrow> markup" where
  "StatusBar build st nextPass sdrConnected version wsConnected diagnosticsOpen =
    El T_footer [A_class
      ''fixed bottom-0 left-0 right-0 bg-bg-secondary border-t border-border px-4 py-2 flex justify-between items-center text-xs z-50'']
      [El T_div [A_class ''flex items-center gap-4'']
         [El T_div [A_class ''flex items-center gap-2'']
            [El T_span [A_class (cn [Some ''w-2 h-2 rounded-full'', Some (snd (bar_getSdrStatus st sdrConnected))])] [],
             El T_span [] [Txt (fst (bar_getSdrStatus st sdrConnected))]]],
       El T_div [A_class ''text-center''] [El T_span [A_class ''text-text-secondary''] [Txt (bar_getStatusMessage st nextPass)]],
       El T_div [A_class ''flex items-center gap-4'']
         [El T_button [A_type ''button'', A_on E_click Toggle_diagnostics,
              A_class (cn [Some ''flex items-center gap-2 px-2 py-1 rounded hover:bg-bg-tertiary transition-colors'', if diagnosticsOpen
                then Some ''bg-bg-tertiary'' else None]),
              A_title ''Toggle Diagnostics Panel'']
            ([El T_svg [A_class ''w-3.5 h-3.5'', A_other ''fill'' ''none'', A_other ''viewBox'' ''0 0 24 24'',
                 A_other ''stroke'' ''currentColor'']
               [El T_title [] [Txt ''Diagnostics Icon''],
                El T_path [A_other ''strokeLinecap'' ''round'', A_other ''strokeLinejoin'' ''round'', A_other ''strokeWidth'' ''2'',
                    A_other ''d'' ''M10 20l4-16m4 4l4 4-4 4M6 16l-4-4 4-4'']
                  []],
             El T_span [] [Txt ''Diagnostics'']] @
             (if \<not> wsConnected then
               [El T_span [A_class ''w-2 h-2 rounded-full bg-error''] []] else [])),
          El T_span [A_class ''font-mono text-text-secondary''] [Txt (bar_versionText build version)]]]"

section \<open>Progress and Doppler shift\<close>

definition SATELLITE_WIKI :: "(string \<times> string) list" where
  "SATELLITE_WIKI =
     [(''NOAA-15'', ''https://en.wikipedia.org/wiki/NOAA-15''), (''NOAA-18'', ''https://en.wikipedia.org/wiki/NOAA-18''),
      (''NOAA-19'', ''https://en.wikipedia.org/wiki/NOAA-19''), (''ISS'', ''https://en.wikipedia.org/wiki/International_Space_Station''),
      (''METEOR-M N2-3'', ''https://en.wikipedia.org/wiki/Meteor-M_N2-3''), (''METEOR-M N2-4'', ''https://en.wikipedia.org/wiki/Meteor-M_N2-4'')]"

definition satellite_info :: "string \<Rightarrow> (string \<times> string) option" where
  "satellite_info name =
     Option.bind (map_of SATELLITE_INFO name) (\<lambda>d. map_option (\<lambda>url. (d, url)) (map_of SATELLITE_WIKI name))"

text \<open>\<open>Math.round\<close> of a quotient by zero is no number or infinite.\<close>

definition percent_text :: "number \<Rightarrow> number \<Rightarrow> string" where
  "percent_text elapsed tot =
     (if tot \<noteq> 0 then show_int (js_round (elapsed / tot * 100))
      else if elapsed = 0 then ''NaN'' else if elapsed < 0 then ''-Infinity'' else ''Infinity'')"

definition progress_markup :: "(number \<Rightarrow> string) \<Rightarrow> number \<Rightarrow> number \<Rightarrow> SatellitePass option
  \<Rightarrow> markup" where
  "progress_markup str elapsed tot currentPass =
     (let remaining = tot - elapsed; percentage = percent_text elapsed tot;
          satName = or_else (truthy_text (map_option (\<lambda>p. sat_name (pass_satellite p)) currentPass)) ''Unknown'';
          satInfo = satellite_info satName;
          signalType = (case currentPass of
            Some p \<Rightarrow> js_toUpperCase (signal_type_name (sat_signalType (pass_satellite p))) | None \<Rightarrow> ''RF'');
          frequency = (case currentPass of Some p \<Rightarrow> sat_frequency (pass_satellite p) | None \<Rightarrow> 0)
      in
      El T_div [A_class ''card'']
        ([El T_div [A_class ''flex items-start justify-between mb-4'']
           [El T_div []
              [El T_h2 [A_class ''text-lg font-semibold''] [Txt ''Capturing: '', Txt satName],
               El T_p [A_class ''text-sm text-text-secondary mt-1'']
                 [Txt signalType,
                  Txt '' signal at'',
                  Txt '' '',
                  El T_span [A_class ''font-mono text-accent''] [Txt (ui_formatFrequency str frequency)]]],
            El T_span [A_class ''px-2 py-1 text-xs font-medium rounded bg-accent/20 text-accent animate-pulse''] [Txt ''LIVE'']]] @
         (case satInfo of None \<Rightarrow> [] | Some (description, wikiUrl) \<Rightarrow>
           [El T_div [A_class ''mb-4 p-3 bg-bg-tertiary rounded-lg'']
              [El T_p [A_class ''text-sm text-text-secondary''] [Txt description],
               El T_a [A_href wikiUrl, A_target ''_blank'', A_rel ''noopener noreferrer'',
                   A_class ''inline-flex items-center gap-1 text-xs text-accent hover:underline mt-2'']
                 [Txt ''Learn more on Wikipedia'',
                  El T_svg [A_class ''w-3 h-3'', A_other ''fill'' ''none'', A_other ''stroke'' ''currentColor'',
                      A_other ''viewBox'' ''0 0 24 24'', A_other ''aria-hidden'' ''true'']
                    [El T_path [A_other ''strokeLinecap'' ''round'', A_other ''strokeLinejoin'' ''round'', A_other ''strokeWidth'' ''2'',
                         A_other ''d'' ''M10 6H6a2 2 0 00-2 2v10a2 2 0 002 2h10a2 2 0 002-2v-4M14 4h6m0 0v6m0-6L10 14'']
                       []]]]]) @
         (case currentPass of None \<Rightarrow> [] | Some p \<Rightarrow>
           [El T_div [A_class ''grid grid-cols-2 gap-3 mb-4 text-sm'']
              [El T_div []
                 [El T_span [A_class ''text-text-muted''] [Txt ''Max Elevation''],
                  El T_p [A_class ''font-mono text-text-primary''] [Txt (js_toFixed 1 (pass_maxElevation p)), Txt degree]],
               El T_div []
                 [El T_span [A_class ''text-text-muted''] [Txt ''Pass Duration''],
                  El T_p [A_class ''font-mono text-text-primary''] [Txt (ui_formatDuration str (pass_duration p))]]]]) @
         [El T_div [A_class ''space-y-3'']
           [El T_div [A_class ''h-3 bg-bg-tertiary rounded-full overflow-hidden'']
              [El T_div [A_class ''h-full bg-gradient-to-r from-accent to-purple transition-all duration-500 ease-out'',
                   A_style [(''width'', percentage @ ''%'')]]
                 []],
            El T_div [A_class ''flex justify-between text-sm text-text-secondary'']
              [El T_span [] [Txt percentage, Txt ''%''], El T_span [] [Txt (ui_formatDuration str remaining), Txt '' remaining'']]]]))"

definition ProgressSection_markup ::
  "(number \<Rightarrow> string) \<Rightarrow> (number \<times> number \<times> number) option \<Rightarrow> bool \<Rightarrow>
    SatellitePass option \<Rightarrow> markup list" where
  "ProgressSection_markup str progress visible currentPass =
     (case progress of
        None \<Rightarrow> []
      | Some (percentage, elapsed, tot) \<Rightarrow> if \<not> visible then [] else [progress_markup str elapsed tot currentPass])"

definition DopplerChart_markup :: "(number \<Rightarrow> string) \<Rightarrow> number \<Rightarrow> number \<Rightarrow> number
  \<Rightarrow> bool \<Rightarrow> markup list" where
  "DopplerChart_markup str current mn mx visible =
     (if \<not> visible then [] else [
      El T_div [A_class ''card'']
        [El T_h2 [A_class ''text-lg font-semibold mb-4''] [Txt ''Doppler Shift''],
         El T_div [A_class ''space-y-4'']
           [El T_div [A_class ''flex justify-between text-sm text-text-secondary'']
              [El T_span [] [Txt ''Current: '', Txt (js_toFixed 0 current), Txt '' Hz''],
               El T_span [] [Txt ''Range: '', Txt (js_toFixed 0 mn), Txt '' to '', Txt (js_toFixed 0 mx), Txt '' Hz'']],
            El T_svg [A_class ''w-full h-[100px]'', A_other ''viewBox'' ''0 0 600 100'',
                A_other ''preserveAspectRatio'' ''xMidYMid meet'']
              [El T_title [] [Txt ''Doppler Shift Chart''],
               El T_line [A_other ''x1'' ''0'', A_other ''y1'' ''50'', A_other ''x2'' ''600'', A_other ''y2'' ''50'',
                   A_other ''stroke'' ''#334155'', A_other ''strokeWidth'' ''1'', A_other ''strokeDasharray'' ''4,4'']
                 [],
               El T_circle [A_other ''cx'' (str (normalizedCurrent current mn mx * 6)), A_other ''cy'' ''50'', A_other ''r'' ''6'',
                   A_other ''fill'' ''#3b82f6'', A_class ''animate-pulse'']
                 [],
               El T_text [A_other ''x'' ''10'', A_other ''y'' ''90'', A_other ''fill'' ''#64748b'', A_other ''fontSize'' ''12'']
                 [Txt (js_toFixed 0 mn), Txt '' Hz''],
               El T_text [A_other ''x'' ''540'', A_other ''y'' ''90'', A_other ''fill'' ''#64748b'', A_other ''fontSize'' ''12'',
                   A_other ''textAnchor'' ''end'']
                 [Txt (js_toFixed 0 mx), Txt '' Hz'']]]]])"

section \<open>Table of passes\<close>

definition passes_table_row :: "(number \<Rightarrow> string) \<Rightarrow> (date \<Rightarrow> string) \<Rightarrow> nat \<Rightarrow>
  SatellitePass \<Rightarrow> markup" where
  "passes_table_row str time index p =
     (let signalType = signal_type_name (sat_signalType (pass_satellite p)) in
      El T_tr [A_key (sat_name (pass_satellite p) @ ''-'' @ js_toISOString (pass_aos p)),
          A_class (''border-b border-border/50 hover:bg-bg-secondary/50 transition-colors '' @ (if index = 0 then ''bg-accent/5'' else []))]
        [El T_td [A_class ''py-3 px-2 font-medium''] [Txt (sat_name (pass_satellite p))],
         El T_td [A_class ''py-3 px-2'']
           [El T_span [A_class (''px-2 py-1 rounded text-xs font-medium uppercase '' @ getSignalBadgeClass signalType)]
              [Txt signalType]],
         El T_td [A_class ''py-3 px-2 text-text-secondary font-mono text-xs'']
           [Txt (js_toFixed 3 (sat_frequency (pass_satellite p) / 1000000)), Txt '' MHz''],
         El T_td [A_class ''py-3 px-2 text-text-secondary''] [Txt (time (pass_aos p))],
         El T_td [A_class ''py-3 px-2 text-text-secondary''] [Txt (ui_formatDuration str (pass_duration p))],
         El T_td [A_class ''py-3 px-2'']
           [El T_span [A_class (if pass_maxElevation p \<ge> 45 then ''text-success''
             else if pass_maxElevation p \<ge> 20 then ''text-warning'' else ''text-text-muted'')]
              [Txt (js_toFixed 1 (pass_maxElevation p)), Txt degree]]])"

definition PassesTable_markup :: "(number \<Rightarrow> string) \<Rightarrow> (date \<Rightarrow> string) \<Rightarrow> SatellitePass list
  \<Rightarrow> markup" where
  "PassesTable_markup str time passes =
     (if passes = [] then
      El T_div [A_class ''card'']
        [El T_h2 [A_class ''text-lg font-semibold mb-4''] [Txt ''Upcoming Passes''],
         El T_p [A_class ''text-text-secondary text-center py-8''] [Txt ''No upcoming passes scheduled'']]
      else
      El T_div [A_class ''card'']
        [El T_h2 [A_class ''text-lg font-semibold mb-4''] [Txt ''Upcoming Passes''],
         El T_div [A_class ''overflow-x-auto'']
           [El T_table [A_class ''w-full text-sm'']
              [El T_thead []
                 [El T_tr [A_class ''border-b border-border'']
                    [El T_th [A_class ''text-left py-3 px-2 text-text-secondary font-medium''] [Txt ''Satellite''],
                     El T_th [A_class ''text-left py-3 px-2 text-text-secondary font-medium''] [Txt ''Signal''],
                     El T_th [A_class ''text-left py-3 px-2 text-text-secondary font-medium''] [Txt ''Frequency''],
                     El T_th [A_class ''text-left py-3 px-2 text-text-secondary font-medium''] [Txt ''Time''],
                     El T_th [A_class ''text-left py-3 px-2 text-text-secondary font-medium''] [Txt ''Duration''],
                     El T_th [A_class ''text-left py-3 px-2 text-text-secondary font-medium''] [Txt ''Max Elev'']]],
               El T_tbody [] (map (\<lambda>(index, p). passes_table_row str time index p) (enumerate 0 passes))]]])"

section \<open>Cards\<close>

definition StatusCards :: "browser \<Rightarrow> (string \<Rightarrow> bool) \<Rightarrow> ui_system option \<Rightarrow> SatellitePass
  option \<Rightarrow> status_cards \<Rightarrow> markup" where
  "StatusCards b tips systemState nextPass c =
    El T_div [A_class ''grid grid-cols-1 md:grid-cols-3 gap-6'']
      [El T_div [A_class ''card'']
         ([El T_h2 [A_class ''text-lg font-semibold mb-4''] [Txt ''System Status''],
          El T_div [A_class ''mb-4'']
            [El T_span [A_class (cn [Some ''status-badge'', Some (''status-'' @ app_status systemState)])]
               ((if app_status systemState = ''idle'' then [Txt ''Standby''] else []) @
                (if app_status systemState = ''waiting'' then [Txt ''Waiting for Pass''] else []) @
                (if app_status systemState = ''recording'' then [Txt ''Recording''] else []) @
                (if app_status systemState = ''decoding'' then [Txt ''Decoding''] else []) @
                (if app_status systemState = ''scanning'' then [Txt ''Scanning 2m SSTV''] else []))]] @
          (case Option.bind systemState us_currentPass of None \<Rightarrow> [] | Some p \<Rightarrow>
            [El T_div [A_class ''pt-4 border-t border-border space-y-1 text-sm'']
               [El T_p [A_class ''text-text-secondary'']
                  [El T_strong [A_class ''text-text-primary''] [Txt ''Current:''], Txt '' '', Txt (sat_name (pass_satellite p))],
                El T_p [A_class ''text-text-secondary'']
                  [El T_strong [A_class ''text-text-primary''] [Txt ''Frequency:''],
                   Txt '' '',
                   El T_span [A_class ''font-mono text-accent'']
                     [Txt (ui_formatFrequency (br_str b) (sat_frequency (pass_satellite p)))]],
                El T_p [A_class ''text-text-secondary'']
                  [El T_strong [A_class ''text-text-primary''] [Txt ''Max Elevation:''],
                   Txt '' '',
                   Txt (js_toFixed 1 (pass_maxElevation p)),
                   Txt degree]]]) @
          (case sc_config c of None \<Rightarrow> [] | Some g \<Rightarrow>
            [El T_div [A_class ''pt-4 border-t border-border space-y-1 text-sm'']
               [Tooltip tips ''qth'' ''Ground station coordinates (latitude, longitude)'' Pos_right None
                  [El T_p [A_class ''text-text-secondary cursor-help'']
                     [El T_strong [A_class ''text-text-primary''] [Txt ''QTH:''],
                      Txt '' '',
                      El T_span [A_class ''font-mono'']
                        [Txt (js_toFixed 4 (co_latitude (wg_station g))),
                         Txt (degree @ '', ''),
                         Txt (js_toFixed 4 (co_longitude (wg_station g))),
                         Txt degree]]],
                Tooltip tips ''gain'' ''RTL-SDR receiver gain setting (higher = more sensitive but more noise)'' Pos_right None
                  [El T_p [A_class ''text-text-secondary cursor-help'']
                     [El T_strong [A_class ''text-text-primary''] [Txt ''SDR Gain:''],
                      Txt '' '',
                      El T_span [A_class ''font-mono''] [Txt (br_str b (wg_gain g))]]],
                Tooltip tips ''elevation'' ''Minimum satellite elevation above horizon to start recording'' Pos_right None
                  [El T_p [A_class ''text-text-secondary cursor-help'']
                     [El T_strong [A_class ''text-text-primary''] [Txt ''Min Elevation:''],
                      Txt '' '',
                      El T_span [A_class ''font-mono''] [Txt (br_str b (wg_minElevation g)), Txt degree]]]]])),
       El T_div [A_class ''card'']
         ([El T_h2 [A_class ''text-lg font-semibold mb-4''] [Txt ''Next Pass'']] @
          (case nextPass of Some p \<Rightarrow>
            [El T_div [A_class ''space-y-2'']
               [El T_p [A_class ''text-2xl font-semibold''] [Txt (sat_name (pass_satellite p))],
                El T_p [A_class ''font-mono text-sm text-accent'']
                  [Txt (ui_formatFrequency (br_str b) (sat_frequency (pass_satellite p)))],
                El T_p [A_class ''text-text-secondary text-sm''] [Txt (br_locale b (pass_aos p))],
                El T_p [A_class ''text-xl font-mono text-accent''] [Txt (sc_countdown c)]]]
           | None \<Rightarrow>
            [El T_p [A_class ''text-text-secondary''] [Txt ''No upcoming passes'']])),
       El T_div [A_class ''card'']
         [El T_h2 [A_class ''text-lg font-semibold mb-4''] [Txt ''Statistics''],
          El T_div [A_class ''grid grid-cols-3 gap-4 text-center'']
            [Tooltip tips ''total'' ''Total number of satellite passes captured'' Pos_bottom None
               [El T_div [A_class ''cursor-help'']
                  [El T_span [A_class ''block text-3xl font-bold''] [Txt (show_nat (fst (cards_statistics c)))],
                   El T_span [A_class ''text-xs text-text-secondary uppercase''] [Txt ''Total'']]],
             Tooltip tips ''success'' ''Passes with successfully decoded images'' Pos_bottom None
               [El T_div [A_class ''cursor-help'']
                  [El T_span [A_class ''block text-3xl font-bold text-success''] [Txt (show_nat (fst (snd (cards_statistics c))))],
                   El T_span [A_class ''text-xs text-text-secondary uppercase''] [Txt ''Success'']]],
             Tooltip tips ''failed'' ''Passes that failed to decode or had poor signal quality'' Pos_bottom None
               [El T_div [A_class ''cursor-help'']
                  [El T_span [A_class ''block text-3xl font-bold text-error''] [Txt (show_nat (snd (snd (cards_statistics c))))],
                   El T_span [A_class ''text-xs text-text-secondary uppercase''] [Txt ''Failed'']]]]]]"

section \<open>Switches\<close>

text \<open>\<open>lastCapture\<close> is a field that no message of the server carries.\<close>

definition SstvToggle :: "browser \<Rightarrow> (string \<Rightarrow> bool) \<Rightarrow> SSTVStatus option \<Rightarrow> date option
  \<Rightarrow> sstv_toggle \<Rightarrow> markup" where
  "SstvToggle b tips pushed lastCapture t =
     (let isActive = map_option ss_status pushed = Some SCapturing; isScanning = map_option ss_status pushed = Some SScanning in
      El T_div [A_class ''card'']
        ([El T_h2 [A_class ''text-lg font-semibold mb-4''] [Txt ''SSTV Settings''],
         El T_div [A_class ''mb-6'']
           [El T_div [A_class ''flex items-center justify-between mb-2'']
              [El T_h3 [A_class ''text-sm font-medium''] [Txt ''ISS SSTV Capture''],
               El T_span [A_class (''px-2 py-1 rounded text-xs font-medium '' @ (if isActive then ''bg-accent/20 text-accent''
                 else if tg_enabled t then ''bg-success/20 text-success'' else ''bg-text-muted/20 text-text-muted''))]
                 [Txt (if isActive then ''Capturing'' else if tg_enabled t then ''Enabled'' else ''Disabled'')]],
            El T_p [A_class ''text-sm text-text-secondary mb-3''] [Txt ''Enable capture for ISS SSTV events (145.800 MHz)''],
            El T_div [A_class ''flex items-center gap-3'']
              [Tooltip tips ''iss'' ''Toggle ISS SSTV capture on scheduled events'' Pos_right None
                 [El T_button [A_type ''button'', A_on E_click Sstv_click, A_disabled (tg_isLoading t),
                      A_class
                        (''relative inline-flex h-6 w-11 items-center rounded-full transition-colors focus:outline-none focus:ring-2 focus:ring-accent focus:ring-offset-2 focus:ring-offset-bg-primary ''
                        @ (if tg_enabled t then ''bg-accent'' else ''bg-bg-tertiary'') @ '' ''
                        @ (if tg_isLoading t then ''opacity-50 cursor-not-allowed'' else ''cursor-pointer''))]
                    [El T_span [A_class (''inline-block h-4 w-4 transform rounded-full bg-white transition-transform ''
                      @ (if tg_enabled t then ''translate-x-6'' else ''translate-x-1''))]
                       []]],
               El T_span [A_class ''text-sm text-text-secondary'']
                 [Txt (if tg_isLoading t then ''Updating...'' else if tg_enabled t then ''Enabled'' else ''Disabled'')]]],
         El T_div [A_class ''pt-4 border-t border-border'']
           [El T_div [A_class ''flex items-center justify-between mb-2'']
              [El T_h3 [A_class ''text-sm font-medium''] [Txt ''2M Ground SSTV Scanning''],
               El T_span [A_class (''px-2 py-1 rounded text-xs font-medium ''
                 @ (if isScanning then ''bg-purple/20 text-purple animate-pulse''
                 else if tg_groundScanEnabled t then ''bg-success/20 text-success'' else ''bg-text-muted/20 text-text-muted''))]
                 [Txt (if isScanning then ''Scanning'' else if tg_groundScanEnabled t then ''Enabled'' else ''Disabled'')]],
            El T_p [A_class ''text-sm text-text-secondary mb-3'']
              [Txt ''Scan 2M frequencies for ground-based SSTV transmissions during idle time (144.5, 145.5, 145.8 MHz)''],
            El T_div [A_class ''flex items-center gap-3'']
              [Tooltip tips ''ground'' ''Scan for ground-based SSTV signals when no satellite passes are scheduled'' Pos_right None
                 [El T_button [A_type ''button'', A_on E_click Scan_click, A_disabled (tg_isLoadingGround t),
                      A_class
                        (''relative inline-flex h-6 w-11 items-center rounded-full transition-colors focus:outline-none focus:ring-2 focus:ring-accent focus:ring-offset-2 focus:ring-offset-bg-primary ''
                        @ (if tg_groundScanEnabled t then ''bg-purple'' else ''bg-bg-tertiary'') @ '' ''
                        @ (if tg_isLoadingGround t then ''opacity-50 cursor-not-allowed'' else ''cursor-pointer''))]
                    [El T_span [A_class (''inline-block h-4 w-4 transform rounded-full bg-white transition-transform ''
                      @ (if tg_groundScanEnabled t then ''translate-x-6'' else ''translate-x-1''))]
                       []]],
               El T_span [A_class ''text-sm text-text-secondary'']
                 [Txt (if tg_isLoadingGround t then ''Updating...'' else if tg_groundScanEnabled t then ''Enabled'' else ''Disabled'')]]]] @
         (case lastCapture of None \<Rightarrow> [] | Some d \<Rightarrow>
           [El T_p [A_class ''text-xs text-text-muted mt-4 pt-4 border-t border-border'']
              [Txt ''Last SSTV capture: '', Txt (br_locale b d)]])))"

section \<open>Rules of the markup\<close>

text \<open>
  What the linter of the repository (\<open>biome.json\<close>) and React ask of the tree: a link that opens a new
  window does not hand over its opener, a button has its type, a picture has a text in its place, a
  drawing has a title or is hidden from readers, what can be clicked and is not a button can be used from
  the keyboard, and the keys of the elements of a list differ.
\<close>

fun is_alt :: "'a attr \<Rightarrow> bool" where
  "is_alt (A_alt s) \<longleftrightarrow> True"
| "is_alt _ \<longleftrightarrow> False"

fun is_title :: "'a node \<Rightarrow> bool" where
  "is_title (El T_title as ns) \<longleftrightarrow> True"
| "is_title _ \<longleftrightarrow> False"

definition el_ok :: "tag \<Rightarrow> 'a attr list \<Rightarrow> 'a node list \<Rightarrow> bool" where
  "el_ok t as ns \<longleftrightarrow>
     (t = T_a \<and> A_target ''_blank'' \<in> set as \<longrightarrow> A_rel ''noopener noreferrer'' \<in> set as) \<and>
     (t = T_button \<longrightarrow> A_type ''button'' \<in> set as) \<and> (t = T_img \<longrightarrow> list_ex is_alt as) \<and>
     (t = T_svg \<longrightarrow> A_other ''aria-hidden'' ''true'' \<in> set as \<or> list_ex is_title ns) \<and>
     (handlers E_click as \<noteq> [] \<and> t \<noteq> T_button \<longrightarrow> handlers E_keydown as \<noteq> [])"

fun attr_keys :: "'a attr list \<Rightarrow> string list" where
  "attr_keys [] = []"
| "attr_keys (A_key k # as) = k # attr_keys as"
| "attr_keys (x # as) = attr_keys as"

fun node_keys :: "'a node list \<Rightarrow> string list" where
  "node_keys [] = []"
| "node_keys (Txt s # ns) = node_keys ns"
| "node_keys (El t as ms # ns) = attr_keys as @ node_keys ns"

fun markup_ok :: "'a node \<Rightarrow> bool" where
  "markup_ok (Txt s) \<longleftrightarrow> True"
| "markup_ok (El t as ns) \<longleftrightarrow> el_ok t as ns \<and> distinct (node_keys ns) \<and> list_all markup_ok ns"

lemma node_keys_append [simp]: "node_keys (xs @ ys) = node_keys xs @ node_keys ys"
  by (induction xs rule: node_keys.induct) simp_all

lemma list_all_if [simp]: "list_all P (if c then xs else ys) = (if c then list_all P xs else list_all P ys)"
  by simp

lemma node_keys_if [simp]: "node_keys (if c then xs else ys) = (if c then node_keys xs else node_keys ys)"
  by simp

definition clicks_of :: "markup list \<Rightarrow> ui_action list" where
  "clicks_of ns = concat (map clicks ns)"

lemma clicks_of_simps [simp]:
  "clicks_of [] = []" "clicks_of (n # ns) = clicks n @ clicks_of ns" "clicks_of (xs @ ys) = clicks_of xs @ clicks_of ys"
  "clicks_of (if c then xs else ys) = (if c then clicks_of xs else clicks_of ys)"
  by (simp_all add: clicks_of_def)

declare clicks.simps(2) [simp del]

lemma clicks_El [simp]: "clicks (El t as ns) = own_handlers E_click t as @ clicks_of ns"
  by (simp add: clicks.simps(2) clicks_of_def)

lemmas markup_defs = el_ok_def own_handlers_def is_disabled_def

subsection \<open>Components\<close>

lemma Tooltip_ok [simp]:
  "markup_ok (Tooltip tips i content pos cls children) \<longleftrightarrow> list_all markup_ok children \<and> distinct (node_keys children)"
  by (auto simp: Tooltip_def markup_defs)

lemma Tooltip_keys [simp]: "node_keys (Tooltip tips i content pos cls children # ns) = node_keys ns"
  "node_keys (keyed k (Tooltip tips i content pos cls children) # ns) = k # node_keys ns"
  by (simp_all add: Tooltip_def)

lemma Tooltip_clicks [simp]: "clicks (Tooltip tips i content pos cls children) = clicks_of children"
  by (simp add: Tooltip_def markup_defs)

lemma keyed_ok [simp]: "markup_ok (keyed k n) = markup_ok n" "clicks (keyed k m) = clicks m"
  by (cases n, simp_all add: markup_defs) (cases m, simp_all add: markup_defs)

lemma footer_commit_text: "list_all markup_ok (footer_commit v)" "node_keys (footer_commit v) = []" "clicks_of (footer_commit v) = []"
  by (simp_all add: footer_commit_def Let_def split: option.splits)

lemma Footer_ok: "markup_ok (Footer build tips version)" "clicks (Footer build tips version) = []"
  by (simp_all add: Footer_def markup_defs footer_commit_text)

lemma Header_ok: "markup_ok (Header tips st m c)" "clicks (Header tips st m c) = []"
  by (simp_all add: Header_def markup_defs)

lemma StatusBar_ok: "markup_ok (StatusBar build st p c v w d)" "clicks (StatusBar build st p c v w d) = [Toggle_diagnostics]"
  by (simp_all add: StatusBar_def markup_defs)

lemma progress_ok: "markup_ok (progress_markup str e t p)" "clicks (progress_markup str e t p) = []"
  by (simp_all add: progress_markup_def Let_def markup_defs split: option.splits prod.splits)

lemma ProgressSection_ok: "list_all markup_ok (ProgressSection_markup str g v p)" "clicks_of (ProgressSection_markup str g v p) = []"
  "node_keys (ProgressSection_markup str g v p) = []"
  by (auto simp: ProgressSection_markup_def progress_ok split: option.splits) (simp add: progress_markup_def Let_def)

lemma DopplerChart_ok: "list_all markup_ok (DopplerChart_markup str c mn mx v)" "clicks_of (DopplerChart_markup str c mn mx v) = []"
  "node_keys (DopplerChart_markup str c mn mx v) = []"
  by (simp_all add: DopplerChart_markup_def markup_defs)

lemma StatusCards_ok: "markup_ok (StatusCards b tips st n c)" "clicks (StatusCards b tips st n c) = []"
  by (simp_all add: StatusCards_def markup_defs split: option.splits)

text \<open>While a request is under way its switch cannot be clicked.\<close>

lemma SstvToggle_ok: "markup_ok (SstvToggle b tips p l t)"
  "clicks (SstvToggle b tips p l t) = (if tg_isLoading t then [] else [Sstv_click]) @ (if tg_isLoadingGround t then [] else [Scan_click])"
  by (simp_all add: SstvToggle_def Let_def markup_defs split: option.splits)

text \<open>A table of passes has one row for each pass, and follows the rules if no satellite rises twice at once.\<close>

lemma passes_row_ok: "markup_ok (passes_table_row str time i p)"
  "node_keys (passes_table_row str time i p # ns) = (sat_name (pass_satellite p) @ ''-'' @ js_toISOString (pass_aos p)) # node_keys ns"
  by (simp_all add: passes_table_row_def Let_def markup_defs)

lemma passes_rows_keys:
  "node_keys (map (\<lambda>(i, p). passes_table_row str time i p) (enumerate n ps)) =
     map (\<lambda>p. sat_name (pass_satellite p) @ ''-'' @ js_toISOString (pass_aos p)) ps"
  by (induction ps arbitrary: n) (simp_all add: passes_row_ok)

lemma PassesTable_ok:
  assumes "distinct (map (\<lambda>p. sat_name (pass_satellite p) @ ''-'' @ js_toISOString (pass_aos p)) passes)"
  shows "markup_ok (PassesTable_markup str time passes)"
  using assms by (auto simp: PassesTable_markup_def markup_defs passes_rows_keys passes_row_ok list_all_iff)

end
