(* ===== verification/Page.thy ===== *)
theory Page
  imports Markup
begin

text \<open>
  The page of the dashboard: \<open>CaptureGallery.tsx\<close>, \<open>WaterfallView.tsx\<close>, \<open>SatelliteTracking.tsx\<close>,
  \<open>PassTimeline.tsx\<close>, \<open>DiagnosticsPanel.tsx\<close> and \<open>App.tsx\<close> as trees, and what the handlers in
  them do to the state.
\<close>

section \<open>Gallery\<close>

definition gallery_card :: "browser \<Rightarrow> (string \<Rightarrow> bool) \<Rightarrow> web_capture \<Rightarrow> markup" where
  "gallery_card b tips c =
     (let e = wc_entry c in
      El T_button [A_type ''button'', A_key (show_int (che_id e)),
          A_class
            ''group relative aspect-square bg-bg-secondary rounded-lg overflow-hidden cursor-pointer hover:ring-2 hover:ring-accent transition-all'',
          A_on E_click (Select_capture c)]
        ((case card_src (br_encode b) c of Some src \<Rightarrow>
           [El T_img [A_src src, A_alt (wc_satellite c @ '' capture''),
                A_class ''w-full h-full object-cover group-hover:scale-105 transition-transform duration-300'',
                A_other ''loading'' ''lazy'']
              []]
          | None \<Rightarrow>
           [El T_div [A_class ''w-full h-full flex items-center justify-center text-text-muted'']
              [El T_svg [A_class ''w-8 h-8'', A_other ''fill'' ''none'', A_other ''viewBox'' ''0 0 24 24'',
                   A_other ''stroke'' ''currentColor'']
                 [El T_title [] [Txt ''No Image Available''],
                  El T_path [A_other ''strokeLinecap'' ''round'', A_other ''strokeLinejoin'' ''round'', A_other ''strokeWidth'' ''2'',
                      A_other ''d''
                        ''M4 16l4.586-4.586a2 2 0 012.828 0L16 16m-2-2l1.586-1.586a2 2 0 012.828 0L20 14m-6-6h.01M6 20h12a2 2 0 002-2V6a2 2 0 00-2-2H6a2 2 0 00-2 2v12a2 2 0 002 2z'']
                    []]]]) @
         [El T_div [A_class ''absolute inset-x-0 bottom-0 bg-gradient-to-t from-black/80 to-transparent p-2'']
           [El T_p [A_class ''text-xs font-medium text-white truncate''] [Txt (wc_satellite c)],
            El T_div [A_class ''flex items-center justify-between gap-1 mt-0.5'']
              ([El T_p [A_class ''text-xs text-white/70'']
                 [Txt (br_stamp_day b (wc_timestamp c)), Txt '' '', Txt (br_stamp_time b (wc_timestamp c))]] @
               (if che_success e then
                 [Tooltip tips (''card-'' @ show_int (che_id e)) (fst (card_badge c)) Pos_top None
                    [El T_div [A_class (''h-2 w-2 rounded-full '' @ fst (snd (getSignalQuality (che_maxSignalStrength e))))] []]] else []))]] @
         (if \<not> che_success e then
           [Tooltip tips (''card-'' @ show_int (che_id e)) (fst (card_badge c)) Pos_top None
              [El T_div [A_class ''absolute top-2 right-2'']
                 [El T_span [A_class ''px-1.5 py-0.5 bg-error/80 text-white text-xs rounded cursor-help''] [Txt ''Failed'']]]] else [])))"

definition Lightbox :: "string \<Rightarrow> markup" where
  "Lightbox src =
      El T_div [A_class ''fixed inset-0 z-50 bg-black/90 flex items-center justify-center p-4'', A_on E_click Close_image,
          A_on E_keydown (If_key [''Escape''] Close_image)]
        [El T_button [A_type ''button'', A_class ''absolute top-4 right-4 text-white/80 hover:text-white'', A_on E_click Close_image]
           [El T_svg [A_class ''w-8 h-8'', A_other ''fill'' ''none'', A_other ''viewBox'' ''0 0 24 24'',
                A_other ''stroke'' ''currentColor'']
              [El T_title [] [Txt ''Close Image''],
               El T_path [A_other ''strokeLinecap'' ''round'', A_other ''strokeLinejoin'' ''round'', A_other ''strokeWidth'' ''2'',
                   A_other ''d'' ''M6 18L18 6M6 6l12 12'']
                 []]],
         El T_img [A_src src, A_alt ''Full size capture'', A_class ''max-w-full max-h-[90vh] object-contain rounded-lg'',
             A_on E_click Stop_propagation, A_on E_keydown Stop_propagation]
           []]"

definition CaptureGallery :: "browser \<Rightarrow> (string \<Rightarrow> bool) \<Rightarrow> gallery \<Rightarrow> markup list" where
  "CaptureGallery b tips g =
     (if gl_loading g then [
      El T_div [A_class ''card'']
        [El T_h2 [A_class ''text-lg font-semibold mb-4''] [Txt ''Recent Captures''],
         El T_div [A_class ''flex justify-center py-8'']
           [El T_div [A_class ''animate-spin rounded-full h-8 w-8 border-b-2 border-accent''] []]]]
      else if gl_captures g = [] then [
      El T_div [A_class ''card'']
        [El T_h2 [A_class ''text-lg font-semibold mb-4''] [Txt ''Recent Captures''],
         El T_p [A_class ''text-text-secondary text-center py-8''] [Txt ''No captures yet'']]]
      else [
      El T_div [A_class ''card'', A_testid ''capture-gallery'']
        [El T_h2 [A_class ''text-lg font-semibold mb-4''] [Txt ''Recent Captures''],
         El T_div [A_class ''grid grid-cols-2 sm:grid-cols-3 md:grid-cols-4 lg:grid-cols-6 gap-3'']
           (map (gallery_card b tips) (gl_captures g))]] @
      (case lightbox_src (br_encode b) g of Some src \<Rightarrow> [Lightbox src] | None \<Rightarrow> []))"

section \<open>Tracking\<close>

definition WaterfallView_markup :: "bool \<Rightarrow> bool \<Rightarrow> bool \<Rightarrow> bool \<Rightarrow> markup" where
  "WaterfallView_markup fftError fftRunning isActive isScanning =
    El T_div [A_class ''relative'']
      [El T_canvas [A_other ''ref'' ''canvasRef'', A_other ''width'' ''600'', A_other ''height'' ''350'',
           A_class ''rounded-lg bg-bg-secondary cursor-pointer'', A_style [(''width'', ''100%''), (''height'', ''auto'')],
           A_on E_click No_action, A_on E_keydown (If_key [''Enter'', '' ''] No_action), A_role ''button'',
           A_other ''tabIndex'' ''0'']
         [],
       El T_div [A_class ''absolute top-2 right-2 flex items-center gap-2 bg-bg-primary/80 px-2 py-1 rounded text-xs'']
         [El T_span [A_class (''w-2 h-2 rounded-full '' @ (if fftError then ''bg-red-500''
           else if fftRunning then (if isActive then ''bg-success animate-pulse'' else if isScanning then ''bg-purple animate-pulse''
           else ''bg-accent'') else ''bg-text-muted''))]
            [],
          El T_span [A_class ''text-text-secondary'']
            [Txt (if fftError then ''No Hardware'' else if fftRunning then (if isActive then ''Signal Active''
              else if isScanning then ''Scanning'' else ''Monitoring'') else ''Offline'')]]]"

definition SkyView :: markup where
  "SkyView =
    El T_canvas [A_other ''ref'' ''canvasRef'', A_other ''width'' ''350'', A_other ''height'' ''350'',
        A_class ''w-full h-full rounded bg-bg-secondary'', A_testid ''sky-view'']
      []"

definition SpectrumWaterfall :: markup where
  "SpectrumWaterfall =
    El T_canvas [A_other ''ref'' ''canvasRef'', A_other ''width'' ''1200'', A_other ''height'' ''400'',
        A_class ''w-full rounded-lg cursor-pointer'', A_style [(''height'', ''auto''), (''aspectRatio'', ''3 / 1'')],
        A_on E_click No_action, A_on E_keydown (If_key [''Enter'', '' ''] No_action), A_role ''button'', A_other ''tabIndex'' ''0'',
        A_testid ''spectrum-waterfall'']
      []"

definition tracking_tabs :: "(WaterfallMode \<times> string \<times> string \<times> string) list" where
  "tracking_tabs =
     [(Mode_satellite, ''Satellites'', ''accent'', ''Track METEOR-M weather satellites and ISS passes''),
      (Mode_sstv_2m, ''2M SSTV'', ''purple'', ''Monitor 2-meter amateur radio SSTV frequencies'')]"

definition mode_name :: "WaterfallMode \<Rightarrow> string" where
  "mode_name m = (case m of Mode_satellite \<Rightarrow> ''satellite'' | Mode_sstv_2m \<Rightarrow> ''sstv-2m'')"

definition tracking_tab :: "(string \<Rightarrow> bool) \<Rightarrow> WaterfallMode \<Rightarrow> WaterfallMode \<times> string \<times>
  string \<times> string \<Rightarrow> markup" where
  "tracking_tab tips mode tab =
     (case tab of (ident, label, color, tooltip) \<Rightarrow>
      keyed (mode_name ident) (Tooltip tips (''tab-'' @ mode_name ident) tooltip Pos_bottom None [
      El T_button [A_type ''button'', A_on E_click (Select_mode ident),
          A_class (cn [Some ''px-4 py-2.5 text-sm font-medium border-b-2 transition-colors whitespace-nowrap shrink-0'',
       Some (if mode = ident then (if color = ''purple'' then ''border-purple text-purple'' else ''border-accent text-accent'')
             else ''border-transparent text-text-secondary hover:text-text-primary hover:border-border'')])]
        [Txt label]]))"

definition frequency_tooltip :: "nat \<Rightarrow> string" where
  "frequency_tooltip idx = (if idx = 0 then ''SSB SSTV calling frequency (UK/EU)'' else ''FM SSTV calling frequency'')"

definition frequency_button :: "(string \<Rightarrow> bool) \<Rightarrow> nat \<Rightarrow> nat \<times> number \<times> string
  \<Rightarrow> markup" where
  "frequency_button tips sstvFreqIndex f =
     (case f of (idx, freq, label) \<Rightarrow>
      keyed (show_int \<lfloor>freq\<rfloor>) (Tooltip tips (''freq-'' @ label) (frequency_tooltip idx) Pos_bottom None [
      El T_button [A_type ''button'', A_on E_click (Select_frequency idx),
          A_class (cn [Some ''px-2 py-1 text-xs font-mono rounded transition-colors'',
            Some (if sstvFreqIndex = idx then ''bg-purple text-white'' else ''bg-bg-tertiary text-text-secondary hover:bg-bg-secondary'')])]
        [Txt label]]))"

definition SatelliteTracking ::
  "(string \<Rightarrow> bool) \<Rightarrow> WaterfallMode \<Rightarrow> nat \<Rightarrow> ui_system option \<Rightarrow> bool \<Rightarrow>
    string option \<Rightarrow> markup" where
  "SatelliteTracking tips mode sstvFreqIndex st fftRunning fftError =
    El T_div [A_class ''card'', A_testid ''satellite-tracking'']
      [El T_div [A_class ''border-b border-border'']
         [El T_nav [A_class ''flex -mb-px'', A_other ''aria-label'' ''Tabs'']
            ((map (tracking_tab tips mode) tracking_tabs) @
             (if mode = Mode_sstv_2m then
               [El T_div [A_class ''flex items-center gap-2 ml-auto pr-4'']
                  ([El T_span [A_class ''text-xs text-text-muted''] [Txt ''Freq:'']] @
                   (map (frequency_button tips sstvFreqIndex) (enumerate 0 SSTV_2M_FREQUENCIES)))] else []))],
       El T_div [A_class ''p-2'']
         (if mode = Mode_satellite then
            [El T_div [A_class ''grid grid-cols-1 lg:grid-cols-2 gap-4'']
               [El T_div [A_class ''flex justify-center items-center'']
                  [El T_div [A_class ''aspect-square w-full max-w-[500px]''] [SkyView]],
                El T_div [A_testid ''waterfall-container'', A_class ''flex items-center justify-center'']
                  [El T_div [A_class ''w-full max-w-[600px]'']
                     [WaterfallView_markup (truthy_text fftError \<noteq> None) fftRunning (Option.bind st us_currentPass \<noteq> None) False]]]]
           else
            [El T_div [A_class ''w-full''] [SpectrumWaterfall]])]"

section \<open>Timeline\<close>

text \<open>
  The pass under the pointer is an object; \<open>hv_at\<close> says where it is in the list that is shown, if it
  still is.
\<close>

record hover =
  hv_pass :: "SatellitePass option"
  hv_at :: "nat option"
  hv_pos :: "number \<times> number"

text \<open>\<open>rect\<close> is the left and the upper end of the container.\<close>

definition timeline_handleMouseEnter :: "(number \<times> number) option \<Rightarrow> number \<times> number \<Rightarrow> nat
  \<Rightarrow> SatellitePass \<Rightarrow> hover \<Rightarrow> hover" where
  "timeline_handleMouseEnter rect pointer idx p h =
     (let h = (case rect of Some r \<Rightarrow> h\<lparr>hv_pos := (fst pointer - fst r, snd pointer - snd r)\<rparr> | None \<Rightarrow> h)
      in h\<lparr>hv_pass := Some p, hv_at := Some idx\<rparr>)"

definition timeline_handleMouseMove :: "(number \<times> number) option \<Rightarrow> number \<times> number \<Rightarrow> hover
  \<Rightarrow> hover" where
  "timeline_handleMouseMove rect pointer h =
     (case (rect, hv_pass h) of
        (Some r, Some p) \<Rightarrow> h\<lparr>hv_pos := (fst pointer - fst r, snd pointer - snd r)\<rparr>
      | _ \<Rightarrow> h)"

definition pass_key :: "nat \<Rightarrow> SatellitePass \<Rightarrow> string" where
  "pass_key idx p = sat_name (pass_satellite p) @ ''-'' @ js_toISOString (pass_aos p) @ ''-'' @ show_nat idx"

definition hour_marker :: "browser \<Rightarrow> int \<times> number \<Rightarrow> markup" where
  "hour_marker b m =
     (case m of (hour, pos) \<Rightarrow>
      El T_div [A_key (show_int hour), A_class ''absolute top-1/2 -translate-y-1/2 flex flex-col items-center'',
          A_style [(''left'', br_str b pos @ ''%'')]]
        [El T_div [A_class ''w-px h-2 bg-text-muted/30''] [],
         El T_span [A_class ''text-[8px] text-text-muted/50 mt-1''] [Txt (show_int hour), Txt ''h'']])"

definition timeline_bar_markup :: "browser \<Rightarrow> date \<Rightarrow> int \<Rightarrow> bool \<Rightarrow> nat \<Rightarrow>
  SatellitePass \<Rightarrow> markup" where
  "timeline_bar_markup b now hoursAhead isHovered idx p =
     (case timeline_bar now hoursAhead p of (startPos, width, opacity, shortName, elevation) \<Rightarrow>
      El T_div [A_key (pass_key idx p),
          A_class (cn [Some ''absolute top-1/2 -translate-y-1/2 h-6 rounded cursor-pointer transition-all border'',
            Some (fst (getPassColor p)), Some (snd (snd (getPassColor p))), Some (if isHovered then ''h-8 z-20 shadow-lg'' else ''z-10'')]),
          A_style [(''left'', ''calc('' @ br_str b startPos @ ''% + 16px)''), (''width'', ''max('' @ br_str b width
            @ ''%, 24px)''), (''opacity'', br_str b opacity)],
          A_on E_mouseenter (Hover p), A_on E_mouseleave Unhover]
        [El T_div [A_class ''absolute inset-0 flex items-center justify-center overflow-hidden px-1'']
           ([El T_span [A_class ''text-[9px] font-bold text-white drop-shadow truncate''] [Txt shortName]] @
            (case elevation of Some el \<Rightarrow>
              [El T_span [A_class ''text-[8px] text-white/80 ml-1 hidden sm:inline'']
                 [Txt (js_toFixed 0 (pass_maxElevation p)), Txt degree]] | None \<Rightarrow> []))])"

definition timeline_tip :: "browser \<Rightarrow> hover \<Rightarrow> number option \<Rightarrow> SatellitePass \<Rightarrow> markup" where
  "timeline_tip b h offsetWidth p =
      El T_div [A_class ''absolute z-30 bg-bg-secondary border border-border rounded px-2 py-1.5 shadow-lg pointer-events-none min-w-[140px]'',
          A_style [(''left'', br_str b (min (fst (hv_pos h)) (or_num offsetWidth 300 - 160)) @ ''px''), (''top'', ''36px'')]]
        [El T_div [A_class ''text-[10px] space-y-0.5'']
           [El T_div [A_class ''flex items-center gap-1 font-medium text-text-primary'']
              [El T_span [] [Txt (getSatIcon (sat_name (pass_satellite p)))], El T_span [] [Txt (sat_name (pass_satellite p))]],
            El T_div [A_class ''text-text-muted'']
              [Txt (br_time b (pass_aos p)), Txt ('' '' @ [CHR 0xE2, CHR 0x86, CHR 0x92] @ '' ''), Txt (br_time b (pass_los p))],
            El T_div [A_class ''flex justify-between text-text-muted'']
              [El T_span [] [Txt ''El: '', Txt (js_toFixed 0 (pass_maxElevation p)), Txt degree],
               El T_span [] [Txt (pass_formatDuration (pass_aos p) (pass_los p))]],
            El T_div [A_class ''text-accent font-mono'']
              [Txt (js_toFixed 3 (sat_frequency (pass_satellite p) / 1000000)), Txt '' MHz'']]]"

definition next_color :: "date \<Rightarrow> int \<Rightarrow> SatellitePass list \<Rightarrow> string" where
  "next_color now hoursAhead passes =
     (case first (visiblePasses now hoursAhead passes) of
        Some p \<Rightarrow> if sat_signalType (pass_satellite p) = Sstv then ''text-purple'' else ''text-accent''
      | None \<Rightarrow> [])"

definition PassTimeline :: "browser \<Rightarrow> date \<Rightarrow> SatellitePass list \<Rightarrow> int \<Rightarrow> hover \<Rightarrow>
  number option \<Rightarrow> markup" where
  "PassTimeline b now passes hoursAhead h offsetWidth =
    El T_div [A_other ''ref'' ''containerRef'', A_class ''relative h-12 bg-bg-tertiary border-b border-border flex'',
        A_on E_mousemove Track_mouse, A_testid ''pass-timeline'']
      [El T_div [A_class ''w-32 shrink-0 flex items-center justify-center border-r border-border px-2'']
         (case timeline_next now hoursAhead passes of Some (icon, name, countdown, isPassActive) \<Rightarrow>
            [El T_div [A_class ''text-center'']
               [El T_div [A_class ''flex items-center justify-center gap-1'']
                  [El T_span [A_class ''text-sm''] [Txt icon],
                   El T_span [A_class (cn [Some ''text-xs font-medium'', Some (next_color now hoursAhead passes)])] [Txt name]],
                El T_div [A_class (cn [Some ''font-mono text-sm font-bold'', Some (if isPassActive then ''text-success animate-pulse''
                  else ''text-warning'')])]
                  [Txt countdown]]]
           | None \<Rightarrow>
            [El T_span [A_class ''text-[10px] text-text-muted''] [Txt ''No passes'']]),
       El T_div [A_class ''flex-1 relative px-4'']
         ([El T_div [A_class ''absolute inset-x-4 top-1/2 -translate-y-1/2 h-1 bg-border/50 rounded'']
            ([El T_div [A_class ''absolute left-0 top-1/2 -translate-y-1/2 w-0.5 h-4 bg-success rounded-full shadow-[0_0_4px_var(--success)]'']
               []] @
             (map (hour_marker b) (hourMarkers hoursAhead)))] @
          (map (\<lambda>(idx, p). timeline_bar_markup b now hoursAhead (hv_at h =
            Some idx) idx p) (enumerate 0 (visiblePasses now hoursAhead passes))) @
          (case hv_pass h of Some p \<Rightarrow> [timeline_tip b h offsetWidth p] | None \<Rightarrow> []) @
          (if visiblePasses now hoursAhead passes = [] then
            [El T_span [A_class ''absolute left-1/2 top-1/2 -translate-x-1/2 -translate-y-1/2 text-[10px] text-text-muted'']
               [Txt ''No passes in next '', Txt (show_int hoursAhead), Txt ''h'']] else []))]"

section \<open>Diagnostics\<close>

definition log_level_name :: "log_level \<Rightarrow> string" where
  "log_level_name l = (case l of Log_info \<Rightarrow> ''info'' | Log_warn \<Rightarrow> ''warn'' | Log_error \<Rightarrow> ''error'' |
    Log_debug \<Rightarrow> ''debug'')"

definition console_line :: "browser \<Rightarrow> LogEntry \<Rightarrow> markup" where
  "console_line b l =
      El T_div [A_key (le_id l), A_class ''flex gap-2'']
        [El T_span [A_class ''text-text-muted shrink-0''] [Txt (br_clock b (le_timestamp l))],
         El T_span [A_class (''shrink-0 w-12 '' @ log_class (le_level l))] [Txt ''['', Txt (log_level_name (le_level l)), Txt '']''],
         El T_span [A_class ''text-text-primary''] [Txt (le_message l)]]"

definition console_tab :: "browser \<Rightarrow> diagnostics \<Rightarrow> markup" where
  "console_tab b g =
    El T_div [A_class ''font-mono text-xs space-y-1 p-2'']
      ((if dg_logs g = [] then
         [El T_p [A_class ''text-text-muted''] [Txt ''No logs yet...'']]
        else map (console_line b) (dg_logs g)) @
       [El T_div [A_other ''ref'' ''logsEndRef''] []])"

definition state_tab ::
  "browser \<Rightarrow> ui_system option \<Rightarrow> SSTVStatus option \<Rightarrow> (number \<times> number \<times> number) option
    \<Rightarrow> SatellitePass list \<Rightarrow> GlobeState option
     \<Rightarrow> markup"
where
  "state_tab b st sstv progress passes globe =
    El T_div [A_class ''font-mono text-xs p-2 space-y-4'']
      [El T_div []
         [El T_h4 [A_class ''text-text-secondary mb-1''] [Txt ''System Status''],
          El T_pre [A_class ''bg-bg-tertiary p-2 rounded overflow-auto max-h-32''] [Txt (br_dump_system b st)]],
       El T_div []
         [El T_h4 [A_class ''text-text-secondary mb-1''] [Txt ''SSTV Status''],
          El T_pre [A_class ''bg-bg-tertiary p-2 rounded overflow-auto max-h-32''] [Txt (br_dump_sstv b sstv)]],
       El T_div []
         [El T_h4 [A_class ''text-text-secondary mb-1''] [Txt ''Progress''],
          El T_pre [A_class ''bg-bg-tertiary p-2 rounded overflow-auto max-h-32''] [Txt (br_dump_progress b progress)]],
       El T_div []
         [El T_h4 [A_class ''text-text-secondary mb-1''] [Txt ''Passes ('', Txt (show_nat (length passes)), Txt '')''],
          El T_pre [A_class ''bg-bg-tertiary p-2 rounded overflow-auto max-h-32'']
            [Txt (br_dump_passes b (map (\<lambda>p. (sat_name (pass_satellite p), pass_aos p, pass_maxElevation p)) (take 3 passes)))]],
       El T_div []
         [El T_h4 [A_class ''text-text-secondary mb-1''] [Txt ''Globe State''],
          El T_pre [A_class ''bg-bg-tertiary p-2 rounded overflow-auto max-h-32'']
            [Txt (br_dump_globe b (map_option (\<lambda>g. (gs_station g, length (gs_satellites g), length (gs_groundTracks g))) globe))]]]"

definition network_tab :: "browser \<Rightarrow> ws_state \<Rightarrow> markup" where
  "network_tab b ws =
    El T_div [A_class ''font-mono text-xs p-2 space-y-4'']
      ([El T_div [A_class ''flex items-center gap-2 mb-4'']
         [El T_span [A_class (''w-3 h-3 rounded-full '' @ (if wv_connected ws then ''bg-success'' else ''bg-error''))] [],
          El T_span [] [Txt ''WebSocket: '', Txt (if wv_connected ws then ''Connected'' else ''Disconnected'')]]] @
       (case truthy_text (wv_error ws) of None \<Rightarrow> [] | Some err \<Rightarrow>
         [El T_div [A_class ''bg-error/10 border border-error/30 rounded p-2 text-error''] [Txt ''Error: '', Txt err]]) @
       [El T_div []
         [El T_h4 [A_class ''text-text-secondary mb-1''] [Txt ''Connection Info''],
          El T_div [A_class ''bg-bg-tertiary p-2 rounded space-y-1'']
            [El T_p []
               [Txt ''URL:'',
                Txt '' '',
                Txt ((if br_protocol b = ''https:'' then ''wss:'' else ''ws:'') @ ''//'' @ br_host b @ ''/ws'')],
             El T_p [] [Txt ''Reconnect Attempts: '', Txt (show_nat (wv_reconnectAttempts ws))]]]])"

definition scanning_at :: "ui_system option \<Rightarrow> number option" where
  "scanning_at st =
     (if map_option us_status st = Some ''scanning''
      then (case Option.bind st us_scanningFrequency of Some f \<Rightarrow> if f = 0 then None else Some f | None \<Rightarrow> None) else None)"

definition sdr_tab ::
  "browser \<Rightarrow> ui_system option \<Rightarrow> (number \<times> number \<times> number) option \<Rightarrow> (number \<times>
    number \<times> number) option \<Rightarrow> markup" where
  "sdr_tab b st progress doppler =
    El T_div [A_class ''font-mono text-xs p-2 space-y-4'']
      ([El T_div [A_class ''flex items-center gap-2 mb-4'']
         [El T_span [A_class (''w-3 h-3 rounded-full '' @ snd (sdr_tab_status st))] [],
          El T_span [] [Txt ''SDR: '', Txt (fst (sdr_tab_status st))]],
       El T_div []
         [El T_h4 [A_class ''text-text-secondary mb-1''] [Txt ''Current Activity''],
          El T_div [A_class ''bg-bg-tertiary p-2 rounded space-y-1'']
            ([El T_p [] [Txt ''Status: '', Txt (or_else (truthy_text (map_option us_status st)) ''Unknown'')]] @
             (case Option.bind st us_currentPass of None \<Rightarrow> [] | Some p \<Rightarrow>
               [El T_p [] [Txt ''Satellite: '', Txt (sat_name (pass_satellite p))],
                El T_p []
                  [Txt ''Frequency: '', Txt (js_toFixed 3 (sat_frequency (pass_satellite p) / 1000000)), Txt '' '', Txt ''MHz''],
                El T_p [] [Txt ''Max Elevation: '', Txt (js_toFixed 1 (pass_maxElevation p)), Txt degree]]) @
             (case scanning_at st of None \<Rightarrow> [] | Some f \<Rightarrow>
               [El T_p [] [Txt ''Mode: 2M SSTV Scanning''],
                El T_p []
                  [Txt ''Frequency: '',
                   Txt (js_toFixed 3 (f / 1000000)),
                   Txt '' MHz ('',
                   Txt (or_else (truthy_text (Option.bind st us_scanningFrequencyName)) ''Unknown''),
                   Txt '')'']]) @
             (case progress of None \<Rightarrow> [] | Some (percentage, elapsed, tot) \<Rightarrow>
               [El T_p []
                  [Txt ''Progress: '',
                   Txt (br_str b percentage),
                   Txt ''% ('',
                   Txt (br_str b elapsed),
                   Txt ''s / '',
                   Txt (br_str b tot),
                   Txt ''s)'']]))]] @
       (case doppler of None \<Rightarrow> [] | Some (current, mn, mx) \<Rightarrow>
         [El T_div []
            [El T_h4 [A_class ''text-text-secondary mb-1''] [Txt ''Doppler''],
             El T_div [A_class ''bg-bg-tertiary p-2 rounded space-y-1'']
               [El T_p [] [Txt ''Current: '', Txt (js_toFixed 0 current), Txt '' Hz''],
                El T_p [] [Txt ''Range: '', Txt (js_toFixed 0 mn), Txt '' to'', Txt '' '', Txt (js_toFixed 0 mx), Txt '' Hz'']]]]))"

definition passes_tab_markup_row :: "browser \<Rightarrow> date \<Rightarrow> nat \<Rightarrow> SatellitePass \<Rightarrow> markup" where
  "passes_tab_markup_row b now idx p =
      El T_tr [A_key (pass_key idx p), A_class ''border-b border-border/50 hover:bg-bg-tertiary'']
        [El T_td [A_class (''py-1 pr-4 '' @ (if sat_signalType (pass_satellite p) = Sstv then ''text-purple'' else ''text-accent''))]
           [Txt (sat_name (pass_satellite p))],
         El T_td [A_class ''py-1 pr-4 text-text-muted''] [Txt (br_day b (pass_aos p))],
         El T_td [A_class ''py-1 pr-4''] [Txt (br_time b (pass_aos p))],
         El T_td [A_class ''py-1 pr-4''] [Txt (br_time b (pass_los p))],
         El T_td [A_class ''py-1 pr-4 text-text-muted''] [Txt (pass_formatDuration (pass_aos p) (pass_los p))],
         El T_td [A_class ''py-1 pr-4''] [Txt (js_toFixed 0 (pass_maxElevation p)), Txt degree],
         El T_td [A_class ''py-1 pr-4 text-text-muted''] [Txt (js_toFixed 3 (sat_frequency (pass_satellite p) / 1000000))],
         El T_td [A_class ''py-1 text-warning''] [Txt (diag_formatCountdown now (pass_aos p))]]"

definition passes_tab :: "browser \<Rightarrow> date \<Rightarrow> SatellitePass list \<Rightarrow> markup" where
  "passes_tab b now passes =
    El T_div [A_class ''font-mono text-xs p-2'']
      ([El T_div [A_class ''mb-2 text-text-secondary''] [Txt (show_nat (length passes)), Txt '' upcoming passes''],
       El T_table [A_class ''w-full'']
         [El T_thead []
            [El T_tr [A_class ''text-left text-text-muted border-b border-border'']
               [El T_th [A_class ''py-1 pr-4''] [Txt ''Satellite''],
                El T_th [A_class ''py-1 pr-4''] [Txt ''Date''],
                El T_th [A_class ''py-1 pr-4''] [Txt ''AOS''],
                El T_th [A_class ''py-1 pr-4''] [Txt ''LOS''],
                El T_th [A_class ''py-1 pr-4''] [Txt ''Duration''],
                El T_th [A_class ''py-1 pr-4''] [Txt ''Max El''],
                El T_th [A_class ''py-1 pr-4''] [Txt ''Freq''],
                El T_th [A_class ''py-1''] [Txt ''In'']]],
          El T_tbody [] (map (\<lambda>(idx, p). passes_tab_markup_row b now idx p) (enumerate 0 passes))]] @
       (if passes = [] then
         [El T_p [A_class ''text-center text-text-muted py-4''] [Txt ''No upcoming passes'']] else []))"

definition diagnostics_tabs :: "(DiagnosticsTab \<times> string \<times> string) list" where
  "diagnostics_tabs =
     [(Tab_console, ''Console'', ''>''), (Tab_passes, ''Passes'', sat_icon), (Tab_state, ''State'', ''{}''),
      (Tab_network, ''Network'', [CHR 0xE2, CHR 0x86, CHR 0x94]), (Tab_sdr, ''SDR'', satellite_antenna)]"

definition tab_name :: "DiagnosticsTab \<Rightarrow> string" where
  "tab_name t =
     (case t of Tab_console \<Rightarrow> ''console'' | Tab_state \<Rightarrow> ''state'' | Tab_network \<Rightarrow> ''network'' | Tab_sdr
       \<Rightarrow> ''sdr'' | Tab_passes \<Rightarrow> ''passes'')"

definition tab_button :: "DiagnosticsTab \<Rightarrow> DiagnosticsTab \<times> string \<times> string \<Rightarrow> markup" where
  "tab_button activeTab tab =
     (case tab of (ident, label, icon) \<Rightarrow>
      El T_button [A_type ''button'', A_key (tab_name ident), A_on E_click (Select_tab ident),
          A_class (''px-4 py-2 text-sm font-medium border-b-2 transition-colors ''
            @ (if activeTab = ident then ''border-accent text-accent''
            else ''border-transparent text-text-secondary hover:text-text-primary''))]
        [El T_span [A_class ''mr-2''] [Txt icon], Txt label])"

section \<open>The application\<close>

text \<open>
  The state of all hooks of the page.  \<open>pg_doppler\<close> and \<open>pg_sdrConnected\<close> are fields of the system's
  state that no message of the server carries.
\<close>

record page =
  pg_ui :: ui
  pg_app :: app
  pg_store :: UIState
  pg_freq :: "number option"
  pg_mode :: WaterfallMode
  pg_serverTime :: string
  pg_hover :: hover
  pg_width :: "number option"
  pg_freqIndex :: nat
  pg_gallery :: gallery
  pg_diagnostics :: diagnostics
  pg_tips :: "string \<Rightarrow> bool"
  pg_doppler :: "(number \<times> number \<times> number) option"
  pg_sdrConnected :: "bool option"

definition renderTabContent :: "browser \<Rightarrow> date \<Rightarrow> page \<Rightarrow> markup" where
  "renderTabContent b now pg =
     (let u = pg_ui pg; st = ui_state u
      in case uis_diagnosticsTab (pg_store pg) of
           Tab_console \<Rightarrow> console_tab b (pg_diagnostics pg)
         | Tab_state \<Rightarrow> state_tab b st (ui_sstv u) (ui_progress u) (ui_passes u) (ui_globe u)
         | Tab_network \<Rightarrow> network_tab b (ui_ws u)
         | Tab_sdr \<Rightarrow> sdr_tab b st (ui_progress u) (pg_doppler pg)
         | Tab_passes \<Rightarrow> passes_tab b now (ui_passes u))"

definition DiagnosticsPanel :: "browser \<Rightarrow> date \<Rightarrow> page \<Rightarrow> markup list" where
  "DiagnosticsPanel b now pg =
     (let activeTab = uis_diagnosticsTab (pg_store pg); panelHeight = uis_diagnosticsPanelHeight (pg_store pg);
          content = renderTabContent b now pg
      in if \<not> uis_diagnosticsOpen (pg_store pg) then [] else [
      El T_div [A_class ''fixed left-0 right-0 z-40 bg-bg-primary border-b border-border shadow-2xl'',
          A_style [(''height'', br_str b panelHeight @ ''px''), (''top'', ''68px'')]]
        [El T_div [A_class ''flex items-center justify-between border-b border-border px-2'']
           [El T_div [A_class ''flex''] (map (tab_button activeTab) diagnostics_tabs),
            El T_button [A_type ''button'', A_on E_click Close_diagnostics, A_class ''p-2 text-text-secondary hover:text-text-primary'']
              [El T_svg [A_class ''w-4 h-4'', A_other ''fill'' ''none'', A_other ''viewBox'' ''0 0 24 24'',
                   A_other ''stroke'' ''currentColor'']
                 [El T_title [] [Txt ''Close''],
                  El T_path [A_other ''strokeLinecap'' ''round'', A_other ''strokeLinejoin'' ''round'', A_other ''strokeWidth'' ''2'',
                      A_other ''d'' ''M6 18L18 6M6 6l12 12'']
                    []]]],
         El T_div [A_class ''overflow-auto'', A_style [(''height'', br_str b (panelHeight - 49) @ ''px'')]] ([content]),
         El T_div [A_class ''absolute bottom-0 left-0 right-0 h-1 cursor-ns-resize hover:bg-accent/50 transition-colors'',
             A_on E_mousedown Start_resize]
           []]])"

definition ToggleChip :: "string \<Rightarrow> bool \<Rightarrow> bool \<Rightarrow> string \<Rightarrow> string \<Rightarrow> ui_action
  \<Rightarrow> markup" where
  "ToggleChip label enabled loading color tooltip act =
    El T_button [A_type ''button'', A_on E_click act, A_disabled loading, A_title tooltip, A_class (chip_class enabled loading color)]
      [Txt label]"

definition app_header :: "browser \<Rightarrow> date \<Rightarrow> page \<Rightarrow> markup" where
  "app_header b now pg =
     (let u = pg_ui pg; a = pg_app pg; st = ui_state u; ws = ui_ws u in
      El T_header [A_class ''bg-bg-secondary border-b border-border px-2 py-1 flex items-center justify-between text-xs shrink-0'',
          A_testid ''status-bar'']
        [El T_div [A_class ''flex items-center gap-3'']
           [El T_div [A_class ''flex items-center gap-1'']
              [ToggleChip ''METEOR'' (ap_noaaEnabled a) False ''bg-accent''
                   ''METEOR-M LRPT weather satellites (137.9 MHz) - High-resolution weather imagery from Russian satellites'' Noaa_click,
               ToggleChip ''ISS'' (ap_issEnabled a) (ap_sstvLoading a = Some ''iss'') ''bg-purple''
                   ''ISS SSTV events on 145.800 MHz - Capture slow-scan TV from the International Space Station'' Iss_click,
               ToggleChip ''2M'' (ap_groundEnabled a) (ap_sstvLoading a = Some ''ground'') ''bg-purple''
                   ''2M ground SSTV scanning (144.5, 145.5, 145.8 MHz) - Scan for amateur radio SSTV during idle time'' Ground_click],
            El T_div [A_class ''flex items-center gap-3 border-l border-border pl-3'']
              [El T_div [A_class ''flex items-center gap-1'', A_testid ''system-status'']
                 [El T_span [A_class (cn [Some ''w-1.5 h-1.5 rounded-full'', Some (getStatusColor (app_status st))])] [],
                  El T_span [A_class ''font-mono text-[10px]''] [Txt (getStatusText (app_status st))]],
               El T_div [A_class ''flex items-center gap-1'', A_testid ''sdr-status'']
                 [El T_span [A_class (cn [Some ''w-1.5 h-1.5 rounded-full'', Some (snd (getSdrStatus (app_status st) (pg_sdrConnected pg)))])]
                    [],
                  El T_span [A_class ''text-[10px]''] [Txt (fst (getSdrStatus (app_status st) (pg_sdrConnected pg)))]],
               El T_div [A_class ''flex items-center gap-1'', A_testid ''ws-status'']
                 [El T_span [A_class (cn [Some ''w-1.5 h-1.5 rounded-full'', Some (if wv_connected ws then ''bg-success''
                   else ''bg-error animate-pulse'')])]
                    [],
                  El T_span [A_class ''text-[10px]''] [Txt (if wv_connected ws then ''WS'' else ''WS!'')]],
               El T_div [A_class ''flex items-center gap-1 font-mono'', A_testid ''current-frequency'']
                 (case scanning_at st of Some f \<Rightarrow>
                    [El T_span [A_class ''text-[10px] text-purple animate-pulse'']
                       [Txt (app_formatFrequency (Some f)), Txt '' MHz''],
                     El T_span [A_class ''text-text-muted text-[10px]'']
                       [Txt (or_else (truthy_text (Option.bind st us_scanningFrequencyName)) ''2M'')]]
                   | None \<Rightarrow>
                    [El T_span [A_class (cn [Some ''text-[10px]'', Some (if pg_mode pg = Mode_sstv_2m then ''text-purple'' else ''text-accent'')])]
                       [Txt (app_formatFrequency (pg_freq pg)), Txt '' MHz''],
                     El T_span [A_class ''text-text-muted text-[10px]'']
                       [Txt (if pg_mode pg = Mode_sstv_2m then ''2M'' else ''SAT'')]])]],
         El T_div [A_class ''flex items-center gap-3'']
           ((case first (ui_passes u) of None \<Rightarrow> [] | Some p \<Rightarrow>
              [El T_div [A_class ''flex items-center gap-1.5 font-mono text-[10px]'', A_testid ''next-pass'']
                 [El T_span [A_class ''text-accent''] [Txt (sat_name (pass_satellite p))],
                  El T_span [A_class ''text-warning''] [Txt (app_formatCountdown now (ui_passes u))],
                  El T_span [A_class ''text-text-muted''] [Txt (js_toFixed 0 (pass_maxElevation p)), Txt degree]]]) @
            [El T_span [A_class ''font-mono text-text-muted text-[10px]'', A_testid ''server-time'', A_title ''Server time (UTC)'']
              [Txt (pg_serverTime pg), Txt '' UTC''],
            El T_span [A_class ''font-mono text-text-muted text-[10px]'', A_testid ''version'']
              [Txt (app_versionText (ap_version a))],
            El T_button [A_type ''button'', A_on E_click Toggle_diagnostics,
                A_class (cn [Some ''flex items-center gap-1 px-1.5 py-0.5 rounded text-[10px] transition-colors'',
                  Some (if uis_diagnosticsOpen (pg_store pg) then ''bg-accent/20 text-accent''
                  else ''hover:bg-bg-tertiary text-text-muted'')]),
                A_testid ''diagnostics-toggle'',
                A_title (if uis_diagnosticsOpen (pg_store pg) then ''Close dev tools'' else ''Open dev tools'')]
              [El T_span [A_class ''font-medium''] [Txt ''Dev''],
               El T_svg [A_class (cn [Some ''w-3 h-3 transition-transform'', if uis_diagnosticsOpen (pg_store pg) then Some ''rotate-180''
                 else None]),
                   A_other ''fill'' ''none'', A_other ''viewBox'' ''0 0 24 24'', A_other ''stroke'' ''currentColor'',
                   A_other ''aria-hidden'' ''true'']
                 [El T_path [A_other ''strokeLinecap'' ''round'', A_other ''strokeLinejoin'' ''round'', A_other ''strokeWidth'' ''2'',
                      A_other ''d'' ''M19 9l-7 7-7-7'']
                    []]]])])"

definition app_content :: "browser \<Rightarrow> page \<Rightarrow> markup" where
  "app_content b pg =
     (let u = pg_ui pg; st = ui_state u; tips = pg_tips pg in
      El T_main [A_class ''flex-1 overflow-auto p-2 pb-10 space-y-2'']
        ([El T_div [A_class (cn [Some ''grid gap-2'', Some (if showProgress st then ''grid-cols-1 xl:grid-cols-3'' else ''grid-cols-1'')])]
           ([El T_div [A_class (if showProgress st then ''xl:col-span-2'' else [])]
              [SatelliteTracking tips (uis_waterfallMode (pg_store pg)) (pg_freqIndex pg) st (uf_running (ui_fft_state u)) (uf_error
                (ui_fft_state u))]] @
            (if showProgress st then
              [El T_div [A_class ''space-y-2'']
                 ((ProgressSection_markup (br_str b) (ui_progress u) (showProgress st) (Option.bind st us_currentPass)) @
                  (case pg_doppler pg of None \<Rightarrow> [] | Some (current, mn, mx) \<Rightarrow>
                    (DopplerChart_markup (br_str b) current mn mx True)))] else []))] @
         (CaptureGallery b tips (pg_gallery pg))))"

definition App :: "browser \<Rightarrow> date \<Rightarrow> page \<Rightarrow> markup" where
  "App b now pg =
     El T_div [A_class ''h-screen bg-bg-primary text-text-primary flex flex-col overflow-hidden'']
       ([app_header b now pg, PassTimeline b now (ui_passes (pg_ui pg)) 12 (pg_hover pg) (pg_width pg), app_content b pg] @
        DiagnosticsPanel b now pg @ [Footer (br_build b) (pg_tips pg) (ap_version (pg_app pg))])"

section \<open>What the handlers do\<close>

text \<open>
  The effect on the state of the page, and the requests that are sent; \<open>pressed\<close> is the key of a keyboard
  event.  The switches of \<open>SstvToggle\<close> are not part of this page.
\<close>

fun perform :: "string \<Rightarrow> ui_action \<Rightarrow> page \<Rightarrow> page \<times> web_request list" where
  "perform pressed (Tip_show i) pg = (pg\<lparr>pg_tips := (pg_tips pg)(i := True)\<rparr>, [])"
| "perform pressed (Tip_hide i) pg = (pg\<lparr>pg_tips := (pg_tips pg)(i := False)\<rparr>, [])"
| "perform pressed Noaa_click pg = (pg\<lparr>pg_app := handleNoaaToggle (pg_app pg)\<rparr>, [])"
| "perform pressed Iss_click pg = (let (rq, a) = handleIssToggle (pg_app pg) in (pg\<lparr>pg_app := a\<rparr>, [rq]))"
| "perform pressed Ground_click pg = (let (rq, a) = handleGroundToggle (pg_app pg) in (pg\<lparr>pg_app := a\<rparr>, [rq]))"
| "perform pressed Toggle_diagnostics pg = (pg\<lparr>pg_store := toggleDiagnostics (pg_store pg)\<rparr>, [])"
| "perform pressed Close_diagnostics pg = (pg\<lparr>pg_store := setDiagnosticsOpen False (pg_store pg)\<rparr>, [])"
| "perform pressed (Select_tab t) pg = (pg\<lparr>pg_store := setDiagnosticsTab t (pg_store pg)\<rparr>, [])"
| "perform pressed Start_resize pg = (pg\<lparr>pg_diagnostics := resize_start (pg_diagnostics pg)\<rparr>, [])"
| "perform pressed (Select_mode m) pg = (pg\<lparr>pg_store := setWaterfallMode m (pg_store pg)\<rparr>, [])"
| "perform pressed (Select_frequency i) pg = (pg\<lparr>pg_freqIndex := i\<rparr>, [])"
| "perform pressed (Select_capture c) pg = (pg\<lparr>pg_gallery := select_capture c (pg_gallery pg)\<rparr>, [])"
| "perform pressed Close_image pg = (pg\<lparr>pg_gallery := close_lightbox (pg_gallery pg)\<rparr>, [])"
| "perform pressed (Hover p) pg = (pg\<lparr>pg_hover := (pg_hover pg)\<lparr>hv_pass := Some p\<rparr>\<rparr>, [])"
| "perform pressed Unhover pg = (pg\<lparr>pg_hover := (pg_hover pg)\<lparr>hv_pass := None, hv_at := None\<rparr>\<rparr>, [])"
| "perform pressed (If_key ks a) pg = (if pressed \<in> set ks then perform pressed a pg else (pg, []))"
| "perform pressed Stop_propagation pg = (pg, [])"
| "perform pressed Track_mouse pg = (pg, [])"
| "perform pressed No_action pg = (pg, [])"
| "perform pressed Sstv_click pg = (pg, [])"
| "perform pressed Scan_click pg = (pg, [])"

fun perform_all :: "string \<Rightarrow> ui_action list \<Rightarrow> page \<Rightarrow> page \<times> web_request list" where
  "perform_all pressed [] pg = (pg, [])"
| "perform_all pressed (a # as) pg =
     (let (pg, rs) = perform pressed a pg; (pg, rs') = perform_all pressed as pg in (pg, rs @ rs'))"

section \<open>Keys\<close>

lemma pass_key_inj:
  assumes "pass_key i p = pass_key j q"
  shows "i = j"
proof -
  have "takeWhile (\<lambda>c. c \<noteq> CHR ''-'') (rev (pass_key k r)) = rev (show_nat k)" for k r
  proof -
    have "\<forall>c \<in> set (rev (show_nat k)). c \<noteq> CHR ''-''" using is_digit_show [of k] by (auto simp: is_digit_def)
    then show ?thesis by (simp only: pass_key_def rev_append append_assoc) (subst takeWhile_append2, simp_all)
  qed
  then have "rev (show_nat i) = rev (show_nat j)" by (metis assms)
  then show ?thesis using show_nat_inj by simp
qed

lemma pass_keys_distinct: "distinct (map (\<lambda>(i, p). pass_key i p) (enumerate n ps))"
proof -
  have "inj_on (\<lambda>(i, p). pass_key i p) (set (enumerate n ps))"
    by (auto simp: inj_on_def in_set_enumerate_eq dest!: pass_key_inj)
  then show ?thesis by (simp add: distinct_map)
qed

lemma keys_of_rows:
  assumes "\<And>x ns. node_keys (f x # ns) = k x # node_keys ns"
  shows "node_keys (map f xs) = map k xs"
  by (induction xs) (simp_all add: assms)

subsection \<open>Gallery\<close>

lemma gallery_card_ok: "markup_ok (gallery_card b tips c)" "clicks (gallery_card b tips c) = [Select_capture c]"
  "node_keys (gallery_card b tips c # ns) = show_int (che_id (wc_entry c)) # node_keys ns"
  by (simp_all add: gallery_card_def Let_def markup_defs split: option.splits)

lemma cards_clicks: "clicks_of (map (gallery_card b tips) cs) = map Select_capture cs"
  by (induction cs) (simp_all add: gallery_card_ok)

lemma Lightbox_ok: "markup_ok (Lightbox src)" "clicks (Lightbox src) = [Close_image, Close_image, Stop_propagation]"
  "node_keys (Lightbox src # ns) = node_keys ns"
  by (simp_all add: Lightbox_def markup_defs)

definition capture_ids :: "gallery \<Rightarrow> int list" where
  "capture_ids g = map (\<lambda>c. che_id (wc_entry c)) (gl_captures g)"

lemma CaptureGallery_ok:
  assumes "distinct (capture_ids g)"
  shows "list_all markup_ok (CaptureGallery b tips g)" "node_keys (CaptureGallery b tips g) = []"
proof -
  have "distinct (map (\<lambda>c. show_int (che_id (wc_entry c))) (gl_captures g))"
    using assms by (auto simp: capture_ids_def distinct_map inj_on_def dest!: show_int_inj)
  then show "list_all markup_ok (CaptureGallery b tips g)" "node_keys (CaptureGallery b tips g) = []"
    by (simp_all add: CaptureGallery_def markup_defs Lightbox_ok keys_of_rows [OF gallery_card_ok(3)] split: option.splits)
       (simp_all add: list_all_iff gallery_card_ok)
qed

definition no_switch :: "ui_action \<Rightarrow> bool" where
  "no_switch a \<longleftrightarrow> a \<noteq> Iss_click \<and> a \<noteq> Ground_click \<and> a \<noteq> Noaa_click"

lemma CaptureGallery_clicks: "list_all no_switch (clicks_of (CaptureGallery b tips g))"
  by (auto simp: CaptureGallery_def markup_defs Lightbox_ok cards_clicks no_switch_def list_all_iff split: option.splits)

subsection \<open>Tracking\<close>

lemma canvas_views_ok: "markup_ok (WaterfallView_markup e r a s)" "markup_ok SkyView" "markup_ok SpectrumWaterfall"
  "clicks (WaterfallView_markup e r a s) = [No_action]" "clicks SkyView = []" "clicks SpectrumWaterfall = [No_action]"
  "node_keys (WaterfallView_markup e r a s # ns) = node_keys ns" "node_keys (SkyView # ns) = node_keys ns"
  "node_keys (SpectrumWaterfall # ns) = node_keys ns"
  by (simp_all add: WaterfallView_markup_def SkyView_def SpectrumWaterfall_def markup_defs)

lemma tracking_tab_ok: "markup_ok (tracking_tab tips mode tab)" "clicks (tracking_tab tips mode tab) = [Select_mode (fst tab)]"
  "node_keys (tracking_tab tips mode tab # ns) = mode_name (fst tab) # node_keys ns"
  by (simp_all add: tracking_tab_def markup_defs split: prod.splits)

lemma frequency_button_ok: "markup_ok (frequency_button tips k f)" "clicks (frequency_button tips k f) = [Select_frequency (fst f)]"
  "node_keys (frequency_button tips k f # ns) = show_int \<lfloor>fst (snd f)\<rfloor> # node_keys ns"
  by (simp_all add: frequency_button_def markup_defs split: prod.splits)

lemma SatelliteTracking_ok: "markup_ok (SatelliteTracking tips mode k st r e)"
  by (simp add: SatelliteTracking_def markup_defs canvas_views_ok tracking_tab_ok tracking_tabs_def frequency_button_ok
      SSTV_2M_FREQUENCIES_def mode_name_def) (auto dest!: show_int_inj)

lemma SatelliteTracking_keys: "node_keys (SatelliteTracking tips mode k st r e # ns) = node_keys ns"
  by (simp add: SatelliteTracking_def)

lemma SatelliteTracking_clicks: "list_all no_switch (clicks (SatelliteTracking tips mode k st r e))"
  by (simp add: SatelliteTracking_def markup_defs canvas_views_ok tracking_tab_ok tracking_tabs_def frequency_button_ok
      SSTV_2M_FREQUENCIES_def no_switch_def)

subsection \<open>Timeline\<close>

lemma hour_marker_ok: "markup_ok (hour_marker b m)" "clicks (hour_marker b m) = []"
  "node_keys (hour_marker b m # ns) = show_int (fst m) # node_keys ns"
  by (simp_all add: hour_marker_def markup_defs split: prod.splits)

lemma hour_keys_distinct: "distinct (map (\<lambda>m. show_int (fst m)) (hourMarkers h))"
  by (auto simp: hourMarkers_def distinct_map inj_on_def dest!: show_int_inj)

lemma timeline_bar_ok: "markup_ok (timeline_bar_markup b now h hov i p)" "clicks (timeline_bar_markup b now h hov i p) = []"
  "node_keys (timeline_bar_markup b now h hov i p # ns) = pass_key i p # node_keys ns"
  by (simp_all add: timeline_bar_markup_def markup_defs split: prod.splits option.splits)

lemma timeline_tip_ok: "markup_ok (timeline_tip b h w p)" "clicks (timeline_tip b h w p) = []"
  "node_keys (timeline_tip b h w p # ns) = node_keys ns"
  by (simp_all add: timeline_tip_def markup_defs)

lemma clicks_of_none: "(\<And>x. x \<in> set xs \<Longrightarrow> clicks x = []) \<Longrightarrow> clicks_of xs = []"
  by (induction xs) simp_all

lemma timeline_bars_keys:
  "node_keys (map (\<lambda>(i, p). timeline_bar_markup b now h (hov i) i p) (enumerate n ps)) = map (\<lambda>(i, p). pass_key i p) (enumerate n ps)"
  by (rule keys_of_rows) (simp add: timeline_bar_ok split: prod.splits)

lemma PassTimeline_ok: "markup_ok (PassTimeline b now passes h hv w)" "clicks (PassTimeline b now passes h hv w) = []"
proof -
  have "distinct (node_keys (map (hour_marker b) (hourMarkers h)))"
    using hour_keys_distinct by (simp add: keys_of_rows [OF hour_marker_ok(3)])
  then show "markup_ok (PassTimeline b now passes h hv w)"
    by (simp add: PassTimeline_def markup_defs timeline_bars_keys pass_keys_distinct timeline_tip_ok split: option.splits prod.splits)
       (auto simp: list_all_iff hour_marker_ok timeline_bar_ok)
  have "clicks_of (map (hour_marker b) (hourMarkers h)) = []"
    "clicks_of (map (\<lambda>(i, p). timeline_bar_markup b now h (hv_at hv = Some i) i p) (enumerate 0 (visiblePasses now h passes))) = []"
    by (auto intro!: clicks_of_none simp: hour_marker_ok timeline_bar_ok)
  then show "clicks (PassTimeline b now passes h hv w) = []"
    by (simp add: PassTimeline_def markup_defs timeline_tip_ok split: option.splits prod.splits)
qed

subsection \<open>Diagnostics\<close>

lemma console_line_ok: "markup_ok (console_line b l)" "clicks (console_line b l) = []"
  "node_keys (console_line b l # ns) = le_id l # node_keys ns"
  by (simp_all add: console_line_def markup_defs)

lemma console_tab_ok: "distinct (map le_id (dg_logs g)) \<Longrightarrow> markup_ok (console_tab b g)" "clicks (console_tab b g) = []"
  by (simp_all add: console_tab_def markup_defs keys_of_rows [OF console_line_ok(3)] clicks_of_none console_line_ok)
     (auto simp: list_all_iff console_line_ok intro!: clicks_of_none)

lemma plain_tabs_ok: "markup_ok (state_tab b st s p ps g)" "clicks (state_tab b st s p ps g) = []"
  "markup_ok (network_tab b ws)" "clicks (network_tab b ws) = []" "markup_ok (sdr_tab b st p d)" "clicks (sdr_tab b st p d) = []"
  by (simp_all add: state_tab_def network_tab_def sdr_tab_def markup_defs split: option.splits prod.splits)

lemma passes_tab_row_ok: "markup_ok (passes_tab_markup_row b now i p)" "clicks (passes_tab_markup_row b now i p) = []"
  "node_keys (passes_tab_markup_row b now i p # ns) = pass_key i p # node_keys ns"
  by (simp_all add: passes_tab_markup_row_def markup_defs)

lemma passes_tab_keys:
  "node_keys (map (\<lambda>(i, p). passes_tab_markup_row b now i p) (enumerate n ps)) = map (\<lambda>(i, p). pass_key i p) (enumerate n ps)"
  by (rule keys_of_rows) (simp add: passes_tab_row_ok split: prod.splits)

lemma passes_tab_ok: "markup_ok (passes_tab b now ps)" "clicks (passes_tab b now ps) = []"
proof -
  show "markup_ok (passes_tab b now ps)"
    by (simp add: passes_tab_def markup_defs passes_tab_keys pass_keys_distinct) (auto simp: list_all_iff passes_tab_row_ok)
  have "clicks_of (map (\<lambda>(i, p). passes_tab_markup_row b now i p) (enumerate 0 ps)) = []"
    by (auto intro!: clicks_of_none simp: passes_tab_row_ok)
  then show "clicks (passes_tab b now ps) = []" by (simp add: passes_tab_def markup_defs)
qed

lemma tab_button_ok: "markup_ok (tab_button t tab)" "clicks (tab_button t tab) = [Select_tab (fst tab)]"
  "node_keys (tab_button t tab # ns) = tab_name (fst tab) # node_keys ns"
  by (simp_all add: tab_button_def markup_defs split: prod.splits)

lemma content_ok: "distinct (map le_id (dg_logs (pg_diagnostics pg))) \<Longrightarrow> markup_ok (renderTabContent b now pg)"
  "clicks (renderTabContent b now pg) = []"
  by (auto simp: renderTabContent_def Let_def console_tab_ok plain_tabs_ok passes_tab_ok split: DiagnosticsTab.splits)

lemma content_keys: "node_keys [renderTabContent b now pg] = []"
  by (simp add: renderTabContent_def Let_def console_tab_def state_tab_def network_tab_def sdr_tab_def passes_tab_def split: DiagnosticsTab.splits)

lemma DiagnosticsPanel_ok:
  "distinct (map le_id (dg_logs (pg_diagnostics pg))) \<Longrightarrow> list_all markup_ok (DiagnosticsPanel b now pg)"
  "node_keys (DiagnosticsPanel b now pg) = []"
  "clicks_of (DiagnosticsPanel b now pg) =
     (if uis_diagnosticsOpen (pg_store pg) then map Select_tab [Tab_console, Tab_passes, Tab_state, Tab_network, Tab_sdr] @ [Close_diagnostics]
      else [])"
  by (simp_all add: DiagnosticsPanel_def Let_def markup_defs diagnostics_tabs_def tab_button_ok tab_name_def content_ok content_keys)

subsection \<open>The page\<close>

lemma ToggleChip_ok: "markup_ok (ToggleChip l e w c t a)" "clicks (ToggleChip l e w c t a) = (if w then [] else [a])"
  "node_keys (ToggleChip l e w c t a # ns) = node_keys ns"
  by (simp_all add: ToggleChip_def markup_defs)

lemma app_header_ok: "markup_ok (app_header b now pg)" "node_keys (app_header b now pg # ns) = node_keys ns"
  "clicks (app_header b now pg) =
     [Noaa_click] @ (if ap_sstvLoading (pg_app pg) = Some ''iss'' then [] else [Iss_click]) @
     (if ap_sstvLoading (pg_app pg) = Some ''ground'' then [] else [Ground_click]) @ [Toggle_diagnostics]"
  by (simp_all add: app_header_def Let_def markup_defs ToggleChip_ok split: option.splits)

lemma app_content_ok: "distinct (capture_ids (pg_gallery pg)) \<Longrightarrow> markup_ok (app_content b pg)"
  "list_all no_switch (clicks (app_content b pg))"
  using SatelliteTracking_clicks [of "pg_tips pg" "uis_waterfallMode (pg_store pg)" "pg_freqIndex pg" "ui_state (pg_ui pg)"
      "uf_running (ui_fft_state (pg_ui pg))" "uf_error (ui_fft_state (pg_ui pg))"]
    CaptureGallery_clicks [of b "pg_tips pg" "pg_gallery pg"]
  by (simp_all add: app_content_def Let_def markup_defs SatelliteTracking_ok SatelliteTracking_keys CaptureGallery_ok ProgressSection_ok
    DopplerChart_ok
      split: option.splits prod.splits)

lemma App_ok:
  assumes "distinct (capture_ids (pg_gallery pg))" "distinct (map le_id (dg_logs (pg_diagnostics pg)))"
  shows "markup_ok (App b now pg)"
proof -
  have "node_keys (PassTimeline b now ps h hv w # ns) = node_keys ns" "node_keys (app_content b pg # ns) = node_keys ns"
    "node_keys (Footer build tips v # ns) = node_keys ns" for ps h hv w ns build tips v
    by (simp_all add: PassTimeline_def app_content_def Footer_def Let_def)
  then show ?thesis
    using assms by (simp add: App_def markup_defs app_header_ok PassTimeline_ok app_content_ok DiagnosticsPanel_ok Footer_ok)
qed

lemma App_switches:
  "Iss_click \<in> set (clicks (App b now pg)) \<longleftrightarrow> ap_sstvLoading (pg_app pg) \<noteq> Some ''iss''"
  "Ground_click \<in> set (clicks (App b now pg)) \<longleftrightarrow> ap_sstvLoading (pg_app pg) \<noteq> Some ''ground''"
  using app_content_ok(2) [of b pg]
  by (auto simp: App_def markup_defs app_header_ok PassTimeline_ok DiagnosticsPanel_ok Footer_ok no_switch_def list_all_iff)


definition demo_browser :: browser where
  "demo_browser = \<lparr>br_str = \<lambda>x. show_int \<lfloor>x\<rfloor>, br_time = js_toISOString, br_day = js_toISOString, br_clock =
    js_toISOString,
     br_locale = js_toISOString, br_stamp_day = id, br_stamp_time = id, br_build = Some, br_encode = id, br_protocol = ''http:'',
     br_host = ''localhost:8002'', br_dump_system = \<lambda>_. [], br_dump_sstv = \<lambda>_. [], br_dump_progress = \<lambda>_. [],
       br_dump_passes = \<lambda>_. [],
     br_dump_globe = \<lambda>_. []\<rparr>"

definition demo_page :: page where
  "demo_page = \<lparr>pg_ui = ui_initial, pg_app = app_initial, pg_store = useUIStore, pg_freq = None, pg_mode = Mode_satellite, pg_serverTime = [],
     pg_hover = \<lparr>hv_pass = None, hv_at = None, hv_pos = (0, 0)\<rparr>, pg_width = None, pg_freqIndex = 0, pg_gallery = gallery_initial,
     pg_diagnostics = \<lparr>dg_logs = [\<lparr>le_id = ''0-a'', le_timestamp = 0, le_level = Log_info, le_message =
       ''WebSocket connected''\<rparr>],
       dg_isResizing = False\<rparr>, pg_tips = \<lambda>_. False, pg_doppler = None, pg_sdrConnected = None\<rparr>"


section \<open>Switches\<close>

text \<open>C26: A switch of the page can be clicked exactly while no request of its own is marked as under way.  But there
  is one mark for both: a click on the second switch moves it, and the first can be clicked again before
  its request was answered.\<close>

theorem switches_share_one_lock:
  "(Iss_click \<in> set (clicks (App b now pg)) \<longleftrightarrow> ap_sstvLoading (pg_app pg) \<noteq> Some ''iss'') \<and>
   (Ground_click \<in> set (clicks (App b now pg)) \<longleftrightarrow> ap_sstvLoading (pg_app pg) \<noteq> Some ''ground'') \<and>
   (let (pg1, rs1) = perform k Iss_click pg; (pg2, rs2) = perform k Ground_click pg1
    in Iss_click \<notin> set (clicks (App b now pg1)) \<and> Ground_click \<in> set (clicks (App b now pg1)) \<and>
       Iss_click \<in> set (clicks (App b now pg2)) \<and> length rs1 = 1 \<and> length rs2 = 1)"
  by (simp add: App_switches handleIssToggle_def handleGroundToggle_def Let_def)

section \<open>A picture in full size\<close>

lemma dispatch_clicks: "dispatch E_click path n = Some acts \<Longrightarrow> set acts \<subseteq> set (clicks n)"
proof (induction E_click path n arbitrary: acts rule: dispatch.induct)
  case (4 i path t as ns)
  then obtain acts' where a: "i < length ns" "dispatch E_click path (ns ! i) = Some acts'"
    "set acts \<subseteq> set acts' \<union> set (own_handlers E_click t as)"
    by (auto split: if_splits)
  moreover have "set (clicks (ns ! i)) \<subseteq> set (clicks_of ns)" using nth_mem [OF a(1)] by (auto simp: clicks_of_def)
  ultimately show ?case using "4.hyps" by fastforce
qed simp_all

lemma lightbox_click:
  assumes "dispatch E_click path (Lightbox src) = Some acts"
  shows "(path = [1] \<and> acts = [Stop_propagation]) \<or> (path \<noteq> [1] \<and> acts \<noteq> [] \<and> set acts \<subseteq> {Close_image})"
proof (cases path)
  case Nil
  then show ?thesis using assms by (auto simp: Lightbox_def markup_defs)
next
  case (Cons i p)
  obtain bt img where l: "Lightbox src = El T_div [A_class ''fixed inset-0 z-50 bg-black/90 flex items-center justify-center p-4'',
      A_on E_click Close_image, A_on E_keydown (If_key [''Escape''] Close_image)] [bt, img]"
    and bt: "set (clicks bt) \<subseteq> {Close_image}" and img: "\<exists>as. img = El T_img as [] \<and> own_handlers E_click T_img as =
      [Stop_propagation]"
    by (simp add: Lightbox_def markup_defs)
  have own: "own_handlers E_click T_div [A_class ''fixed inset-0 z-50 bg-black/90 flex items-center justify-center p-4'',
      A_on E_click Close_image, A_on E_keydown (If_key [''Escape''] Close_image)] = [Close_image]"
    by (simp add: markup_defs)
  consider "i = 0" | "i = 1" using assms Cons l by (fastforce split: if_splits)
  then show ?thesis
  proof cases
    case 1
    then obtain a where a: "dispatch E_click p bt = Some a" "acts = (if Stop_propagation \<in> set a then a else a @ [Close_image])"
      using assms Cons l own by auto
    have "set a \<subseteq> {Close_image}" using dispatch_clicks [OF a(1)] bt by blast
    then show ?thesis using a(2) Cons 1 by auto
  next
    case 2
    then show ?thesis using assms Cons l own img by (cases p) auto
  qed
qed

lemma close_all:
  "set acts \<subseteq> {Close_image} \<Longrightarrow> acts \<noteq> [] \<Longrightarrow> gl_selectedImage (pg_gallery (fst (perform_all k
    acts pg))) = None"
proof (induction acts arbitrary: pg)
  case (Cons a acts)
  then show ?case by (cases acts) (auto simp: close_lightbox_def Let_def split: prod.splits)
qed simp



section \<open>Tabs\<close>

text \<open>A click on a tab of the open diagnostics shows its content, and one tab is marked.\<close>

lemma tab_selected:
  "uis_diagnosticsTab (pg_store (fst (perform k (Select_tab t) pg))) = t"
  "map (\<lambda>x. fst x) diagnostics_tabs = [Tab_console, Tab_passes, Tab_state, Tab_network, Tab_sdr]"
  by (simp_all add: setDiagnosticsTab_def diagnostics_tabs_def)

end
