(* ===== verification/Spec2Isabelle.thy ===== *)
theory Spec2Isabelle
  imports Live_View Idle_Scan Sdr_Provider Entry_Points Page
begin

text \<open>
  \<^bold>\<open>Night Watch, verified\<close>

  The program under \<open>src/\<close> captures satellite transmissions: it predicts when a satellite
  passes over the station, waits, records the pass with an RTL-SDR receiver, decodes the recording
  and keeps a history; between passes it scans amateur frequencies, and a web server shows the
  state and a live spectrum.  The receiver may sit behind a relay on another machine.

  \<^bold>\<open>Parts and theories.\<close>  Paths are below \<open>src/src/\<close>; a definition has the name of the
  function or type it models where that is possible.

  \<^item> \<open>NW_Prelude\<close>: numbers, strings and parsing as JavaScript has them, lists, fact
    collections.  \<open>NW_Types\<close>: \<open>backend/types.ts\<close> and \<open>satellites/constants.ts\<close>.
    \<open>Interfaces\<close>: insertion-ordered maps and sets, and the interfaces as locales:
    \<open>keyed_store\<close> (a map), \<open>handler_system\<close> (handlers that keep an invariant),
    \<open>stream_splitter\<close> (a listener whose result does not depend on how the input is cut) and
    \<open>signal_checker\<close> (the contract \<open>ISignalChecker\<close>).
  \<^item> \<open>Orbit\<close>, \<open>Doppler\<close>, \<open>Passes\<close>: \<open>backend/prediction/\<close>.  The package
    \<open>satellite.js\<close> is a parameter.  Loops over \<open>Date\<close> objects are \<open>date_loop\<close>;
    where one \<open>Date\<close> is shared and mutated, an explicit store.
  \<^item> \<open>Tle\<close>, \<open>Sstv_Events\<close>: \<open>backend/satellites/\<close>; the network and the cache files
    are parameters.
  \<^item> \<open>Iso_Time\<close>, \<open>Shell\<close>: the calendar behind \<open>toISOString\<close>, \<open>backend/utils/\<close>;
    processes are lists of events with the time they take, \<open>None\<close> for one that never ends.
    \<open>Files\<close>: the wrappers over \<open>node:fs\<close>, acting on a tree of directories and files.
  \<^item> \<open>Capture_Database\<close>: \<open>backend/db/database.ts\<close>; tables are lists of rows, and what
    SQL leaves open (order of ties, order of an aggregate) is a parameter.
  \<^item> \<open>Signal_Check\<close>, \<open>Fft_Spectrum\<close>, \<open>Fft_Stream\<close>, \<open>Decoders\<close>,
    \<open>Recorder\<close>, \<open>Sstv_Scanner\<close>: \<open>backend/capture/\<close>.  The FFT stream is a state
    machine whose events are calls, process events and the resumption of awaiting calls, in any
    order.  \<open>Idle_Scan\<close>: the ground scan inside the wait of the scheduler, each suspended at its
    awaits, with any other code using the state manager, the settings and the FFT stream between them.
  \<^item> \<open>State_Manager\<close>, \<open>Scheduler\<close>, \<open>Config\<close>, \<open>Daemon\<close>, \<open>Maintenance\<close>:
    \<open>backend/state/\<close>, \<open>scheduler/\<close>, \<open>config/\<close> and the commands \<open>run\<close> and
    \<open>maintenance\<close>.  The record \<open>station\<close> holds what the scheduler acts on: clock, state,
    emitted events, database, stream, scanner flags and the recordings made.
  \<^item> \<open>Sdr_Relay\<close>, \<open>Sdr_Client\<close>: \<open>sdr-relay/\<close> and \<open>backend/sdr-client/\<close>, the
    latter also composed with the former.  \<open>Sdr_Provider\<close>: the local classes, and the locale
    \<open>fft_source\<close> (the contract \<open>IFFTStream\<close> of a stopped stream) for both providers.
  \<^item> \<open>Auto_Gain\<close>, \<open>Globe_Service\<close>, \<open>Web_Server\<close>: \<open>middleware/web/\<close>.  The
    server is one state record with a step for each event: request, socket message, state change,
    timer, process event.
  \<^item> \<open>Web_Clients\<close>: the messages a connected client receives in a run of the server, and the
    locale \<open>message_view\<close>: a client whose state after every message agrees with the server's on
    what it shows.  \<open>Dashboard\<close>: the hook and the store of \<open>frontend/src/\<close>; its locale
    \<open>ui_view\<close> gives \<open>message_view\<close> by a sublocale.
  \<^item> \<open>Formats\<close>: numbers as text, \<open>toFixed\<close> included.  \<open>Requests\<close>: the hook
    \<open>useApi.ts\<close>, the switches, polls and gallery that use it, and \<open>exchange\<close>, a request and
    its reply with the modelled server.  \<open>Canvas_Views\<close>: the waterfall, the sky view and the icon, as
    lists of drawing operations.  \<open>Dashboard_View\<close>: the texts, classes and positions the other
    components compute.  \<open>Markup\<close>, \<open>Page\<close>: the trees of elements they return, \<open>App.tsx\<close>
    included, the way of an event through them, and what their handlers do to the state of the page.
  \<^item> \<open>Static_Page\<close>: \<open>static/app.js\<close>, with the document as a map from identifiers to
    elements; it has two interpretations of \<open>message_view\<close>.
  \<^item> \<open>Live_View\<close>: station, server and viewers together.  A program of the station is the list of
    calls it makes of the state manager, and a run of the server is any list of events that has these
    calls in it.
  \<^item> \<open>Command_Line\<close>: \<open>cli/main.ts\<close>, the commands \<open>predict\<close>, \<open>status\<close> and
    \<open>serve\<close>, the table of passes and the logger's calls.  \<open>Entry_Points\<close>: the other programs:
    \<open>backend/index.ts\<close>, \<open>cli/predict.ts\<close>, the maintenance script and \<open>scripts/generate-version.ts\<close>,
    and the instance of the logger.

  \<^bold>\<open>What is shown.\<close>
  \<^item> Prediction: the coarse search is sound and complete for passes that span its samples, and
    prediction returns for every input.
  \<^item> Capture: a capture ends on every path and leaves the station idle, its outcome is in the
    history, the scheduler's recordings never overlap, the loop of the daemon never gets stuck or spins.
  \<^item> Waiting: a scan that still listens when it is told to stop leaves the receiver alone and ends; one
    that records holds the receiver into the capture of the pass.
  \<^item> State machines: the FFT stream, the relay, the web server and the wait with its scan keep their invariants under
    every interleaving; a connected dashboard, and the static page, show the server's status and
    queue.
  \<^item> Screen: viewers see a pass as the current one from its start to its completion, whatever
    else the server does; a capture appears in the gallery and its image is served; the switches show what the
    server answered; the waterfall keeps the latest rows and stays inside its picture; the timeline
    shows exactly the passes of its hours; the page follows the rules of the linter and of React in
    every state, and clicks in it do what they are for.
  \<^item> Data: element sets, cache, text files, file names and database rows are read back as they were written;
    listeners do not depend on how data arrives in chunks.
  \<^item> Limits: configuration ranges, gains, history length, reconnect attempts, times of a recording.
  \<^item> Where the code does something else than it means to, the theorem states what it does.

  \<^bold>\<open>Numbers, time and loops.\<close>  Floating-point numbers are reals: no rounding, and \<open>NaN\<close>
  only where the code tests for it.  Instants are integers in milliseconds; a timer may fire late by
  an amount the environment chooses.  Loops are structural or have a termination proof; loops over
  time carry the number of rounds that suffices in their definition, and the theorems say that they
  return.  An asynchronous function that may never settle yields \<open>None\<close>; the theorems assume
  \<open>os_settles\<close>, that every process ends, and then claim a result.

  \<^bold>\<open>Not modelled.\<close>  What a logger prints and spinners; style sheets, and the styling of the
  globe; how React schedules effects; \<open>JSON.parse\<close> on bodies, taken as the identity on typed values;
  locale-dependent formats of dates, which are parameters.
  Strings are lists of UTF-8 bytes; lengths are counted in UTF-16 units where they matter.  \<open>satellite.js\<close>, \<open>fft.js\<close>,
  \<open>zod\<close>, SQLite, the network and external programs are parameters, and so is the file system where
  only the outcome of a call matters, with
  what is used of them as named hypotheses.

  \<^bold>\<open>Left to do.\<close>  The web server and the scheduler on one shared FFT stream in one state: they
  share the state manager and the database, and \<open>Idle_Scan\<close> has the stream driven by any other code.

  This theory holds the properties that span components.
\<close>

section \<open>A capture reaches the history\<close>

text \<open>
  What the scheduler saves of a capture, seen from the database: a row of its own, unless a pass
  of the same identifier is there already.
\<close>

lemma saved_result:
  assumes "dm_instance (w_db v) = Some path" "getDatabase (w_db v) = Inr d"
    and "saveCapture (w_now v) r pass d = (Inr i, d1)" "saveImages (w_now v) i (cr_imagePaths r) d1 = (x, d2)"
  shows "getDatabase (w_db (saveResultToDatabase r pass v)) = Inr d2"
proof (cases "cr_imagePaths r")
  case Nil
  then have "d2 = d1" using assms(4) by simp
  then show ?thesis
    using Nil assms by (simp add: saveResultToDatabase_def put_db_def getDatabase_def map_get_set or_else_def)
next
  case (Cons a list)
  then show ?thesis
    using assms by (simp add: saveResultToDatabase_def put_db_def getDatabase_def map_get_set or_else_def)
qed

lemma saved_inv:
  assumes "db_inv d" "saveCapture now r pass d = (x, d1)" "saveImages now' i paths d1 = (y, d2)"
  shows "db_inv d2"
  using db_sys.step_inv [of d "SaveCapture now r pass"] db_sys.step_inv [of d1 "SaveImages now' i paths"] assms by simp

lemma saveCapture_new:
  assumes "generatePassId pass \<notin> cap_pass_id ` set (db_captures d)"
  obtains i d1 where "saveCapture now r pass d = (Inr i, d1)"
proof -
  have "\<not> list_ex (\<lambda>r. cap_pass_id r = generatePassId pass) (db_captures d)" using assms by (force simp: list_ex_iff)
  then show thesis using that by (simp add: saveCapture_def Let_def)
qed

lemma capture_saved:
  assumes "os_settles (env_os e)" "dm_instance (w_db w) = Some path" "getDatabase (w_db w) = Inr d"
    and "generatePassId pass \<notin> cap_pass_id ` set (db_captures d)"
  obtains r w' t i d1 x d2 where "capturePass e pass config w = Some (r, w')" "saveCapture t r pass d = (Inr i, d1)"
    "saveImages t i (cr_imagePaths r) d1 = (x, d2)" "getDatabase (w_db w') = Inr d2"
proof -
  obtain r w' u where c: "capturePass e pass config w = Some (r, w')" "captured pass u r w'"
    "u = (st_call (StartPass pass) (release_device e w))\<lparr>w_now := w_now u\<rparr>"
    using capturePass_captured [OF assms(1), of pass config w] by blast
  have u: "w_db u = w_db w" by (subst c(3)) simp
  obtain v where v: "w_db v = w_db w" "w_db w' = w_db (saveResultToDatabase r pass v)"
    using c(2) u by (auto simp: captured_def)
  obtain i d1 where s: "saveCapture (w_now v) r pass d = (Inr i, d1)" by (rule saveCapture_new [OF assms(4)])
  obtain x d2 where m: "saveImages (w_now v) i (cr_imagePaths r) d1 = (x, d2)" by fastforce
  have "getDatabase (w_db w') = Inr d2" using saved_result [OF _ _ s m, of path] assms(2,3) v by simp
  with c(1) s m show thesis by (rule that)
qed


definition demo_open_station :: station where
  "demo_open_station = (demo_station_at 0)\<lparr>w_db := \<lparr>dm_dirs = \<lambda>_. True, dm_files = [(''c.db'', empty_db)], dm_instance = Some ''c.db''\<rparr>\<rparr>"


section \<open>A capture reaches the gallery\<close>

lemma get_captures_exchange:
  assumes "getDatabase (wb_db s) = Inr d" "0 < n"
  shows "snd (exchange we decode ok now rid (api_captures_request n) s) = Some (Response 200 (P_captures
    (map (\<lambda>c. \<lparr>wc_entry = c, wc_satellite = che_satelliteName c, wc_timestamp = che_startTime c\<rparr>) (getRecentCaptures (we_sql we) n 0 d))))"
  using assms
  by (simp add: exchange_def Let_def web_handle_request_def api_captures_request_def api_get_def js_startsWith_def api_captures_def
      jsonResponseNode_def wemit_def or_int_def)

lemma read_captures_reply: "fst (getCaptures se (Response 200 (P_captures cs)) h) = cs"
  by (simp add: getCaptures_def fetchJson_def response_json_def is_json_def)

lemma saved_length:
  assumes "saveCapture t r pass d = (Inr i, d1)" "saveImages t i paths d1 = (x, d2)"
  shows "length (db_captures d2) = Suc (length (db_captures d))"
proof -
  have "db_captures d1 = db_captures d @ [capture_row_of t i r pass]"
    using assms(1) by (auto simp: saveCapture_def Let_def split: if_splits)
  moreover have "saveImages t' j ps d' = (y, d'') \<Longrightarrow> db_captures d'' = db_captures d'" for t' j ps d' y d''
    by (induction t' j ps d' rule: saveImages.induct) (auto simp: Let_def split: if_splits)
  ultimately show ?thesis using assms(2) by fastforce
qed



end
